(* ===== verification/Prelude.thy ===== *)
theory Prelude
  imports Main "HOL-Library.Word"
begin

unbundle bit_operations_syntax

text \<open>
  The prelude of the development: what every component shares.

  It holds the byte strings the library moves around, the outcome type that stands for a
  Rust \<^verbatim>\<open>Result\<close> whose computation may also panic, the slicing and array-copy
  operations of the Rust standard library with their panics, the little- and big-endian
  readings of byte strings, and the generic lemmas and theorem collections the component
  proofs use.  Lengths and indices (\<^verbatim>\<open>usize\<close>) are natural numbers: every one of them
  is the length of a buffer in memory or a constant of the code.
\<close>

named_theorems size_consts \<open>the numeric size constants of the library\<close>
named_theorems crate_laws \<open>what is assumed of a third-party crate\<close>
named_theorems no_panic \<open>operations that never panic\<close>

section \<open>Byte strings and outcomes\<close>

type_synonym byte = "8 word"
type_synonym bytes = "8 word list"

text \<open>
  A Rust string is a sequence of Unicode scalar values; \<open>lit\<close> is a string literal
  (all the literals of the code that are used as data are ASCII).
\<close>

type_synonym rstr = "nat list"

definition lit :: "string \<Rightarrow> rstr" where
  "lit s = map of_char s"

text \<open>
  A formatted message is kept as the list of the pieces of its \<^verbatim>\<open>format!\<close> string:
  literal text, decimal numbers, an 8-digit hexadecimal word, the debug rendering of a
  string, the text an external error prints, and that of an RLP error.
\<close>

text \<open>
  The errors of \<^verbatim>\<open>alloy_rlp\<close>: the variants the code constructs itself, and whatever
  else the decoders of that crate return (kept as the text it prints).
\<close>

datatype rlp_error =
    UnexpectedString
  | InputTooShort
  | UnexpectedLength
  | Rlp_Custom string
  | Rlp_Other string

datatype frag =
    Str string
  | Num nat
  | Hex8 "32 word"
  | Dbg rstr
  | Ext string
  | Rlp_Text rlp_error

type_synonym message = "frag list"

text \<open>The outcome of a call: a value, an error returned to the caller, or a panic.\<close>

datatype 'e failure = Err 'e | Panic message

type_synonym ('a, 'e) outcome = "'e failure + 'a"

abbreviation Ok :: "'a \<Rightarrow> ('a, 'e) outcome" where
  "Ok x \<equiv> Inr x"

abbreviation Error :: "'e \<Rightarrow> ('a, 'e) outcome" where
  "Error e \<equiv> Inl (Err e)"

abbreviation Panics :: "message \<Rightarrow> ('a, 'e) outcome" where
  "Panics m \<equiv> Inl (Panic m)"

text \<open>\<open>and_then\<close> is the question-mark operator, \<open>map_err\<close> the method of that name.\<close>

fun and_then :: "'l + 'a \<Rightarrow> ('a \<Rightarrow> 'l + 'b) \<Rightarrow> 'l + 'b" where
  "and_then (Inl e) f = Inl e"
| "and_then (Inr a) f = f a"

fun map_err :: "('e \<Rightarrow> 'f) \<Rightarrow> ('a, 'e) outcome \<Rightarrow> ('a, 'f) outcome" where
  "map_err g (Inr a) = Inr a"
| "map_err g (Inl (Err e)) = Inl (Err (g e))"
| "map_err g (Inl (Panic m)) = Inl (Panic m)"

text \<open>A crate function that returns a \<^verbatim>\<open>Result\<close> and is documented not to panic.\<close>

fun of_result :: "('x \<Rightarrow> 'e) \<Rightarrow> 'x + 'a \<Rightarrow> ('a, 'e) outcome" where
  "of_result g (Inr a) = Ok a"
| "of_result g (Inl x) = Error (g x)"

fun ok_or :: "'e \<Rightarrow> 'a option \<Rightarrow> ('a, 'e) outcome" where
  "ok_or e (Some a) = Ok a"
| "ok_or e None = Error e"

text \<open>
  \<^verbatim>\<open>is_ok\<close>, \<^verbatim>\<open>expect\<close> and \<^verbatim>\<open>unwrap_or\<close> on an outcome.  The panic of \<open>expect\<close> keeps the
  message it is given; the \<^verbatim>\<open>Debug\<close> text of the error that Rust appends is left out.
\<close>

fun is_ok :: "('a, 'e) outcome \<Rightarrow> (bool, 'f) outcome" where
  "is_ok (Inr a) = Ok True"
| "is_ok (Inl (Err e)) = Ok False"
| "is_ok (Inl (Panic m)) = Panics m"

fun expect :: "message \<Rightarrow> ('a, 'e) outcome \<Rightarrow> ('a, 'f) outcome" where
  "expect msg (Inr a) = Ok a"
| "expect msg (Inl (Err e)) = Panics msg"
| "expect msg (Inl (Panic m)) = Panics m"

fun unwrap_or :: "'a \<Rightarrow> ('a, 'e) outcome \<Rightarrow> ('a, 'f) outcome" where
  "unwrap_or d (Inr a) = Ok a"
| "unwrap_or d (Inl (Err e)) = Ok d"
| "unwrap_or d (Inl (Panic m)) = Panics m"

text \<open>
  \<^verbatim>\<open>assert!\<close> panics on a false condition.  \<open>match_result\<close> is a \<^verbatim>\<open>match\<close> on a
  \<^verbatim>\<open>Result\<close>, and \<open>discard\<close> is \<^verbatim>\<open>let _ = ...\<close>, which drops a result of either kind: a panic
  of the computation passes through both.
\<close>

definition assert_that :: "bool \<Rightarrow> message \<Rightarrow> (unit, 'e) outcome" where
  "assert_that b msg = (if b then Ok () else Panics msg)"

fun match_result ::
  "('a, 'e) outcome \<Rightarrow> ('a \<Rightarrow> ('b, 'f) outcome) \<Rightarrow> ('e \<Rightarrow> ('b, 'f) outcome) \<Rightarrow> ('b, 'f) outcome"
where
  "match_result (Inr a) f g = f a"
| "match_result (Inl (Err e)) f g = g e"
| "match_result (Inl (Panic m)) f g = Panics m"

text \<open>
  \<open>unwrapped\<close> is \<^verbatim>\<open>unwrap\<close>; \<open>assert_ok\<close> and \<open>assert_err\<close> are \<^verbatim>\<open>assert!\<close> of \<^verbatim>\<open>is_ok()\<close> and of
  \<^verbatim>\<open>is_err()\<close>.
\<close>

definition unwrapped :: "('a, 'e) outcome \<Rightarrow> ('a, 'f) outcome" where
  "unwrapped x = expect [Str ''called `Result::unwrap()` on an `Err` value''] x"

definition assert_ok :: "('a, 'e) outcome \<Rightarrow> message \<Rightarrow> (unit, 'f) outcome" where
  "assert_ok x msg = and_then (is_ok x) (\<lambda>ok. assert_that ok msg)"

definition assert_err :: "('a, 'e) outcome \<Rightarrow> message \<Rightarrow> (unit, 'f) outcome" where
  "assert_err x msg = and_then (is_ok x) (\<lambda>ok. assert_that (\<not> ok) msg)"

text \<open>
  \<^verbatim>\<open>assert!\<close> without a message, \<^verbatim>\<open>unwrap_err\<close>, and the attribute \<^verbatim>\<open>#[should_panic]\<close> of a test.
\<close>

abbreviation holds :: "bool \<Rightarrow> (unit, 'e) outcome" where
  "holds b \<equiv> assert_that b [Str ''assertion failed'']"

definition unwrap_err :: "('a, 'e) outcome \<Rightarrow> ('e, 'f) outcome" where
  "unwrap_err x =
     (case x of
        Inr a \<Rightarrow> Panics [Str ''called `Result::unwrap_err()` on an `Ok` value'']
      | Inl (Err e) \<Rightarrow> Ok e
      | Inl (Panic m) \<Rightarrow> Panics m)"

definition should_panic :: "('a, 'e) outcome \<Rightarrow> (unit, 'f) outcome" where
  "should_panic x =
     (case x of
        Inl (Panic m) \<Rightarrow> Ok ()
      | _ \<Rightarrow> Panics [Str ''test did not panic as expected''])"

definition discard :: "('a, 'e) outcome \<Rightarrow> (unit, 'f) outcome" where
  "discard x = match_result x (\<lambda>_. Ok ()) (\<lambda>_. Ok ())"

definition panic_free :: "('a, 'e) outcome \<Rightarrow> bool" where
  "panic_free x = (case x of Inl (Panic m) \<Rightarrow> False | _ \<Rightarrow> True)"

definition accepted :: "('a, 'e) outcome \<Rightarrow> bool" where
  "accepted x = (case x of Inr a \<Rightarrow> True | _ \<Rightarrow> False)"

lemma and_then_Inr_iff [simp]:
  "and_then m f = Inr y \<longleftrightarrow> (\<exists>x. m = Inr x \<and> f x = Inr y)"
  by (cases m) auto

lemma and_then_Inl_iff:
  "and_then m f = Inl e \<longleftrightarrow> m = Inl e \<or> (\<exists>x. m = Inr x \<and> f x = Inl e)"
  by (cases m) auto

lemma not_isl_iff: "\<not> isl x \<longleftrightarrow> (\<exists>a. x = Inr a)"
  by (cases x) auto

lemma and_then_assoc: "and_then (and_then m f) g = and_then m (\<lambda>x. and_then (f x) g)"
  by (cases m) auto

lemma and_then_Ok_right [simp]: "and_then m Inr = m"
  by (cases m) auto

lemma map_err_Inr_iff [simp]: "map_err g x = Inr a \<longleftrightarrow> x = Inr a"
  by (cases "(g, x)" rule: map_err.cases) auto

lemma map_err_Err_iff: "map_err g x = Inl (Err e) \<longleftrightarrow> (\<exists>e'. x = Inl (Err e') \<and> e = g e')"
  by (cases "(g, x)" rule: map_err.cases) auto

lemma of_result_Inr_iff [simp]: "of_result g x = Inr a \<longleftrightarrow> x = Inr a"
  by (cases x) auto

lemma ok_or_Inr_iff [simp]: "ok_or e x = Inr a \<longleftrightarrow> x = Some a"
  by (cases x) auto

lemma is_ok_True_iff [simp]: "is_ok x = Inr True \<longleftrightarrow> (\<exists>a. x = Inr a)"
  by (cases x rule: is_ok.cases) auto

lemma expect_Inr_iff [simp]: "expect m x = Inr a \<longleftrightarrow> x = Inr a"
  by (cases "(m, x)" rule: expect.cases) auto

lemma accepted_iff [simp]: "accepted x \<longleftrightarrow> (\<exists>a. x = Inr a)"
  by (simp add: accepted_def split: sum.split)

lemma panic_free_simps [simp, no_panic]:
  "panic_free (Inr a)" "panic_free (Inl (Err e))" "\<not> panic_free (Inl (Panic m))"
  by (simp_all add: panic_free_def)

lemma panic_free_and_then [intro, no_panic]:
  assumes "panic_free m" and "\<And>x. m = Inr x \<Longrightarrow> panic_free (f x)"
  shows "panic_free (and_then m f)"
  using assms by (cases m) (auto simp: panic_free_def split: failure.splits)

lemma panic_free_map_err [simp, no_panic]: "panic_free (map_err g x) \<longleftrightarrow> panic_free x"
  by (cases "(g, x)" rule: map_err.cases) auto

lemma panic_free_of_result [simp, no_panic]: "panic_free (of_result g x)"
  by (cases x) auto

lemma panic_free_ok_or [simp, no_panic]: "panic_free (ok_or e x)"
  by (cases x) auto

lemma panic_free_is_ok [simp, no_panic]: "panic_free (is_ok x) \<longleftrightarrow> panic_free x"
  by (cases x rule: is_ok.cases) auto

lemma panic_free_if [simp, no_panic]:
  "panic_free (if b then x else y) \<longleftrightarrow> (if b then panic_free x else panic_free y)"
  by simp

lemma not_panic_cases:
  assumes "panic_free x"
  obtains (ok) a where "x = Inr a" | (err) e where "x = Inl (Err e)"
  using assms by (cases x) (auto simp: panic_free_def split: failure.splits)

lemma is_ok_total: "panic_free x \<Longrightarrow> \<exists>b. is_ok x = Inr b"
  by (cases x rule: is_ok.cases) auto

lemma is_ok_panic_free: "panic_free x \<Longrightarrow> is_ok x = Ok (accepted x)"
  by (cases x rule: is_ok.cases) (simp_all add: accepted_def)

lemma assert_that_simps [simp]:
  "assert_that True m = Ok ()" "assert_that False m = Panics m"
  "assert_that b m = Inr u \<longleftrightarrow> b" "panic_free (assert_that b m) \<longleftrightarrow> b"
  by (simp_all add: assert_that_def)

lemma unwrapped_Ok [simp]: "unwrapped (Inr a) = Ok a"
  by (simp add: unwrapped_def)

lemma unwrapped_Inr_iff [simp]: "unwrapped x = Inr a \<longleftrightarrow> x = Inr a"
  by (simp add: unwrapped_def)

lemma assert_ok_Ok [simp]: "assert_ok (Inr a) m = Ok ()"
  by (simp add: assert_ok_def)

lemma assert_ok_iff: "assert_ok x m = Ok () \<longleftrightarrow> accepted x"
  by (cases x rule: is_ok.cases) (simp_all add: assert_ok_def)

lemma assert_err_iff:
  assumes "panic_free x"
  shows "assert_err x m = (if accepted x then Panics m else Ok ())"
  by (simp add: assert_err_def is_ok_panic_free [OF assms] assert_that_def)

lemma match_result_Ok:
  assumes "panic_free x" and "\<And>a. x = Inr a \<Longrightarrow> f a = Ok c" and "\<And>e. g e = Ok c"
  shows "match_result x f g = Ok c"
  using assms by (cases x) (auto simp: panic_free_def split: failure.splits)

lemma discard_panic_free: "panic_free x \<Longrightarrow> discard x = Ok ()"
  by (cases x) (auto simp: discard_def panic_free_def split: failure.splits)

lemma unwrap_err_simps [simp]:
  "unwrap_err (Inl (Err e)) = Ok e" "unwrap_err x = Inr e \<longleftrightarrow> x = Inl (Err e)"
  by (auto simp: unwrap_err_def split: sum.splits failure.splits)

lemma should_panic_iff: "should_panic x = Ok () \<longleftrightarrow> \<not> panic_free x"
  by (auto simp: should_panic_def panic_free_def split: sum.splits failure.splits)

text \<open>The shape of the verification methods, which answer false where something failed.\<close>

lemma case_false_total:
  assumes "panic_free x" and "\<And>a. x = Inr a \<Longrightarrow> \<exists>b. f a = Ok b"
  shows "\<exists>b. (case x of Inl (Panic m) \<Rightarrow> Panics m | Inl (Err e) \<Rightarrow> Ok False | Inr a \<Rightarrow> f a) = Ok b"
  using assms by (cases x) (auto split: failure.splits)

section \<open>Slices and arrays\<close>

text \<open>
  \<^verbatim>\<open>&xs[a..b]\<close> panics unless \<^verbatim>\<open>a <= b <= xs.len()\<close>; \<^verbatim>\<open>copy_from_slice\<close> into an
  array of \<open>n\<close> bytes panics unless the source has exactly \<open>n\<close> bytes.
\<close>

definition slice :: "nat \<Rightarrow> nat \<Rightarrow> bytes \<Rightarrow> (bytes, 'e) outcome" where
  "slice a b xs =
     (if a \<le> b \<and> b \<le> length xs then Ok (take (b - a) (drop a xs))
      else Panics [Str ''slice index out of range''])"

definition slice_to :: "nat \<Rightarrow> bytes \<Rightarrow> (bytes, 'e) outcome" where
  "slice_to b xs = slice 0 b xs"

definition slice_from :: "nat \<Rightarrow> bytes \<Rightarrow> (bytes, 'e) outcome" where
  "slice_from a xs = slice a (length xs) xs"

definition copy_from_slice :: "nat \<Rightarrow> bytes \<Rightarrow> (bytes, 'e) outcome" where
  "copy_from_slice n src =
     (if length src = n then Ok src
      else Panics [Str ''copy_from_slice: source slice length does not match''])"

text \<open>
  \<^verbatim>\<open>xs.split_at(mid)\<close> panics when \<open>mid\<close> is behind the end, and \<^verbatim>\<open>Address::from_slice\<close> of
  \<^verbatim>\<open>alloy-primitives\<close> panics, as its documentation says, unless it gets 20 bytes.
\<close>

definition split_at :: "nat \<Rightarrow> bytes \<Rightarrow> (bytes \<times> bytes, 'e) outcome" where
  "split_at mid xs =
     (if mid \<le> length xs then Ok (take mid xs, drop mid xs) else Panics [Str ''mid > len''])"

definition address_from_slice :: "bytes \<Rightarrow> (bytes, 'e) outcome" where
  "address_from_slice src =
     (if length src = 20 then Ok src
      else Panics [Str ''cannot convert a slice of length '', Num (length src), Str '' to Address''])"

text \<open>
  \<^verbatim>\<open>xs[a..b].copy_from_slice(new)\<close>, \<^verbatim>\<open>xs[i] |= m\<close>, \<^verbatim>\<open>xs[i] ^= m\<close> and \<^verbatim>\<open>xs[0] ^= m\<close> on a vector.
\<close>

definition splice_at :: "nat \<Rightarrow> nat \<Rightarrow> bytes \<Rightarrow> bytes \<Rightarrow> (bytes, 'e) outcome" where
  "splice_at a b new xs =
     and_then (slice a b xs)
       (\<lambda>old. and_then (copy_from_slice (length old) new)
       (\<lambda>new. Ok (take a xs @ new @ drop b xs)))"

definition or_at :: "nat \<Rightarrow> byte \<Rightarrow> bytes \<Rightarrow> (bytes, 'e) outcome" where
  "or_at i m xs =
     (if i < length xs then Ok (xs[i := xs ! i OR m])
      else Panics [Str ''index out of bounds: the len is '', Num (length xs), Str '' but the index is '', Num i])"

definition xor_at :: "nat \<Rightarrow> byte \<Rightarrow> bytes \<Rightarrow> (bytes, 'e) outcome" where
  "xor_at i m xs =
     (if i < length xs then Ok (xs[i := xs ! i XOR m])
      else Panics [Str ''index out of bounds: the len is '', Num (length xs), Str '' but the index is '', Num i])"

definition xor_first :: "byte \<Rightarrow> bytes \<Rightarrow> (bytes, 'e) outcome" where
  "xor_first x xs =
     (case xs of
        [] \<Rightarrow> Panics [Str ''index out of bounds: the len is '', Num 0, Str '' but the index is '', Num 0]
      | b # rest \<Rightarrow> Ok ((b XOR x) # rest))"

lemma slice_in_range [simp]:
  "a \<le> b \<Longrightarrow> b \<le> length xs \<Longrightarrow> slice a b xs = Ok (take (b - a) (drop a xs))"
  by (simp add: slice_def)

lemma slice_to_in_range [simp]: "b \<le> length xs \<Longrightarrow> slice_to b xs = Ok (take b xs)"
  by (simp add: slice_to_def)

lemma slice_from_in_range [simp]: "a \<le> length xs \<Longrightarrow> slice_from a xs = Ok (drop a xs)"
  by (simp add: slice_from_def)

lemma copy_from_slice_exact [simp]: "length src = n \<Longrightarrow> copy_from_slice n src = Ok src"
  by (simp add: copy_from_slice_def)

lemma split_at_in_range [simp]: "n \<le> length xs \<Longrightarrow> split_at n xs = Ok (take n xs, drop n xs)"
  by (simp add: split_at_def)

lemma split_at_Inr_iff [simp]:
  "split_at n xs = Inr p \<longleftrightarrow> n \<le> length xs \<and> p = (take n xs, drop n xs)"
  by (auto simp: split_at_def)

lemma split_at_panics: "panic_free (split_at n xs) \<longleftrightarrow> n \<le> length xs"
  by (simp add: split_at_def)

lemma address_from_slice_20 [simp]: "length b = 20 \<Longrightarrow> address_from_slice b = Ok b"
  by (simp add: address_from_slice_def)

lemma address_from_slice_panics: "panic_free (address_from_slice b) \<longleftrightarrow> length b = 20"
  by (simp add: address_from_slice_def)

lemma splice_at_in_range:
  "a \<le> b \<Longrightarrow> b \<le> length xs \<Longrightarrow> length new = b - a \<Longrightarrow>
    splice_at a b new xs = Ok (take a xs @ new @ drop b xs)"
  by (simp add: splice_at_def)

lemma xor_at_in_range [simp]: "i < length xs \<Longrightarrow> xor_at i m xs = Ok (xs[i := xs ! i XOR m])"
  by (simp add: xor_at_def)

lemma or_at_in_range [simp]: "i < length xs \<Longrightarrow> or_at i m xs = Ok (xs[i := xs ! i OR m])"
  by (simp add: or_at_def)

lemma split_three:
  assumes "length xs = a + b + c"
  shows "take a xs @ take b (drop a xs) @ drop (a + b) xs = xs"
proof -
  have "take b (drop a xs) @ drop (a + b) xs = drop a xs"
    using append_take_drop_id [of b "drop a xs"] by (simp add: add.commute)
  then show ?thesis by simp
qed

lemma append_eq_length3:
  assumes "a @ b @ c = a' @ b' @ c'" and "length a = length a'" and "length b = length b'"
  shows "a = a' \<and> b = b' \<and> c = c'"
  using assms by simp

section \<open>Numbers in byte strings\<close>

primrec le_nat :: "bytes \<Rightarrow> nat" where
  "le_nat [] = 0"
| "le_nat (b # bs) = unat b + 256 * le_nat bs"

definition be_nat :: "bytes \<Rightarrow> nat" where
  "be_nat bs = le_nat (rev bs)"

text \<open>\<^verbatim>\<open>u64::to_be_bytes\<close>: the eight bytes of the word, the most significant first.\<close>

definition be_bytes_u64 :: "64 word \<Rightarrow> bytes" where
  "be_bytes_u64 w = map (\<lambda>i. ucast (drop_bit (8 * i) w)) (rev [0..<8])"

lemma unat_byte_less [simp]: "unat (b :: byte) < 256"
proof -
  have "unat b < 2 ^ 8" using unsigned_less [of b] by simp
  then show ?thesis by simp
qed

lemma le_nat_append: "le_nat (xs @ ys) = le_nat xs + 256 ^ length xs * le_nat ys"
  by (induction xs) (simp_all add: algebra_simps)

lemma le_nat_less: "le_nat bs < 256 ^ length bs"
proof (induction bs)
  case Nil
  then show ?case by simp
next
  case (Cons b bs)
  have "unat b < 256" by simp
  moreover have "256 * le_nat bs + 256 \<le> 256 * 256 ^ length bs"
    using Cons by linarith
  ultimately have "unat b + 256 * le_nat bs < 256 * 256 ^ length bs" by linarith
  then show ?case by simp
qed

lemma le_nat_inj:
  assumes "length xs = length ys" and "le_nat xs = le_nat ys"
  shows "xs = ys"
  using assms
proof (induction xs ys rule: list_induct2)
  case Nil
  then show ?case by simp
next
  case (Cons x xs y ys)
  have b: "unat x < 256" "unat y < 256" by simp_all
  from Cons.prems have e: "unat x + 256 * le_nat xs = unat y + 256 * le_nat ys" by simp
  then have "(unat x + 256 * le_nat xs) mod 256 = (unat y + 256 * le_nat ys) mod 256" by simp
  with b have u: "unat x = unat y" by simp
  with e Cons.IH show ?case by (simp add: word_unat_eq_iff)
qed

lemma be_nat_less: "be_nat bs < 256 ^ length bs"
  using le_nat_less [of "rev bs"] by (simp add: be_nat_def)

lemma le_nat_zero_iff: "le_nat bs = 0 \<longleftrightarrow> (\<forall>b\<in>set bs. b = 0)"
  by (induction bs) (auto simp: unat_eq_0)

lemma be_nat_replicate_zero_append: "be_nat (replicate n 0 @ bs) = be_nat bs"
proof -
  have "le_nat (replicate n 0) = 0" by (induction n) simp_all
  then show ?thesis by (simp add: be_nat_def le_nat_append)
qed

lemma length_be_bytes_u64 [simp]: "length (be_bytes_u64 w) = 8"
  by (simp add: be_bytes_u64_def)

lemma be_bytes_u64_bit:
  assumes "n < 64"
  shows "bit w n = bit (rev (be_bytes_u64 w) ! (n div 8)) (n mod 8)"
proof -
  have i: "n div 8 < 8" using assms by simp
  have "rev (be_bytes_u64 w) ! (n div 8) = ucast (drop_bit (8 * (n div 8)) w)"
    unfolding be_bytes_u64_def rev_map rev_rev_ident using i by (subst nth_map) simp_all
  moreover have "n mod 8 < 8" by simp
  moreover have "8 * (n div 8) + n mod 8 = n" by simp
  ultimately show ?thesis by (simp add: bit_simps)
qed

lemma be_bytes_u64_inj: "be_bytes_u64 v = be_bytes_u64 w \<Longrightarrow> v = w"
  by (rule bit_word_eqI) (simp add: be_bytes_u64_bit)

end
