(* ===== verification/Errors.thy ===== *)
theory Errors
  imports Prelude
begin

text \<open>
  \<^verbatim>\<open>src/error.rs\<close>: the error type of the library and the text each variant prints
  (its \<^verbatim>\<open>#[error(...)]\<close> attribute).  The payload of \<^verbatim>\<open>Bip39Error\<close> is an error of the
  \<^verbatim>\<open>bip39\<close> crate, kept as the text it prints.
\<close>

datatype crypto_error =
    InvalidKeySize (expected: nat) (actual: nat)
  | SignatureError message
  | RlpError rlp_error
  | Bip39Error string
  | CurveError message
  | HexError message
  | SeedError message
  | Custom message

fun display_crypto_error :: "crypto_error \<Rightarrow> message" where
  "display_crypto_error (InvalidKeySize e a) =
     [Str ''Invalid key size: expected '', Num e, Str '', got '', Num a]"
| "display_crypto_error (SignatureError m) = Str ''Signature error: '' # m"
| "display_crypto_error (RlpError e) = [Str ''RLP error: '', Rlp_Text e]"
| "display_crypto_error (Bip39Error e) = [Str ''BIP39 error: '', Ext e]"
| "display_crypto_error (CurveError m) = Str ''Elliptic Curve error: '' # m"
| "display_crypto_error (HexError m) = Str ''Hex decoding error: '' # m"
| "display_crypto_error (SeedError m) = Str ''Seed error: '' # m"
| "display_crypto_error (Custom m) = Str ''Custom error: '' # m"

text \<open>Wrapping an external error's text, and the error of an inner call, with a prefix.\<close>

definition sig_error_ext :: "string \<Rightarrow> crypto_error" where
  "sig_error_ext e = SignatureError [Ext e]"

definition curve_error_ext :: "string \<Rightarrow> crypto_error" where
  "curve_error_ext e = CurveError [Ext e]"

definition sig_error_of :: "string \<Rightarrow> message \<Rightarrow> crypto_error" where
  "sig_error_of prefix m = SignatureError (Str prefix # m)"

end
