(* ===== verification/Hashes.thy ===== *)
theory Hashes
  imports Prelude
begin

text \<open>
  The hash functions of the \<^verbatim>\<open>sha3\<close>, \<^verbatim>\<open>sha2\<close> and \<^verbatim>\<open>hkdf\<close> crates, as a parameter of the
  model: every definition that hashes takes a \<open>hashes\<close> record.  The code feeds a hasher
  by successive \<^verbatim>\<open>update\<close> calls, which absorb the concatenation of their arguments, so
  a hash is applied to the concatenated input.  \<open>shake256 x n\<close> is the first \<open>n\<close> bytes
  of the output stream; \<open>hkdf_sha3_512 salt ikm info n\<close> fails when \<open>n\<close> is too long.
\<close>

record hashes =
  keccak256 :: "bytes \<Rightarrow> bytes"
  shake256 :: "bytes \<Rightarrow> nat \<Rightarrow> bytes"
  sha512 :: "bytes \<Rightarrow> bytes"
  hkdf_sha3_512 :: "bytes option \<Rightarrow> bytes \<Rightarrow> bytes \<Rightarrow> nat \<Rightarrow> bytes option"

text \<open>The documented output sizes; HKDF-Expand yields at most 255 blocks of 64 bytes.\<close>

definition hash_laws :: "hashes \<Rightarrow> bool" where
  "hash_laws H \<longleftrightarrow>
     (\<forall>x. length (keccak256 H x) = 32) \<and>
     (\<forall>x n. length (shake256 H x n) = n) \<and>
     (\<forall>x. length (sha512 H x) = 64) \<and>
     (\<forall>s i f n y. hkdf_sha3_512 H s i f n = Some y \<longrightarrow> length y = n) \<and>
     (\<forall>s i f n. n \<le> 255 * 64 \<longrightarrow> hkdf_sha3_512 H s i f n \<noteq> None)"

lemma hash_lawsD [crate_laws]:
  assumes "hash_laws H"
  shows "length (keccak256 H x) = 32" "length (shake256 H x n) = n" "length (sha512 H x) = 64"
    and "hkdf_sha3_512 H s i f n = Some y \<Longrightarrow> length y = n"
    and "n \<le> 16320 \<Longrightarrow> \<exists>y. hkdf_sha3_512 H s i f n = Some y"
  using assms by (auto simp: hash_laws_def)

text \<open>
  A concrete instance, used by the witnesses only: output bytes count up from the sum of
  the input bytes.
\<close>

definition checksum :: "nat \<Rightarrow> bytes \<Rightarrow> bytes" where
  "checksum n x = map (\<lambda>i. word_of_nat (sum_list (map unat x) + i + 1)) [0..<n]"

definition hashes_ref :: hashes where
  "hashes_ref =
     \<lparr>keccak256 = checksum 32, shake256 = (\<lambda>x n. checksum n x), sha512 = checksum 64,
      hkdf_sha3_512 = (\<lambda>s i f n. if n \<le> 16320 then Some (checksum n (i @ f)) else None)\<rparr>"

lemma length_checksum [simp]: "length (checksum n x) = n"
  by (simp add: checksum_def)

lemma hashes_ref_laws: "hash_laws hashes_ref"
  by (auto simp: hash_laws_def hashes_ref_def)

lemma checksum_not_zero:
  assumes "2 \<le> n"
  shows "\<exists>b\<in>set (checksum n x). b \<noteq> 0"
proof (rule ccontr)
  let ?s = "sum_list (map unat x)"
  assume "\<not> (\<exists>b\<in>set (checksum n x). b \<noteq> 0)"
  then have z: "\<And>i. i < n \<Longrightarrow> (word_of_nat (?s + i + 1) :: byte) = 0"
    by (auto simp: checksum_def)
  have "(word_of_nat (?s + 1 + 1) :: byte) = word_of_nat (?s + 0 + 1) + 1"
    by simp
  then show False
    using z [of 0] z [of 1] assms by simp
qed

end
