(* ===== verification/Rust_Str.thy ===== *)
theory Rust_Str
  imports Prelude
begin

text \<open>
  The string operations of the Rust standard library that the code uses, on strings as
  sequences of Unicode scalar values: trimming, splitting, decimal parsing and printing of
  machine integers, and the UTF-8 bytes of a string.  The lemmas show that printing an
  unsigned 32-bit number and parsing it back is the identity, and that no printed number
  contains a path separator or a character the path parser strips.
\<close>

section \<open>Whitespace and trimming\<close>

text \<open>\<^verbatim>\<open>char::is_whitespace\<close>: the Unicode \<^verbatim>\<open>White_Space\<close> property.\<close>

definition is_whitespace :: "nat \<Rightarrow> bool" where
  "is_whitespace c \<longleftrightarrow>
     (9 \<le> c \<and> c \<le> 13) \<or> c = 32 \<or> c = 133 \<or> c = 160 \<or> c = 5760 \<or>
     (8192 \<le> c \<and> c \<le> 8202) \<or> c = 8232 \<or> c = 8233 \<or> c = 8239 \<or> c = 8287 \<or> c = 12288"

definition trim_start_while :: "(nat \<Rightarrow> bool) \<Rightarrow> rstr \<Rightarrow> rstr" where
  "trim_start_while p s = dropWhile p s"

definition trim_end_while :: "(nat \<Rightarrow> bool) \<Rightarrow> rstr \<Rightarrow> rstr" where
  "trim_end_while p s = rev (dropWhile p (rev s))"

definition trim :: "rstr \<Rightarrow> rstr" where
  "trim s = trim_end_while is_whitespace (trim_start_while is_whitespace s)"

text \<open>\<^verbatim>\<open>trim_start_matches\<close> with a string pattern removes the pattern as often as it is there.\<close>

function trim_start_matches :: "rstr \<Rightarrow> rstr \<Rightarrow> rstr" where
  "trim_start_matches pat s =
     (if pat \<noteq> [] \<and> s \<noteq> [] \<and> take (length pat) s = pat
      then trim_start_matches pat (drop (length pat) s) else s)"
  by pat_completeness auto
termination
  by (relation "measure (\<lambda>(pat, s). length s)") auto

declare trim_start_matches.simps [simp del]

section \<open>Splitting\<close>

text \<open>\<^verbatim>\<open>split\<close> on a character class keeps empty segments; \<^verbatim>\<open>split_whitespace\<close> drops them.\<close>

fun split_on :: "(nat \<Rightarrow> bool) \<Rightarrow> rstr \<Rightarrow> rstr list" where
  "split_on p [] = [[]]"
| "split_on p (c # cs) =
     (if p c then [] # split_on p cs
      else (case split_on p cs of [] \<Rightarrow> [[c]] | w # ws \<Rightarrow> (c # w) # ws))"

definition split_whitespace :: "rstr \<Rightarrow> rstr list" where
  "split_whitespace s = filter (\<lambda>w. w \<noteq> []) (split_on is_whitespace s)"

lemma split_on_nonempty [simp]: "split_on p s \<noteq> []"
  by (induction s) (auto split: list.split)

lemma split_on_none: "\<forall>c\<in>set s. \<not> p c \<Longrightarrow> split_on p s = [s]"
  by (induction s) auto

lemma split_on_join:
  assumes "\<forall>c\<in>set s. \<not> p c" and "p d"
  shows "split_on p (s @ d # t) = s # split_on p t"
  using assms by (induction s) auto

section \<open>Decimal numbers\<close>

definition is_digit :: "nat \<Rightarrow> bool" where
  "is_digit c \<longleftrightarrow> 48 \<le> c \<and> c \<le> 57"

definition decimal :: "rstr \<Rightarrow> nat" where
  "decimal = foldl (\<lambda>a c. 10 * a + (c - 48)) 0"

fun show_nat :: "nat \<Rightarrow> rstr" where
  "show_nat n = (if n < 10 then [48 + n] else show_nat (n div 10) @ [48 + n mod 10])"

declare show_nat.simps [simp del]

text \<open>
  \<^verbatim>\<open>str::parse::<u32>\<close>: an optional plus sign followed by digits, and no overflow.  The
  callers only look at whether it failed, so every failure is \<open>None\<close>.
\<close>

definition strip_plus :: "rstr \<Rightarrow> rstr" where
  "strip_plus s = (case s of [] \<Rightarrow> [] | c # cs \<Rightarrow> if c = 43 \<and> cs \<noteq> [] then cs else s)"

definition parse_u32 :: "rstr \<Rightarrow> 32 word option" where
  "parse_u32 s =
     (let d = strip_plus s in
      if d \<noteq> [] \<and> list_all is_digit d \<and> decimal d < 2 ^ 32
      then Some (word_of_nat (decimal d)) else None)"

lemma decimal_append: "decimal (xs @ [c]) = 10 * decimal xs + (c - 48)"
  by (simp add: decimal_def)

lemma show_nat_nonempty [simp]: "show_nat n \<noteq> []"
  by (subst show_nat.simps) simp

lemma show_nat_digits: "list_all is_digit (show_nat n)"
proof (induction n rule: show_nat.induct)
  case (1 n)
  have "is_digit (48 + n mod 10)" by (simp add: is_digit_def)
  moreover have "n < 10 \<Longrightarrow> is_digit (48 + n)" by (simp add: is_digit_def)
  ultimately show ?case
    using 1 by (subst show_nat.simps) simp
qed

lemma decimal_show_nat [simp]: "decimal (show_nat n) = n"
proof (induction n rule: show_nat.induct)
  case (1 n)
  show ?case
  proof (cases "n < 10")
    case True
    then show ?thesis by (subst show_nat.simps) (simp add: decimal_def)
  next
    case False
    with 1 show ?thesis by (subst show_nat.simps) (simp add: decimal_append)
  qed
qed

lemma show_nat_set: "c \<in> set (show_nat n) \<Longrightarrow> is_digit c"
  using show_nat_digits [of n] by (simp add: list_all_iff)

lemma strip_plus_show_nat [simp]: "strip_plus (show_nat n) = show_nat n"
proof -
  have "hd (show_nat n) \<noteq> 43"
    using show_nat_set [of "hd (show_nat n)" n] by (auto simp: is_digit_def)
  then show ?thesis by (auto simp: strip_plus_def split: list.split)
qed

lemma parse_show_u32: "parse_u32 (show_nat (unat w)) = Some w"
proof -
  have "unat w < 2 ^ 32" using unsigned_less [of w] by simp
  then show ?thesis
    using show_nat_digits [of "unat w"] by (simp add: parse_u32_def)
qed

lemma parse_u32_digits: "parse_u32 s = Some w \<Longrightarrow> s \<noteq> []"
  by (auto simp: parse_u32_def strip_plus_def)

section \<open>UTF-8\<close>

definition utf8_char :: "nat \<Rightarrow> bytes" where
  "utf8_char c =
     (if c < 128 then [word_of_nat c]
      else if c < 2048 then [word_of_nat (192 + c div 64), word_of_nat (128 + c mod 64)]
      else if c < 65536 then
        [word_of_nat (224 + c div 4096), word_of_nat (128 + c div 64 mod 64),
         word_of_nat (128 + c mod 64)]
      else
        [word_of_nat (240 + c div 262144), word_of_nat (128 + c div 4096 mod 64),
         word_of_nat (128 + c div 64 mod 64), word_of_nat (128 + c mod 64)])"

definition utf8 :: "rstr \<Rightarrow> bytes" where
  "utf8 s = concat (map utf8_char s)"

lemma utf8_char_nonempty [simp]: "utf8_char c \<noteq> []"
  by (simp add: utf8_char_def)

lemma utf8_Nil_iff [simp]: "utf8 s = [] \<longleftrightarrow> s = []"
  by (cases s) (simp_all add: utf8_def)

text \<open>The bytes of an ASCII literal, as the byte-string literals of the code.\<close>

definition ascii :: "string \<Rightarrow> bytes" where
  "ascii s = map of_char s"

lemma length_ascii [simp]: "length (ascii s) = length s"
  by (simp add: ascii_def)

text \<open>
  \<^verbatim>\<open>String::from_utf8_lossy\<close>: one character is decoded at a time; a byte sequence that is
  not the encoding of a character is replaced by U+FFFD up to the first byte that cannot
  continue it.  \<open>safe_get\<close> reads zero behind the end.
\<close>

definition safe_get :: "bytes \<Rightarrow> nat \<Rightarrow> nat" where
  "safe_get b i = (if i < length b then unat (b ! i) else 0)"

definition is_cont :: "nat \<Rightarrow> bool" where
  "is_cont x \<longleftrightarrow> 128 \<le> x \<and> x < 192"

definition second_of_three :: "nat \<Rightarrow> nat \<Rightarrow> bool" where
  "second_of_three x y \<longleftrightarrow> is_cont y \<and> (x = 224 \<longrightarrow> 160 \<le> y) \<and> (x = 237 \<longrightarrow> y < 160)"

definition second_of_four :: "nat \<Rightarrow> nat \<Rightarrow> bool" where
  "second_of_four x y \<longleftrightarrow> is_cont y \<and> (x = 240 \<longrightarrow> 144 \<le> y) \<and> (x = 244 \<longrightarrow> y < 144)"

definition utf8_lossy_step :: "bytes \<Rightarrow> nat \<times> nat" where
  "utf8_lossy_step b =
     (let x = safe_get b 0; y = safe_get b 1; z = safe_get b 2; w = safe_get b 3 in
      if x < 128 then (x, 1)
      else if 194 \<le> x \<and> x < 224 then
        (if is_cont y then ((x - 192) * 64 + (y - 128), 2) else (0xFFFD, 1))
      else if 224 \<le> x \<and> x < 240 then
        (if \<not> second_of_three x y then (0xFFFD, 1)
         else if \<not> is_cont z then (0xFFFD, 2)
         else ((x - 224) * 4096 + (y - 128) * 64 + (z - 128), 3))
      else if 240 \<le> x \<and> x < 245 then
        (if \<not> second_of_four x y then (0xFFFD, 1)
         else if \<not> is_cont z then (0xFFFD, 2)
         else if \<not> is_cont w then (0xFFFD, 3)
         else ((x - 240) * 262144 + (y - 128) * 4096 + (z - 128) * 64 + (w - 128), 4))
      else (0xFFFD, 1))"

fun from_utf8_lossy :: "bytes \<Rightarrow> rstr" where
  "from_utf8_lossy [] = []"
| "from_utf8_lossy (b # bs) =
     (let (c, n) = utf8_lossy_step (b # bs) in c # from_utf8_lossy (drop (n - 1) bs))"

text \<open>On the encoding of a string it is the string.\<close>

definition is_scalar :: "nat \<Rightarrow> bool" where
  "is_scalar c \<longleftrightarrow> c < 0xD800 \<or> 0xE000 \<le> c \<and> c < 0x110000"

lemma safe_get_Cons: "safe_get (x # xs) i = (if i = 0 then unat x else safe_get xs (i - 1))"
  by (cases i) (simp_all add: safe_get_def)

lemma unat_byte_small: "n < 256 \<Longrightarrow> unat (word_of_nat n :: byte) = n"
  by (simp add: unsigned_of_nat take_bit_nat_eq_self_iff)

lemma utf8_step_char:
  assumes "is_scalar c"
  shows "utf8_lossy_step (utf8_char c @ bs) = (c, length (utf8_char c))"
proof -
  have m: "n mod 64 < 64" for n :: nat by simp
  consider (one) "c < 128" | (two) "128 \<le> c" "c < 2048" | (three) "2048 \<le> c" "c < 65536"
    | (four) "65536 \<le> c" "c < 0x110000"
    using assms by (force simp: is_scalar_def)
  then show ?thesis
  proof cases
    case one
    then show ?thesis by (simp add: utf8_char_def utf8_lossy_step_def safe_get_Cons unat_byte_small)
  next
    case two
    have "unat (word_of_nat (192 + c div 64) :: byte) = 192 + c div 64"
      "unat (word_of_nat (128 + c mod 64) :: byte) = 128 + c mod 64"
      using two m [of c] by (intro unat_byte_small; linarith)+
    moreover have "c div 64 < 32" "2 \<le> c div 64" using two by linarith+
    ultimately show ?thesis using two
      by (simp add: utf8_char_def utf8_lossy_step_def safe_get_Cons is_cont_def m div_mult_mod_eq)
  next
    case three
    have q: "c div 64 = 64 * (c div 4096) + c div 64 mod 64" "32 \<le> c div 64"
      using three div_mult_mod_eq [of "c div 64" 64] by (simp_all add: div_mult2_eq [symmetric])
    have "unat (word_of_nat (224 + c div 4096) :: byte) = 224 + c div 4096"
      "unat (word_of_nat (128 + c div 64 mod 64) :: byte) = 128 + c div 64 mod 64"
      "unat (word_of_nat (128 + c mod 64) :: byte) = 128 + c mod 64"
      using three m [of c] m [of "c div 64"] by (intro unat_byte_small; linarith)+
    moreover have "c div 4096 < 16" using three by linarith
    moreover have "c div 4096 = 0 \<Longrightarrow> 32 \<le> c div 64 mod 64" using q by linarith
    moreover have "c div 4096 = 13 \<Longrightarrow> c div 64 mod 64 < 32"
      using q three assms unfolding is_scalar_def by linarith
    moreover have "c div 4096 * 4096 + c div 64 mod 64 * 64 + c mod 64 = c"
      using q(1) div_mult_mod_eq [of c 64] by linarith
    ultimately show ?thesis using three
      by (simp add: utf8_char_def utf8_lossy_step_def safe_get_Cons is_cont_def second_of_three_def m
          Let_def)
  next
    case four
    have q: "c div 4096 = 64 * (c div 262144) + c div 4096 mod 64" "16 \<le> c div 4096"
        "c div 4096 < 272"
      using four div_mult_mod_eq [of "c div 4096" 64] by (simp_all add: div_mult2_eq [symmetric])
    have "unat (word_of_nat (240 + c div 262144) :: byte) = 240 + c div 262144"
      "unat (word_of_nat (128 + c div 4096 mod 64) :: byte) = 128 + c div 4096 mod 64"
      "unat (word_of_nat (128 + c div 64 mod 64) :: byte) = 128 + c div 64 mod 64"
      "unat (word_of_nat (128 + c mod 64) :: byte) = 128 + c mod 64"
      using four m [of c] m [of "c div 64"] m [of "c div 4096"]
      by (intro unat_byte_small; linarith)+
    moreover have "c div 262144 < 5" using four by linarith
    moreover have "c div 262144 = 0 \<Longrightarrow> 16 \<le> c div 4096 mod 64" using q by linarith
    moreover have "c div 262144 = 4 \<Longrightarrow> c div 4096 mod 64 < 16" using q by linarith
    moreover have "c div 262144 * 262144 + c div 4096 mod 64 * 4096 + c div 64 mod 64 * 64 + c mod 64 = c"
    proof -
      have "c div 64 = 64 * (c div 4096) + c div 64 mod 64"
        using div_mult_mod_eq [of "c div 64" 64] by (simp add: div_mult2_eq [symmetric])
      then show ?thesis using q(1) div_mult_mod_eq [of c 64] by linarith
    qed
    ultimately show ?thesis using four
      by (simp add: utf8_char_def utf8_lossy_step_def safe_get_Cons is_cont_def second_of_four_def m
          Let_def)
  qed
qed

lemma from_utf8_lossy_utf8: "\<forall>c\<in>set s. is_scalar c \<Longrightarrow> from_utf8_lossy (utf8 s) = s"
proof (induction s)
  case Nil
  then show ?case by (simp add: utf8_def)
next
  case (Cons c s)
  obtain b bs where b: "utf8_char c = b # bs" by (cases "utf8_char c") auto
  have "utf8_lossy_step (b # bs @ utf8 s) = (c, Suc (length bs))"
    using utf8_step_char [of c "utf8 s"] Cons.prems b by simp
  moreover have "utf8 (c # s) = b # bs @ utf8 s" by (simp add: utf8_def b)
  ultimately show ?case using Cons by simp
qed

end
