(* ===== verification/HdWallet.thy ===== *)
theory HdWallet
  imports Errors Hashes Rust_Str
begin

unbundle bit_operations_syntax

text \<open>
  \<^verbatim>\<open>src/hdwallet\<close>: mnemonics (\<^verbatim>\<open>bip39.rs\<close>) and seed derivation
  (\<^verbatim>\<open>derivation.rs\<close>).  The \<^verbatim>\<open>bip39\<close> and \<^verbatim>\<open>bip32\<close> crates are parameters.  The lemmas
  show what a parsed path is (never empty, every index hardened), that the parser inverts
  the printer of paths, at which index the derivation stops, and that the validator and
  the seed derivation agree on the phrases they accept.
\<close>

section \<open>The bip39 and bip32 crates\<close>

record 'mn bip39 =
  m_from_entropy :: "bytes \<Rightarrow> string + 'mn"
  m_to_string :: "'mn \<Rightarrow> rstr"
  m_parse :: "rstr \<Rightarrow> string + 'mn"
  m_to_seed :: "'mn \<Rightarrow> rstr \<Rightarrow> bytes"

record ('x, 'cn) bip32 =
  x_new :: "bytes \<Rightarrow> string + 'x"
  x_child_number :: "32 word \<Rightarrow> bool \<Rightarrow> string + 'cn"
  x_derive_child :: "'x \<Rightarrow> 'cn \<Rightarrow> string + 'x"
  x_private_key_bytes :: "'x \<Rightarrow> bytes"
  x_chain_code :: "'x \<Rightarrow> bytes"

text \<open>
  Thirty-two bytes of entropy make a mnemonic that prints as 24 words and parses back; a
  seed has 64 bytes.  A child number is made from any index below \<open>2 ^ 31\<close>; private keys
  and chain codes have 32 bytes.
\<close>

definition bip39_laws :: "'mn bip39 \<Rightarrow> bool" where
  "bip39_laws M \<longleftrightarrow>
     (\<forall>b. length b = 32 \<longrightarrow> (\<exists>mn. m_from_entropy M b = Inr mn)) \<and>
     (\<forall>b mn. length b = 32 \<longrightarrow> m_from_entropy M b = Inr mn \<longrightarrow>
        length (split_whitespace (m_to_string M mn)) = 24 \<and>
        m_parse M (m_to_string M mn) = Inr mn) \<and>
     (\<forall>mn p. length (m_to_seed M mn p) = 64)"

definition bip32_laws :: "('x, 'cn) bip32 \<Rightarrow> bool" where
  "bip32_laws X \<longleftrightarrow>
     (\<forall>i. i < 0x80000000 \<longrightarrow> (\<exists>c. x_child_number X i True = Inr c)) \<and>
     (\<forall>k. length (x_private_key_bytes X k) = 32) \<and>
     (\<forall>k. length (x_chain_code X k) = 32)"

lemma bip39_lawsD [crate_laws]:
  assumes "bip39_laws M"
  shows "length b = 32 \<Longrightarrow> \<exists>mn. m_from_entropy M b = Inr mn"
    and "length b = 32 \<Longrightarrow> m_from_entropy M b = Inr mn \<Longrightarrow>
      length (split_whitespace (m_to_string M mn)) = 24"
    and "length b = 32 \<Longrightarrow> m_from_entropy M b = Inr mn \<Longrightarrow> m_parse M (m_to_string M mn) = Inr mn"
    and "length (m_to_seed M mn p) = 64"
  using assms by (auto simp: bip39_laws_def)

lemma bip32_lawsD [crate_laws]:
  assumes "bip32_laws X"
  shows "i < 0x80000000 \<Longrightarrow> \<exists>c. x_child_number X i True = Inr c"
    and "length (x_private_key_bytes X k) = 32" and "length (x_chain_code X k) = 32"
  using assms by (auto simp: bip32_laws_def)

section \<open>Mnemonics\<close>

definition ENTROPY_BYTES :: nat where [size_consts]: "ENTROPY_BYTES = 32"
definition MNEMONIC_WORD_COUNT :: nat where [size_consts]: "MNEMONIC_WORD_COUNT = 24"

text \<open>\<open>getrandom n\<close> is what \<^verbatim>\<open>getrandom::fill\<close> returned for a buffer of \<open>n\<close> bytes.\<close>

definition generate_mnemonic ::
  "'mn bip39 \<Rightarrow> (nat \<Rightarrow> string + bytes) \<Rightarrow> (rstr, crypto_error) outcome" where
  "generate_mnemonic M getrandom =
     and_then (of_result (\<lambda>e. Custom [Ext e]) (getrandom ENTROPY_BYTES))
       (\<lambda>entropy. and_then (of_result Bip39Error (m_from_entropy M entropy))
         (\<lambda>mnemonic. Ok (m_to_string M mnemonic)))"

definition seed_from_mnemonic ::
  "'mn bip39 \<Rightarrow> rstr \<Rightarrow> rstr \<Rightarrow> (bytes, crypto_error) outcome" where
  "seed_from_mnemonic M phrase password =
     (let word_count = length (split_whitespace phrase) in
      if word_count \<noteq> MNEMONIC_WORD_COUNT
      then Error (Custom [Str ''BlackChain requires a '', Num MNEMONIC_WORD_COUNT,
             Str ''-word mnemonic (256-bit entropy); got '', Num word_count, Str '' words''])
      else and_then (of_result Bip39Error (m_parse M phrase))
        (\<lambda>mnemonic. Ok (m_to_seed M mnemonic password)))"

definition validate_mnemonic :: "'mn bip39 \<Rightarrow> rstr \<Rightarrow> bool" where
  "validate_mnemonic M phrase =
     (let word_count = length (split_whitespace phrase) in
      if word_count \<noteq> MNEMONIC_WORD_COUNT then False
      else (case m_parse M phrase of Inr _ \<Rightarrow> True | Inl _ \<Rightarrow> False))"

section \<open>Seeds of the classical curves\<close>

definition CURVE_ID_P521 :: byte where "CURVE_ID_P521 = 1"
definition CURVE_ID_ED448 :: byte where "CURVE_ID_ED448 = 2"

definition derive_mdecc_curve_seed ::
  "hashes \<Rightarrow> bytes \<Rightarrow> byte \<Rightarrow> nat \<Rightarrow> (bytes, crypto_error) outcome" where
  "derive_mdecc_curve_seed H mdecc_seed curve_id seed_size =
     (let shaken = shake256 H (mdecc_seed @ [curve_id]) 32 in
      ok_or (Custom [Str ''HKDF-SHA3-512 expand failed''])
        (hkdf_sha3_512 H None shaken [] seed_size))"

section \<open>BIP-32 derivation\<close>

definition not_hardened_error :: "nat \<Rightarrow> 32 word \<Rightarrow> crypto_error" where
  "not_hardened_error i idx =
     Custom [Str ''BIP32: index at position '', Num i,
       Str ('' must be hardened ('' @ [CHR 0xE2, CHR 0x89, CHR 0xA5] @ '' 0x80000000), got 0x''),
       Hex8 idx]"

fun check_hardened :: "nat \<Rightarrow> 32 word list \<Rightarrow> (unit, crypto_error) outcome" where
  "check_hardened i [] = Ok ()"
| "check_hardened i (idx # path) =
     (if idx < 0x80000000 then Error (not_hardened_error i idx) else check_hardened (Suc i) path)"

fun derive_children ::
  "('x, 'cn) bip32 \<Rightarrow> 'x \<Rightarrow> 32 word list \<Rightarrow> ('x, crypto_error) outcome" where
  "derive_children X key [] = Ok key"
| "derive_children X key (child_index # path) =
     (let raw_index = child_index AND 0x7FFFFFFF in
      and_then (of_result (\<lambda>e. Custom [Str ''BIP32 child number error: '', Ext e])
          (x_child_number X raw_index True))
        (\<lambda>child_num. and_then
          (of_result (\<lambda>e. Custom [Str ''BIP32 child derivation failed: '', Ext e])
            (x_derive_child X key child_num))
          (\<lambda>key. derive_children X key path)))"

definition derive_child_seed ::
  "('x, 'cn) bip32 \<Rightarrow> bytes \<Rightarrow> 32 word list \<Rightarrow> (bytes, crypto_error) outcome" where
  "derive_child_seed X master_seed path =
     and_then (check_hardened 0 path)
       (\<lambda>_. and_then (of_result (\<lambda>e. Custom [Str ''BIP32 master key creation failed: '', Ext e])
           (x_new X master_seed))
         (\<lambda>key. and_then (derive_children X key path)
           (\<lambda>key. Ok (x_private_key_bytes X key @ x_chain_code X key))))"

section \<open>Paths\<close>

definition parse_segment :: "nat \<Rightarrow> rstr \<Rightarrow> (32 word, crypto_error) outcome" where
  "parse_segment pos part =
     (let stripped = trim_end_while (\<lambda>c. c \<in> {39, 104, 72}) part in
      and_then (ok_or (Custom [Str ''BIP32: invalid index '', Dbg part, Str '' at position '', Num pos])
          (parse_u32 stripped))
        (\<lambda>n. if 0x7FFFFFFF < n
             then Error (Custom [Str ''BIP32: index too large before hardening at position '', Num pos])
             else Ok (n OR 0x80000000)))"

text \<open>\<^verbatim>\<open>collect\<close> into a \<^verbatim>\<open>Result\<close>: the first error stops the iteration.\<close>

fun parse_segments :: "nat \<Rightarrow> rstr list \<Rightarrow> (32 word list, crypto_error) outcome" where
  "parse_segments pos [] = Ok []"
| "parse_segments pos (part # parts) =
     and_then (parse_segment pos part)
       (\<lambda>n. and_then (parse_segments (Suc pos) parts) (\<lambda>ns. Ok (n # ns)))"

definition parse_hardened_path :: "rstr \<Rightarrow> (32 word list, crypto_error) outcome" where
  "parse_hardened_path s =
     (let s = trim_start_matches (lit ''m/'') (trim s) in
      if s = [] then Error (Custom [Str ''derivation path is empty''])
      else parse_segments 0 (split_on (\<lambda>c. c = 47) s))"

text \<open>
  The specification the parser is compared with: printing raw indices as
  \<^verbatim>\<open>m/44'/60'/...\<close>, and the hardened form of a raw index.
\<close>

fun print_segments :: "32 word list \<Rightarrow> rstr" where
  "print_segments [] = []"
| "print_segments [n] = show_nat (unat n) @ [39]"
| "print_segments (n # ns) = show_nat (unat n) @ [39] @ 47 # print_segments ns"

definition print_path :: "32 word list \<Rightarrow> rstr" where
  "print_path ns = lit ''m/'' @ print_segments ns"

definition harden :: "32 word \<Rightarrow> 32 word" where
  "harden n = n OR 0x80000000"

section \<open>Mnemonics and curve seeds: lemmas\<close>

lemma validate_iff_seed:
  "validate_mnemonic M phrase \<longleftrightarrow> accepted (seed_from_mnemonic M phrase password)"
  by (auto simp: validate_mnemonic_def seed_from_mnemonic_def Let_def split: sum.splits)

lemma seed_from_mnemonic_size:
  "bip39_laws M \<Longrightarrow> seed_from_mnemonic M phrase password = Ok seed \<Longrightarrow> length seed = 64"
  by (auto simp: seed_from_mnemonic_def Let_def bip39_lawsD split: if_splits)

lemma seed_from_mnemonic_panic_free [no_panic]: "panic_free (seed_from_mnemonic M p pw)"
  by (auto simp: seed_from_mnemonic_def Let_def intro!: panic_free_and_then)

lemma generate_mnemonic_seed:
  assumes "bip39_laws M" and "getrandom 32 = Inr entropy" and "length entropy = 32"
  shows "\<exists>phrase mn. generate_mnemonic M getrandom = Ok phrase \<and>
    seed_from_mnemonic M phrase password = Ok (m_to_seed M mn password)"
proof -
  obtain mn where mn: "m_from_entropy M entropy = Inr mn"
    using bip39_lawsD(1) [OF assms(1,3)] by blast
  show ?thesis
    using assms(2) mn bip39_lawsD(2,3) [OF assms(1,3) mn]
    by (intro exI [of _ "m_to_string M mn"] exI [of _ mn])
      (simp add: generate_mnemonic_def seed_from_mnemonic_def size_consts)
qed

lemma derive_mdecc_curve_seed_Ok:
  assumes "hash_laws H" and "n \<le> 16320"
  shows "\<exists>seed. derive_mdecc_curve_seed H m c n = Ok seed \<and> length seed = n"
  using hash_lawsD(4,5) [OF assms(1)] assms(2)
  by (fastforce simp: derive_mdecc_curve_seed_def Let_def)

lemma derive_mdecc_panic_free [no_panic]: "panic_free (derive_mdecc_curve_seed H m c n)"
  by (simp add: derive_mdecc_curve_seed_def Let_def)

section \<open>Derivation: lemmas\<close>

lemma check_hardened_iff: "check_hardened i path = Ok () \<longleftrightarrow> (\<forall>w\<in>set path. 0x80000000 \<le> w)"
  by (induction i path rule: check_hardened.induct) (auto simp: not_less)

text \<open>The error names the first index that is not hardened, and its position.\<close>

lemma check_hardened_first:
  assumes "\<forall>w\<in>set ps. 0x80000000 \<le> w" and "w < 0x80000000"
  shows "check_hardened i (ps @ w # qs) = Error (not_hardened_error (i + length ps) w)"
  using assms by (induction ps arbitrary: i) (auto simp: not_less)

lemma derive_child_seed_size:
  "bip32_laws X \<Longrightarrow> derive_child_seed X seed path = Ok out \<Longrightarrow> length out = 64"
  by (auto simp: derive_child_seed_def bip32_lawsD)

lemma derive_children_panic_free [no_panic]: "panic_free (derive_children X key path)"
  by (induction path arbitrary: key) (auto simp: Let_def intro!: panic_free_and_then)

lemma check_hardened_panic_free [no_panic]: "panic_free (check_hardened i path)"
  by (induction i path rule: check_hardened.induct) auto

lemma derive_child_seed_panic_free [no_panic]: "panic_free (derive_child_seed X seed path)"
  by (auto simp: derive_child_seed_def check_hardened_panic_free derive_children_panic_free
      intro!: panic_free_and_then)

section \<open>Paths: lemmas\<close>

lemma hardened_ge: "(0x80000000 :: 32 word) \<le> n OR 0x80000000"
  by (metis le_word_or2 or.commute)

lemma parse_segment_hardened: "parse_segment pos part = Ok w \<Longrightarrow> 0x80000000 \<le> w"
  by (auto simp: parse_segment_def Let_def hardened_ge split: if_splits)

lemma parse_segments_hardened:
  "parse_segments pos parts = Ok ws \<Longrightarrow>
     length ws = length parts \<and> (\<forall>w\<in>set ws. 0x80000000 \<le> w)"
  by (induction pos parts arbitrary: ws rule: parse_segments.induct)
    (auto dest: parse_segment_hardened)

lemma parse_hardened_path_hardened:
  assumes "parse_hardened_path s = Ok ws"
  shows "ws \<noteq> []" and "\<forall>w\<in>set ws. 0x80000000 \<le> w"
proof -
  obtain t where t: "parse_segments 0 (split_on (\<lambda>c. c = 47) t) = Ok ws"
    using assms by (auto simp: parse_hardened_path_def Let_def split: if_splits)
  have "length ws \<noteq> 0" using parse_segments_hardened [OF t] by simp
  then show "ws \<noteq> []" by simp
  show "\<forall>w\<in>set ws. 0x80000000 \<le> w" using parse_segments_hardened [OF t] by blast
qed

lemma parse_segment_panic_free [no_panic]: "panic_free (parse_segment pos part)"
  by (auto simp: parse_segment_def Let_def intro!: panic_free_and_then)

lemma parse_segments_panic_free [no_panic]: "panic_free (parse_segments pos parts)"
  by (induction pos parts rule: parse_segments.induct)
    (auto simp: parse_segment_panic_free intro!: panic_free_and_then)

lemma parse_hardened_path_panic_free [no_panic]: "panic_free (parse_hardened_path s)"
  by (simp add: parse_hardened_path_def Let_def parse_segments_panic_free)

section \<open>The parser inverts the printer\<close>

definition print_segment :: "32 word \<Rightarrow> rstr" where
  "print_segment n = show_nat (unat n) @ [39]"

lemma print_segment_set: "c \<in> set (print_segment n) \<Longrightarrow> is_digit c \<or> c = 39"
  using show_nat_set by (auto simp: print_segment_def)

lemma print_segments_Cons:
  "print_segments (n # ns) =
     (if ns = [] then print_segment n else print_segment n @ 47 # print_segments ns)"
  by (cases ns) (simp_all add: print_segment_def)

lemma split_print_segments:
  assumes "ns \<noteq> []"
  shows "split_on (\<lambda>c. c = 47) (print_segments ns) = map print_segment ns"
  using assms
proof (induction ns)
  case Nil
  then show ?case by simp
next
  case (Cons n ns)
  have s: "\<forall>c\<in>set (print_segment n). c \<noteq> 47"
    using print_segment_set [of 47 n] by (auto simp: is_digit_def)
  show ?case
  proof (cases "ns = []")
    case True
    then show ?thesis using s by (simp add: print_segments_Cons split_on_none)
  next
    case False
    then show ?thesis using s Cons.IH by (simp add: print_segments_Cons split_on_join)
  qed
qed

lemma trim_print_segment:
  "trim_end_while (\<lambda>c. c \<in> {39, 104, 72}) (print_segment n) = show_nat (unat n)"
proof -
  obtain ds d where d: "show_nat (unat n) = ds @ [d]"
    by (metis rev_exhaust show_nat_nonempty)
  then have "is_digit d" using show_nat_set [of d "unat n"] by simp
  then have "d \<notin> {39, 104, 72}" by (auto simp: is_digit_def)
  then show ?thesis by (simp add: trim_end_while_def print_segment_def d)
qed

lemma parse_print_segment:
  assumes "n < 0x80000000"
  shows "parse_segment pos (print_segment n) = Ok (harden n)"
proof -
  have "\<not> 0x7FFFFFFF < n" using assms by (simp add: word_less_nat_alt)
  then show ?thesis
    by (simp add: parse_segment_def trim_print_segment parse_show_u32 harden_def del: insert_iff)
qed

lemma parse_print_segments:
  assumes "\<forall>n\<in>set ns. n < 0x80000000"
  shows "parse_segments pos (map print_segment ns) = Ok (map harden ns)"
  using assms by (induction ns arbitrary: pos) (simp_all add: parse_print_segment)

lemma print_segments_hd:
  assumes "ns \<noteq> []"
  shows "\<exists>d ds. print_segments ns = d # ds \<and> is_digit d"
proof -
  obtain n ms where ns: "ns = n # ms" using assms by (cases ns) auto
  obtain d ds where d: "show_nat (unat n) = d # ds"
    by (metis list.exhaust show_nat_nonempty)
  then have "is_digit d" using show_nat_set [of d "unat n"] by simp
  with d show ?thesis by (auto simp: ns print_segments_Cons print_segment_def)
qed

lemma print_segments_last: "ns \<noteq> [] \<Longrightarrow> \<exists>ds. print_segments ns = ds @ [39]"
  by (induction ns rule: print_segments.induct) auto

lemma trim_print_path:
  assumes "ns \<noteq> []"
  shows "trim (print_path ns) = print_path ns"
proof -
  obtain ds where ds: "print_segments ns = ds @ [39]"
    using print_segments_last [OF assms] by blast
  have "trim_start_while is_whitespace (print_path ns) = print_path ns"
    by (simp add: trim_start_while_def print_path_def lit_def is_whitespace_def)
  moreover have "trim_end_while is_whitespace (print_path ns) = print_path ns"
    by (simp add: trim_end_while_def print_path_def ds is_whitespace_def)
  ultimately show ?thesis by (simp add: trim_def)
qed

lemma strip_print_path:
  assumes "ns \<noteq> []"
  shows "trim_start_matches (lit ''m/'') (print_path ns) = print_segments ns"
proof -
  obtain d ds where d: "print_segments ns = d # ds" "is_digit d"
    using print_segments_hd [OF assms] by blast
  have l: "lit ''m/'' = [109, 47]" by (simp add: lit_def)
  have "trim_start_matches [109, 47] (print_segments ns) = print_segments ns"
    using d by (subst trim_start_matches.simps) (auto simp: is_digit_def)
  then show ?thesis
    unfolding print_path_def l by (subst trim_start_matches.simps) simp
qed

lemma parse_print_path:
  assumes "ns \<noteq> []" and "\<forall>n\<in>set ns. n < 0x80000000"
  shows "parse_hardened_path (print_path ns) = Ok (map harden ns)"
proof -
  have "print_segments ns \<noteq> []" using print_segments_hd [OF assms(1)] by auto
  then show ?thesis
    by (simp add: parse_hardened_path_def trim_print_path [OF assms(1)] strip_print_path [OF assms(1)]
        split_print_segments [OF assms(1)] parse_print_segments [OF assms(2)])
qed

lemma raw_harden: "n < 0x80000000 \<Longrightarrow> harden n AND 0x7FFFFFFF = n"
proof -
  assume n: "n < 0x80000000"
  have "(0x7FFFFFFF :: 32 word) = mask 31" by (simp add: mask_numeral)
  moreover have "n AND mask 31 = n"
    by (rule less_mask_eq) (use n in simp)
  ultimately show ?thesis by (simp add: harden_def bit.conj_disj_distrib2)
qed

end
