(* ===== verification/Sign.thy ===== *)
theory Sign
  imports Errors Rust_Str
begin

text \<open>
  \<^verbatim>\<open>src/sign.rs\<close>: the trait infrastructure the three signature backends share.

  A trait object is the record of its methods.  \<open>'r scheme\<close> is \<^verbatim>\<open>dyn Scheme\<close>;
  \<open>dyn_public_key\<close> and \<open>dyn_private_key\<close> are \<^verbatim>\<open>dyn PublicKey\<close> and
  \<^verbatim>\<open>dyn PrivateKey\<close>.  Methods that use the operating system's randomness take the
  outcome of that use as an argument of type \<open>'r\<close>; none of them draws randomness twice.
  The \<^verbatim>\<open>equal\<close> methods are modelled with the keys, in the backends.

  The two locales state the interfaces: \<open>signature_leg\<close> is what the composite scheme
  needs of one signature algorithm (on serialised keys), \<open>scheme_contract\<close> is the
  contract of the \<^verbatim>\<open>Scheme\<close> trait.  Both are interpreted for the three backends.
\<close>

section \<open>Options and sentinel errors\<close>

record signature_opts =
  opts_context :: rstr

definition default_opts :: signature_opts where
  "default_opts = \<lparr>opts_context = []\<rparr>"

definition has_context :: "signature_opts option \<Rightarrow> bool" where
  "has_context opts = (case opts of None \<Rightarrow> False | Some opt \<Rightarrow> opts_context opt \<noteq> [])"

definition ERR_TYPE_MISMATCH :: string where "ERR_TYPE_MISMATCH = ''types mismatch''"
definition ERR_SEED_SIZE :: string where "ERR_SEED_SIZE = ''wrong seed size''"
definition ERR_PUB_KEY_SIZE :: string where "ERR_PUB_KEY_SIZE = ''wrong size for public key''"
definition ERR_PRIV_KEY_SIZE :: string where "ERR_PRIV_KEY_SIZE = ''wrong size for private key''"
definition ERR_CONTEXT_NOT_SUPPORTED :: string where
  "ERR_CONTEXT_NOT_SUPPORTED = ''context not supported''"
definition ERR_CONTEXT_TOO_LONG :: string where
  "ERR_CONTEXT_TOO_LONG = ''context string too long''"

definition err_type_mismatch :: crypto_error where
  "err_type_mismatch = Custom [Str ERR_TYPE_MISMATCH]"
definition err_seed_size :: crypto_error where
  "err_seed_size = SeedError [Str ERR_SEED_SIZE]"
definition err_pub_key_size :: "nat \<Rightarrow> nat \<Rightarrow> crypto_error" where
  "err_pub_key_size e a = InvalidKeySize e a"
definition err_priv_key_size :: "nat \<Rightarrow> nat \<Rightarrow> crypto_error" where
  "err_priv_key_size e a = InvalidKeySize e a"
definition err_context_not_supported :: crypto_error where
  "err_context_not_supported = Custom [Str ERR_CONTEXT_NOT_SUPPORTED]"
definition err_context_too_long :: crypto_error where
  "err_context_too_long = Custom [Str ERR_CONTEXT_TOO_LONG]"

section \<open>The traits\<close>

datatype scheme_id = ML_DSA_87 | P_521 | Ed448

record dyn_public_key =
  pk_scheme :: scheme_id
  pk_marshal :: "(bytes, crypto_error) outcome"

record dyn_private_key =
  sk_scheme :: scheme_id
  sk_marshal :: "(bytes, crypto_error) outcome"
  sk_public_bytes :: bytes

record 'r scheme =
  sch_name :: string
  sch_generate_key :: "'r \<Rightarrow> (dyn_public_key \<times> dyn_private_key, crypto_error) outcome"
  sch_derive_key :: "bytes \<Rightarrow> (dyn_public_key \<times> dyn_private_key, crypto_error) outcome"
  sch_sign :: "'r \<Rightarrow> dyn_private_key \<Rightarrow> bytes \<Rightarrow> signature_opts option
                \<Rightarrow> (bytes, crypto_error) outcome"
  sch_verify :: "dyn_public_key \<Rightarrow> bytes \<Rightarrow> bytes \<Rightarrow> signature_opts option
                  \<Rightarrow> (bool, crypto_error) outcome"
  sch_unmarshal_public :: "bytes \<Rightarrow> (dyn_public_key, crypto_error) outcome"
  sch_unmarshal_private :: "bytes \<Rightarrow> (dyn_private_key, crypto_error) outcome"
  sch_public_key_size :: nat
  sch_private_key_size :: nat
  sch_signature_size :: nat
  sch_seed_size :: nat
  sch_supports_context :: bool
  sch_supports_priv_key_unmarshal :: bool

text \<open>The default of \<^verbatim>\<open>supports_priv_key_unmarshal\<close>.\<close>

definition default_supports_priv_key_unmarshal :: bool where
  "default_supports_priv_key_unmarshal = True"

text \<open>
  \<^verbatim>\<open>ct_eq\<close> of the \<^verbatim>\<open>subtle\<close> crate on byte slices: equality, and false for slices of
  different lengths.
\<close>

definition ct_eq :: "bytes \<Rightarrow> bytes \<Rightarrow> bool" where
  "ct_eq a b \<longleftrightarrow> a = b"

section \<open>What the composite scheme needs of one algorithm\<close>

text \<open>
  \<open>pair c pk sk\<close> says that the serialised keys belong together; \<open>ok c\<close> is what is known
  of the third-party crates behind the algorithm.
\<close>

locale signature_leg =
  fixes ok :: "'c \<Rightarrow> bool"
    and pair :: "'c \<Rightarrow> bytes \<Rightarrow> bytes \<Rightarrow> bool"
    and leg_sign :: "'c \<Rightarrow> 'r \<Rightarrow> bytes \<Rightarrow> bytes \<Rightarrow> (bytes, crypto_error) outcome"
    and leg_verify :: "'c \<Rightarrow> bytes \<Rightarrow> bytes \<Rightarrow> bytes \<Rightarrow> (unit, crypto_error) outcome"
    and pk_len sk_len sig_len :: nat
  assumes pair_sizes: "ok c \<Longrightarrow> pair c pk sk \<Longrightarrow> length pk = pk_len \<and> length sk = sk_len"
    and complete: "ok c \<Longrightarrow> pair c pk sk \<Longrightarrow>
      \<exists>sig. leg_sign c r sk m = Ok sig \<and> length sig = sig_len \<and> leg_verify c pk m sig = Ok ()"
    and verify_size: "ok c \<Longrightarrow> leg_verify c pk m sig = Ok () \<Longrightarrow> length sig = sig_len"
    and verify_total: "ok c \<Longrightarrow> panic_free (leg_verify c pk m sig)"
begin

lemma sign_total: "ok c \<Longrightarrow> pair c pk sk \<Longrightarrow> accepted (leg_sign c r sk m)"
  using complete [of c pk sk r m] by auto

lemma signed_size:
  "ok c \<Longrightarrow> pair c pk sk \<Longrightarrow> leg_sign c r sk m = Ok sig \<Longrightarrow> length sig = sig_len"
  using complete [of c pk sk r m] by auto

lemma signed_verifies:
  "ok c \<Longrightarrow> pair c pk sk \<Longrightarrow> leg_sign c r sk m = Ok sig \<Longrightarrow> leg_verify c pk m sig = Ok ()"
  using complete [of c pk sk r m] by auto

lemma resized_rejected:
  assumes "ok c" and "length sig \<noteq> sig_len"
  shows "\<exists>e. leg_verify c pk m sig = Error e"
  using verify_total [OF assms(1), of pk m sig] verify_size [OF assms(1), of pk m sig] assms(2)
  by (auto elim: not_panic_cases)

end

section \<open>The contract of the Scheme trait\<close>

text \<open>
  What the trait's documentation promises of every implementation, for the condition \<open>ok\<close>
  on the crates behind it: key derivation panics on a seed of another size; a derived pair
  marshals to the sizes the scheme announces and unmarshals to itself; signing with the
  derived key gives a signature of the announced size that the public key verifies;
  verification answers with a boolean, whatever it is given, and only accepts the announced
  size; a scheme without contexts refuses to sign with one and rejects it when verifying.
\<close>

locale scheme_contract =
  fixes ok :: "'c \<Rightarrow> bool"
    and S :: "'c \<Rightarrow> 'r scheme"
  assumes seed_size: "ok c \<Longrightarrow> length seed \<noteq> sch_seed_size (S c) \<Longrightarrow>
      \<not> panic_free (sch_derive_key (S c) seed)"
    and derived: "ok c \<Longrightarrow> sch_derive_key (S c) seed = Ok (pk, sk) \<Longrightarrow>
      \<exists>pb sb. pk_marshal pk = Ok pb \<and> length pb = sch_public_key_size (S c) \<and>
        sk_marshal sk = Ok sb \<and> length sb = sch_private_key_size (S c) \<and> sk_public_bytes sk = pb \<and>
        sch_unmarshal_public (S c) pb = Ok pk \<and> sch_unmarshal_private (S c) sb = Ok sk"
    and complete: "ok c \<Longrightarrow> sch_derive_key (S c) seed = Ok (pk, sk) \<Longrightarrow> \<not> has_context opts \<Longrightarrow>
      \<exists>sig. sch_sign (S c) r sk m opts = Ok sig \<and> length sig = sch_signature_size (S c) \<and>
        sch_verify (S c) pk m sig opts = Ok True"
    and verify_total: "ok c \<Longrightarrow> panic_free (pk_marshal pk) \<Longrightarrow>
      \<exists>b. sch_verify (S c) pk m sig opts = Ok b"
    and verify_size: "ok c \<Longrightarrow> sch_verify (S c) pk m sig opts = Ok True \<Longrightarrow>
      length sig = sch_signature_size (S c)"
    and no_context: "ok c \<Longrightarrow> \<not> sch_supports_context (S c) \<Longrightarrow> has_context opts \<Longrightarrow>
      \<not> panic_free (sch_sign (S c) r sk m opts) \<and> sch_verify (S c) pk m sig opts = Ok False"
begin

text \<open>Keys that went through their byte form still work together.\<close>

lemma reloaded_keys:
  assumes "ok c" "sch_derive_key (S c) seed = Ok (pk, sk)" "\<not> has_context opts"
  shows "\<exists>pb sb pk' sk' sig. pk_marshal pk = Ok pb \<and> sk_marshal sk = Ok sb \<and>
    sch_unmarshal_public (S c) pb = Ok pk' \<and> sch_unmarshal_private (S c) sb = Ok sk' \<and>
    sch_sign (S c) r sk' m opts = Ok sig \<and> sch_verify (S c) pk' m sig opts = Ok True"
  using derived [OF assms(1,2)] complete [OF assms, of r m] by blast

lemma resized_rejected:
  assumes "ok c" "panic_free (pk_marshal pk)" "length sig \<noteq> sch_signature_size (S c)"
  shows "sch_verify (S c) pk m sig opts = Ok False"
  using verify_total [OF assms(1,2), of m sig opts] verify_size [OF assms(1), of pk m sig opts]
    assms(3) by (metis (full_types))

lemma derive_needs_seed_size:
  "ok c \<Longrightarrow> sch_derive_key (S c) seed = Ok (pk, sk) \<Longrightarrow> length seed = sch_seed_size (S c)"
  using seed_size [of c seed] by fastforce

end

end
