(* ===== verification/MlDsa.thy ===== *)
theory MlDsa
  imports Sign
begin

text \<open>
  \<^verbatim>\<open>src/dilithium/mod.rs\<close>: the ML-DSA-87 backend.  The \<^verbatim>\<open>ml-dsa\<close> crate is the
  parameter \<open>D :: ('vk, 'sk, 'sig) ml_dsa\<close>; \<open>ml_dsa_laws\<close> states what its documentation
  (FIPS 204) promises.  A stored secret key is the 32-byte seed.
\<close>

section \<open>The ml-dsa crate\<close>

record ('vk, 'sk, 'sig) ml_dsa =
  d_b32 :: "bytes \<Rightarrow> bytes option"
  d_from_seed :: "bytes \<Rightarrow> 'sk"
  d_to_seed :: "'sk \<Rightarrow> bytes"
  d_verifying_key :: "'sk \<Rightarrow> 'vk"
  d_encoded_vk :: "bytes \<Rightarrow> bytes option"
  d_decode_vk :: "bytes \<Rightarrow> 'vk"
  d_encode_vk :: "'vk \<Rightarrow> bytes"
  d_try_sign :: "'sk \<Rightarrow> bytes \<Rightarrow> string + 'sig"
  d_encode_sig :: "'sig \<Rightarrow> bytes"
  d_decode_sig :: "bytes \<Rightarrow> string + 'sig"
  d_verify_with_context :: "'vk \<Rightarrow> bytes \<Rightarrow> bytes \<Rightarrow> 'sig \<Rightarrow> bool"

text \<open>
  Fixed-size array conversions succeed exactly on the right length; the seed form of a
  signing key round-trips; verifying keys and signatures have their FIPS 204 sizes and
  decode to what was encoded; deterministic signing does not fail, and what it returns
  verifies under the key's verifying key with the empty context.
\<close>

definition ml_dsa_laws :: "('vk, 'sk, 'sig) ml_dsa \<Rightarrow> bool" where
  "ml_dsa_laws D \<longleftrightarrow>
     (\<forall>b. d_b32 D b = (if length b = 32 then Some b else None)) \<and>
     (\<forall>b. d_encoded_vk D b = (if length b = 2592 then Some b else None)) \<and>
     (\<forall>x. length x = 32 \<longrightarrow> d_to_seed D (d_from_seed D x) = x) \<and>
     (\<forall>k. length (d_to_seed D k) = 32) \<and>
     (\<forall>v. length (d_encode_vk D v) = 2592 \<and> d_decode_vk D (d_encode_vk D v) = v) \<and>
     (\<forall>g. length (d_encode_sig D g) = 4627 \<and> d_decode_sig D (d_encode_sig D g) = Inr g) \<and>
     (\<forall>k m. \<exists>g. d_try_sign D k m = Inr g) \<and>
     (\<forall>k m g. d_try_sign D k m = Inr g \<longrightarrow>
        d_verify_with_context D (d_verifying_key D k) m [] g)"

lemma ml_dsa_lawsD [crate_laws]:
  assumes "ml_dsa_laws D"
  shows "d_b32 D b = (if length b = 32 then Some b else None)"
    and "d_encoded_vk D b = (if length b = 2592 then Some b else None)"
    and "length b = 32 \<Longrightarrow> d_to_seed D (d_from_seed D b) = b"
    and "length (d_to_seed D k) = 32"
    and "length (d_encode_vk D v) = 2592" "d_decode_vk D (d_encode_vk D v) = v"
    and "length (d_encode_sig D g) = 4627" "d_decode_sig D (d_encode_sig D g) = Inr g"
    and "\<exists>g. d_try_sign D k m = Inr g"
    and "d_try_sign D k m = Inr g \<Longrightarrow> d_verify_with_context D (d_verifying_key D k) m [] g"
  using assms unfolding ml_dsa_laws_def by blast+

section \<open>Constants and errors\<close>

definition DIL_SEED_SIZE :: nat where [size_consts]: "DIL_SEED_SIZE = 32"
definition DIL_PUBLIC_KEY_SIZE :: nat where [size_consts]: "DIL_PUBLIC_KEY_SIZE = 2592"
definition DIL_PRIVATE_KEY_SIZE :: nat where [size_consts]: "DIL_PRIVATE_KEY_SIZE = DIL_SEED_SIZE"
definition DIL_SIGNATURE_SIZE :: nat where [size_consts]: "DIL_SIGNATURE_SIZE = 4627"

datatype dil_error =
    InvalidSize nat nat string
  | VerificationFailed
  | Internal message
  | ContextNotSupported
  | TypeMismatch

fun dil_display :: "dil_error \<Rightarrow> message" where
  "dil_display (InvalidSize e a ctx) =
     [Str ''ml-dsa-87: invalid '', Str ctx, Str '' size: expected '', Num e, Str '', got '', Num a]"
| "dil_display VerificationFailed = [Str ''ml-dsa-87: signature verification failed'']"
| "dil_display (Internal m) = Str ''ml-dsa-87: internal error: '' # m"
| "dil_display ContextNotSupported = [Str ''ml-dsa-87: context strings are not supported'']"
| "dil_display TypeMismatch = [Str ''ml-dsa-87: key type mismatch'']"

definition dil_into :: "dil_error \<Rightarrow> crypto_error" where
  "dil_into e = SignatureError (dil_display e)"

definition seed_from_slice ::
  "('vk, 'sk, 'sig) ml_dsa \<Rightarrow> bytes \<Rightarrow> (bytes, dil_error) outcome" where
  "seed_from_slice D data =
     ok_or (InvalidSize DIL_SEED_SIZE (length data) ''seed'') (d_b32 D data)"

section \<open>Public keys\<close>

text \<open>
  A \<^verbatim>\<open>PublicKey\<close> is a newtype around the crate's verifying key, so it is the \<open>'vk\<close>
  itself.  \<open>dil_pk_pack\<close> returns the filled buffer.
\<close>

definition dil_pk_pack :: "('vk, 'sk, 'sig) ml_dsa \<Rightarrow> 'vk \<Rightarrow> (bytes, 'e) outcome" where
  "dil_pk_pack D v = copy_from_slice DIL_PUBLIC_KEY_SIZE (d_encode_vk D v)"

definition dil_pk_to_vec :: "('vk, 'sk, 'sig) ml_dsa \<Rightarrow> 'vk \<Rightarrow> bytes" where
  "dil_pk_to_vec D v = d_encode_vk D v"

definition dil_pk_from_bytes ::
  "('vk, 'sk, 'sig) ml_dsa \<Rightarrow> bytes \<Rightarrow> ('vk, dil_error) outcome" where
  "dil_pk_from_bytes D data =
     (if length data \<noteq> DIL_PUBLIC_KEY_SIZE
      then Error (InvalidSize DIL_PUBLIC_KEY_SIZE (length data) ''public key'')
      else and_then
        (ok_or (Internal [Str ''invalid ML-DSA verifying key encoding'']) (d_encoded_vk D data))
        (\<lambda>enc. Ok (d_decode_vk D enc)))"

definition dil_pk_unpack ::
  "('vk, 'sk, 'sig) ml_dsa \<Rightarrow> bytes \<Rightarrow> ('vk, dil_error) outcome" where
  "dil_pk_unpack D buf = dil_pk_from_bytes D buf"

definition dil_verify_internal ::
  "('vk, 'sk, 'sig) ml_dsa \<Rightarrow> 'vk \<Rightarrow> bytes \<Rightarrow> bytes \<Rightarrow> (unit, dil_error) outcome" where
  "dil_verify_internal D v msg signature =
     (if length signature \<noteq> DIL_SIGNATURE_SIZE
      then Error (InvalidSize DIL_SIGNATURE_SIZE (length signature) ''signature'')
      else and_then (of_result (\<lambda>_. VerificationFailed) (d_decode_sig D signature))
        (\<lambda>sig. if d_verify_with_context D v msg [] sig then Ok () else Error VerificationFailed))"

definition dil_pk_eq :: "'vk \<Rightarrow> 'vk \<Rightarrow> bool" where
  "dil_pk_eq v w \<longleftrightarrow> v = w"

definition dil_pk_try_from ::
  "('vk, 'sk, 'sig) ml_dsa \<Rightarrow> bytes \<Rightarrow> ('vk, crypto_error) outcome" where
  "dil_pk_try_from D data = map_err dil_into (dil_pk_from_bytes D data)"

definition dil_dyn_pk :: "('vk, 'sk, 'sig) ml_dsa \<Rightarrow> 'vk \<Rightarrow> dyn_public_key" where
  "dil_dyn_pk D v = \<lparr>pk_scheme = ML_DSA_87, pk_marshal = Ok (dil_pk_to_vec D v)\<rparr>"

definition dil_pk_equal ::
  "('vk, 'sk, 'sig) ml_dsa \<Rightarrow> 'vk \<Rightarrow> dyn_public_key \<Rightarrow> (bool, crypto_error) outcome" where
  "dil_pk_equal D v other =
     unwrap_or False (and_then (pk_marshal other)
       (\<lambda>b. Ok (length b = DIL_PUBLIC_KEY_SIZE \<and> ct_eq b (d_encode_vk D v))))"

section \<open>Private keys\<close>

record ('vk, 'sk) dil_private_key =
  dsk_inner :: 'sk
  dsk_public :: 'vk

definition dil_sk_pack ::
  "('vk, 'sk, 'sig) ml_dsa \<Rightarrow> ('vk, 'sk) dil_private_key \<Rightarrow> (bytes, 'e) outcome" where
  "dil_sk_pack D k = copy_from_slice DIL_PRIVATE_KEY_SIZE (d_to_seed D (dsk_inner k))"

definition dil_seed_bytes ::
  "('vk, 'sk, 'sig) ml_dsa \<Rightarrow> ('vk, 'sk) dil_private_key \<Rightarrow> (bytes, 'e) outcome" where
  "dil_seed_bytes D k = copy_from_slice DIL_SEED_SIZE (d_to_seed D (dsk_inner k))"

definition dil_public_key_internal :: "('vk, 'sk) dil_private_key \<Rightarrow> 'vk" where
  "dil_public_key_internal k = dsk_public k"

text \<open>
  \<open>dil_sk_sign_to\<close> writes into a caller's buffer, and returns the buffer it leaves.
\<close>

definition dil_sk_sign_to ::
  "('vk, 'sk, 'sig) ml_dsa \<Rightarrow> ('vk, 'sk) dil_private_key \<Rightarrow> bytes \<Rightarrow> bytes \<Rightarrow> (bytes, 'e) outcome"
where
  "dil_sk_sign_to D k msg buf =
     (if length buf < DIL_SIGNATURE_SIZE
      then Panics [Str ''ml-dsa-87: signature buffer too small'']
      else and_then (expect [Str ''ML-DSA deterministic signing'']
             (of_result (\<lambda>e. e) (d_try_sign D (dsk_inner k) msg)))
        (\<lambda>s. and_then (copy_from_slice DIL_SIGNATURE_SIZE (d_encode_sig D s))
          (\<lambda>enc. Ok (enc @ drop DIL_SIGNATURE_SIZE buf))))"

definition dil_sign_internal ::
  "('vk, 'sk, 'sig) ml_dsa \<Rightarrow> ('vk, 'sk) dil_private_key \<Rightarrow> bytes \<Rightarrow> (bytes, 'e) outcome" where
  "dil_sign_internal D k msg =
     and_then (expect [Str ''ML-DSA deterministic signing'']
         (of_result (\<lambda>e. e) (d_try_sign D (dsk_inner k) msg)))
       (\<lambda>s. Ok (d_encode_sig D s))"

definition dil_sk_from_bytes ::
  "('vk, 'sk, 'sig) ml_dsa \<Rightarrow> bytes \<Rightarrow> (('vk, 'sk) dil_private_key, dil_error) outcome" where
  "dil_sk_from_bytes D data =
     and_then (seed_from_slice D data)
       (\<lambda>xi. let inner = d_from_seed D xi
             in Ok \<lparr>dsk_inner = inner, dsk_public = d_verifying_key D inner\<rparr>)"

definition dil_from_seed ::
  "('vk, 'sk, 'sig) ml_dsa \<Rightarrow> bytes \<Rightarrow> ('vk \<times> ('vk, 'sk) dil_private_key, 'e) outcome" where
  "dil_from_seed D seed =
     and_then (expect [Str ''a 32-byte seed is always valid''] (dil_sk_from_bytes D seed))
       (\<lambda>sk. Ok (dsk_public sk, sk))"

definition dil_sk_clone ::
  "('vk, 'sk, 'sig) ml_dsa \<Rightarrow> ('vk, 'sk) dil_private_key
     \<Rightarrow> (('vk, 'sk) dil_private_key, 'e) outcome" where
  "dil_sk_clone D k =
     and_then (dil_seed_bytes D k)
       (\<lambda>b. expect [Str ''clone of a valid key''] (dil_sk_from_bytes D b))"

definition dil_sk_eq ::
  "('vk, 'sk, 'sig) ml_dsa \<Rightarrow> ('vk, 'sk) dil_private_key \<Rightarrow> ('vk, 'sk) dil_private_key
     \<Rightarrow> (bool, 'e) outcome" where
  "dil_sk_eq D k k' =
     and_then (dil_seed_bytes D k) (\<lambda>a. and_then (dil_seed_bytes D k') (\<lambda>b. Ok (ct_eq a b)))"

definition dil_sk_try_from ::
  "('vk, 'sk, 'sig) ml_dsa \<Rightarrow> bytes \<Rightarrow> (('vk, 'sk) dil_private_key, crypto_error) outcome" where
  "dil_sk_try_from D data = map_err dil_into (dil_sk_from_bytes D data)"

definition dil_dyn_sk ::
  "('vk, 'sk, 'sig) ml_dsa \<Rightarrow> ('vk, 'sk) dil_private_key \<Rightarrow> dyn_private_key" where
  "dil_dyn_sk D k =
     \<lparr>sk_scheme = ML_DSA_87, sk_marshal = dil_seed_bytes D k,
      sk_public_bytes = dil_pk_to_vec D (dsk_public k)\<rparr>"

definition dil_sk_equal ::
  "('vk, 'sk, 'sig) ml_dsa \<Rightarrow> ('vk, 'sk) dil_private_key \<Rightarrow> dyn_private_key
     \<Rightarrow> (bool, crypto_error) outcome" where
  "dil_sk_equal D k other =
     unwrap_or False (and_then (sk_marshal other)
       (\<lambda>b. if length b = DIL_PRIVATE_KEY_SIZE
            then and_then (dil_seed_bytes D k) (\<lambda>s. Ok (ct_eq b s))
            else Ok False))"

section \<open>Free functions\<close>

text \<open>\<open>entropy\<close> is what \<^verbatim>\<open>getrandom::fill\<close> returned for the 32-byte seed buffer.\<close>

definition dil_generate_key ::
  "('vk, 'sk, 'sig) ml_dsa \<Rightarrow> string + bytes
     \<Rightarrow> ('vk \<times> ('vk, 'sk) dil_private_key, dil_error) outcome" where
  "dil_generate_key D entropy =
     and_then (of_result (\<lambda>e. Internal [Str ''RNG failure: '', Ext e]) entropy)
       (\<lambda>seed. dil_from_seed D seed)"

definition dil_new_key_from_seed ::
  "('vk, 'sk, 'sig) ml_dsa \<Rightarrow> bytes \<Rightarrow> ('vk \<times> ('vk, 'sk) dil_private_key, 'e) outcome" where
  "dil_new_key_from_seed D seed = dil_from_seed D seed"

definition dil_sign_to ::
  "('vk, 'sk, 'sig) ml_dsa \<Rightarrow> ('vk, 'sk) dil_private_key \<Rightarrow> bytes \<Rightarrow> bytes \<Rightarrow> (bytes, 'e) outcome"
where
  "dil_sign_to D k msg buf = dil_sk_sign_to D k msg buf"

definition dil_verify ::
  "('vk, 'sk, 'sig) ml_dsa \<Rightarrow> 'vk \<Rightarrow> bytes \<Rightarrow> bytes \<Rightarrow> (bool, 'e) outcome" where
  "dil_verify D v msg signature = is_ok (dil_verify_internal D v msg signature)"

section \<open>The scheme\<close>

definition dil_derive_key_with_seed ::
  "('vk, 'sk, 'sig) ml_dsa \<Rightarrow> bytes \<Rightarrow> ('vk \<times> ('vk, 'sk) dil_private_key, dil_error) outcome"
where
  "dil_derive_key_with_seed D seed =
     (if length seed \<noteq> DIL_SEED_SIZE
      then Error (InvalidSize DIL_SEED_SIZE (length seed) ''seed'')
      else and_then (copy_from_slice DIL_SEED_SIZE seed) (\<lambda>s. dil_new_key_from_seed D s))"

definition dil_dyn_derive_key ::
  "('vk, 'sk, 'sig) ml_dsa \<Rightarrow> bytes
     \<Rightarrow> (dyn_public_key \<times> dyn_private_key, crypto_error) outcome" where
  "dil_dyn_derive_key D seed =
     (if length seed \<noteq> DIL_SEED_SIZE
      then Panics [Str ERR_SEED_SIZE, Str ''; expected '', Num DIL_SEED_SIZE, Str '', got '',
                   Num (length seed)]
      else and_then (copy_from_slice DIL_SEED_SIZE seed)
        (\<lambda>s. and_then (dil_new_key_from_seed D s)
          (\<lambda>(pk, sk). Ok (dil_dyn_pk D pk, dil_dyn_sk D sk))))"

definition dil_dyn_sign ::
  "('vk, 'sk, 'sig) ml_dsa \<Rightarrow> dyn_private_key \<Rightarrow> bytes \<Rightarrow> signature_opts option
     \<Rightarrow> (bytes, crypto_error) outcome" where
  "dil_dyn_sign D sk message opts =
     (if has_context opts then Panics [Str ERR_CONTEXT_NOT_SUPPORTED]
      else and_then (expect [Str ''marshal ML-DSA SK''] (sk_marshal sk))
        (\<lambda>b. and_then (expect [Str ERR_TYPE_MISMATCH] (dil_sk_from_bytes D b))
          (\<lambda>k. dil_sign_internal D k message)))"

definition dil_dyn_verify ::
  "('vk, 'sk, 'sig) ml_dsa \<Rightarrow> dyn_public_key \<Rightarrow> bytes \<Rightarrow> bytes \<Rightarrow> signature_opts option
     \<Rightarrow> (bool, crypto_error) outcome" where
  "dil_dyn_verify D pk message signature opts =
     (if has_context opts then Ok False
      else case pk_marshal pk of
        Inl (Panic m) \<Rightarrow> Panics m
      | Inl (Err e) \<Rightarrow> Ok False
      | Inr b \<Rightarrow> (case dil_pk_try_from D b of
            Inl (Panic m) \<Rightarrow> Panics m
          | Inl (Err e) \<Rightarrow> Ok False
          | Inr v \<Rightarrow> is_ok (dil_verify_internal D v message signature)))"

definition dil_scheme ::
  "('vk, 'sk, 'sig) ml_dsa \<Rightarrow> ('r \<Rightarrow> nat \<Rightarrow> string + bytes) \<Rightarrow> 'r scheme" where
  "dil_scheme D getrandom =
     \<lparr>sch_name = ''ML-DSA-87'',
      sch_generate_key = (\<lambda>r. and_then
         (map_err dil_into (dil_generate_key D (getrandom r DIL_SEED_SIZE)))
         (\<lambda>(pk, sk). Ok (dil_dyn_pk D pk, dil_dyn_sk D sk))),
      sch_derive_key = dil_dyn_derive_key D,
      sch_sign = (\<lambda>r. dil_dyn_sign D),
      sch_verify = dil_dyn_verify D,
      sch_unmarshal_public = (\<lambda>buf. map_err dil_into
         (and_then (dil_pk_from_bytes D buf) (\<lambda>k. Ok (dil_dyn_pk D k)))),
      sch_unmarshal_private = (\<lambda>buf. map_err dil_into
         (and_then (dil_sk_from_bytes D buf) (\<lambda>k. Ok (dil_dyn_sk D k)))),
      sch_public_key_size = DIL_PUBLIC_KEY_SIZE,
      sch_private_key_size = DIL_PRIVATE_KEY_SIZE,
      sch_signature_size = DIL_SIGNATURE_SIZE,
      sch_seed_size = DIL_SEED_SIZE,
      sch_supports_context = False,
      sch_supports_priv_key_unmarshal = True\<rparr>"

text \<open>The \<^verbatim>\<open>TypedScheme\<close> methods.\<close>

definition dil_generate_key_typed ::
  "('vk, 'sk, 'sig) ml_dsa \<Rightarrow> string + bytes
     \<Rightarrow> ('vk \<times> ('vk, 'sk) dil_private_key, crypto_error) outcome" where
  "dil_generate_key_typed D entropy = map_err dil_into (dil_generate_key D entropy)"

definition dil_derive_key_typed ::
  "('vk, 'sk, 'sig) ml_dsa \<Rightarrow> bytes \<Rightarrow> ('vk \<times> ('vk, 'sk) dil_private_key, 'e) outcome" where
  "dil_derive_key_typed D seed =
     (if length seed \<noteq> DIL_SEED_SIZE then Panics [Str ERR_SEED_SIZE]
      else and_then (copy_from_slice DIL_SEED_SIZE seed) (\<lambda>s. dil_new_key_from_seed D s))"

definition dil_sign_typed ::
  "('vk, 'sk, 'sig) ml_dsa \<Rightarrow> ('vk, 'sk) dil_private_key \<Rightarrow> bytes \<Rightarrow> signature_opts option
     \<Rightarrow> (bytes, 'e) outcome" where
  "dil_sign_typed D k msg opts =
     (if has_context opts then Panics [Str ERR_CONTEXT_NOT_SUPPORTED]
      else dil_sign_internal D k msg)"

definition dil_verify_typed ::
  "('vk, 'sk, 'sig) ml_dsa \<Rightarrow> 'vk \<Rightarrow> bytes \<Rightarrow> bytes \<Rightarrow> signature_opts option
     \<Rightarrow> (bool, 'e) outcome" where
  "dil_verify_typed D v msg sig opts = is_ok (dil_verify_internal D v msg sig)"

definition dil_unmarshal_public_key_typed ::
  "('vk, 'sk, 'sig) ml_dsa \<Rightarrow> bytes \<Rightarrow> ('vk, crypto_error) outcome" where
  "dil_unmarshal_public_key_typed D buf = map_err dil_into (dil_pk_from_bytes D buf)"

definition dil_unmarshal_private_key_typed ::
  "('vk, 'sk, 'sig) ml_dsa \<Rightarrow> bytes \<Rightarrow> (('vk, 'sk) dil_private_key, crypto_error) outcome" where
  "dil_unmarshal_private_key_typed D buf = map_err dil_into (dil_sk_from_bytes D buf)"

section \<open>Keys and signatures\<close>

lemmas dil_defs =
  dil_pk_pack_def dil_pk_to_vec_def dil_pk_from_bytes_def dil_pk_unpack_def
  dil_verify_internal_def seed_from_slice_def dil_sk_pack_def dil_seed_bytes_def
  dil_sign_internal_def dil_sk_from_bytes_def dil_from_seed_def dil_new_key_from_seed_def

lemma dil_pk_from_bytes_iff:
  assumes "ml_dsa_laws D"
  shows "dil_pk_from_bytes D b =
    (if length b = 2592 then Ok (d_decode_vk D b)
     else Error (InvalidSize 2592 (length b) ''public key''))"
  by (simp add: dil_defs size_consts ml_dsa_lawsD [OF assms])

lemma dil_sk_from_bytes_iff:
  assumes "ml_dsa_laws D"
  shows "dil_sk_from_bytes D b =
    (if length b = 32
     then Ok \<lparr>dsk_inner = d_from_seed D b, dsk_public = d_verifying_key D (d_from_seed D b)\<rparr>
     else Error (InvalidSize 32 (length b) ''seed''))"
  by (simp add: dil_defs size_consts ml_dsa_lawsD [OF assms] Let_def)

lemma dil_from_seed_eq:
  assumes "ml_dsa_laws D" and "length xi = 32"
  shows "dil_from_seed D xi = Ok (d_verifying_key D (d_from_seed D xi),
     \<lparr>dsk_inner = d_from_seed D xi, dsk_public = d_verifying_key D (d_from_seed D xi)\<rparr>)"
  by (simp add: dil_from_seed_def dil_sk_from_bytes_iff [OF assms(1)] assms(2))

lemma dil_seed_bytes_Ok:
  assumes "ml_dsa_laws D"
  shows "dil_seed_bytes D k = Ok (d_to_seed D (dsk_inner k))"
  by (simp add: dil_defs size_consts ml_dsa_lawsD [OF assms])

lemma dil_sign_verify_inner:
  assumes "ml_dsa_laws D"
  shows "\<exists>sig. dil_sign_internal D k msg = Ok sig \<and> length sig = 4627 \<and>
    dil_verify_internal D (d_verifying_key D (dsk_inner k)) msg sig = Ok ()"
proof -
  obtain g where g: "d_try_sign D (dsk_inner k) msg = Inr g"
    using ml_dsa_lawsD(9) [OF assms] by blast
  then have "d_verify_with_context D (d_verifying_key D (dsk_inner k)) msg [] g"
    by (rule ml_dsa_lawsD(10) [OF assms])
  with g show ?thesis
    by (simp add: dil_sign_internal_def dil_verify_internal_def size_consts
        ml_dsa_lawsD [OF assms])
qed

lemma dil_verify_size:
  "dil_verify_internal D v msg sig = Ok () \<Longrightarrow> length sig = 4627"
  by (auto simp: dil_verify_internal_def size_consts split: if_splits)

lemma dil_verify_panic_free [no_panic]: "panic_free (dil_verify_internal D v msg sig)"
  by (auto simp: dil_verify_internal_def)

lemma dil_pk_from_bytes_panic_free [no_panic]: "panic_free (dil_pk_from_bytes D b)"
  by (auto simp: dil_pk_from_bytes_def)

lemma dil_sk_from_bytes_panic_free [no_panic]: "panic_free (dil_sk_from_bytes D b)"
  by (auto simp: dil_sk_from_bytes_def seed_from_slice_def Let_def)

section \<open>The algorithm as a leg of the composite scheme\<close>

text \<open>
  What the composite code does with this backend: parse the stored seed and sign, parse
  the serialised key and verify.  The keys belong together when the public bytes are
  those of the key pair the seed expands to.
\<close>

definition dil_leg_pair :: "('vk, 'sk, 'sig) ml_dsa \<Rightarrow> bytes \<Rightarrow> bytes \<Rightarrow> bool" where
  "dil_leg_pair D pk sk \<longleftrightarrow>
     length sk = 32 \<and> pk = d_encode_vk D (d_verifying_key D (d_from_seed D sk))"

definition dil_leg_sign ::
  "('vk, 'sk, 'sig) ml_dsa \<Rightarrow> 'r \<Rightarrow> bytes \<Rightarrow> bytes \<Rightarrow> (bytes, crypto_error) outcome" where
  "dil_leg_sign D r sk msg =
     and_then (map_err (\<lambda>e. sig_error_of ''ML-DSA-87 key parse failed: '' (dil_display e))
         (dil_sk_from_bytes D sk))
       (\<lambda>k. dil_sign_internal D k msg)"

definition dil_leg_verify ::
  "('vk, 'sk, 'sig) ml_dsa \<Rightarrow> bytes \<Rightarrow> bytes \<Rightarrow> bytes \<Rightarrow> (unit, crypto_error) outcome" where
  "dil_leg_verify D pk msg sig =
     and_then (map_err (\<lambda>e. sig_error_of ''ML-DSA-87 public key parse error: '' (dil_display e))
         (dil_pk_from_bytes D pk))
       (\<lambda>v. map_err (\<lambda>e. sig_error_of ''ML-DSA-87 verification failed: '' (dil_display e))
         (dil_verify_internal D v msg sig))"

interpretation dil_leg: signature_leg ml_dsa_laws dil_leg_pair dil_leg_sign dil_leg_verify
  2592 32 4627
proof unfold_locales
  fix D :: "('vk, 'sk, 'sig) ml_dsa" and pk sk :: bytes and r :: 'r and m sig :: bytes
  assume ok: "ml_dsa_laws D"
  { assume p: "dil_leg_pair D pk sk"
    show "length pk = 2592 \<and> length sk = 32"
      using p by (simp add: dil_leg_pair_def ml_dsa_lawsD [OF ok])
    show "\<exists>sig. dil_leg_sign D r sk m = Ok sig \<and> length sig = 4627
        \<and> dil_leg_verify D pk m sig = Ok ()"
      using p dil_sign_verify_inner [OF ok, of
          "\<lparr>dsk_inner = d_from_seed D sk, dsk_public = d_verifying_key D (d_from_seed D sk)\<rparr>" m]
      by (auto simp: dil_leg_pair_def dil_leg_sign_def dil_leg_verify_def
          dil_sk_from_bytes_iff [OF ok] dil_pk_from_bytes_iff [OF ok] ml_dsa_lawsD [OF ok]) }
  { assume "dil_leg_verify D pk m sig = Ok ()"
    then show "length sig = 4627"
      by (auto simp: dil_leg_verify_def dest: dil_verify_size) }
  show "panic_free (dil_leg_verify D pk m sig)"
    unfolding dil_leg_verify_def
    by (intro panic_free_and_then)
      (simp_all add: dil_pk_from_bytes_panic_free dil_verify_panic_free)
qed

section \<open>The scheme keeps the contract of the trait\<close>

definition dil_scheme_ok ::
  "('vk, 'sk, 'sig) ml_dsa \<times> ('r \<Rightarrow> nat \<Rightarrow> string + bytes) \<Rightarrow> bool" where
  "dil_scheme_ok c \<longleftrightarrow> ml_dsa_laws (fst c)"

definition dil_scheme_of ::
  "('vk, 'sk, 'sig) ml_dsa \<times> ('r \<Rightarrow> nat \<Rightarrow> string + bytes) \<Rightarrow> 'r scheme" where
  "dil_scheme_of c = dil_scheme (fst c) (snd c)"

lemmas dil_scheme_defs = dil_scheme_of_def dil_scheme_def dil_scheme_ok_def

lemma dil_dyn_verify_Ok:
  "panic_free (pk_marshal pk) \<Longrightarrow> \<exists>b. dil_dyn_verify D pk m sig opts = Ok b"
  unfolding dil_dyn_verify_def
  by (auto simp: dil_pk_try_from_def dil_pk_from_bytes_panic_free dil_verify_panic_free
      intro!: case_false_total is_ok_total)

lemma dil_dyn_verify_True:
  "dil_dyn_verify D pk m sig opts = Ok True \<longleftrightarrow>
    \<not> has_context opts \<and> (\<exists>b v. pk_marshal pk = Ok b \<and> dil_pk_from_bytes D b = Ok v \<and>
      dil_verify_internal D v m sig = Ok ())"
  by (auto simp: dil_dyn_verify_def dil_pk_try_from_def split: sum.splits failure.splits)

lemma dil_derived:
  assumes "ml_dsa_laws D" and "dil_dyn_derive_key D seed = Ok (pk, sk)"
  shows "length seed = 32"
    and "pk = \<lparr>pk_scheme = ML_DSA_87, pk_marshal = Ok (d_encode_vk D (d_verifying_key D (d_from_seed D seed)))\<rparr>"
    and "sk = \<lparr>sk_scheme = ML_DSA_87, sk_marshal = Ok seed,
      sk_public_bytes = d_encode_vk D (d_verifying_key D (d_from_seed D seed))\<rparr>"
proof -
  show l: "length seed = 32"
    using assms(2) by (simp add: dil_dyn_derive_key_def size_consts split: if_splits)
  then show "pk = \<lparr>pk_scheme = ML_DSA_87, pk_marshal = Ok (d_encode_vk D (d_verifying_key D (d_from_seed D seed)))\<rparr>"
    and "sk = \<lparr>sk_scheme = ML_DSA_87, sk_marshal = Ok seed,
      sk_public_bytes = d_encode_vk D (d_verifying_key D (d_from_seed D seed))\<rparr>"
    using assms(2) by (auto simp: dil_dyn_derive_key_def size_consts dil_new_key_from_seed_def
        dil_from_seed_eq [OF assms(1)] dil_dyn_pk_def dil_dyn_sk_def dil_pk_to_vec_def
        dil_seed_bytes_Ok [OF assms(1)] ml_dsa_lawsD [OF assms(1)])
qed

interpretation dil_contract: scheme_contract dil_scheme_ok dil_scheme_of
proof unfold_locales
  fix c :: "('vk, 'sk, 'sig) ml_dsa \<times> ('r \<Rightarrow> nat \<Rightarrow> string + bytes)"
    and seed m sig :: bytes and pk sk opts and r :: 'r
  assume "dil_scheme_ok c"
  then have L: "ml_dsa_laws (fst c)" by (simp add: dil_scheme_ok_def)
  show "length seed \<noteq> sch_seed_size (dil_scheme_of c) \<Longrightarrow>
      \<not> panic_free (sch_derive_key (dil_scheme_of c) seed)"
    by (simp add: dil_scheme_defs dil_dyn_derive_key_def)
  show "panic_free (pk_marshal pk) \<Longrightarrow> \<exists>b. sch_verify (dil_scheme_of c) pk m sig opts = Ok b"
    by (simp add: dil_scheme_defs dil_dyn_verify_Ok)
  show "sch_verify (dil_scheme_of c) pk m sig opts = Ok True \<Longrightarrow>
      length sig = sch_signature_size (dil_scheme_of c)"
    by (auto simp: dil_scheme_defs dil_dyn_verify_True size_consts dest: dil_verify_size)
  show "has_context opts \<Longrightarrow> \<not> panic_free (sch_sign (dil_scheme_of c) r sk m opts) \<and>
      sch_verify (dil_scheme_of c) pk m sig opts = Ok False"
    by (simp add: dil_scheme_defs dil_dyn_sign_def dil_dyn_verify_def)
  assume "sch_derive_key (dil_scheme_of c) seed = Ok (pk, sk)"
  then have d: "dil_dyn_derive_key (fst c) seed = Ok (pk, sk)" by (simp add: dil_scheme_defs)
  note k = dil_derived [OF L d]
  let ?k = "\<lparr>dsk_inner = d_from_seed (fst c) seed,
      dsk_public = d_verifying_key (fst c) (d_from_seed (fst c) seed)\<rparr>"
  show "\<exists>pb sb. pk_marshal pk = Ok pb \<and> length pb = sch_public_key_size (dil_scheme_of c) \<and>
        sk_marshal sk = Ok sb \<and> length sb = sch_private_key_size (dil_scheme_of c) \<and>
        sk_public_bytes sk = pb \<and> sch_unmarshal_public (dil_scheme_of c) pb = Ok pk \<and>
        sch_unmarshal_private (dil_scheme_of c) sb = Ok sk"
    using k by (simp add: dil_scheme_defs size_consts dil_pk_from_bytes_iff [OF L]
        dil_sk_from_bytes_iff [OF L] dil_dyn_pk_def dil_dyn_sk_def dil_pk_to_vec_def
        dil_seed_bytes_Ok [OF L] ml_dsa_lawsD [OF L])
  show "\<not> has_context opts \<Longrightarrow> \<exists>sig. sch_sign (dil_scheme_of c) r sk m opts = Ok sig \<and>
      length sig = sch_signature_size (dil_scheme_of c) \<and>
      sch_verify (dil_scheme_of c) pk m sig opts = Ok True"
    using k dil_sign_verify_inner [OF L, of ?k m]
    by (auto simp: dil_scheme_defs size_consts dil_dyn_sign_def dil_dyn_verify_True
        dil_sk_from_bytes_iff [OF L] dil_pk_from_bytes_iff [OF L] ml_dsa_lawsD [OF L])
qed

end
