(* ===== verification/P521.thy ===== *)
theory P521
  imports Sign Hashes
begin

text \<open>
  \<^verbatim>\<open>src/mdecc/p521.rs\<close>: the P-521 ECDSA backend.  The \<^verbatim>\<open>p521\<close> and \<^verbatim>\<open>ecdsa\<close> crates are
  the parameter \<open>P :: ('vk, 'sk, 'sig, 'r) p521\<close>, where \<open>'r\<close> is the operating system's
  randomness that key generation and (randomised) signing draw.  Key derivation hashes with
  the \<open>sha512\<close> of a \<open>hashes\<close> record and retries with a counter.
\<close>

section \<open>The p521 and ecdsa crates\<close>

record ('vk, 'sk, 'sig, 'r) p521 =
  p_vk_from_sec1_bytes :: "bytes \<Rightarrow> string + 'vk"
  p_vk_uncompressed :: "'vk \<Rightarrow> bytes"
  p_vk_of :: "'sk \<Rightarrow> 'vk"
  p_verify :: "'vk \<Rightarrow> bytes \<Rightarrow> 'sig \<Rightarrow> string + unit"
  p_sig_from_slice :: "bytes \<Rightarrow> string + 'sig"
  p_sig_to_bytes :: "'sig \<Rightarrow> bytes"
  p_normalize_s :: "'sig \<Rightarrow> 'sig option"
  p_sk_from_slice :: "bytes \<Rightarrow> string + 'sk"
  p_sk_to_bytes :: "'sk \<Rightarrow> bytes"
  p_sk_random :: "'r \<Rightarrow> 'sk"
  p_sign :: "'r \<Rightarrow> 'sk \<Rightarrow> bytes \<Rightarrow> 'sig"

text \<open>
  Encodings have their SEC1 sizes and decode to what was encoded (for a signing key: one that
  was parsed or drawn); a signature is decoded
  from exactly its fixed-width encoding; \<open>normalize_s\<close> returns a signature only for a
  high-S one, and then its low-S twin, which verifies for exactly the same messages; what
  is signed verifies; a 66-byte scalar that is not zero and below \<open>2 ^ 512\<close> (and so below
  the group order) is a valid key, the zero scalar is not.
\<close>

definition p521_laws :: "('vk, 'sk, 'sig, 'r) p521 \<Rightarrow> bool" where
  "p521_laws P \<longleftrightarrow>
     (\<forall>v. length (p_vk_uncompressed P v) = 133 \<and>
          p_vk_from_sec1_bytes P (p_vk_uncompressed P v) = Inr v) \<and>
     (\<forall>g. length (p_sig_to_bytes P g) = 132 \<and> p_sig_from_slice P (p_sig_to_bytes P g) = Inr g) \<and>
     (\<forall>b g. p_sig_from_slice P b = Inr g \<longrightarrow> p_sig_to_bytes P g = b) \<and>
     (\<forall>g g'. p_normalize_s P g = Some g' \<longrightarrow> p_normalize_s P g' = None \<and> g' \<noteq> g \<and>
        (\<forall>v m. p_verify P v m g' = Inr () \<longleftrightarrow> p_verify P v m g = Inr ())) \<and>
     (\<forall>r k m. p_verify P (p_vk_of P k) m (p_sign P r k m) = Inr ()) \<and>
     (\<forall>b k. p_sk_from_slice P b = Inr k \<longrightarrow>
        length (p_sk_to_bytes P k) = 66 \<and> p_sk_from_slice P (p_sk_to_bytes P k) = Inr k) \<and>
     (\<forall>r. length (p_sk_to_bytes P (p_sk_random P r)) = 66 \<and>
        p_sk_from_slice P (p_sk_to_bytes P (p_sk_random P r)) = Inr (p_sk_random P r)) \<and>
     (\<forall>b k. length b = 66 \<longrightarrow> p_sk_from_slice P b = Inr k \<longrightarrow> p_sk_to_bytes P k = b) \<and>
     (\<forall>b. length b = 66 \<longrightarrow> 0 < be_nat b \<longrightarrow> be_nat b < 2 ^ 512 \<longrightarrow>
        (\<exists>k. p_sk_from_slice P b = Inr k)) \<and>
     (\<forall>b. be_nat b = 0 \<longrightarrow> (\<exists>e. p_sk_from_slice P b = Inl e))"

lemma p521_lawsD [crate_laws]:
  assumes "p521_laws P"
  shows "length (p_vk_uncompressed P v) = 133"
    and "p_vk_from_sec1_bytes P (p_vk_uncompressed P v) = Inr v"
    and "length (p_sig_to_bytes P g) = 132" "p_sig_from_slice P (p_sig_to_bytes P g) = Inr g"
    and "p_sig_from_slice P b = Inr g \<Longrightarrow> p_sig_to_bytes P g = b"
    and "p_normalize_s P g = Some g' \<Longrightarrow> p_normalize_s P g' = None"
    and "p_normalize_s P g = Some g' \<Longrightarrow> g' \<noteq> g"
    and "p_normalize_s P g = Some g' \<Longrightarrow>
           p_verify P v m g' = Inr () \<longleftrightarrow> p_verify P v m g = Inr ()"
    and "p_verify P (p_vk_of P k) m (p_sign P r k m) = Inr ()"
    and "p_sk_from_slice P b = Inr k \<Longrightarrow> length (p_sk_to_bytes P k) = 66"
    and "p_sk_from_slice P b = Inr k \<Longrightarrow> p_sk_from_slice P (p_sk_to_bytes P k) = Inr k"
    and "length (p_sk_to_bytes P (p_sk_random P r)) = 66"
    and "p_sk_from_slice P (p_sk_to_bytes P (p_sk_random P r)) = Inr (p_sk_random P r)"
    and "length b = 66 \<Longrightarrow> p_sk_from_slice P b = Inr k \<Longrightarrow> p_sk_to_bytes P k = b"
    and "length b = 66 \<Longrightarrow> 0 < be_nat b \<Longrightarrow> be_nat b < 2 ^ 512 \<Longrightarrow>
           \<exists>k. p_sk_from_slice P b = Inr k"
    and "be_nat b = 0 \<Longrightarrow> \<exists>e. p_sk_from_slice P b = Inl e"
  using assms unfolding p521_laws_def by (elim conjE, simp; fail)+

section \<open>Constants\<close>

definition P521_PRIVATE_KEY_SIZE :: nat where [size_consts]: "P521_PRIVATE_KEY_SIZE = 66"
definition P521_PUBLIC_KEY_SIZE :: nat where [size_consts]: "P521_PUBLIC_KEY_SIZE = 133"
definition P521_SIGNATURE_SIZE :: nat where [size_consts]: "P521_SIGNATURE_SIZE = 132"
definition P521_SEED_SIZE :: nat where [size_consts]: "P521_SEED_SIZE = P521_PRIVATE_KEY_SIZE"

section \<open>Public keys\<close>

definition p521_pk_as_bytes :: "('vk, 'sk, 'sig, 'r) p521 \<Rightarrow> 'vk \<Rightarrow> bytes" where
  "p521_pk_as_bytes P v = p_vk_uncompressed P v"

definition p521_pk_from_bytes ::
  "('vk, 'sk, 'sig, 'r) p521 \<Rightarrow> bytes \<Rightarrow> ('vk, crypto_error) outcome" where
  "p521_pk_from_bytes P b = of_result curve_error_ext (p_vk_from_sec1_bytes P b)"

definition p521_verify_sig ::
  "('vk, 'sk, 'sig, 'r) p521 \<Rightarrow> 'vk \<Rightarrow> bytes \<Rightarrow> bytes \<Rightarrow> (unit, crypto_error) outcome" where
  "p521_verify_sig P v msg signature =
     and_then (of_result sig_error_ext (p_sig_from_slice P signature))
       (\<lambda>sig. if p_normalize_s P sig \<noteq> None
              then Error (SignatureError [Str ''non-canonical high-S P-521 signature rejected''])
              else of_result sig_error_ext (p_verify P v msg sig))"

definition p521_pk_eq :: "('vk, 'sk, 'sig, 'r) p521 \<Rightarrow> 'vk \<Rightarrow> 'vk \<Rightarrow> bool" where
  "p521_pk_eq P v w \<longleftrightarrow> ct_eq (p521_pk_as_bytes P v) (p521_pk_as_bytes P w)"

definition p521_dyn_pk :: "('vk, 'sk, 'sig, 'r) p521 \<Rightarrow> 'vk \<Rightarrow> dyn_public_key" where
  "p521_dyn_pk P v = \<lparr>pk_scheme = P_521, pk_marshal = Ok (p521_pk_as_bytes P v)\<rparr>"

definition p521_pk_equal ::
  "('vk, 'sk, 'sig, 'r) p521 \<Rightarrow> 'vk \<Rightarrow> dyn_public_key \<Rightarrow> (bool, crypto_error) outcome" where
  "p521_pk_equal P v other =
     unwrap_or False (and_then (pk_marshal other) (\<lambda>b. Ok (ct_eq b (p521_pk_as_bytes P v))))"

section \<open>Private keys\<close>

text \<open>\<open>p521_zeroize\<close> is the key that is left behind when a private key is dropped.\<close>

definition p521_zeroize :: "('vk, 'sk, 'sig, 'r) p521 \<Rightarrow> 'sk \<Rightarrow> 'sk" where
  "p521_zeroize P k =
     (let dummy = (replicate 66 0)[65 := 1]
      in case p_sk_from_slice P dummy of Inr dummy_key \<Rightarrow> dummy_key | Inl e \<Rightarrow> k)"

definition p521_sk_as_bytes :: "('vk, 'sk, 'sig, 'r) p521 \<Rightarrow> 'sk \<Rightarrow> bytes" where
  "p521_sk_as_bytes P k = p_sk_to_bytes P k"

definition p521_sk_from_bytes ::
  "('vk, 'sk, 'sig, 'r) p521 \<Rightarrow> bytes \<Rightarrow> ('sk, crypto_error) outcome" where
  "p521_sk_from_bytes P b = of_result curve_error_ext (p_sk_from_slice P b)"

definition p521_public_key_typed :: "('vk, 'sk, 'sig, 'r) p521 \<Rightarrow> 'sk \<Rightarrow> 'vk" where
  "p521_public_key_typed P k = p_vk_of P k"

definition p521_sign_msg :: "('vk, 'sk, 'sig, 'r) p521 \<Rightarrow> 'r \<Rightarrow> 'sk \<Rightarrow> bytes \<Rightarrow> bytes" where
  "p521_sign_msg P r k msg =
     (let sig = p_sign P r k msg;
          sig = (case p_normalize_s P sig of Some s \<Rightarrow> s | None \<Rightarrow> sig)
      in p_sig_to_bytes P sig)"

definition p521_sk_clone ::
  "('vk, 'sk, 'sig, 'r) p521 \<Rightarrow> 'sk \<Rightarrow> ('sk, 'e) outcome" where
  "p521_sk_clone P k =
     expect [Str ''clone of valid P521 key'']
       (of_result (\<lambda>e. e) (p_sk_from_slice P (p_sk_to_bytes P k)))"

definition p521_sk_eq :: "('vk, 'sk, 'sig, 'r) p521 \<Rightarrow> 'sk \<Rightarrow> 'sk \<Rightarrow> bool" where
  "p521_sk_eq P k k' \<longleftrightarrow> ct_eq (p521_sk_as_bytes P k) (p521_sk_as_bytes P k')"

definition p521_dyn_sk :: "('vk, 'sk, 'sig, 'r) p521 \<Rightarrow> 'sk \<Rightarrow> dyn_private_key" where
  "p521_dyn_sk P k =
     \<lparr>sk_scheme = P_521, sk_marshal = Ok (p521_sk_as_bytes P k),
      sk_public_bytes = p521_pk_as_bytes P (p521_public_key_typed P k)\<rparr>"

definition p521_sk_equal ::
  "('vk, 'sk, 'sig, 'r) p521 \<Rightarrow> 'sk \<Rightarrow> dyn_private_key \<Rightarrow> (bool, crypto_error) outcome" where
  "p521_sk_equal P k other =
     unwrap_or False (and_then (sk_marshal other) (\<lambda>b. Ok (ct_eq b (p521_sk_as_bytes P k))))"

section \<open>Key generation and derivation\<close>

definition p521_generate_key ::
  "('vk, 'sk, 'sig, 'r) p521 \<Rightarrow> 'r \<Rightarrow> ('vk \<times> 'sk, crypto_error) outcome" where
  "p521_generate_key P r = (let sk = p_sk_random P r in Ok (p_vk_of P sk, sk))"

text \<open>The scalar tried for a counter: two zero bytes, then the 64 bytes of the digest.\<close>

definition p521_candidate :: "hashes \<Rightarrow> bytes \<Rightarrow> byte \<Rightarrow> (bytes, 'e) outcome" where
  "p521_candidate H seed counter =
     and_then (copy_from_slice 64
         (sha512 H (ascii ''blackchain-p521-derive-v1'' @ seed @ [counter])))
       (\<lambda>digest. Ok (replicate 2 0 @ digest))"

text \<open>The loop over the counters that are left; it returns at the first valid scalar.\<close>

fun p521_derive_loop ::
  "('vk, 'sk, 'sig, 'r) p521 \<Rightarrow> hashes \<Rightarrow> bytes \<Rightarrow> byte list \<Rightarrow> ('vk \<times> 'sk, 'e) outcome" where
  "p521_derive_loop P H seed [] =
     Panics [Str ''derive_keypair_from_seed: no valid scalar found in 256 attempts (astronomically unlikely)'']"
| "p521_derive_loop P H seed (counter # counters) =
     and_then (p521_candidate H seed counter)
       (\<lambda>scalar_bytes. case p_sk_from_slice P scalar_bytes of
           Inr sk \<Rightarrow> Ok (p_vk_of P sk, sk)
         | Inl e \<Rightarrow> p521_derive_loop P H seed counters)"

definition p521_counters :: "byte list" where
  "p521_counters = map word_of_nat [0..<256]"

definition p521_derive_keypair_from_seed ::
  "('vk, 'sk, 'sig, 'r) p521 \<Rightarrow> hashes \<Rightarrow> bytes \<Rightarrow> ('vk \<times> 'sk, 'e) outcome" where
  "p521_derive_keypair_from_seed P H seed =
     (if length seed \<noteq> P521_SEED_SIZE
      then Panics [Str ERR_SEED_SIZE, Str ''; expected '', Num P521_SEED_SIZE, Str '', got '',
                   Num (length seed)]
      else p521_derive_loop P H seed p521_counters)"

section \<open>The scheme\<close>

definition p521_dyn_sign ::
  "('vk, 'sk, 'sig, 'r) p521 \<Rightarrow> 'r \<Rightarrow> dyn_private_key \<Rightarrow> bytes \<Rightarrow> signature_opts option
     \<Rightarrow> (bytes, crypto_error) outcome" where
  "p521_dyn_sign P r sk message opts =
     (if has_context opts then Panics [Str ERR_CONTEXT_NOT_SUPPORTED]
      else and_then (expect [Str ''marshal P521 SK''] (sk_marshal sk))
        (\<lambda>b. and_then (expect [Str ERR_TYPE_MISMATCH] (p521_sk_from_bytes P b))
          (\<lambda>k. Ok (p521_sign_msg P r k message))))"

definition p521_dyn_verify ::
  "('vk, 'sk, 'sig, 'r) p521 \<Rightarrow> dyn_public_key \<Rightarrow> bytes \<Rightarrow> bytes \<Rightarrow> signature_opts option
     \<Rightarrow> (bool, crypto_error) outcome" where
  "p521_dyn_verify P pk message signature opts =
     (if has_context opts then Ok False
      else case pk_marshal pk of
        Inl (Panic m) \<Rightarrow> Panics m
      | Inl (Err e) \<Rightarrow> Ok False
      | Inr b \<Rightarrow> (case p521_pk_from_bytes P b of
            Inl (Panic m) \<Rightarrow> Panics m
          | Inl (Err e) \<Rightarrow> Ok False
          | Inr v \<Rightarrow> is_ok (p521_verify_sig P v message signature)))"

definition p521_scheme :: "('vk, 'sk, 'sig, 'r) p521 \<Rightarrow> hashes \<Rightarrow> 'r scheme" where
  "p521_scheme P H =
     \<lparr>sch_name = ''P-521'',
      sch_generate_key = (\<lambda>r. and_then (p521_generate_key P r)
         (\<lambda>(pk, sk). Ok (p521_dyn_pk P pk, p521_dyn_sk P sk))),
      sch_derive_key = (\<lambda>seed. and_then (p521_derive_keypair_from_seed P H seed)
         (\<lambda>(pk, sk). Ok (p521_dyn_pk P pk, p521_dyn_sk P sk))),
      sch_sign = p521_dyn_sign P,
      sch_verify = p521_dyn_verify P,
      sch_unmarshal_public = (\<lambda>buf. and_then (p521_pk_from_bytes P buf)
         (\<lambda>k. Ok (p521_dyn_pk P k))),
      sch_unmarshal_private = (\<lambda>buf. and_then (p521_sk_from_bytes P buf)
         (\<lambda>k. Ok (p521_dyn_sk P k))),
      sch_public_key_size = P521_PUBLIC_KEY_SIZE,
      sch_private_key_size = P521_PRIVATE_KEY_SIZE,
      sch_signature_size = P521_SIGNATURE_SIZE,
      sch_seed_size = P521_SEED_SIZE,
      sch_supports_context = False,
      sch_supports_priv_key_unmarshal = default_supports_priv_key_unmarshal\<rparr>"

text \<open>The \<^verbatim>\<open>TypedScheme\<close> methods.\<close>

definition p521_generate_key_typed ::
  "('vk, 'sk, 'sig, 'r) p521 \<Rightarrow> 'r \<Rightarrow> ('vk \<times> 'sk, crypto_error) outcome" where
  "p521_generate_key_typed P r = p521_generate_key P r"

definition p521_derive_key_typed ::
  "('vk, 'sk, 'sig, 'r) p521 \<Rightarrow> hashes \<Rightarrow> bytes \<Rightarrow> ('vk \<times> 'sk, 'e) outcome" where
  "p521_derive_key_typed P H seed = p521_derive_keypair_from_seed P H seed"

definition p521_sign_typed ::
  "('vk, 'sk, 'sig, 'r) p521 \<Rightarrow> 'r \<Rightarrow> 'sk \<Rightarrow> bytes \<Rightarrow> signature_opts option \<Rightarrow> (bytes, 'e) outcome"
where
  "p521_sign_typed P r k msg opts =
     (if has_context opts then Panics [Str ERR_CONTEXT_NOT_SUPPORTED]
      else Ok (p521_sign_msg P r k msg))"

definition p521_verify_typed ::
  "('vk, 'sk, 'sig, 'r) p521 \<Rightarrow> 'vk \<Rightarrow> bytes \<Rightarrow> bytes \<Rightarrow> signature_opts option
     \<Rightarrow> (bool, 'e) outcome" where
  "p521_verify_typed P v msg sig opts = is_ok (p521_verify_sig P v msg sig)"

definition p521_unmarshal_public_key_typed ::
  "('vk, 'sk, 'sig, 'r) p521 \<Rightarrow> bytes \<Rightarrow> ('vk, crypto_error) outcome" where
  "p521_unmarshal_public_key_typed P buf = p521_pk_from_bytes P buf"

definition p521_unmarshal_private_key_typed ::
  "('vk, 'sk, 'sig, 'r) p521 \<Rightarrow> bytes \<Rightarrow> ('sk, crypto_error) outcome" where
  "p521_unmarshal_private_key_typed P buf = p521_sk_from_bytes P buf"

section \<open>Signing and verifying\<close>

lemma p521_sign_msg_low_s:
  assumes "p521_laws P"
  shows "\<exists>g. p521_sign_msg P r k m = p_sig_to_bytes P g \<and> p_normalize_s P g = None \<and>
    p_verify P (p_vk_of P k) m g = Inr ()"
proof (cases "p_normalize_s P (p_sign P r k m)")
  case None
  then show ?thesis
    using p521_lawsD(9) [OF assms] by (auto simp: p521_sign_msg_def Let_def)
next
  case (Some g)
  then have "p_normalize_s P g = None" and "p_verify P (p_vk_of P k) m g = Inr ()"
    using p521_lawsD(6,8,9) [OF assms] by blast+
  with Some show ?thesis by (auto simp: p521_sign_msg_def Let_def)
qed

lemma p521_sign_verify:
  assumes "p521_laws P"
  shows "length (p521_sign_msg P r k m) = 132"
    and "p521_verify_sig P (p_vk_of P k) m (p521_sign_msg P r k m) = Ok ()"
proof -
  obtain g where g: "p521_sign_msg P r k m = p_sig_to_bytes P g" "p_normalize_s P g = None"
      "p_verify P (p_vk_of P k) m g = Inr ()"
    using p521_sign_msg_low_s [OF assms] by blast
  then show "length (p521_sign_msg P r k m) = 132"
    by (simp add: p521_lawsD(3) [OF assms])
  show "p521_verify_sig P (p_vk_of P k) m (p521_sign_msg P r k m) = Ok ()"
    using g by (simp add: p521_verify_sig_def p521_lawsD(4) [OF assms])
qed

lemma p521_verify_sig_iff:
  "p521_verify_sig P v m sig = Ok () \<longleftrightarrow>
    (\<exists>g. p_sig_from_slice P sig = Inr g \<and> p_normalize_s P g = None \<and> p_verify P v m g = Inr ())"
  by (auto simp: p521_verify_sig_def split: if_splits)

lemma p521_verify_size:
  assumes "p521_laws P" and "p521_verify_sig P v m sig = Ok ()"
  shows "length sig = 132"
  using assms p521_lawsD(3,5) [OF assms(1)] by (auto simp: p521_verify_sig_iff)

lemma p521_verify_panic_free [no_panic]: "panic_free (p521_verify_sig P v m sig)"
  by (auto simp: p521_verify_sig_def)

lemma p521_pk_from_bytes_panic_free [no_panic]: "panic_free (p521_pk_from_bytes P b)"
  by (simp add: p521_pk_from_bytes_def)

lemma p521_sk_from_bytes_panic_free [no_panic]: "panic_free (p521_sk_from_bytes P b)"
  by (simp add: p521_sk_from_bytes_def)

section \<open>Key derivation\<close>

definition p521_digest :: "hashes \<Rightarrow> bytes \<Rightarrow> byte \<Rightarrow> bytes" where
  "p521_digest H seed c = sha512 H (ascii ''blackchain-p521-derive-v1'' @ seed @ [c])"

definition p521_scalar :: "hashes \<Rightarrow> bytes \<Rightarrow> byte \<Rightarrow> bytes" where
  "p521_scalar H seed c = replicate 2 0 @ p521_digest H seed c"

lemma p521_candidate_Ok:
  assumes "hash_laws H"
  shows "p521_candidate H seed c = Ok (p521_scalar H seed c)"
  using hash_lawsD(3) [OF assms] by (simp add: p521_candidate_def p521_scalar_def p521_digest_def)

lemma p521_scalar_value:
  assumes "hash_laws H"
  shows "length (p521_scalar H seed c) = 66" and "be_nat (p521_scalar H seed c) < 2 ^ 512"
    and "be_nat (p521_scalar H seed c) = 0 \<longleftrightarrow> (\<forall>b\<in>set (p521_digest H seed c). b = 0)"
proof -
  have l: "length (p521_digest H seed c) = 64"
    using hash_lawsD(3) [OF assms] by (simp add: p521_digest_def)
  show "length (p521_scalar H seed c) = 66" using l by (simp add: p521_scalar_def)
  have v: "be_nat (p521_scalar H seed c) = be_nat (p521_digest H seed c)"
    unfolding p521_scalar_def by (rule be_nat_replicate_zero_append)
  show "be_nat (p521_scalar H seed c) < 2 ^ 512"
    using be_nat_less [of "p521_digest H seed c"] l v by simp
  show "be_nat (p521_scalar H seed c) = 0 \<longleftrightarrow> (\<forall>b\<in>set (p521_digest H seed c). b = 0)"
    unfolding v by (simp add: be_nat_def le_nat_zero_iff)
qed

lemma p521_scalar_valid_iff:
  assumes "hash_laws H" and "p521_laws P"
  shows "(\<exists>k. p_sk_from_slice P (p521_scalar H seed c) = Inr k) \<longleftrightarrow>
    (\<exists>b\<in>set (p521_digest H seed c). b \<noteq> 0)"
  using p521_scalar_value [OF assms(1), of seed c] p521_lawsD(15,16) [OF assms(2)]
  by (metis Inl_Inr_False neq0_conv)

text \<open>The reference: the first counter whose scalar the crate accepts.\<close>

definition p521_first_valid ::
  "('vk, 'sk, 'sig, 'r) p521 \<Rightarrow> hashes \<Rightarrow> bytes \<Rightarrow> byte list \<Rightarrow> byte option" where
  "p521_first_valid P H seed cs = find (\<lambda>c. \<not> isl (p_sk_from_slice P (p521_scalar H seed c))) cs"

lemma p521_derive_loop_first:
  assumes "hash_laws H"
  shows "p521_derive_loop P H seed cs =
    (case p521_first_valid P H seed cs of
       None \<Rightarrow> p521_derive_loop P H seed []
     | Some c \<Rightarrow> (let k = projr (p_sk_from_slice P (p521_scalar H seed c)) in Ok (p_vk_of P k, k)))"
proof (induction cs)
  case Nil
  then show ?case by (simp add: p521_first_valid_def)
next
  case (Cons c cs)
  then show ?case
    by (cases "p_sk_from_slice P (p521_scalar H seed c)")
      (simp_all add: p521_first_valid_def p521_candidate_Ok [OF assms])
qed

lemma set_p521_counters: "set p521_counters = UNIV"
proof -
  have "b \<in> word_of_nat ` {0..<256}" for b :: byte
  proof
    show "b = word_of_nat (unat b)" by simp
    show "unat b \<in> {0..<256}" by simp
  qed
  then show ?thesis by (auto simp: p521_counters_def)
qed

lemma p521_first_validD:
  "p521_first_valid P H seed cs = Some c \<Longrightarrow>
     c \<in> set cs \<and> (\<exists>k. p_sk_from_slice P (p521_scalar H seed c) = Inr k)"
  by (auto simp: p521_first_valid_def find_Some_iff not_isl_iff)

lemma p521_derive_size:
  assumes "p521_laws P" "hash_laws H" and "p521_derive_keypair_from_seed P H seed = Ok (pk, sk)"
  shows "pk = p_vk_of P sk" and "length (p_sk_to_bytes P sk) = 66"
    and "p_sk_from_slice P (p_sk_to_bytes P sk) = Inr sk"
proof -
  obtain c where "p521_first_valid P H seed p521_counters = Some c"
      and "sk = projr (p_sk_from_slice P (p521_scalar H seed c))" and pk: "pk = p_vk_of P sk"
    using assms(3) by (auto simp: p521_derive_keypair_from_seed_def
        p521_derive_loop_first [OF assms(2)] Let_def split: if_splits option.splits)
  with p521_first_validD have k: "p_sk_from_slice P (p521_scalar H seed c) = Inr sk"
    by fastforce
  show "pk = p_vk_of P sk" by (rule pk)
  show "length (p_sk_to_bytes P sk) = 66" by (rule p521_lawsD(10) [OF assms(1) k])
  show "p_sk_from_slice P (p_sk_to_bytes P sk) = Inr sk" by (rule p521_lawsD(11) [OF assms(1) k])
qed

section \<open>The algorithm as a leg of the composite scheme\<close>

definition p521_leg_pair :: "('vk, 'sk, 'sig, 'r) p521 \<Rightarrow> bytes \<Rightarrow> bytes \<Rightarrow> bool" where
  "p521_leg_pair P pk sk \<longleftrightarrow>
     length sk = 66 \<and> (\<exists>k. p_sk_from_slice P sk = Inr k \<and> pk = p_vk_uncompressed P (p_vk_of P k))"

definition p521_leg_sign ::
  "('vk, 'sk, 'sig, 'r) p521 \<Rightarrow> 'r \<Rightarrow> bytes \<Rightarrow> bytes \<Rightarrow> (bytes, crypto_error) outcome" where
  "p521_leg_sign P r sk msg =
     and_then (p521_sk_from_bytes P sk) (\<lambda>k. Ok (p521_sign_msg P r k msg))"

definition p521_leg_verify ::
  "('vk, 'sk, 'sig, 'r) p521 \<Rightarrow> bytes \<Rightarrow> bytes \<Rightarrow> bytes \<Rightarrow> (unit, crypto_error) outcome" where
  "p521_leg_verify P pk msg sig =
     and_then (map_err (\<lambda>e. sig_error_of ''P-521 public key parse error: '' (display_crypto_error e))
         (p521_pk_from_bytes P pk))
       (\<lambda>v. map_err (\<lambda>e. sig_error_of ''P-521 verification failed: '' (display_crypto_error e))
         (p521_verify_sig P v msg sig))"

interpretation p521_leg: signature_leg p521_laws p521_leg_pair p521_leg_sign p521_leg_verify
  133 66 132
proof unfold_locales
  fix P :: "('vk, 'sk, 'sig, 'r) p521" and pk sk :: bytes and r :: 'r and m sig :: bytes
  assume ok: "p521_laws P"
  { assume p: "p521_leg_pair P pk sk"
    show "length pk = 133 \<and> length sk = 66"
      using p by (auto simp: p521_leg_pair_def p521_lawsD [OF ok])
    show "\<exists>sig. p521_leg_sign P r sk m = Ok sig \<and> length sig = 132
        \<and> p521_leg_verify P pk m sig = Ok ()"
      using p p521_lawsD(2) [OF ok] p521_sign_verify [OF ok]
      by (auto simp: p521_leg_pair_def p521_leg_sign_def p521_leg_verify_def
          p521_sk_from_bytes_def p521_pk_from_bytes_def) }
  { assume "p521_leg_verify P pk m sig = Ok ()"
    then show "length sig = 132"
      using p521_verify_size [OF ok] by (auto simp: p521_leg_verify_def) }
  show "panic_free (p521_leg_verify P pk m sig)"
    unfolding p521_leg_verify_def
    by (intro panic_free_and_then)
      (simp_all add: p521_pk_from_bytes_panic_free p521_verify_panic_free)
qed

section \<open>The scheme keeps the contract of the trait\<close>

definition p521_scheme_ok :: "('vk, 'sk, 'sig, 'r) p521 \<times> hashes \<Rightarrow> bool" where
  "p521_scheme_ok c \<longleftrightarrow> p521_laws (fst c) \<and> hash_laws (snd c)"

definition p521_scheme_of :: "('vk, 'sk, 'sig, 'r) p521 \<times> hashes \<Rightarrow> 'r scheme" where
  "p521_scheme_of c = p521_scheme (fst c) (snd c)"

lemmas p521_scheme_defs = p521_scheme_of_def p521_scheme_def p521_scheme_ok_def

lemma p521_dyn_verify_Ok:
  "panic_free (pk_marshal pk) \<Longrightarrow> \<exists>b. p521_dyn_verify P pk m sig opts = Ok b"
  unfolding p521_dyn_verify_def
  by (auto simp: p521_pk_from_bytes_panic_free p521_verify_panic_free
      intro!: case_false_total is_ok_total)

lemma p521_dyn_verify_True:
  "p521_dyn_verify P pk m sig opts = Ok True \<longleftrightarrow>
    \<not> has_context opts \<and> (\<exists>b v. pk_marshal pk = Ok b \<and> p521_pk_from_bytes P b = Ok v \<and>
      p521_verify_sig P v m sig = Ok ())"
  by (auto simp: p521_dyn_verify_def split: sum.splits failure.splits)

interpretation p521_contract: scheme_contract p521_scheme_ok p521_scheme_of
proof unfold_locales
  fix c :: "('vk, 'sk, 'sig, 'r) p521 \<times> hashes"
    and seed m sig :: bytes and pk sk opts and r :: 'r
  assume "p521_scheme_ok c"
  then have L: "p521_laws (fst c)" "hash_laws (snd c)" by (simp_all add: p521_scheme_ok_def)
  show "length seed \<noteq> sch_seed_size (p521_scheme_of c) \<Longrightarrow>
      \<not> panic_free (sch_derive_key (p521_scheme_of c) seed)"
    by (simp add: p521_scheme_defs p521_derive_keypair_from_seed_def)
  show "panic_free (pk_marshal pk) \<Longrightarrow> \<exists>b. sch_verify (p521_scheme_of c) pk m sig opts = Ok b"
    by (simp add: p521_scheme_defs p521_dyn_verify_Ok)
  show "sch_verify (p521_scheme_of c) pk m sig opts = Ok True \<Longrightarrow>
      length sig = sch_signature_size (p521_scheme_of c)"
    by (auto simp: p521_scheme_defs p521_dyn_verify_True size_consts dest: p521_verify_size [OF L(1)])
  show "has_context opts \<Longrightarrow> \<not> panic_free (sch_sign (p521_scheme_of c) r sk m opts) \<and>
      sch_verify (p521_scheme_of c) pk m sig opts = Ok False"
    by (simp add: p521_scheme_defs p521_dyn_sign_def p521_dyn_verify_def)
  assume "sch_derive_key (p521_scheme_of c) seed = Ok (pk, sk)"
  then obtain v k where d: "p521_derive_keypair_from_seed (fst c) (snd c) seed =
        (Ok (v, k) :: ('vk \<times> 'sk, crypto_error) outcome)"
      and e: "pk = p521_dyn_pk (fst c) v" "sk = p521_dyn_sk (fst c) k"
    by (auto simp: p521_scheme_defs)
  note k = p521_derive_size [OF L d]
  show "\<exists>pb sb. pk_marshal pk = Ok pb \<and> length pb = sch_public_key_size (p521_scheme_of c) \<and>
        sk_marshal sk = Ok sb \<and> length sb = sch_private_key_size (p521_scheme_of c) \<and>
        sk_public_bytes sk = pb \<and> sch_unmarshal_public (p521_scheme_of c) pb = Ok pk \<and>
        sch_unmarshal_private (p521_scheme_of c) sb = Ok sk"
    using k by (simp add: e p521_scheme_defs size_consts p521_dyn_pk_def p521_dyn_sk_def
        p521_pk_as_bytes_def p521_sk_as_bytes_def p521_public_key_typed_def
        p521_pk_from_bytes_def p521_sk_from_bytes_def p521_lawsD(1,2) [OF L(1)])
  show "\<not> has_context opts \<Longrightarrow> \<exists>sig. sch_sign (p521_scheme_of c) r sk m opts = Ok sig \<and>
      length sig = sch_signature_size (p521_scheme_of c) \<and>
      sch_verify (p521_scheme_of c) pk m sig opts = Ok True"
    using k p521_sign_verify [OF L(1)]
    by (simp add: e p521_scheme_defs size_consts p521_dyn_pk_def p521_dyn_sk_def p521_dyn_sign_def
        p521_dyn_verify_True p521_sk_from_bytes_def p521_pk_from_bytes_def p521_sk_as_bytes_def
        p521_pk_as_bytes_def p521_lawsD(2) [OF L(1)])
qed

end
