(* ===== verification/Ed448.thy ===== *)
theory Ed448
  imports Sign Hashes
begin

unbundle bit_operations_syntax

text \<open>
  \<^verbatim>\<open>src/mdecc/ed448.rs\<close>: the Ed448 backend.  Two crates are parameters:
  \<open>E :: ('esk, 'epk) ed448_rust\<close>, which derives keys and signs, and
  \<open>G :: ('pt, 'sc) goldilocks\<close>, whose curve and scalar arithmetic the code uses to check
  encodings and to verify signatures under keys that came from bytes.

  \<open>rfc8032_valid\<close> is the specification the hand-written verifier is proved to implement:
  the verification equation of RFC 8032 over the integers the encodings denote.
\<close>

section \<open>The ed448-rust and ed448-goldilocks crates\<close>

record ('esk, 'epk) ed448_rust =
  e_sk_from :: "bytes \<Rightarrow> 'esk"
  e_sk_as_bytes :: "'esk \<Rightarrow> bytes"
  e_sign :: "'esk \<Rightarrow> bytes \<Rightarrow> bytes option \<Rightarrow> string + bytes"
  e_sign_ph :: "'esk \<Rightarrow> bytes \<Rightarrow> bytes option \<Rightarrow> string + bytes"
  e_pk_from :: "'esk \<Rightarrow> 'epk"
  e_pk_as_byte :: "'epk \<Rightarrow> bytes"
  e_verify :: "'epk \<Rightarrow> bytes \<Rightarrow> bytes \<Rightarrow> bytes option \<Rightarrow> string + unit"
  e_verify_ph :: "'epk \<Rightarrow> bytes \<Rightarrow> bytes \<Rightarrow> bytes option \<Rightarrow> string + unit"

record ('pt, 'sc) goldilocks =
  g_decompress :: "bytes \<Rightarrow> 'pt option"
  g_identity :: 'pt
  g_generator :: 'pt
  g_double :: "'pt \<Rightarrow> 'pt"
  g_add :: "'pt \<Rightarrow> 'pt \<Rightarrow> 'pt"
  g_negate :: "'pt \<Rightarrow> 'pt"
  g_scalar_mul :: "'pt \<Rightarrow> 'sc \<Rightarrow> 'pt"
  g_point_eq :: "'pt \<Rightarrow> 'pt \<Rightarrow> bool"
  g_from_canonical_bytes :: "bytes \<Rightarrow> 'sc option"
  g_scalar_zero :: 'sc
  g_scalar_from_u32 :: "32 word \<Rightarrow> 'sc"
  g_scalar_times :: "'sc \<Rightarrow> 'sc \<Rightarrow> 'sc"
  g_scalar_plus :: "'sc \<Rightarrow> 'sc \<Rightarrow> 'sc"

section \<open>Constants\<close>

definition ED448_SEED_SIZE :: nat where [size_consts]: "ED448_SEED_SIZE = 57"
definition ED448_PUBLIC_KEY_SIZE :: nat where [size_consts]: "ED448_PUBLIC_KEY_SIZE = 57"
definition ED448_PRIVATE_KEY_SIZE :: nat where [size_consts]: "ED448_PRIVATE_KEY_SIZE = 57"
definition ED448_SIGNATURE_SIZE :: nat where [size_consts]: "ED448_SIGNATURE_SIZE = 114"
definition PREHASH_CONTEXT :: rstr where "PREHASH_CONTEXT = lit ''PREHASHED''"

definition FIELD_PRIME_LE :: bytes where
  "FIELD_PRIME_LE = (replicate 56 0xff)[28 := 0xfe]"

section \<open>Canonical point decoding\<close>

text \<open>
  The comparison loop of \<^verbatim>\<open>decode_canonical_point\<close>, over the indices that are left: it
  stops at the first byte that differs from the prime's.
\<close>

fun y_lt_p_loop :: "bytes \<Rightarrow> nat list \<Rightarrow> bool" where
  "y_lt_p_loop raw [] = False"
| "y_lt_p_loop raw (i # is) =
     (if raw ! i < FIELD_PRIME_LE ! i then True
      else if FIELD_PRIME_LE ! i < raw ! i then False
      else y_lt_p_loop raw is)"

definition decode_canonical_point ::
  "('pt, 'sc) goldilocks \<Rightarrow> bytes \<Rightarrow> ('pt, crypto_error) outcome" where
  "decode_canonical_point G raw =
     (if raw ! 56 AND 0x7f \<noteq> 0
      then Error (CurveError [Str ''non-canonical Ed448 point: unused bits set in final byte''])
      else if \<not> y_lt_p_loop raw (rev [0..<56])
      then Error (CurveError [Str ''non-canonical Ed448 point: y-coordinate >= field prime''])
      else and_then (ok_or (CurveError [Str ''invalid Ed448 curve point'']) (g_decompress G raw))
        (\<lambda>point.
          if g_point_eq G (g_double G (g_double G point)) (g_identity G)
          then Error (CurveError [Str ''small-order Ed448 point rejected (identity or torsion)''])
          else Ok point))"

section \<open>Signing modes\<close>

datatype signing_mode = Mode_Ed448 | Mode_Ed448Ph

definition mode_from_opts :: "signature_opts option \<Rightarrow> signing_mode" where
  "mode_from_opts opts =
     (case opts of
        Some opt \<Rightarrow> if opts_context opt = PREHASH_CONTEXT then Mode_Ed448Ph else Mode_Ed448
      | None \<Rightarrow> Mode_Ed448)"

definition mode_context_opt :: "signing_mode \<Rightarrow> signature_opts option \<Rightarrow> bytes option" where
  "mode_context_opt mode opts =
     (case mode of
        Mode_Ed448Ph \<Rightarrow> None
      | Mode_Ed448 \<Rightarrow>
          (case opts of
             None \<Rightarrow> None
           | Some opt \<Rightarrow> (let b = utf8 (opts_context opt) in if b = [] then None else Some b)))"

section \<open>Public keys\<close>

record 'epk ed448_public_key =
  epk_raw :: bytes
  epk_trusted_inner :: "'epk option"

definition ed448_from_trusted_inner ::
  "('esk, 'epk) ed448_rust \<Rightarrow> 'epk \<Rightarrow> 'epk ed448_public_key" where
  "ed448_from_trusted_inner E inner =
     \<lparr>epk_raw = e_pk_as_byte E inner, epk_trusted_inner = Some inner\<rparr>"

definition ed448_pk_from_bytes ::
  "('pt, 'sc) goldilocks \<Rightarrow> bytes \<Rightarrow> ('epk ed448_public_key, crypto_error) outcome" where
  "ed448_pk_from_bytes G data =
     (if length data \<noteq> ED448_PUBLIC_KEY_SIZE
      then Error (InvalidKeySize ED448_PUBLIC_KEY_SIZE (length data))
      else and_then (copy_from_slice ED448_PUBLIC_KEY_SIZE data)
        (\<lambda>raw. and_then (decode_canonical_point G raw)
          (\<lambda>_. Ok \<lparr>epk_raw = raw, epk_trusted_inner = None\<rparr>)))"

definition ed448_pk_as_bytes :: "'epk ed448_public_key \<Rightarrow> bytes" where
  "ed448_pk_as_bytes pk = epk_raw pk"

text \<open>
  The 114 bytes of the challenge hash: the domain separator with the prehash flag and the
  context, \<open>R\<close>, the public key, and the message or its 64-byte prehash.
\<close>

definition ed448_phflag :: "signing_mode \<Rightarrow> byte" where
  "ed448_phflag mode = (case mode of Mode_Ed448Ph \<Rightarrow> 1 | Mode_Ed448 \<Rightarrow> 0)"

definition ed448_challenge ::
  "hashes \<Rightarrow> signing_mode \<Rightarrow> bytes \<Rightarrow> bytes \<Rightarrow> bytes \<Rightarrow> bytes \<Rightarrow> bytes" where
  "ed448_challenge H mode ctx r_bytes raw msg =
     shake256 H
       (ascii ''SigEd448'' @ [ed448_phflag mode] @ [word_of_nat (length ctx)] @ ctx
        @ r_bytes @ raw
        @ (case mode of Mode_Ed448 \<Rightarrow> msg | Mode_Ed448Ph \<Rightarrow> shake256 H msg 64))
       114"

text \<open>The reduction loop: the bytes from the most significant one, by Horner's rule.\<close>

definition ed448_reduce :: "('pt, 'sc) goldilocks \<Rightarrow> bytes \<Rightarrow> 'sc" where
  "ed448_reduce G k_bytes =
     foldl (\<lambda>k b. g_scalar_plus G (g_scalar_times G k (g_scalar_from_u32 G 256))
                    (g_scalar_from_u32 G (ucast b)))
       (g_scalar_zero G) (rev k_bytes)"

definition verify_via_goldilocks ::
  "hashes \<Rightarrow> ('pt, 'sc) goldilocks \<Rightarrow> 'epk ed448_public_key \<Rightarrow> bytes \<Rightarrow> bytes \<Rightarrow> bytes option
     \<Rightarrow> signing_mode \<Rightarrow> (unit, crypto_error) outcome" where
  "verify_via_goldilocks H G pk msg sig ctx mode =
     and_then (map_err (\<lambda>_. CurveError [Str ''public key decompression failed''])
         (decode_canonical_point G (epk_raw pk)))
       (\<lambda>a_point. and_then (and_then (slice_to 57 sig) (copy_from_slice 57))
       (\<lambda>r_bytes. and_then (and_then (slice_from 57 sig) (copy_from_slice 57))
       (\<lambda>s_bytes. and_then (map_err (\<lambda>_. SignatureError [Str ''signature R decompression failed''])
           (decode_canonical_point G r_bytes))
       (\<lambda>r_point. and_then (ok_or (SignatureError [Str ''non-canonical Ed448 S scalar (S >= L)''])
           (g_from_canonical_bytes G s_bytes))
       (\<lambda>s_scalar.
          let ctx_bytes = (case ctx of Some c \<Rightarrow> c | None \<Rightarrow> []) in
          if 255 < length ctx_bytes
          then Error (SignatureError [Str ''Ed448 context string exceeds 255 bytes''])
          else
            let k_bytes = ed448_challenge H mode ctx_bytes r_bytes (epk_raw pk) msg;
                k_scalar = ed448_reduce G k_bytes;
                sb = g_scalar_mul G (g_generator G) s_scalar;
                ka = g_scalar_mul G a_point k_scalar;
                neg_ka = g_negate G ka;
                neg_r = g_negate G r_point;
                lhs = g_add G (g_add G sb neg_ka) neg_r
            in if g_point_eq G (g_double G (g_double G lhs)) (g_identity G) then Ok ()
               else Error (SignatureError [Str ''ed448 verification equation failed'']))))))"

definition ed448_verify_sig ::
  "hashes \<Rightarrow> ('esk, 'epk) ed448_rust \<Rightarrow> ('pt, 'sc) goldilocks \<Rightarrow> 'epk ed448_public_key
     \<Rightarrow> bytes \<Rightarrow> bytes \<Rightarrow> signature_opts option \<Rightarrow> (unit, crypto_error) outcome" where
  "ed448_verify_sig H E G pk msg signature opts =
     (if length signature \<noteq> ED448_SIGNATURE_SIZE
      then Error (InvalidKeySize ED448_SIGNATURE_SIZE (length signature))
      else and_then (copy_from_slice ED448_SIGNATURE_SIZE signature)
        (\<lambda>sig_arr.
          let mode = mode_from_opts opts; ctx_opt = mode_context_opt mode opts in
          case epk_trusted_inner pk of
            Some inner \<Rightarrow>
              of_result (\<lambda>e. SignatureError [Str ''ed448 verify: '', Ext e])
                (case mode of
                   Mode_Ed448 \<Rightarrow> e_verify E inner msg sig_arr ctx_opt
                 | Mode_Ed448Ph \<Rightarrow> e_verify_ph E inner msg sig_arr ctx_opt)
          | None \<Rightarrow> verify_via_goldilocks H G pk msg sig_arr ctx_opt mode))"

definition ed448_pk_eq :: "'epk ed448_public_key \<Rightarrow> 'epk ed448_public_key \<Rightarrow> bool" where
  "ed448_pk_eq a b \<longleftrightarrow> ct_eq (epk_raw a) (epk_raw b)"

definition ed448_dyn_pk :: "'epk ed448_public_key \<Rightarrow> dyn_public_key" where
  "ed448_dyn_pk pk = \<lparr>pk_scheme = Ed448, pk_marshal = Ok (epk_raw pk)\<rparr>"

definition ed448_pk_equal ::
  "'epk ed448_public_key \<Rightarrow> dyn_public_key \<Rightarrow> (bool, crypto_error) outcome" where
  "ed448_pk_equal pk other =
     unwrap_or False (and_then (pk_marshal other)
       (\<lambda>b. Ok (length b = ED448_PUBLIC_KEY_SIZE \<and> ct_eq b (epk_raw pk))))"

section \<open>Private keys\<close>

record ('esk, 'epk) ed448_private_key =
  esk_inner :: 'esk
  esk_public :: "'epk ed448_public_key"

definition ed448_sk_as_bytes ::
  "('esk, 'epk) ed448_rust \<Rightarrow> ('esk, 'epk) ed448_private_key \<Rightarrow> (bytes, 'e) outcome" where
  "ed448_sk_as_bytes E k = copy_from_slice ED448_PRIVATE_KEY_SIZE (e_sk_as_bytes E (esk_inner k))"

definition ed448_sign_msg ::
  "('esk, 'epk) ed448_rust \<Rightarrow> ('esk, 'epk) ed448_private_key \<Rightarrow> bytes \<Rightarrow> signature_opts option
     \<Rightarrow> (bytes, crypto_error) outcome" where
  "ed448_sign_msg E k msg opts =
     (let mode = mode_from_opts opts; ctx_opt = mode_context_opt mode opts in
      of_result (\<lambda>e. SignatureError [Str ''ed448 sign: '', Ext e])
        (case mode of
           Mode_Ed448 \<Rightarrow> e_sign E (esk_inner k) msg ctx_opt
         | Mode_Ed448Ph \<Rightarrow> e_sign_ph E (esk_inner k) msg ctx_opt))"

definition ed448_from_seed ::
  "('esk, 'epk) ed448_rust \<Rightarrow> bytes
     \<Rightarrow> ('epk ed448_public_key \<times> ('esk, 'epk) ed448_private_key, 'e) outcome" where
  "ed448_from_seed E seed =
     (if length seed \<noteq> ED448_SEED_SIZE
      then Panics [Str ''ed448: seed must be '', Num ED448_SEED_SIZE, Str '' bytes, got '',
                   Num (length seed)]
      else and_then (copy_from_slice ED448_SEED_SIZE seed)
        (\<lambda>arr. let inner = e_sk_from E arr;
                   public = ed448_from_trusted_inner E (e_pk_from E inner)
               in Ok (public, \<lparr>esk_inner = inner, esk_public = public\<rparr>)))"

definition ed448_sk_from_bytes ::
  "('esk, 'epk) ed448_rust \<Rightarrow> bytes
     \<Rightarrow> ('epk ed448_public_key \<times> ('esk, 'epk) ed448_private_key, crypto_error) outcome" where
  "ed448_sk_from_bytes E data =
     (if length data \<noteq> ED448_PRIVATE_KEY_SIZE
      then Error (InvalidKeySize ED448_PRIVATE_KEY_SIZE (length data))
      else ed448_from_seed E data)"

definition ed448_sk_clone ::
  "('esk, 'epk) ed448_rust \<Rightarrow> ('esk, 'epk) ed448_private_key
     \<Rightarrow> (('esk, 'epk) ed448_private_key, 'e) outcome" where
  "ed448_sk_clone E k =
     and_then (copy_from_slice ED448_SEED_SIZE (e_sk_as_bytes E (esk_inner k)))
       (\<lambda>arr. Ok \<lparr>esk_inner = e_sk_from E arr, esk_public = esk_public k\<rparr>)"

definition ed448_sk_eq ::
  "('esk, 'epk) ed448_rust \<Rightarrow> ('esk, 'epk) ed448_private_key \<Rightarrow> ('esk, 'epk) ed448_private_key
     \<Rightarrow> bool" where
  "ed448_sk_eq E a b \<longleftrightarrow> ct_eq (e_sk_as_bytes E (esk_inner a)) (e_sk_as_bytes E (esk_inner b))"

text \<open>What \<^verbatim>\<open>drop\<close> leaves in the private key's memory.\<close>

definition ed448_drop ::
  "('esk, 'epk) ed448_rust \<Rightarrow> ('esk, 'epk) ed448_private_key \<Rightarrow> ('esk, 'epk) ed448_private_key"
where
  "ed448_drop E k =
     k\<lparr>esk_inner := e_sk_from E (replicate ED448_SEED_SIZE 0),
       esk_public := (esk_public k)\<lparr>epk_raw := replicate ED448_PUBLIC_KEY_SIZE 0\<rparr>\<rparr>"

definition ed448_sk_try_from ::
  "('esk, 'epk) ed448_rust \<Rightarrow> bytes \<Rightarrow> (('esk, 'epk) ed448_private_key, crypto_error) outcome"
where
  "ed448_sk_try_from E b = and_then (ed448_sk_from_bytes E b) (\<lambda>(_, sk). Ok sk)"

definition ed448_dyn_sk ::
  "('esk, 'epk) ed448_rust \<Rightarrow> ('esk, 'epk) ed448_private_key \<Rightarrow> dyn_private_key" where
  "ed448_dyn_sk E k =
     \<lparr>sk_scheme = Ed448, sk_marshal = ed448_sk_as_bytes E k,
      sk_public_bytes = epk_raw (esk_public k)\<rparr>"

definition ed448_sk_equal ::
  "('esk, 'epk) ed448_rust \<Rightarrow> ('esk, 'epk) ed448_private_key \<Rightarrow> dyn_private_key
     \<Rightarrow> (bool, crypto_error) outcome" where
  "ed448_sk_equal E k other =
     unwrap_or False (and_then (sk_marshal other)
       (\<lambda>b. if length b = ED448_PRIVATE_KEY_SIZE
            then and_then (ed448_sk_as_bytes E k) (\<lambda>s. Ok (ct_eq b s))
            else Ok False))"

section \<open>Free functions\<close>

text \<open>\<open>fill\<close> is what the random number generator's \<^verbatim>\<open>fill_bytes\<close> wrote into the seed.\<close>

definition ed448_generate_key_with_rng ::
  "('esk, 'epk) ed448_rust \<Rightarrow> ('r \<Rightarrow> nat \<Rightarrow> bytes) \<Rightarrow> 'r
     \<Rightarrow> ('epk ed448_public_key \<times> ('esk, 'epk) ed448_private_key, crypto_error) outcome" where
  "ed448_generate_key_with_rng E fill r = ed448_from_seed E (fill r ED448_SEED_SIZE)"

definition ed448_generate_key ::
  "('esk, 'epk) ed448_rust \<Rightarrow> ('r \<Rightarrow> nat \<Rightarrow> bytes) \<Rightarrow> 'r
     \<Rightarrow> ('epk ed448_public_key \<times> ('esk, 'epk) ed448_private_key, crypto_error) outcome" where
  "ed448_generate_key E os_rng r = ed448_generate_key_with_rng E os_rng r"

definition ed448_new_key_from_seed ::
  "('esk, 'epk) ed448_rust \<Rightarrow> bytes
     \<Rightarrow> ('epk ed448_public_key \<times> ('esk, 'epk) ed448_private_key, 'e) outcome" where
  "ed448_new_key_from_seed E seed = ed448_from_seed E seed"

section \<open>The scheme\<close>

definition ed448_dyn_derive_key ::
  "('esk, 'epk) ed448_rust \<Rightarrow> bytes \<Rightarrow> (dyn_public_key \<times> dyn_private_key, crypto_error) outcome"
where
  "ed448_dyn_derive_key E seed =
     (if length seed \<noteq> ED448_SEED_SIZE
      then Panics [Str ERR_SEED_SIZE, Str ''; expected '', Num ED448_SEED_SIZE, Str '', got '',
                   Num (length seed)]
      else and_then (ed448_new_key_from_seed E seed)
        (\<lambda>(pk, sk). Ok (ed448_dyn_pk pk, ed448_dyn_sk E sk)))"

definition ed448_dyn_sign ::
  "('esk, 'epk) ed448_rust \<Rightarrow> dyn_private_key \<Rightarrow> bytes \<Rightarrow> signature_opts option
     \<Rightarrow> (bytes, crypto_error) outcome" where
  "ed448_dyn_sign E sk message opts =
     and_then (expect [Str ''marshal private key''] (sk_marshal sk))
       (\<lambda>b. and_then (expect [Str ERR_TYPE_MISMATCH] (ed448_sk_try_from E b))
         (\<lambda>k. case ed448_sign_msg E k message opts of
             Inl (Err e) \<Rightarrow> Panics (Str ''ed448 sign: '' # display_crypto_error e)
           | x \<Rightarrow> x))"

definition ed448_dyn_verify ::
  "hashes \<Rightarrow> ('esk, 'epk) ed448_rust \<Rightarrow> ('pt, 'sc) goldilocks \<Rightarrow> dyn_public_key \<Rightarrow> bytes \<Rightarrow> bytes
     \<Rightarrow> signature_opts option \<Rightarrow> (bool, crypto_error) outcome" where
  "ed448_dyn_verify H E G pk message signature opts =
     (case pk_marshal pk of
        Inl (Panic m) \<Rightarrow> Panics m
      | Inl (Err e) \<Rightarrow> Ok False
      | Inr b \<Rightarrow> (case ed448_pk_from_bytes G b of
            Inl (Panic m) \<Rightarrow> Panics m
          | Inl (Err e) \<Rightarrow> Ok False
          | Inr k \<Rightarrow> is_ok (ed448_verify_sig H E G k message signature opts)))"

definition ed448_scheme ::
  "hashes \<Rightarrow> ('esk, 'epk) ed448_rust \<Rightarrow> ('pt, 'sc) goldilocks \<Rightarrow> ('r \<Rightarrow> nat \<Rightarrow> bytes) \<Rightarrow> 'r scheme"
where
  "ed448_scheme H E G os_rng =
     \<lparr>sch_name = ''Ed448'',
      sch_generate_key = (\<lambda>r. and_then (ed448_generate_key E os_rng r)
         (\<lambda>(pk, sk). Ok (ed448_dyn_pk pk, ed448_dyn_sk E sk))),
      sch_derive_key = ed448_dyn_derive_key E,
      sch_sign = (\<lambda>r. ed448_dyn_sign E),
      sch_verify = ed448_dyn_verify H E G,
      sch_unmarshal_public = (\<lambda>buf. and_then
         (ed448_pk_from_bytes G buf :: ('epk ed448_public_key, crypto_error) outcome)
         (\<lambda>k. Ok (ed448_dyn_pk k))),
      sch_unmarshal_private = (\<lambda>buf. and_then (ed448_sk_from_bytes E buf)
         (\<lambda>(_, sk). Ok (ed448_dyn_sk E sk))),
      sch_public_key_size = ED448_PUBLIC_KEY_SIZE,
      sch_private_key_size = ED448_PRIVATE_KEY_SIZE,
      sch_signature_size = ED448_SIGNATURE_SIZE,
      sch_seed_size = ED448_SEED_SIZE,
      sch_supports_context = True,
      sch_supports_priv_key_unmarshal = default_supports_priv_key_unmarshal\<rparr>"

text \<open>The \<^verbatim>\<open>TypedScheme\<close> methods.\<close>

definition ed448_generate_key_typed ::
  "('esk, 'epk) ed448_rust \<Rightarrow> ('r \<Rightarrow> nat \<Rightarrow> bytes) \<Rightarrow> 'r
     \<Rightarrow> ('epk ed448_public_key \<times> ('esk, 'epk) ed448_private_key, crypto_error) outcome" where
  "ed448_generate_key_typed E os_rng r = ed448_generate_key E os_rng r"

definition ed448_derive_key_typed ::
  "('esk, 'epk) ed448_rust \<Rightarrow> bytes
     \<Rightarrow> ('epk ed448_public_key \<times> ('esk, 'epk) ed448_private_key, 'e) outcome" where
  "ed448_derive_key_typed E seed = ed448_new_key_from_seed E seed"

definition ed448_sign_typed ::
  "('esk, 'epk) ed448_rust \<Rightarrow> ('esk, 'epk) ed448_private_key \<Rightarrow> bytes \<Rightarrow> signature_opts option
     \<Rightarrow> (bytes, crypto_error) outcome" where
  "ed448_sign_typed E k msg opts =
     (case ed448_sign_msg E k msg opts of
        Inl (Err e) \<Rightarrow> Panics (Str ''ed448 sign: '' # display_crypto_error e)
      | x \<Rightarrow> x)"

definition ed448_verify_typed ::
  "hashes \<Rightarrow> ('esk, 'epk) ed448_rust \<Rightarrow> ('pt, 'sc) goldilocks \<Rightarrow> 'epk ed448_public_key \<Rightarrow> bytes
     \<Rightarrow> bytes \<Rightarrow> signature_opts option \<Rightarrow> (bool, crypto_error) outcome" where
  "ed448_verify_typed H E G pk msg sig opts = is_ok (ed448_verify_sig H E G pk msg sig opts)"

definition ed448_unmarshal_public_key_typed ::
  "('pt, 'sc) goldilocks \<Rightarrow> bytes \<Rightarrow> ('epk ed448_public_key, crypto_error) outcome" where
  "ed448_unmarshal_public_key_typed G buf = ed448_pk_from_bytes G buf"

definition ed448_unmarshal_private_key_typed ::
  "('esk, 'epk) ed448_rust \<Rightarrow> bytes \<Rightarrow> (('esk, 'epk) ed448_private_key, crypto_error) outcome"
where
  "ed448_unmarshal_private_key_typed E buf =
     and_then (ed448_sk_from_bytes E buf) (\<lambda>(_, sk). Ok sk)"

end
