(* ===== verification/Ed448_Verify.thy ===== *)
theory Ed448_Verify
  imports Ed448
begin

text \<open>
  What the Ed448 backend of \<^verbatim>\<open>src/mdecc/ed448.rs\<close> does, against RFC 8032: the byte loop
  that checks a point encoding compares with the field prime, the scalar loop reduces the
  challenge modulo the group order, and \<open>verify_via_goldilocks\<close> accepts exactly the
  signatures that satisfy \<open>rfc8032_valid\<close>.  The last part makes the algorithm a leg of the
  composite scheme.
\<close>

section \<open>The arithmetic the goldilocks crate computes\<close>

text \<open>
  \<open>point\<close> and \<open>scalar\<close> give the meaning of the crate's points, as elements of an abelian
  group, and of its scalars, as integers below \<open>order\<close>, the order of the prime subgroup.
  The cofactor is four.
\<close>

record ('pt, 'sc, 'g) curve =
  point :: "'pt \<Rightarrow> 'g"
  scalar :: "'sc \<Rightarrow> nat"
  order :: nat

primrec nmul :: "nat \<Rightarrow> 'g::ab_group_add \<Rightarrow> 'g" where
  "nmul 0 g = 0"
| "nmul (Suc n) g = g + nmul n g"

definition scalar_laws :: "('pt, 'sc) goldilocks \<Rightarrow> ('pt, 'sc, 'g) curve \<Rightarrow> bool" where
  "scalar_laws G C \<longleftrightarrow>
     scalar C (g_scalar_zero G) = 0 \<and>
     (\<forall>s. scalar C s < order C) \<and>
     (\<forall>w. scalar C (g_scalar_from_u32 G w) = unat w mod order C) \<and>
     (\<forall>s t. scalar C (g_scalar_times G s t) = scalar C s * scalar C t mod order C) \<and>
     (\<forall>s t. scalar C (g_scalar_plus G s t) = (scalar C s + scalar C t) mod order C) \<and>
     (\<forall>b. length b = 57 \<longrightarrow>
        (case g_from_canonical_bytes G b of
           Some s \<Rightarrow> le_nat b < order C \<and> scalar C s = le_nat b
         | None \<Rightarrow> order C \<le> le_nat b))"

definition point_laws ::
  "('pt, 'sc) goldilocks \<Rightarrow> ('pt, 'sc, 'g::ab_group_add) curve \<Rightarrow> bool" where
  "point_laws G C \<longleftrightarrow>
     point C (g_identity G) = 0 \<and>
     (\<forall>p. point C (g_double G p) = point C p + point C p) \<and>
     (\<forall>p q. point C (g_add G p q) = point C p + point C q) \<and>
     (\<forall>p. point C (g_negate G p) = - point C p) \<and>
     (\<forall>p s. point C (g_scalar_mul G p s) = nmul (scalar C s) (point C p)) \<and>
     (\<forall>p q. g_point_eq G p q \<longleftrightarrow> point C p = point C q) \<and>
     (\<forall>p. nmul (4 * order C) (point C p) = 0)"

definition curve_laws ::
  "('pt, 'sc) goldilocks \<Rightarrow> ('pt, 'sc, 'g::ab_group_add) curve \<Rightarrow> bool" where
  "curve_laws G C \<longleftrightarrow> scalar_laws G C \<and> point_laws G C"

lemma scalar_lawsD [crate_laws]:
  assumes "scalar_laws G C"
  shows "scalar C (g_scalar_zero G) = 0"
    and "scalar C s < order C"
    and "scalar C (g_scalar_from_u32 G w) = unat w mod order C"
    and "scalar C (g_scalar_times G s t) = scalar C s * scalar C t mod order C"
    and "scalar C (g_scalar_plus G s t) = (scalar C s + scalar C t) mod order C"
    and "length b = 57 \<Longrightarrow> g_from_canonical_bytes G b = Some s \<Longrightarrow>
      le_nat b < order C \<and> scalar C s = le_nat b"
    and "length b = 57 \<Longrightarrow> le_nat b < order C \<Longrightarrow> \<exists>s. g_from_canonical_bytes G b = Some s"
  using assms by (fastforce simp: scalar_laws_def split: option.splits)+

lemma point_lawsD [crate_laws]:
  assumes "point_laws G C"
  shows "point C (g_identity G) = 0"
    and "point C (g_double G p) = point C p + point C p"
    and "point C (g_add G p q) = point C p + point C q"
    and "point C (g_negate G p) = - point C p"
    and "point C (g_scalar_mul G p s) = nmul (scalar C s) (point C p)"
    and "g_point_eq G p q \<longleftrightarrow> point C p = point C q"
    and "nmul (4 * order C) (point C p) = 0"
  using assms by (simp_all add: point_laws_def)

lemma nmul_plus: "nmul (m + n) g = nmul m g + nmul n g"
  by (induction m) (simp_all add: algebra_simps)

lemma nmul_add: "nmul n (g + h) = nmul n g + nmul n h"
  by (induction n) (simp_all add: algebra_simps)

lemma nmul_zero [simp]: "nmul n 0 = 0"
  by (induction n) simp_all

lemma nmul_times: "nmul (m * n) g = nmul m (nmul n g)"
  by (induction m) (simp_all add: nmul_plus)

lemma nmul_4: "nmul 4 g = g + g + (g + g)"
  by (simp add: eval_nat_numeral algebra_simps)

lemma nmul_mod_order:
  assumes "nmul (4 * n) g = 0"
  shows "nmul 4 (nmul (k mod n) g) = nmul 4 (nmul k g)"
proof -
  have "nmul (4 * k) g = nmul (4 * (k mod n) + (k div n) * (4 * n)) g"
    using mult_div_mod_eq [of n k] by (metis add.commute distrib_left mult.commute mult.left_commute)
  also have "\<dots> = nmul (4 * (k mod n)) g"
    by (simp only: nmul_plus nmul_times [of "k div n"] assms) simp
  finally show ?thesis by (simp only: nmul_times)
qed

section \<open>The loops\<close>

lemma le_nat_take_Suc:
  "n < length xs \<Longrightarrow> le_nat (take (Suc n) xs) = le_nat (take n xs) + 256 ^ n * unat (xs ! n)"
  by (simp add: take_Suc_conv_app_nth le_nat_append)

lemma digit_less:
  fixes a b :: nat
  assumes "x < q" and "a < b"
  shows "x + q * a < y + q * b"
proof -
  have "x + q * a < q + q * a" using assms(1) by simp
  also have "q + q * a \<le> q * b" using assms(2) by (metis Suc_leI mult_Suc_right mult_le_mono2)
  finally show ?thesis by simp
qed

lemma y_lt_p_loop_prefix:
  assumes "n \<le> length raw" and "n \<le> 56"
  shows "y_lt_p_loop raw (rev [0..<n]) \<longleftrightarrow> le_nat (take n raw) < le_nat (take n FIELD_PRIME_LE)"
  using assms
proof (induction n)
  case 0
  then show ?case by simp
next
  case (Suc n)
  let ?a = "unat (raw ! n)" and ?b = "unat (FIELD_PRIME_LE ! n)"
  let ?x = "le_nat (take n raw)" and ?y = "le_nat (take n FIELD_PRIME_LE)"
  have l: "n < length raw" "n < length FIELD_PRIME_LE"
    using Suc.prems by (simp_all add: FIELD_PRIME_LE_def)
  then have x: "?x < 256 ^ n" and y: "?y < 256 ^ n"
    using le_nat_less [of "take n raw"] le_nat_less [of "take n FIELD_PRIME_LE"] by simp_all
  have IH: "y_lt_p_loop raw (rev [0..<n]) \<longleftrightarrow> ?x < ?y" using Suc by simp
  have less: "?a < ?b \<Longrightarrow> ?x + 256 ^ n * ?a < ?y + 256 ^ n * ?b" by (rule digit_less [OF x])
  have more: "?b < ?a \<Longrightarrow> ?y + 256 ^ n * ?b < ?x + 256 ^ n * ?a" by (rule digit_less [OF y])
  consider "?a < ?b" | "?b < ?a" | "?a = ?b" by linarith
  then show ?case
  proof cases
    case 1
    then show ?thesis using less l by (simp add: le_nat_take_Suc word_less_nat_alt)
  next
    case 2
    then show ?thesis using more l by (simp add: le_nat_take_Suc word_less_nat_alt)
  next
    case 3
    then show ?thesis using l IH by (simp add: le_nat_take_Suc word_less_nat_alt)
  qed
qed

lemma le_nat_replicate_ff: "le_nat (replicate n 0xff) + 1 = 256 ^ n"
  by (induction n) simp_all

lemma FIELD_PRIME_LE_value: "le_nat FIELD_PRIME_LE = 2 ^ 448 - 2 ^ 224 - 1"
proof -
  let ?f = "\<lambda>n. le_nat (replicate n 0xff)"
  have e: "FIELD_PRIME_LE = replicate 28 0xff @ 0xfe # replicate 27 0xff"
    by (simp add: FIELD_PRIME_LE_def eval_nat_numeral)
  have "unat (0xfe :: byte) = 254" by simp
  then have "le_nat FIELD_PRIME_LE = ?f 28 + 256 ^ 28 * (254 + 256 * ?f 27)"
    unfolding e by (simp only: le_nat_append le_nat.simps length_replicate)
  moreover have "?f 28 = 256 ^ 28 - 1" and "?f 27 = 256 ^ 27 - 1"
    using le_nat_replicate_ff [of 28] le_nat_replicate_ff [of 27] by simp_all
  ultimately show ?thesis by simp
qed

lemma y_lt_p_loop_iff:
  assumes "length raw = 57"
  shows "y_lt_p_loop raw (rev [0..<56]) \<longleftrightarrow> le_nat (take 56 raw) < 2 ^ 448 - 2 ^ 224 - 1"
proof -
  have t: "take 56 FIELD_PRIME_LE = FIELD_PRIME_LE" by (simp add: FIELD_PRIME_LE_def)
  have "y_lt_p_loop raw (rev [0..<56]) \<longleftrightarrow> le_nat (take 56 raw) < le_nat (take 56 FIELD_PRIME_LE)"
    using assms by (intro y_lt_p_loop_prefix) simp_all
  then show ?thesis unfolding t FIELD_PRIME_LE_value .
qed

lemma ed448_reduce_value:
  assumes "scalar_laws G C"
  shows "scalar C (ed448_reduce G bs) = le_nat bs mod order C"
proof -
  have u: "unat (ucast b :: 32 word) = unat b" for b :: byte
    by (simp add: unsigned_ucast_eq take_bit_nat_eq_self_iff less_trans [OF unat_byte_less])
  have v: "unat (256 :: 32 word) = 256" by simp
  show ?thesis unfolding ed448_reduce_def
  proof (induction bs)
    case Nil
    then show ?case by (simp add: scalar_lawsD(1) [OF assms])
  next
    case (Cons b bs)
    show ?case
      by (simp only: rev.simps foldl_append foldl.simps le_nat.simps scalar_lawsD(3-5) [OF assms]
          Cons u v mod_simps add.commute mult.commute)
  qed
qed

section \<open>The verification equation of RFC 8032\<close>

text \<open>
  An encoding is acceptable when its unused bits are clear, its y-coordinate is below the
  field prime, it is on the curve, and the point is not of small order.
\<close>

definition canonical_point ::
  "('pt, 'sc) goldilocks \<Rightarrow> ('pt, 'sc, 'g::ab_group_add) curve \<Rightarrow> bytes \<Rightarrow> 'pt \<Rightarrow> bool" where
  "canonical_point G C raw p \<longleftrightarrow>
     raw ! 56 AND 0x7f = 0 \<and> le_nat (take 56 raw) < 2 ^ 448 - 2 ^ 224 - 1 \<and>
     g_decompress G raw = Some p \<and> nmul 4 (point C p) \<noteq> 0"

text \<open>
  The check of RFC 8032, section 5.2.7: with \<open>S\<close> and \<open>k\<close> the integers the second half of the
  signature and the whole challenge hash denote, the group equation
  \<open>[4][S]B = [4]R + [4][k]A\<close>.
\<close>

definition rfc8032_valid ::
  "hashes \<Rightarrow> ('pt, 'sc) goldilocks \<Rightarrow> ('pt, 'sc, 'g::ab_group_add) curve \<Rightarrow> signing_mode \<Rightarrow> bytes
     \<Rightarrow> bytes \<Rightarrow> bytes \<Rightarrow> bytes \<Rightarrow> bool" where
  "rfc8032_valid H G C mode ctx pk msg sig \<longleftrightarrow>
     length sig = 114 \<and> length ctx \<le> 255 \<and> le_nat (drop 57 sig) < order C \<and>
     (\<exists>A R. canonical_point G C pk A \<and> canonical_point G C (take 57 sig) R \<and>
        nmul 4 (nmul (le_nat (drop 57 sig)) (point C (g_generator G))) =
        nmul 4 (point C R) +
        nmul 4 (nmul (le_nat (ed448_challenge H mode ctx (take 57 sig) pk msg)) (point C A)))"

lemma decode_canonical_point_iff:
  assumes "point_laws G C" and "length raw = 57"
  shows "decode_canonical_point G raw = Ok p \<longleftrightarrow> canonical_point G C raw p"
  by (auto simp: decode_canonical_point_def canonical_point_def y_lt_p_loop_iff [OF assms(2)]
      point_lawsD [OF assms(1)] nmul_4)

lemma decode_panic_free [no_panic]: "panic_free (decode_canonical_point G raw)"
  by (auto simp: decode_canonical_point_def)

text \<open>The group element the verifier compares with the identity.\<close>

lemma verification_point:
  assumes "curve_laws G C"
  shows "point C (g_double G (g_double G (g_add G (g_add G (g_scalar_mul G (g_generator G) s)
      (g_negate G (g_scalar_mul G A (ed448_reduce G k)))) (g_negate G R)))) = 0 \<longleftrightarrow>
    nmul 4 (nmul (scalar C s) (point C (g_generator G))) =
    nmul 4 (point C R) + nmul 4 (nmul (le_nat k) (point C A))"
    (is "?l = 0 \<longleftrightarrow> ?a = ?b + ?c")
proof -
  note sl = assms [unfolded curve_laws_def, THEN conjunct1]
  note pl = assms [unfolded curve_laws_def, THEN conjunct2]
  have "?l = ?a - nmul 4 (nmul (le_nat k mod order C) (point C A)) - ?b"
    by (simp only: point_lawsD(2-5) [OF pl] ed448_reduce_value [OF sl] nmul_4) (simp add: algebra_simps)
  also have "\<dots> = ?a - ?c - ?b"
    by (simp only: nmul_mod_order [OF point_lawsD(7) [OF pl]])
  finally have "?l = ?a - (?b + ?c)" by (simp only: diff_diff_eq add.commute)
  then show ?thesis by (simp only: right_minus_eq)
qed

lemma verify_via_goldilocks_iff:
  assumes "curve_laws G C" and "length (epk_raw pk) = 57" and "length sig = 114"
  shows "verify_via_goldilocks H G pk msg sig ctx mode = Ok () \<longleftrightarrow>
    rfc8032_valid H G C mode (case ctx of Some c \<Rightarrow> c | None \<Rightarrow> []) (epk_raw pk) msg sig"
proof -
  note sl = assms(1) [unfolded curve_laws_def, THEN conjunct1]
  note pl = assms(1) [unfolded curve_laws_def, THEN conjunct2]
  let ?ctx = "case ctx of Some c \<Rightarrow> c | None \<Rightarrow> []"
  let ?k = "ed448_challenge H mode ?ctx (take 57 sig) (epk_raw pk) msg"
  define holds where "holds n R A \<longleftrightarrow> nmul 4 (nmul n (point C (g_generator G))) =
      nmul 4 (point C R) + nmul 4 (nmul (le_nat ?k) (point C A))" for n R A
  have "verify_via_goldilocks H G pk msg sig ctx mode = Ok () \<longleftrightarrow>
    (\<exists>A R s. canonical_point G C (epk_raw pk) A \<and> canonical_point G C (take 57 sig) R \<and>
      g_from_canonical_bytes G (drop 57 sig) = Some s \<and> length ?ctx \<le> 255 \<and>
      holds (scalar C s) R A)"
    using assms(2,3)
    by (auto simp: verify_via_goldilocks_def Let_def decode_canonical_point_iff [OF pl]
        point_lawsD(1,6) [OF pl] verification_point [OF assms(1)] not_le holds_def [symmetric]) blast+
  also have "\<dots> \<longleftrightarrow> rfc8032_valid H G C mode ?ctx (epk_raw pk) msg sig"
    using scalar_lawsD(6,7) [OF sl, of "drop 57 sig"] assms(3)
    unfolding rfc8032_valid_def holds_def [symmetric] by auto blast+
  finally show ?thesis .
qed

lemma verify_via_goldilocks_panic_free [no_panic]:
  "length sig = 114 \<Longrightarrow> panic_free (verify_via_goldilocks H G pk msg sig ctx mode)"
  unfolding verify_via_goldilocks_def
  by (intro panic_free_and_then) (auto simp: decode_panic_free Let_def)

lemma ed448_pk_from_bytes_iff:
  assumes "point_laws G C"
  shows "ed448_pk_from_bytes G b = Ok pk \<longleftrightarrow>
    length b = 57 \<and> (\<exists>A. canonical_point G C b A) \<and> pk = \<lparr>epk_raw = b, epk_trusted_inner = None\<rparr>"
  by (auto simp: ed448_pk_from_bytes_def size_consts decode_canonical_point_iff [OF assms])

lemma ed448_pk_from_bytes_panic_free [no_panic]: "panic_free (ed448_pk_from_bytes G b)"
  by (auto simp: ed448_pk_from_bytes_def decode_panic_free intro!: panic_free_and_then)

lemma ed448_verify_sig_panic_free [no_panic]: "panic_free (ed448_verify_sig H E G pk msg sig opts)"
  by (auto simp: ed448_verify_sig_def size_consts Let_def verify_via_goldilocks_panic_free
      intro!: panic_free_and_then split: option.splits)

text \<open>The context a call passes on, as the bytes of the domain separator.\<close>

definition ed448_ctx :: "signature_opts option \<Rightarrow> bytes" where
  "ed448_ctx opts = (case mode_context_opt (mode_from_opts opts) opts of Some c \<Rightarrow> c | None \<Rightarrow> [])"

lemma ed448_verify_untrusted:
  assumes "curve_laws G C" and "length pk = 57"
  shows "ed448_verify_sig H E G \<lparr>epk_raw = pk, epk_trusted_inner = None\<rparr> msg sig opts = Ok () \<longleftrightarrow>
    rfc8032_valid H G C (mode_from_opts opts) (ed448_ctx opts) pk msg sig"
proof (cases "length sig = 114")
  case True
  then show ?thesis
    by (simp add: ed448_verify_sig_def size_consts Let_def ed448_ctx_def assms(2)
        verify_via_goldilocks_iff [OF assms(1)])
next
  case False
  then show ?thesis by (simp add: ed448_verify_sig_def size_consts rfc8032_valid_def)
qed

lemma rfc8032_validD:
  assumes "rfc8032_valid H G C mode ctx pk msg sig"
  shows "length sig = 114" and "length ctx \<le> 255" and "le_nat (drop 57 sig) < order C"
    and "\<exists>A. canonical_point G C pk A" and "\<exists>R. canonical_point G C (take 57 sig) R"
  using assms by (auto simp: rfc8032_valid_def)

section \<open>What is assumed of ed448-rust\<close>

text \<open>
  A private key is its 57 bytes; the encoding of a derived public key is canonical and not
  of small order; signing succeeds exactly for a context of at most 255 bytes, and then gives
  a signature that is valid in the sense of RFC 8032 (a nonce that happens to be a multiple
  of the group order, for which \<open>R\<close> is of small order, is left out: no seed and message for
  which it occurs can be found), which the crate's own verification accepts.
\<close>

definition ed448_rust_laws ::
  "hashes \<Rightarrow> ('esk, 'epk) ed448_rust \<Rightarrow> ('pt, 'sc) goldilocks
     \<Rightarrow> ('pt, 'sc, 'g::ab_group_add) curve \<Rightarrow> bool" where
  "ed448_rust_laws H E G C \<longleftrightarrow>
     (\<forall>k. length (e_sk_as_bytes E k) = 57) \<and>
     (\<forall>b. length b = 57 \<longrightarrow> e_sk_as_bytes E (e_sk_from E b) = b) \<and>
     (\<forall>k. e_sk_from E (e_sk_as_bytes E k) = k) \<and>
     (\<forall>p. length (e_pk_as_byte E p) = 57) \<and>
     (\<forall>k. \<exists>A. canonical_point G C (e_pk_as_byte E (e_pk_from E k)) A) \<and>
     (\<forall>k m c. 255 < length c \<longrightarrow> (\<exists>e. e_sign E k m (Some c) = Inl e)) \<and>
     (\<forall>k m ctx. length (case ctx of Some c \<Rightarrow> c | None \<Rightarrow> []) \<le> 255 \<longrightarrow>
        (\<exists>sig. e_sign E k m ctx = Inr sig \<and> e_verify E (e_pk_from E k) m sig ctx = Inr () \<and>
          rfc8032_valid H G C Mode_Ed448 (case ctx of Some c \<Rightarrow> c | None \<Rightarrow> [])
            (e_pk_as_byte E (e_pk_from E k)) m sig)) \<and>
     (\<forall>k m. \<exists>sig. e_sign_ph E k m None = Inr sig \<and>
          e_verify_ph E (e_pk_from E k) m sig None = Inr () \<and>
          rfc8032_valid H G C Mode_Ed448Ph [] (e_pk_as_byte E (e_pk_from E k)) m sig)"

lemma ed448_rust_lawsD [crate_laws]:
  assumes "ed448_rust_laws H E G C"
  shows "length (e_sk_as_bytes E k) = 57"
    and "length b = 57 \<Longrightarrow> e_sk_as_bytes E (e_sk_from E b) = b"
    and "e_sk_from E (e_sk_as_bytes E k) = k"
    and "length (e_pk_as_byte E p) = 57"
    and "\<exists>A. canonical_point G C (e_pk_as_byte E (e_pk_from E k)) A"
    and "255 < length c \<Longrightarrow> \<exists>e. e_sign E k m (Some c) = Inl e"
    and "length (case ctx of Some c \<Rightarrow> c | None \<Rightarrow> []) \<le> 255 \<Longrightarrow>
      \<exists>sig. e_sign E k m ctx = Inr sig \<and> e_verify E (e_pk_from E k) m sig ctx = Inr () \<and>
        rfc8032_valid H G C Mode_Ed448 (case ctx of Some c \<Rightarrow> c | None \<Rightarrow> [])
          (e_pk_as_byte E (e_pk_from E k)) m sig"
    and "\<exists>sig. e_sign_ph E k m None = Inr sig \<and> e_verify_ph E (e_pk_from E k) m sig None = Inr () \<and>
        rfc8032_valid H G C Mode_Ed448Ph [] (e_pk_as_byte E (e_pk_from E k)) m sig"
  using assms unfolding ed448_rust_laws_def by (elim conjE, simp; fail)+

text \<open>All that is assumed of the crates behind Ed448, as one condition on the four of them.\<close>

fun ed448_laws ::
  "hashes \<times> ('esk, 'epk) ed448_rust \<times> ('pt, 'sc) goldilocks \<times> ('pt, 'sc, 'g::ab_group_add) curve
     \<Rightarrow> bool" where
  "ed448_laws (H, E, G, C) \<longleftrightarrow> curve_laws G C \<and> ed448_rust_laws H E G C"

lemma mode_context_cases:
  "mode_from_opts opts = Mode_Ed448Ph \<and> mode_context_opt (mode_from_opts opts) opts = None \<or>
   mode_from_opts opts = Mode_Ed448 \<and>
     mode_context_opt (mode_from_opts opts) opts =
     (if ed448_ctx opts = [] then None else Some (ed448_ctx opts))"
  by (auto simp: mode_from_opts_def mode_context_opt_def ed448_ctx_def Let_def split: option.splits)

lemma ed448_sign_valid:
  assumes "ed448_rust_laws H E G C" and "length (ed448_ctx opts) \<le> 255"
  shows "\<exists>sig. ed448_sign_msg E k msg opts = Ok sig \<and>
    rfc8032_valid H G C (mode_from_opts opts) (ed448_ctx opts)
      (e_pk_as_byte E (e_pk_from E (esk_inner k))) msg sig"
proof (cases "mode_from_opts opts")
  case Mode_Ed448
  then have "mode_context_opt (mode_from_opts opts) opts =
      (if ed448_ctx opts = [] then None else Some (ed448_ctx opts))"
    using mode_context_cases [of opts] by auto
  then show ?thesis
    using ed448_rust_lawsD(7) [OF assms(1), of "mode_context_opt Mode_Ed448 opts" "esk_inner k" msg]
      assms(2) Mode_Ed448
    by (auto simp: ed448_sign_msg_def Let_def ed448_ctx_def)
next
  case Mode_Ed448Ph
  then have "mode_context_opt (mode_from_opts opts) opts = None"
    using mode_context_cases [of opts] by auto
  then show ?thesis
    using ed448_rust_lawsD(8) [OF assms(1), of "esk_inner k" msg] Mode_Ed448Ph
    by (auto simp: ed448_sign_msg_def Let_def ed448_ctx_def)
qed

lemma ed448_sign_in_memory:
  assumes "ed448_rust_laws H E G C" and "length (ed448_ctx opts) \<le> 255"
    and "pk = ed448_from_trusted_inner E (e_pk_from E (esk_inner k))"
  shows "\<exists>sig. ed448_sign_msg E k msg opts = Ok sig \<and>
    rfc8032_valid H G C (mode_from_opts opts) (ed448_ctx opts)
      (e_pk_as_byte E (e_pk_from E (esk_inner k))) msg sig \<and>
    ed448_verify_sig H E G pk msg sig opts = Ok ()"
proof -
  have v: "ed448_verify_sig H E G pk msg sig opts = Ok () \<longleftrightarrow> length sig = 114 \<and>
      (case mode_from_opts opts of
         Mode_Ed448 \<Rightarrow> e_verify E (e_pk_from E (esk_inner k)) msg sig (mode_context_opt (mode_from_opts opts) opts)
       | Mode_Ed448Ph \<Rightarrow> e_verify_ph E (e_pk_from E (esk_inner k)) msg sig (mode_context_opt (mode_from_opts opts) opts)) = Inr ()"
    for sig
    by (auto simp: ed448_verify_sig_def size_consts assms(3) ed448_from_trusted_inner_def Let_def
        split: signing_mode.splits)
  show ?thesis
  proof (cases "mode_from_opts opts")
    case Mode_Ed448
    then show ?thesis
      using ed448_rust_lawsD(7) [OF assms(1), of "mode_context_opt Mode_Ed448 opts" "esk_inner k" msg]
        assms(2) rfc8032_validD(1)
      by (fastforce simp: ed448_sign_msg_def Let_def ed448_ctx_def v)
  next
    case Mode_Ed448Ph
    then have "mode_context_opt (mode_from_opts opts) opts = None"
      using mode_context_cases [of opts] by auto
    then show ?thesis
      using ed448_rust_lawsD(8) [OF assms(1), of "esk_inner k" msg] Mode_Ed448Ph rfc8032_validD(1)
      by (fastforce simp: ed448_sign_msg_def Let_def ed448_ctx_def v)
  qed
qed

lemma ed448_sign_long_context:
  assumes "ed448_rust_laws H E G C" and "255 < length (ed448_ctx opts)"
  shows "\<exists>e. ed448_sign_msg E k msg opts = Error (SignatureError [Str ''ed448 sign: '', Ext e])"
proof -
  have "ed448_ctx opts = []" if "mode_context_opt (mode_from_opts opts) opts = None"
    using that by (simp add: ed448_ctx_def)
  then have c: "mode_context_opt (mode_from_opts opts) opts = Some (ed448_ctx opts)"
    and m: "mode_from_opts opts = Mode_Ed448"
    using mode_context_cases [of opts] assms(2) by (auto split: if_splits)
  then show ?thesis
    using ed448_rust_lawsD(6) [OF assms(1,2), of "esk_inner k" msg]
    by (auto simp: ed448_sign_msg_def Let_def)
qed

lemma ed448_from_seed_eq:
  "length seed = 57 \<Longrightarrow> ed448_from_seed E seed =
     (let inner = e_sk_from E seed; public = ed448_from_trusted_inner E (e_pk_from E inner)
      in Ok (public, \<lparr>esk_inner = inner, esk_public = public\<rparr>))"
  by (simp add: ed448_from_seed_def size_consts)

lemma ed448_sk_from_bytes_iff:
  "ed448_sk_from_bytes E b = Ok (pk, sk) \<longleftrightarrow>
     length b = 57 \<and> pk = ed448_from_trusted_inner E (e_pk_from E (e_sk_from E b)) \<and>
     sk = \<lparr>esk_inner = e_sk_from E b, esk_public = pk\<rparr>"
  by (auto simp: ed448_sk_from_bytes_def size_consts ed448_from_seed_eq Let_def)

lemma ed448_sk_from_bytes_panic_free [no_panic]: "panic_free (ed448_sk_from_bytes E b)"
  by (auto simp: ed448_sk_from_bytes_def ed448_from_seed_eq size_consts Let_def)

section \<open>The algorithm as a leg of the composite scheme\<close>

text \<open>
  What the composite code does with this backend, from serialised keys and with no context.
\<close>

definition ed448_sign_with ::
  "('esk, 'epk) ed448_rust \<Rightarrow> bytes \<Rightarrow> bytes \<Rightarrow> (bytes, crypto_error) outcome" where
  "ed448_sign_with E sk msg =
     and_then (map_err (\<lambda>e. SignatureError (display_crypto_error e)) (ed448_sk_from_bytes E sk))
       (\<lambda>(pk, k). ed448_sign_msg E k msg None)"

definition ed448_verify_with ::
  "hashes \<Rightarrow> ('esk, 'epk) ed448_rust \<Rightarrow> ('pt, 'sc) goldilocks \<Rightarrow> bytes \<Rightarrow> bytes \<Rightarrow> bytes
     \<Rightarrow> (unit, crypto_error) outcome" where
  "ed448_verify_with H E G pk msg sig =
     and_then (map_err (\<lambda>e. sig_error_of ''Ed448 public key parse error: '' (display_crypto_error e))
         (ed448_pk_from_bytes G pk))
       (\<lambda>k. map_err (\<lambda>e. sig_error_of ''Ed448 verification failed: '' (display_crypto_error e))
         (ed448_verify_sig H E G k msg sig None))"

fun ed448_leg_pair ::
  "hashes \<times> ('esk, 'epk) ed448_rust \<times> ('pt, 'sc) goldilocks \<times> ('pt, 'sc, 'g::ab_group_add) curve
     \<Rightarrow> bytes \<Rightarrow> bytes \<Rightarrow> bool" where
  "ed448_leg_pair (H, E, G, C) pk sk \<longleftrightarrow>
     length sk = 57 \<and> pk = e_pk_as_byte E (e_pk_from E (e_sk_from E sk))"

fun ed448_leg_sign ::
  "hashes \<times> ('esk, 'epk) ed448_rust \<times> ('pt, 'sc) goldilocks \<times> ('pt, 'sc, 'g::ab_group_add) curve
     \<Rightarrow> 'r \<Rightarrow> bytes \<Rightarrow> bytes \<Rightarrow> (bytes, crypto_error) outcome" where
  "ed448_leg_sign (H, E, G, C) r sk msg = ed448_sign_with E sk msg"

fun ed448_leg_verify ::
  "hashes \<times> ('esk, 'epk) ed448_rust \<times> ('pt, 'sc) goldilocks \<times> ('pt, 'sc, 'g::ab_group_add) curve
     \<Rightarrow> bytes \<Rightarrow> bytes \<Rightarrow> bytes \<Rightarrow> (unit, crypto_error) outcome" where
  "ed448_leg_verify (H, E, G, C) pk msg sig = ed448_verify_with H E G pk msg sig"

lemma ed448_ctx_None [simp]: "ed448_ctx None = []" "mode_from_opts None = Mode_Ed448"
  by (simp_all add: ed448_ctx_def mode_from_opts_def mode_context_opt_def)

lemma ed448_verify_with_iff:
  assumes "curve_laws G C"
  shows "ed448_verify_with H E G pk msg sig = Ok () \<longleftrightarrow>
    length pk = 57 \<and> rfc8032_valid H G C Mode_Ed448 [] pk msg sig"
  using assms [unfolded curve_laws_def, THEN conjunct2]
  by (auto simp: ed448_verify_with_def ed448_pk_from_bytes_iff ed448_verify_untrusted [OF assms]
      dest: rfc8032_validD)

interpretation ed448_leg: signature_leg ed448_laws ed448_leg_pair ed448_leg_sign ed448_leg_verify
  57 57 114
proof unfold_locales
  fix c :: "hashes \<times> ('esk, 'epk) ed448_rust \<times> ('pt, 'sc) goldilocks
      \<times> ('pt, 'sc, 'g::ab_group_add) curve"
    and pk sk :: bytes and r :: 'r and m sig :: bytes
  assume ok: "ed448_laws c"
  obtain H E G C where c: "c = (H, E, G, C)" by (cases c)
  with ok have cl: "curve_laws G C" and el: "ed448_rust_laws H E G C" by simp_all
  { assume p: "ed448_leg_pair c pk sk"
    show "length pk = 57 \<and> length sk = 57"
      using p by (auto simp: c ed448_rust_lawsD [OF el])
    have "ed448_sk_from_bytes E sk =
        Ok (ed448_from_trusted_inner E (e_pk_from E (e_sk_from E sk)),
          \<lparr>esk_inner = e_sk_from E sk,
           esk_public = ed448_from_trusted_inner E (e_pk_from E (e_sk_from E sk))\<rparr>)"
      using p by (simp add: c ed448_sk_from_bytes_iff)
    then show "\<exists>sig. ed448_leg_sign c r sk m = Ok sig \<and> length sig = 114
        \<and> ed448_leg_verify c pk m sig = Ok ()"
      using p ed448_sign_valid [OF el, of None]
      by (fastforce simp: c ed448_sign_with_def ed448_verify_with_iff [OF cl]
          ed448_rust_lawsD(4) [OF el] dest: rfc8032_validD(1)) }
  { assume "ed448_leg_verify c pk m sig = Ok ()"
    then show "length sig = 114"
      unfolding c ed448_leg_verify.simps ed448_verify_with_iff [OF cl]
      by (auto dest: rfc8032_validD(1)) }
  show "panic_free (ed448_leg_verify c pk m sig)"
    unfolding c by (auto simp: ed448_verify_with_def ed448_pk_from_bytes_panic_free ed448_verify_sig_panic_free
        intro!: panic_free_and_then)
qed

section \<open>The scheme keeps the contract of the trait\<close>

type_synonym ('esk, 'epk, 'pt, 'sc, 'g, 'r) ed448_env =
  "hashes \<times> ('esk, 'epk) ed448_rust \<times> ('pt, 'sc) goldilocks \<times> ('pt, 'sc, 'g) curve
     \<times> ('r \<Rightarrow> nat \<Rightarrow> bytes)"

fun ed448_scheme_ok :: "('esk, 'epk, 'pt, 'sc, 'g::ab_group_add, 'r) ed448_env \<Rightarrow> bool" where
  "ed448_scheme_ok (H, E, G, C, os_rng) \<longleftrightarrow> curve_laws G C \<and> ed448_rust_laws H E G C"

fun ed448_scheme_of :: "('esk, 'epk, 'pt, 'sc, 'g::ab_group_add, 'r) ed448_env \<Rightarrow> 'r scheme" where
  "ed448_scheme_of (H, E, G, C, os_rng) = ed448_scheme H E G os_rng"

lemma ed448_dyn_verify_Ok:
  "panic_free (pk_marshal pk) \<Longrightarrow> \<exists>b. ed448_dyn_verify H E G pk m sig opts = Ok b"
  unfolding ed448_dyn_verify_def
  by (auto simp: ed448_pk_from_bytes_panic_free ed448_verify_sig_panic_free
      intro!: case_false_total is_ok_total)

lemma ed448_dyn_verify_True:
  assumes "curve_laws G C"
  shows "ed448_dyn_verify H E G pk m sig opts = Ok True \<longleftrightarrow>
    (\<exists>b. pk_marshal pk = Ok b \<and> length b = 57 \<and>
      rfc8032_valid H G C (mode_from_opts opts) (ed448_ctx opts) b m sig)"
proof -
  note pl = assms [unfolded curve_laws_def, THEN conjunct2]
  have "ed448_dyn_verify H E G pk m sig opts = Ok True \<longleftrightarrow>
    (\<exists>b k. pk_marshal pk = Ok b \<and> ed448_pk_from_bytes G b = Ok k \<and>
      ed448_verify_sig H E G k m sig opts = Ok ())"
    by (auto simp: ed448_dyn_verify_def split: sum.splits failure.splits)
  then show ?thesis
    by (auto simp: ed448_pk_from_bytes_iff [OF pl] ed448_verify_untrusted [OF assms]
        dest: rfc8032_validD(4))
qed

lemma ed448_derived:
  assumes "ed448_rust_laws H E G C" and "ed448_dyn_derive_key E seed = Ok (pk, sk)"
  shows "length seed = 57"
    and "pk = \<lparr>pk_scheme = Ed448, pk_marshal = Ok (e_pk_as_byte E (e_pk_from E (e_sk_from E seed)))\<rparr>"
    and "sk = \<lparr>sk_scheme = Ed448, sk_marshal = Ok seed,
      sk_public_bytes = e_pk_as_byte E (e_pk_from E (e_sk_from E seed))\<rparr>"
proof -
  show l: "length seed = 57"
    using assms(2) by (simp add: ed448_dyn_derive_key_def size_consts split: if_splits)
  then show "pk = \<lparr>pk_scheme = Ed448, pk_marshal = Ok (e_pk_as_byte E (e_pk_from E (e_sk_from E seed)))\<rparr>"
    and "sk = \<lparr>sk_scheme = Ed448, sk_marshal = Ok seed,
      sk_public_bytes = e_pk_as_byte E (e_pk_from E (e_sk_from E seed))\<rparr>"
    using assms(2) by (auto simp: ed448_dyn_derive_key_def size_consts ed448_new_key_from_seed_def
        ed448_from_seed_eq ed448_dyn_pk_def ed448_dyn_sk_def ed448_from_trusted_inner_def Let_def
        ed448_sk_as_bytes_def ed448_rust_lawsD(2) [OF assms(1)])
qed

lemma no_context_ctx: "\<not> has_context opts \<Longrightarrow> mode_from_opts opts = Mode_Ed448 \<and> ed448_ctx opts = []"
  by (auto simp: has_context_def mode_from_opts_def ed448_ctx_def mode_context_opt_def
      PREHASH_CONTEXT_def lit_def split: option.splits)

interpretation ed448_contract: scheme_contract ed448_scheme_ok ed448_scheme_of
proof unfold_locales
  fix c :: "('esk, 'epk, 'pt, 'sc, 'g::ab_group_add, 'r) ed448_env"
    and seed m sig :: bytes and pk sk opts and r :: 'r
  obtain H E G C rng where c: "c = (H, E, G, C, rng)" by (cases c)
  assume "ed448_scheme_ok c"
  then have L: "curve_laws G C" "ed448_rust_laws H E G C" by (simp_all add: c)
  note S = c ed448_scheme_def size_consts
  show "length seed \<noteq> sch_seed_size (ed448_scheme_of c) \<Longrightarrow>
      \<not> panic_free (sch_derive_key (ed448_scheme_of c) seed)"
    by (simp add: c ed448_scheme_def ed448_dyn_derive_key_def)
  show "panic_free (pk_marshal pk) \<Longrightarrow> \<exists>b. sch_verify (ed448_scheme_of c) pk m sig opts = Ok b"
    by (simp add: S ed448_dyn_verify_Ok)
  show "sch_verify (ed448_scheme_of c) pk m sig opts = Ok True \<Longrightarrow>
      length sig = sch_signature_size (ed448_scheme_of c)"
    by (auto simp: S ed448_dyn_verify_True [OF L(1)] dest: rfc8032_validD(1))
  show "\<not> sch_supports_context (ed448_scheme_of c) \<Longrightarrow> has_context opts \<Longrightarrow>
      \<not> panic_free (sch_sign (ed448_scheme_of c) r sk m opts) \<and>
      sch_verify (ed448_scheme_of c) pk m sig opts = Ok False"
    by (simp add: S)
  assume "sch_derive_key (ed448_scheme_of c) seed = Ok (pk, sk)"
  then have d: "ed448_dyn_derive_key E seed = Ok (pk, sk)" by (simp add: S)
  note k = ed448_derived [OF L(2) d]
  have A: "\<exists>A. canonical_point G C (e_pk_as_byte E (e_pk_from E (e_sk_from E seed))) A"
    by (rule ed448_rust_lawsD(5) [OF L(2)])
  let ?pub = "ed448_from_trusted_inner E (e_pk_from E (e_sk_from E seed))"
  let ?k = "\<lparr>esk_inner = e_sk_from E seed, esk_public = ?pub\<rparr>"
  have pk: "ed448_pk_from_bytes G (e_pk_as_byte E (e_pk_from E (e_sk_from E seed))) =
      (Ok \<lparr>epk_raw = e_pk_as_byte E (e_pk_from E (e_sk_from E seed)), epk_trusted_inner = None\<rparr>
        :: ('epk ed448_public_key, crypto_error) outcome)"
    using A by (simp add: ed448_pk_from_bytes_iff [OF L(1) [unfolded curve_laws_def, THEN conjunct2]]
        ed448_rust_lawsD(4) [OF L(2)])
  have sk: "ed448_sk_from_bytes E seed = Ok (?pub, ?k)"
    using k(1) by (simp add: ed448_sk_from_bytes_iff)
  show "\<exists>pb sb. pk_marshal pk = Ok pb \<and> length pb = sch_public_key_size (ed448_scheme_of c) \<and>
        sk_marshal sk = Ok sb \<and> length sb = sch_private_key_size (ed448_scheme_of c) \<and>
        sk_public_bytes sk = pb \<and> sch_unmarshal_public (ed448_scheme_of c) pb = Ok pk \<and>
        sch_unmarshal_private (ed448_scheme_of c) sb = Ok sk"
    using k by (simp add: S sk pk ed448_dyn_pk_def
        ed448_dyn_sk_def ed448_sk_as_bytes_def ed448_from_trusted_inner_def
        ed448_rust_lawsD(2,4) [OF L(2)])
  show "\<not> has_context opts \<Longrightarrow> \<exists>sig. sch_sign (ed448_scheme_of c) r sk m opts = Ok sig \<and>
      length sig = sch_signature_size (ed448_scheme_of c) \<and>
      sch_verify (ed448_scheme_of c) pk m sig opts = Ok True"
    using k ed448_sign_valid [OF L(2), of opts ?k m] no_context_ctx [of opts]
    by (auto simp: S ed448_dyn_sign_def ed448_sk_try_from_def sk ed448_dyn_verify_True [OF L(1)]
        ed448_rust_lawsD(4) [OF L(2)] dest: rfc8032_validD(1))
qed

end
