(* ===== verification/Crypto.thy ===== *)
theory Crypto
  imports HdWallet MlDsa P521 Ed448_Verify
begin

text \<open>
  \<^verbatim>\<open>src/crypto.rs\<close>: the composite keys.  A public key is the three serialised public
  keys, a private key the three serialised private keys with the seed and the public key.
  \<open>composite_sign\<close> and \<open>composite_verify\<close> are the block the message functions here and the
  transaction functions of \<^verbatim>\<open>transaction/signing.rs\<close> both contain.

  The proofs only use the three backends through the facts of \<open>signature_leg\<close>.
\<close>

section \<open>The crates behind the composite scheme\<close>

record ('dv, 'ds, 'dg, 'v, 's, 'g, 'r, 'es, 'ep, 'pt, 'sc) crates =
  hsh :: hashes
  mld :: "('dv, 'ds, 'dg) ml_dsa"
  p5 :: "('v, 's, 'g, 'r) p521"
  edr :: "('es, 'ep) ed448_rust"
  gld :: "('pt, 'sc) goldilocks"

definition crates_laws ::
  "('dv, 'ds, 'dg, 'v, 's, 'g, 'r, 'es, 'ep, 'pt, 'sc) crates
     \<Rightarrow> ('pt, 'sc, 'grp::ab_group_add) curve \<Rightarrow> bool" where
  "crates_laws K C \<longleftrightarrow>
     hash_laws (hsh K) \<and> ml_dsa_laws (mld K) \<and> p521_laws (p5 K) \<and>
     ed448_laws (hsh K, edr K, gld K, C)"

lemma crates_lawsD:
  assumes "crates_laws K C"
  shows "hash_laws (hsh K)" "ml_dsa_laws (mld K)" "p521_laws (p5 K)"
    "ed448_laws (hsh K, edr K, gld K, C)" "curve_laws (gld K) C" "point_laws (gld K) C"
    "ed448_rust_laws (hsh K) (edr K) (gld K) C"
  using assms by (simp_all add: crates_laws_def curve_laws_def)

section \<open>Constants\<close>

definition ALGO_ID :: byte where "ALGO_ID = 1"
definition VERSION :: byte where "VERSION = 1"

definition COMPOSITE_PK_SIZE :: nat where [size_consts]:
  "COMPOSITE_PK_SIZE = DIL_PUBLIC_KEY_SIZE + P521_PUBLIC_KEY_SIZE + ED448_PUBLIC_KEY_SIZE"

definition COMPOSITE_SIG_SIZE :: nat where [size_consts]:
  "COMPOSITE_SIG_SIZE = DIL_SIGNATURE_SIZE + P521_SIGNATURE_SIZE + ED448_SIGNATURE_SIZE"

section \<open>Public keys\<close>

record bc_public_key =
  bpk_dilithium :: bytes
  bpk_p521 :: bytes
  bpk_ed448 :: bytes

definition bpk_to_bytes :: "bc_public_key \<Rightarrow> bytes" where
  "bpk_to_bytes pk = bpk_dilithium pk @ bpk_p521 pk @ bpk_ed448 pk"

definition bpk_from_bytes ::
  "('dv, 'ds, 'dg, 'v, 's, 'g, 'r, 'es, 'ep, 'pt, 'sc) crates \<Rightarrow> bytes
     \<Rightarrow> (bc_public_key, crypto_error) outcome" where
  "bpk_from_bytes K b =
     (if length b \<noteq> COMPOSITE_PK_SIZE then Error (InvalidKeySize COMPOSITE_PK_SIZE (length b))
      else
        and_then (slice_to DIL_PUBLIC_KEY_SIZE b)
      (\<lambda>dil_bytes. and_then
        (slice DIL_PUBLIC_KEY_SIZE (DIL_PUBLIC_KEY_SIZE + P521_PUBLIC_KEY_SIZE) b)
      (\<lambda>p521_bytes. and_then (slice_from (DIL_PUBLIC_KEY_SIZE + P521_PUBLIC_KEY_SIZE) b)
      (\<lambda>ed448_bytes. and_then (map_err dil_into (dil_pk_from_bytes (mld K) dil_bytes))
      (\<lambda>_. and_then (p521_pk_from_bytes (p5 K) p521_bytes)
      (\<lambda>_. and_then (ed448_pk_from_bytes (gld K) ed448_bytes
               :: ('ep ed448_public_key, crypto_error) outcome)
      (\<lambda>_. Ok \<lparr>bpk_dilithium = dil_bytes, bpk_p521 = p521_bytes, bpk_ed448 = ed448_bytes\<rparr>)))))))"

text \<open>
  \<open>derive_address_steps\<close> is the function with its two calls that could panic, the slice and
  \<^verbatim>\<open>Address::from_slice\<close>.  The digest is an array of 32 bytes, so it always returns
  (\<open>derive_address_returns\<close>); the rest of the model uses the value, \<open>derive_address\<close>.
\<close>

definition derive_address_steps :: "hashes \<Rightarrow> bc_public_key \<Rightarrow> (bytes, 'e) outcome" where
  "derive_address_steps H pk =
     (let hash = keccak256 H (bpk_dilithium pk @ bpk_p521 pk @ bpk_ed448 pk) in
      and_then (slice 12 32 hash) address_from_slice)"

definition derive_address :: "hashes \<Rightarrow> bc_public_key \<Rightarrow> bytes" where
  "derive_address H pk =
     take 20 (drop 12 (keccak256 H (bpk_dilithium pk @ bpk_p521 pk @ bpk_ed448 pk)))"

text \<open>The hash that ties the three keys together, and the message a classical curve signs.\<close>

definition compute_h_combined :: "hashes \<Rightarrow> bc_public_key \<Rightarrow> bytes \<Rightarrow> bytes" where
  "compute_h_combined H pk entg_nonce =
     shake256 H (bpk_dilithium pk @ bpk_p521 pk @ bpk_ed448 pk @ entg_nonce) 32"

definition curve_msg :: "bytes \<Rightarrow> bytes \<Rightarrow> byte \<Rightarrow> bytes" where
  "curve_msg hash h_combined curve_id = hash @ h_combined @ [curve_id]"

definition composite_verify ::
  "('dv, 'ds, 'dg, 'v, 's, 'g, 'r, 'es, 'ep, 'pt, 'sc) crates \<Rightarrow> bc_public_key \<Rightarrow> bytes \<Rightarrow> bytes
     \<Rightarrow> bytes \<Rightarrow> (unit, crypto_error) outcome" where
  "composite_verify K pk hash h_combined signature =
     (if length signature \<noteq> COMPOSITE_SIG_SIZE
      then Error (SignatureError [Str ''composite signature has wrong length: '',
             Num (length signature), Str '' bytes (expected '', Num COMPOSITE_SIG_SIZE, Str '')''])
      else
        and_then (slice_to DIL_SIGNATURE_SIZE signature)
      (\<lambda>dil_sig. and_then
        (slice DIL_SIGNATURE_SIZE (DIL_SIGNATURE_SIZE + P521_SIGNATURE_SIZE) signature)
      (\<lambda>p521_sig. and_then (slice_from (DIL_SIGNATURE_SIZE + P521_SIGNATURE_SIZE) signature)
      (\<lambda>ed448_sig. and_then (dil_leg_verify (mld K) (bpk_dilithium pk) hash dil_sig)
      (\<lambda>_. and_then (p521_leg_verify (p5 K) (bpk_p521 pk)
               (curve_msg hash h_combined CURVE_ID_P521) p521_sig)
      (\<lambda>_. ed448_verify_with (hsh K) (edr K) (gld K) (bpk_ed448 pk)
               (curve_msg hash h_combined CURVE_ID_ED448) ed448_sig))))))"

definition verify_message ::
  "('dv, 'ds, 'dg, 'v, 's, 'g, 'r, 'es, 'ep, 'pt, 'sc) crates \<Rightarrow> bc_public_key \<Rightarrow> bytes \<Rightarrow> bytes
     \<Rightarrow> (bool, crypto_error) outcome" where
  "verify_message K pk message signature =
     (let hash = keccak256 (hsh K) message;
          entg_nonce = replicate 16 0;
          h_combined = compute_h_combined (hsh K) pk entg_nonce
      in and_then (composite_verify K pk hash h_combined signature) (\<lambda>_. Ok True))"

section \<open>Private keys\<close>

record bc_private_key =
  bsk_dilithium :: bytes
  bsk_p521 :: bytes
  bsk_ed448 :: bytes
  bsk_seed :: bytes
  bsk_public :: bc_public_key

definition bsk_generate ::
  "('dv, 'ds, 'dg, 'v, 's, 'g, 'r, 'es, 'ep, 'pt, 'sc) crates \<Rightarrow> bytes
     \<Rightarrow> (bc_private_key \<times> bc_public_key, crypto_error) outcome" where
  "bsk_generate K seed =
     (if length seed < 64
      then Error (SeedError [Str ''seed must be at least 64 bytes for BlackChain key derivation''])
      else
        and_then (and_then (slice_to DIL_SEED_SIZE seed) (copy_from_slice DIL_SEED_SIZE))
      (\<lambda>dil_seed. and_then (dil_new_key_from_seed (mld K) dil_seed)
      (\<lambda>(dil_pk, dil_sk). and_then (slice 32 64 seed)
      (\<lambda>mdecc_seed. and_then
        (derive_mdecc_curve_seed (hsh K) mdecc_seed CURVE_ID_P521 P521_SEED_SIZE)
      (\<lambda>p521_seed. and_then (p521_derive_key_typed (p5 K) (hsh K) p521_seed)
      (\<lambda>(p521_pk, p521_sk). and_then
        (derive_mdecc_curve_seed (hsh K) mdecc_seed CURVE_ID_ED448 ED448_SEED_SIZE)
      (\<lambda>ed448_seed. and_then (ed448_new_key_from_seed (edr K) ed448_seed)
      (\<lambda>(ed448_pk, ed448_sk). and_then (dil_sk_pack (mld K) dil_sk)
      (\<lambda>dil_sk_buf. and_then (dil_pk_pack (mld K) dil_pk)
      (\<lambda>dil_pk_buf. and_then (ed448_sk_as_bytes (edr K) ed448_sk)
      (\<lambda>ed448_sk_bytes.
         let pub_key = \<lparr>bpk_dilithium = dil_pk_buf, bpk_p521 = p521_pk_as_bytes (p5 K) p521_pk,
               bpk_ed448 = ed448_pk_as_bytes ed448_pk\<rparr>
         in Ok (\<lparr>bsk_dilithium = dil_sk_buf, bsk_p521 = p521_sk_as_bytes (p5 K) p521_sk,
                 bsk_ed448 = ed448_sk_bytes, bsk_seed = seed, bsk_public = pub_key\<rparr>,
                pub_key))))))))))))"

definition derive_public_key ::
  "('dv, 'ds, 'dg, 'v, 's, 'g, 'r, 'es, 'ep, 'pt, 'sc) crates \<Rightarrow> bc_private_key
     \<Rightarrow> (bc_public_key, crypto_error) outcome" where
  "derive_public_key K key =
     (let seed = bsk_seed key in
        and_then (and_then (slice_to DIL_SEED_SIZE seed) (copy_from_slice DIL_SEED_SIZE))
      (\<lambda>dil_seed. and_then (dil_new_key_from_seed (mld K) dil_seed)
      (\<lambda>(dil_pk, _). and_then (slice 32 64 seed)
      (\<lambda>mdecc_seed. and_then
        (derive_mdecc_curve_seed (hsh K) mdecc_seed CURVE_ID_P521 P521_SEED_SIZE)
      (\<lambda>p521_seed. and_then (p521_derive_key_typed (p5 K) (hsh K) p521_seed)
      (\<lambda>(p521_pk, _). and_then
        (derive_mdecc_curve_seed (hsh K) mdecc_seed CURVE_ID_ED448 ED448_SEED_SIZE)
      (\<lambda>ed448_seed. and_then (ed448_new_key_from_seed (edr K) ed448_seed)
      (\<lambda>(ed448_pk, _). and_then (dil_pk_pack (mld K) dil_pk)
      (\<lambda>dil_pk_buf.
         Ok \<lparr>bpk_dilithium = dil_pk_buf, bpk_p521 = p521_pk_as_bytes (p5 K) p521_pk,
             bpk_ed448 = ed448_pk_as_bytes ed448_pk\<rparr>)))))))))"

definition composite_sign ::
  "('dv, 'ds, 'dg, 'v, 's, 'g, 'r, 'es, 'ep, 'pt, 'sc) crates \<Rightarrow> 'r \<Rightarrow> bc_private_key \<Rightarrow> bytes
     \<Rightarrow> bytes \<Rightarrow> (bytes, crypto_error) outcome" where
  "composite_sign K r key hash h_combined =
       and_then (dil_leg_sign (mld K) r (bsk_dilithium key) hash)
     (\<lambda>dil_sig. and_then (p521_leg_sign (p5 K) r (bsk_p521 key)
         (curve_msg hash h_combined CURVE_ID_P521))
     (\<lambda>p521_sig. and_then (ed448_sign_with (edr K) (bsk_ed448 key)
         (curve_msg hash h_combined CURVE_ID_ED448))
     (\<lambda>ed448_sig. Ok (dil_sig @ p521_sig @ ed448_sig))))"

definition sign_message ::
  "('dv, 'ds, 'dg, 'v, 's, 'g, 'r, 'es, 'ep, 'pt, 'sc) crates \<Rightarrow> 'r \<Rightarrow> bc_private_key \<Rightarrow> bytes
     \<Rightarrow> (bytes, crypto_error) outcome" where
  "sign_message K r key message =
     (let hash = keccak256 (hsh K) message;
          entg_nonce = replicate 16 0;
          h_combined = compute_h_combined (hsh K) (bsk_public key) entg_nonce
      in composite_sign K r key hash h_combined)"

section \<open>Well-formed keys\<close>

text \<open>The sub-keys have their sizes and are accepted by the three parsers.\<close>

definition pk_valid ::
  "('dv, 'ds, 'dg, 'v, 's, 'g, 'r, 'es, 'ep, 'pt, 'sc) crates \<Rightarrow> bc_public_key \<Rightarrow> bool" where
  "pk_valid K pk \<longleftrightarrow>
     length (bpk_dilithium pk) = 2592 \<and> length (bpk_p521 pk) = 133 \<and> length (bpk_ed448 pk) = 57 \<and>
     accepted (dil_pk_from_bytes (mld K) (bpk_dilithium pk)) \<and>
     accepted (p521_pk_from_bytes (p5 K) (bpk_p521 pk)) \<and>
     accepted (ed448_pk_from_bytes (gld K) (bpk_ed448 pk)
       :: ('ep ed448_public_key, crypto_error) outcome)"

text \<open>The invariant of a private key: each stored sub-key belongs to the cached public one.\<close>

definition key_wf ::
  "('dv, 'ds, 'dg, 'v, 's, 'g, 'r, 'es, 'ep, 'pt, 'sc) crates \<Rightarrow> bc_private_key \<Rightarrow> bool" where
  "key_wf K k \<longleftrightarrow>
     dil_leg_pair (mld K) (bpk_dilithium (bsk_public k)) (bsk_dilithium k) \<and>
     p521_leg_pair (p5 K) (bpk_p521 (bsk_public k)) (bsk_p521 k) \<and>
     length (bsk_ed448 k) = 57 \<and>
     bpk_ed448 (bsk_public k) = e_pk_as_byte (edr K) (e_pk_from (edr K) (e_sk_from (edr K) (bsk_ed448 k)))"

lemma key_wf_ed448:
  "key_wf K k \<Longrightarrow>
    ed448_leg_pair (hsh K, edr K, gld K, C) (bpk_ed448 (bsk_public k)) (bsk_ed448 k)"
  by (simp add: key_wf_def)

lemma key_wf_pk_valid:
  assumes "crates_laws K C" and "key_wf K k"
  shows "pk_valid K (bsk_public k)"
proof -
  note L = crates_lawsD [OF assms(1)]
  have d: "length (bpk_dilithium (bsk_public k)) = 2592"
    and p: "length (bpk_p521 (bsk_public k)) = 133"
    and e: "length (bpk_ed448 (bsk_public k)) = 57"
    using dil_leg.pair_sizes [OF L(2)] p521_leg.pair_sizes [OF L(3)]
      ed448_leg.pair_sizes [OF L(4) key_wf_ed448] assms(2) by (auto simp: key_wf_def)
  moreover have "accepted (p521_pk_from_bytes (p5 K) (bpk_p521 (bsk_public k)))"
    using assms(2) p521_lawsD(2) [OF L(3)]
    by (auto simp: key_wf_def p521_leg_pair_def p521_pk_from_bytes_def)
  moreover have "accepted (ed448_pk_from_bytes (gld K) (bpk_ed448 (bsk_public k))
      :: ('ep ed448_public_key, crypto_error) outcome)"
    using e assms(2) ed448_rust_lawsD(5) [OF L(7)]
    by (auto simp: key_wf_def ed448_pk_from_bytes_iff [OF L(6)])
  ultimately show ?thesis
    by (simp add: pk_valid_def dil_pk_from_bytes_iff [OF L(2)])
qed

lemma pk_valid_size: "pk_valid K pk \<Longrightarrow> length (bpk_to_bytes pk) = 2782"
  by (simp add: pk_valid_def bpk_to_bytes_def)

lemma bpk_from_bytes_iff:
  "bpk_from_bytes K b = Ok pk \<longleftrightarrow> b = bpk_to_bytes pk \<and> pk_valid K pk"
proof
  assume "bpk_from_bytes K b = Ok pk"
  then show "b = bpk_to_bytes pk \<and> pk_valid K pk"
    using split_three [of b 2592 133 57]
    by (auto simp: bpk_from_bytes_def size_consts bpk_to_bytes_def pk_valid_def split: if_splits)
next
  assume "b = bpk_to_bytes pk \<and> pk_valid K pk"
  then show "bpk_from_bytes K b = Ok pk"
    by (auto simp: bpk_from_bytes_def size_consts bpk_to_bytes_def pk_valid_def)
qed

lemma bpk_to_bytes_inj:
  assumes "pk_valid K pk" "pk_valid K pk'" "bpk_to_bytes pk = bpk_to_bytes pk'"
  shows "pk = pk'"
proof -
  have "bpk_from_bytes K (bpk_to_bytes pk) = Ok pk" "bpk_from_bytes K (bpk_to_bytes pk) = Ok pk'"
    using assms by (simp_all add: bpk_from_bytes_iff)
  then show ?thesis by simp
qed

lemma bpk_from_bytes_panic_free [no_panic]: "panic_free (bpk_from_bytes K b)"
  by (auto simp: bpk_from_bytes_def size_consts dil_pk_from_bytes_panic_free
      p521_pk_from_bytes_panic_free ed448_pk_from_bytes_panic_free intro!: panic_free_and_then)

lemma derive_address_returns: "hash_laws H \<Longrightarrow> derive_address_steps H pk = Ok (derive_address H pk)"
  by (simp add: derive_address_steps_def derive_address_def Let_def hash_lawsD)

lemma derive_address_size: "hash_laws H \<Longrightarrow> length (derive_address H pk) = 20"
  by (simp add: derive_address_def hash_lawsD)

section \<open>Composite signatures\<close>

text \<open>Acceptance is acceptance of the three parts, each by its own algorithm.\<close>

lemma composite_verify_iff:
  "composite_verify K pk hash h sig = Ok () \<longleftrightarrow>
    length sig = 4873 \<and>
    dil_leg_verify (mld K) (bpk_dilithium pk) hash (take 4627 sig) = Ok () \<and>
    p521_leg_verify (p5 K) (bpk_p521 pk) (curve_msg hash h CURVE_ID_P521)
      (take 132 (drop 4627 sig)) = Ok () \<and>
    ed448_verify_with (hsh K) (edr K) (gld K) (bpk_ed448 pk) (curve_msg hash h CURVE_ID_ED448)
      (drop 4759 sig) = Ok ()"
  by (auto simp: composite_verify_def size_consts)

lemma composite_verify_wrong_size:
  "length sig \<noteq> 4873 \<Longrightarrow> composite_verify K pk hash h sig = Error (SignatureError
     [Str ''composite signature has wrong length: '', Num (length sig),
      Str '' bytes (expected '', Num 4873, Str '')''])"
  by (simp add: composite_verify_def size_consts)

lemma ed448_verify_with_panic_free [no_panic]: "panic_free (ed448_verify_with H E G pk m sig)"
  by (auto simp: ed448_verify_with_def ed448_pk_from_bytes_panic_free ed448_verify_sig_panic_free
      intro!: panic_free_and_then)

lemma dil_leg_verify_panic_free [no_panic]: "panic_free (dil_leg_verify D pk m sig)"
  by (auto simp: dil_leg_verify_def dil_pk_from_bytes_panic_free dil_verify_panic_free
      intro!: panic_free_and_then)

lemma p521_leg_verify_panic_free [no_panic]: "panic_free (p521_leg_verify P pk m sig)"
  by (auto simp: p521_leg_verify_def p521_pk_from_bytes_panic_free p521_verify_panic_free
      intro!: panic_free_and_then)

lemma composite_verify_panic_free [no_panic]: "panic_free (composite_verify K pk hash h sig)"
proof (cases "length sig = 4873")
  case True
  then show ?thesis
    by (simp add: composite_verify_def size_consts)
      (rule panic_free_and_then dil_leg_verify_panic_free p521_leg_verify_panic_free
        ed448_verify_with_panic_free)+
next
  case False
  then show ?thesis by (simp add: composite_verify_def size_consts)
qed

lemma verify_message_panic_free [no_panic]: "panic_free (verify_message K pk m sig)"
  by (auto simp: verify_message_def Let_def composite_verify_panic_free intro!: panic_free_and_then)

lemma composite_sign_verify:
  assumes "crates_laws K C" and "key_wf K k"
  shows "\<exists>sig. composite_sign K r k hash h = Ok sig \<and> length sig = 4873 \<and>
    composite_verify K (bsk_public k) hash h sig = Ok ()"
proof -
  note L = crates_lawsD [OF assms(1)]
  let ?m1 = "curve_msg hash h CURVE_ID_P521" and ?m2 = "curve_msg hash h CURVE_ID_ED448"
  obtain ds where d: "dil_leg_sign (mld K) r (bsk_dilithium k) hash = Ok ds" "length ds = 4627"
      "dil_leg_verify (mld K) (bpk_dilithium (bsk_public k)) hash ds = Ok ()"
    using dil_leg.complete [OF L(2), of "bpk_dilithium (bsk_public k)" "bsk_dilithium k" r hash]
      assms(2) unfolding key_wf_def by blast
  obtain ps where p: "p521_leg_sign (p5 K) r (bsk_p521 k) ?m1 = Ok ps" "length ps = 132"
      "p521_leg_verify (p5 K) (bpk_p521 (bsk_public k)) ?m1 ps = Ok ()"
    using p521_leg.complete [OF L(3), of "bpk_p521 (bsk_public k)" "bsk_p521 k" r ?m1]
      assms(2) unfolding key_wf_def by blast
  obtain es where e: "ed448_sign_with (edr K) (bsk_ed448 k) ?m2 = Ok es" "length es = 114"
      "ed448_verify_with (hsh K) (edr K) (gld K) (bpk_ed448 (bsk_public k)) ?m2 es = Ok ()"
    using ed448_leg.complete [OF L(4) key_wf_ed448 [OF assms(2)], of r ?m2]
    by (auto simp del: ed448_leg_pair.simps)
  have "composite_sign K r k hash h = Ok (ds @ ps @ es)"
    using d p e by (simp add: composite_sign_def)
  with d p e show ?thesis by (simp add: composite_verify_iff)
qed

text \<open>
  Acceptance of a composite signature, down to the operations of the crates: \<open>dg\<close>, \<open>pv\<close>
  and \<open>pg\<close> are what the crates decode from the bytes.
\<close>

definition sub_signatures_hold ::
  "('dv, 'ds, 'dg, 'v, 's, 'g, 'r, 'es, 'ep, 'pt, 'sc) crates
     \<Rightarrow> ('pt, 'sc, 'grp::ab_group_add) curve \<Rightarrow> bc_public_key \<Rightarrow> bytes \<Rightarrow> bytes \<Rightarrow> bytes
     \<Rightarrow> 'dg \<Rightarrow> 'v \<Rightarrow> 'g \<Rightarrow> bool" where
  "sub_signatures_hold K C pk hash h sig dg pv pg \<longleftrightarrow>
     length (bpk_dilithium pk) = 2592 \<and> length (bpk_p521 pk) = 133 \<and> length (bpk_ed448 pk) = 57 \<and>
     length sig = 4873 \<and>
     d_decode_sig (mld K) (take 4627 sig) = Inr dg \<and>
     d_verify_with_context (mld K) (d_decode_vk (mld K) (bpk_dilithium pk)) hash [] dg \<and>
     p_vk_from_sec1_bytes (p5 K) (bpk_p521 pk) = Inr pv \<and>
     p_sig_from_slice (p5 K) (take 132 (drop 4627 sig)) = Inr pg \<and>
     p_normalize_s (p5 K) pg = None \<and>
     p_verify (p5 K) pv (hash @ h @ [1]) pg = Inr () \<and>
     rfc8032_valid (hsh K) (gld K) C Mode_Ed448 [] (bpk_ed448 pk) (hash @ h @ [2]) (drop 4759 sig)"

lemma composite_accepts_iff:
  assumes "crates_laws K C"
  shows "pk_valid K pk \<and> composite_verify K pk hash h sig = Ok () \<longleftrightarrow>
    (\<exists>dg pv pg. sub_signatures_hold K C pk hash h sig dg pv pg)"
proof -
  note L = crates_lawsD [OF assms]
  have d: "dil_leg_verify (mld K) pk h sig = Ok () \<longleftrightarrow> length pk = 2592 \<and> length sig = 4627 \<and>
      (\<exists>g. d_decode_sig (mld K) sig = Inr g \<and>
        d_verify_with_context (mld K) (d_decode_vk (mld K) pk) h [] g)" for pk h sig
    by (auto simp: dil_leg_verify_def dil_pk_from_bytes_iff [OF L(2)] dil_verify_internal_def size_consts)
  have p: "p521_leg_verify (p5 K) pk m sig = Ok () \<longleftrightarrow> (\<exists>v g. p_vk_from_sec1_bytes (p5 K) pk = Inr v \<and>
      p_sig_from_slice (p5 K) sig = Inr g \<and> p_normalize_s (p5 K) g = None \<and>
      p_verify (p5 K) v m g = Inr ())" for pk m sig
    by (auto simp: p521_leg_verify_def p521_pk_from_bytes_def p521_verify_sig_iff)
  have e: "ed448_verify_with (hsh K) (edr K) (gld K) pk m sig = Ok () \<longleftrightarrow> length pk = 57 \<and>
      rfc8032_valid (hsh K) (gld K) C Mode_Ed448 [] pk m sig" for pk m sig
    by (rule ed448_verify_with_iff [OF L(5)])
  have m: "curve_msg hash h CURVE_ID_P521 = hash @ h @ [1]"
    "curve_msg hash h CURVE_ID_ED448 = hash @ h @ [2]"
    by (simp_all add: curve_msg_def CURVE_ID_P521_def CURVE_ID_ED448_def)
  show ?thesis
    using rfc8032_validD(4)
    by (fastforce simp: pk_valid_def composite_verify_iff dil_pk_from_bytes_iff [OF L(2)] d p e m
        p521_pk_from_bytes_def ed448_pk_from_bytes_iff [OF L(6)] sub_signatures_hold_def)
qed

section \<open>Key generation\<close>

text \<open>
  What generation computes from the two halves of the seed; the P-521 derivation is the only
  step that can stop it.
\<close>

definition p521_curve_seed :: "hashes \<Rightarrow> bytes \<Rightarrow> bytes" where
  "p521_curve_seed H seed =
     the (hkdf_sha3_512 H None (shake256 H (take 32 (drop 32 seed) @ [CURVE_ID_P521]) 32) [] 66)"

definition ed448_curve_seed :: "hashes \<Rightarrow> bytes \<Rightarrow> bytes" where
  "ed448_curve_seed H seed =
     the (hkdf_sha3_512 H None (shake256 H (take 32 (drop 32 seed) @ [CURVE_ID_ED448]) 32) [] 57)"

lemma curve_seeds:
  assumes "hash_laws H"
  shows "derive_mdecc_curve_seed H (take 32 (drop 32 seed)) CURVE_ID_P521 66 =
      Ok (p521_curve_seed H seed)"
    and "length (p521_curve_seed H seed) = 66"
    and "derive_mdecc_curve_seed H (take 32 (drop 32 seed)) CURVE_ID_ED448 57 =
      Ok (ed448_curve_seed H seed)"
    and "length (ed448_curve_seed H seed) = 57"
  using derive_mdecc_curve_seed_Ok [OF assms, of 66 "take 32 (drop 32 seed)" CURVE_ID_P521]
    derive_mdecc_curve_seed_Ok [OF assms, of 57 "take 32 (drop 32 seed)" CURVE_ID_ED448]
  by (auto simp: p521_curve_seed_def ed448_curve_seed_def derive_mdecc_curve_seed_def)

definition p521_keys ::
  "('dv, 'ds, 'dg, 'v, 's, 'g, 'r, 'es, 'ep, 'pt, 'sc) crates \<Rightarrow> bytes
     \<Rightarrow> ('v \<times> 's, crypto_error) outcome" where
  "p521_keys K seed = p521_derive_keypair_from_seed (p5 K) (hsh K) (p521_curve_seed (hsh K) seed)"

lemma p521_keys_Ok:
  assumes "crates_laws K C" and "p521_keys K seed = Ok (pk, sk)"
  shows "pk = p_vk_of (p5 K) sk" and "length (p_sk_to_bytes (p5 K) sk) = 66"
    and "p_sk_from_slice (p5 K) (p_sk_to_bytes (p5 K) sk) = Inr sk"
  using p521_derive_size [OF crates_lawsD(3,1) [OF assms(1)]] assms(2)
  unfolding p521_keys_def by blast+

definition keys_of ::
  "('dv, 'ds, 'dg, 'v, 's, 'g, 'r, 'es, 'ep, 'pt, 'sc) crates \<Rightarrow> bytes \<Rightarrow> 's \<Rightarrow> bc_private_key"
where
  "keys_of K seed sk =
     \<lparr>bsk_dilithium = take 32 seed, bsk_p521 = p_sk_to_bytes (p5 K) sk,
      bsk_ed448 = ed448_curve_seed (hsh K) seed, bsk_seed = seed,
      bsk_public =
        \<lparr>bpk_dilithium = d_encode_vk (mld K) (d_verifying_key (mld K) (d_from_seed (mld K) (take 32 seed))),
         bpk_p521 = p_vk_uncompressed (p5 K) (p_vk_of (p5 K) sk),
         bpk_ed448 = e_pk_as_byte (edr K) (e_pk_from (edr K)
           (e_sk_from (edr K) (ed448_curve_seed (hsh K) seed)))\<rparr>\<rparr>"

lemma bsk_generate_eq:
  assumes "crates_laws K C" and "64 \<le> length seed"
  shows "bsk_generate K seed =
    and_then (p521_keys K seed)
      (\<lambda>(pk, sk). Ok (keys_of K seed sk, bsk_public (keys_of K seed sk)))"
proof -
  note L = crates_lawsD [OF assms(1)]
  show ?thesis
  proof (cases "p521_keys K seed")
    case (Inl e)
    then show ?thesis using assms(2)
      by (simp add: bsk_generate_def size_consts dil_new_key_from_seed_def dil_from_seed_eq [OF L(2)]
          curve_seeds [OF L(1)] p521_derive_key_typed_def p521_keys_def [symmetric])
  next
    case (Inr kp)
    then obtain pk sk where kp: "p521_keys K seed = Ok (pk, sk)" by (cases kp) auto
    then have "pk = p_vk_of (p5 K) sk" by (rule p521_keys_Ok(1) [OF assms(1)])
    with kp show ?thesis using assms(2)
      by (simp add: bsk_generate_def size_consts dil_new_key_from_seed_def dil_from_seed_eq [OF L(2)]
          curve_seeds [OF L(1)] p521_derive_key_typed_def p521_keys_def [symmetric] ed448_new_key_from_seed_def
          ed448_from_seed_eq Let_def dil_sk_pack_def dil_pk_pack_def ml_dsa_lawsD [OF L(2)]
          ed448_sk_as_bytes_def ed448_rust_lawsD [OF L(7)] keys_of_def p521_pk_as_bytes_def
          p521_sk_as_bytes_def ed448_pk_as_bytes_def ed448_from_trusted_inner_def)
  qed
qed

lemma bsk_generate_Ok:
  assumes "crates_laws K C" and "bsk_generate K seed = Ok (k, pub)"
  shows "64 \<le> length seed" and "pub = bsk_public k"
    and "\<exists>sk. k = keys_of K seed sk \<and> p521_keys K seed = Ok (p_vk_of (p5 K) sk, sk)"
proof -
  note L = crates_lawsD [OF assms(1)]
  show s: "64 \<le> length seed"
    using assms(2) by (auto simp: bsk_generate_def split: if_splits)
  obtain pk sk where kp: "p521_keys K seed = Ok (pk, sk)"
      and k: "k = keys_of K seed sk" "pub = bsk_public k"
    using assms(2) unfolding bsk_generate_eq [OF assms(1) s] by auto
  show "pub = bsk_public k" by (rule k(2))
  have "pk = p_vk_of (p5 K) sk" by (rule p521_keys_Ok(1) [OF assms(1) kp])
  with kp k show "\<exists>sk. k = keys_of K seed sk \<and> p521_keys K seed = Ok (p_vk_of (p5 K) sk, sk)"
    by auto
qed

lemma bsk_generate_wf:
  assumes "crates_laws K C" and "bsk_generate K seed = Ok (k, pub)"
  shows "key_wf K k"
proof -
  note L = crates_lawsD [OF assms(1)]
  obtain sk where k: "k = keys_of K seed sk"
      and d: "p521_keys K seed = Ok (p_vk_of (p5 K) sk, sk)"
    using bsk_generate_Ok(3) [OF assms] by blast
  have s: "64 \<le> length seed" by (rule bsk_generate_Ok(1) [OF assms])
  note p = p521_keys_Ok(2,3) [OF assms(1) d]
  show ?thesis
    using s p curve_seeds(4) [OF L(1), of seed]
    by (simp add: key_wf_def k keys_of_def dil_leg_pair_def p521_leg_pair_def)
qed

text \<open>Generation from a long enough seed stops only when all 256 P-521 digests are zero.\<close>

lemma p521_keys_total:
  assumes "crates_laws K C"
  shows "if \<exists>c. \<exists>b\<in>set (p521_digest (hsh K) (p521_curve_seed (hsh K) seed) c). b \<noteq> 0
    then accepted (p521_keys K seed) else \<not> panic_free (p521_keys K seed)"
proof -
  note L = crates_lawsD [OF assms]
  let ?s = "p521_curve_seed (hsh K) seed"
  have f: "p521_first_valid (p5 K) (hsh K) ?s p521_counters = None \<longleftrightarrow>
      \<not> (\<exists>c. \<exists>b\<in>set (p521_digest (hsh K) ?s c). b \<noteq> 0)"
    using p521_scalar_valid_iff [OF L(1,3), of ?s]
    by (auto simp: p521_first_valid_def find_None_iff not_isl_iff set_p521_counters)
  have "p521_keys K seed = (case p521_first_valid (p5 K) (hsh K) ?s p521_counters of
       None \<Rightarrow> p521_derive_loop (p5 K) (hsh K) ?s []
     | Some c \<Rightarrow> (let k = projr (p_sk_from_slice (p5 K) (p521_scalar (hsh K) ?s c)) in Ok (p_vk_of (p5 K) k, k)))"
    using curve_seeds(2) [OF L(1), of seed]
    by (simp add: p521_keys_def p521_derive_keypair_from_seed_def size_consts
        p521_derive_loop_first [OF L(1)])
  with f show ?thesis by (auto simp: Let_def split: option.splits)
qed

lemma bsk_generate_total:
  assumes "crates_laws K C" and "64 \<le> length seed"
  shows "if \<exists>c. \<exists>b\<in>set (p521_digest (hsh K) (p521_curve_seed (hsh K) seed) c). b \<noteq> 0
    then accepted (bsk_generate K seed) else \<not> panic_free (bsk_generate K seed)"
  using p521_keys_total [OF assms(1), of seed] unfolding bsk_generate_eq [OF assms]
  by (cases "p521_keys K seed") (auto simp: panic_free_def split: if_splits failure.splits)

lemma derive_public_key_eq:
  assumes "crates_laws K C" and "64 \<le> length (bsk_seed k)"
  shows "derive_public_key K k = and_then (bsk_generate K (bsk_seed k)) (\<lambda>(_, pub). Ok pub)"
proof -
  note L = crates_lawsD [OF assms(1)]
  let ?s = "bsk_seed k"
  note defs = derive_public_key_def size_consts dil_new_key_from_seed_def dil_from_seed_eq [OF L(2)]
    curve_seeds [OF L(1)] p521_derive_key_typed_def p521_keys_def [symmetric] ed448_new_key_from_seed_def
    ed448_from_seed_eq Let_def dil_pk_pack_def ml_dsa_lawsD [OF L(2)] keys_of_def
    p521_pk_as_bytes_def ed448_pk_as_bytes_def ed448_from_trusted_inner_def
  show ?thesis
  proof (cases "p521_keys K ?s")
    case (Inl e)
    then show ?thesis using assms(2) by (simp add: bsk_generate_eq [OF assms] defs)
  next
    case (Inr kp)
    then obtain pk sk where kp: "p521_keys K ?s = Ok (pk, sk)" by (cases kp) auto
    then have "pk = p_vk_of (p5 K) sk" by (rule p521_keys_Ok(1) [OF assms(1)])
    with kp show ?thesis using assms(2) by (simp add: bsk_generate_eq [OF assms] defs)
  qed
qed

end
