(* ===== verification/Rlp.thy ===== *)
theory Rlp
  imports Prelude
begin

text \<open>
  \<^verbatim>\<open>src/transaction/types.rs\<close> and \<^verbatim>\<open>src/transaction/rlp.rs\<close>: the transaction and its
  RLP encoding.  The codecs of \<^verbatim>\<open>alloy_rlp\<close> for the field types are the parameter
  \<open>R :: rlp_crate\<close>; the locales \<open>rlp_item\<close> and \<open>rlp_canonical_item\<close> state what one codec
  promises and are interpreted for the field types, and the first one for transactions.

  A \<^verbatim>\<open>U256\<close> is a \<open>256 word\<close>.  An \<^verbatim>\<open>Address\<close> is a byte string, of length 20 in every
  value of the Rust type (\<open>tx_typed\<close>).  A decoder returns the value and what is left of the
  buffer; the position of the buffer after an error is not modelled.
\<close>

section \<open>The alloy_rlp crate\<close>

record rlp_crate =
  r_u64_enc :: "64 word \<Rightarrow> bytes"
  r_u64_len :: "64 word \<Rightarrow> nat"
  r_u64_dec :: "bytes \<Rightarrow> rlp_error + (64 word \<times> bytes)"
  r_u256_enc :: "256 word \<Rightarrow> bytes"
  r_u256_len :: "256 word \<Rightarrow> nat"
  r_u256_dec :: "bytes \<Rightarrow> rlp_error + (256 word \<times> bytes)"
  r_bytes_enc :: "bytes \<Rightarrow> bytes"
  r_bytes_len :: "bytes \<Rightarrow> nat"
  r_bytes_dec :: "bytes \<Rightarrow> rlp_error + (bytes \<times> bytes)"
  r_addr_enc :: "bytes \<Rightarrow> bytes"
  r_addr_len :: "bytes \<Rightarrow> nat"
  r_slice_enc :: "bytes \<Rightarrow> bytes"
  r_slice_len :: "bytes \<Rightarrow> nat"
  r_header_enc :: "bool \<Rightarrow> nat \<Rightarrow> bytes"
  r_header_dec :: "bytes \<Rightarrow> rlp_error + ((bool \<times> nat) \<times> bytes)"
  r_length_of_length :: "nat \<Rightarrow> nat"

locale rlp_item =
  fixes ok :: "'c \<Rightarrow> bool"
    and fits :: "'c \<Rightarrow> 'a \<Rightarrow> bool"
    and enc :: "'c \<Rightarrow> 'a \<Rightarrow> bytes"
    and len :: "'c \<Rightarrow> 'a \<Rightarrow> nat"
    and dec :: "'c \<Rightarrow> bytes \<Rightarrow> rlp_error + ('a \<times> bytes)"
  assumes round_trip: "ok c \<Longrightarrow> fits c x \<Longrightarrow> dec c (enc c x @ rest) = Inr (x, rest)"
    and encoded_length: "ok c \<Longrightarrow> fits c x \<Longrightarrow> length (enc c x) = len c x"
    and not_empty: "ok c \<Longrightarrow> fits c x \<Longrightarrow> enc c x \<noteq> []"
begin

lemma prefix_free:
  assumes "ok c" "fits c x" "fits c y" and "enc c x @ r = enc c y @ r'"
  shows "x = y \<and> r = r'"
proof -
  have "dec c (enc c y @ r') = Inr (x, r)"
    using round_trip [OF assms(1,2), of r] unfolding assms(4) .
  then show ?thesis using round_trip [OF assms(1,3), of r'] by simp
qed

lemma enc_inj:
  assumes "ok c" "fits c x" "fits c y" and "enc c x = enc c y"
  shows "x = y"
  using prefix_free [OF assms(1-3), of "[]" "[]"] assms(4) by simp

end

locale rlp_canonical_item = rlp_item +
  assumes canonical: "ok c \<Longrightarrow> dec c b = Inr (x, rest) \<Longrightarrow> b = enc c x @ rest"
begin

lemma dec_iff:
  assumes "ok c" "fits c x"
  shows "dec c b = Inr (x, rest) \<longleftrightarrow> b = enc c x @ rest"
  using canonical [OF assms(1)] round_trip [OF assms] by auto

end

text \<open>
  Every codec is prefix-free and canonical (the decoders of the crate refuse leading zeros,
  non-minimal lengths and wrapped single bytes), for lengths a buffer can have.  The lengths are
  those of the encodings: the item of a number has at most one byte more than the number, and
  that of a string of fewer than \<open>2 ^ 63\<close> bytes at most nine more.  Addresses and slices are
  encoded as byte strings.
\<close>

definition item_laws ::
  "('a \<Rightarrow> bool) \<Rightarrow> ('a \<Rightarrow> bytes) \<Rightarrow> ('a \<Rightarrow> nat) \<Rightarrow> (bytes \<Rightarrow> rlp_error + ('a \<times> bytes)) \<Rightarrow> bool"
where
  "item_laws fits enc len dec \<longleftrightarrow>
     (\<forall>x rest. fits x \<longrightarrow> dec (enc x @ rest) = Inr (x, rest)) \<and>
     (\<forall>x. length (enc x) = len x \<and> enc x \<noteq> []) \<and>
     (\<forall>b x rest. dec b = Inr (x, rest) \<longrightarrow> b = enc x @ rest)"

definition rlp_fits :: "rlp_crate \<Rightarrow> bytes \<Rightarrow> bool" where
  "rlp_fits R b \<longleftrightarrow> length b < 2 ^ 63"

definition rlp_laws :: "rlp_crate \<Rightarrow> bool" where
  "rlp_laws R \<longleftrightarrow>
     item_laws (\<lambda>_. True) (r_u64_enc R) (r_u64_len R) (r_u64_dec R) \<and>
     item_laws (\<lambda>_. True) (r_u256_enc R) (r_u256_len R) (r_u256_dec R) \<and>
     item_laws (rlp_fits R) (r_bytes_enc R) (r_bytes_len R) (r_bytes_dec R) \<and>
     (\<forall>b. r_addr_enc R b = r_bytes_enc R b \<and> r_addr_len R b = r_bytes_len R b) \<and>
     (\<forall>b. r_slice_enc R b = r_bytes_enc R b \<and> r_slice_len R b = r_bytes_len R b) \<and>
     (\<forall>b. length b \<le> r_bytes_len R b) \<and>
     (\<forall>l n. length (r_header_enc R l n) = r_length_of_length R n \<and> 0 < r_length_of_length R n) \<and>
     (\<forall>n rest. n < 2 ^ 63 \<longrightarrow> n \<le> length rest \<longrightarrow>
        r_header_dec R (r_header_enc R True n @ rest) = Inr ((True, n), rest)) \<and>
     (\<forall>b n rest. r_header_dec R b = Inr ((True, n), rest) \<longrightarrow> b = r_header_enc R True n @ rest) \<and>
     (\<forall>i. r_u64_len R i \<le> 9) \<and> (\<forall>w. r_u256_len R w \<le> 33) \<and>
     (\<forall>b. rlp_fits R b \<longrightarrow> r_bytes_len R b \<le> 9 + length b)"

lemma rlp_lawsD [crate_laws]:
  assumes "rlp_laws R"
  shows "r_addr_enc R b = r_bytes_enc R b" "r_addr_len R b = r_bytes_len R b"
    and "r_slice_enc R b = r_bytes_enc R b" "r_slice_len R b = r_bytes_len R b"
    and "length b \<le> r_bytes_len R b"
    and "length (r_u64_enc R i) = r_u64_len R i" "length (r_u256_enc R w) = r_u256_len R w"
    and "length (r_bytes_enc R b) = r_bytes_len R b"
    and "length (r_header_enc R l n) = r_length_of_length R n" "0 < r_length_of_length R n"
    and "n < 2 ^ 63 \<Longrightarrow> n \<le> length rest \<Longrightarrow>
      r_header_dec R (r_header_enc R True n @ rest) = Inr ((True, n), rest)"
    and "r_header_dec R b = Inr ((True, n), rest) \<Longrightarrow> b = r_header_enc R True n @ rest"
    and "r_u64_len R i \<le> 9" "r_u256_len R w \<le> 33" "rlp_fits R b \<Longrightarrow> r_bytes_len R b \<le> 9 + length b"
  using assms unfolding rlp_laws_def item_laws_def by (elim conjE, simp; fail)+

interpretation rlp_u64: rlp_canonical_item rlp_laws "\<lambda>_ _. True" r_u64_enc r_u64_len r_u64_dec
  by unfold_locales (simp_all add: rlp_laws_def item_laws_def)

interpretation rlp_u256: rlp_canonical_item rlp_laws "\<lambda>_ _. True" r_u256_enc r_u256_len r_u256_dec
  by unfold_locales (simp_all add: rlp_laws_def item_laws_def)

interpretation rlp_bytes: rlp_canonical_item rlp_laws rlp_fits r_bytes_enc r_bytes_len r_bytes_dec
  by unfold_locales (simp_all add: rlp_laws_def item_laws_def)

section \<open>Transactions\<close>

record bc_tx =
  tx_chain_id :: "64 word"
  tx_nonce :: "64 word"
  tx_max_priority_fee_per_gas :: "256 word"
  tx_max_fee_per_gas :: "256 word"
  tx_gas_limit :: "64 word"
  tx_to :: "bytes option"
  tx_value :: "256 word"
  tx_data :: bytes
  tx_v :: "256 word option"
  tx_r :: "256 word option"
  tx_s :: "256 word option"
  tx_pqc_signature :: "bytes option"
  tx_pub_key :: "bytes option"

definition TX_TYPE :: byte where "TX_TYPE = 0x80"

definition has_signature :: "bc_tx \<Rightarrow> bool" where
  "has_signature tx \<longleftrightarrow> tx_v tx \<noteq> None \<or> tx_pqc_signature tx \<noteq> None"

definition default_to :: "'a \<Rightarrow> 'a option \<Rightarrow> 'a" where
  "default_to d x = (case x of Some a \<Rightarrow> a | None \<Rightarrow> d)"

definition rlp_payload_length :: "rlp_crate \<Rightarrow> bc_tx \<Rightarrow> nat" where
  "rlp_payload_length R tx =
     r_u64_len R (tx_chain_id tx) + r_u64_len R (tx_nonce tx)
     + r_u256_len R (tx_max_priority_fee_per_gas tx) + r_u256_len R (tx_max_fee_per_gas tx)
     + r_u64_len R (tx_gas_limit tx)
     + (case tx_to tx of Some addr \<Rightarrow> r_addr_len R addr | None \<Rightarrow> r_slice_len R [])
     + r_u256_len R (tx_value tx) + r_bytes_len R (tx_data tx)
     + (if has_signature tx
        then r_u256_len R (default_to 0 (tx_v tx)) + r_u256_len R (default_to 0 (tx_r tx))
          + r_u256_len R (default_to 0 (tx_s tx))
          + r_bytes_len R (default_to [] (tx_pqc_signature tx))
          + r_bytes_len R (default_to [] (tx_pub_key tx))
        else 0)"

definition tx_encode_fields :: "rlp_crate \<Rightarrow> bc_tx \<Rightarrow> bytes" where
  "tx_encode_fields R tx =
     r_u64_enc R (tx_chain_id tx) @ r_u64_enc R (tx_nonce tx)
     @ r_u256_enc R (tx_max_priority_fee_per_gas tx) @ r_u256_enc R (tx_max_fee_per_gas tx)
     @ r_u64_enc R (tx_gas_limit tx)
     @ (case tx_to tx of Some addr \<Rightarrow> r_addr_enc R addr | None \<Rightarrow> r_slice_enc R [])
     @ r_u256_enc R (tx_value tx) @ r_bytes_enc R (tx_data tx)
     @ (if has_signature tx
        then r_u256_enc R (default_to 0 (tx_v tx)) @ r_u256_enc R (default_to 0 (tx_r tx))
          @ r_u256_enc R (default_to 0 (tx_s tx))
          @ r_bytes_enc R (default_to [] (tx_pqc_signature tx))
          @ r_bytes_enc R (default_to [] (tx_pub_key tx))
        else [])"

definition tx_encode :: "rlp_crate \<Rightarrow> bc_tx \<Rightarrow> bytes" where
  "tx_encode R tx =
     (let payload_length = rlp_payload_length R tx
      in r_header_enc R True payload_length @ tx_encode_fields R tx)"

definition tx_length :: "rlp_crate \<Rightarrow> bc_tx \<Rightarrow> nat" where
  "tx_length R tx =
     (let payload_length = rlp_payload_length R tx
      in r_length_of_length R payload_length + payload_length)"

text \<open>\<open>rd\<close> runs a decoder of the crate, with its error returned as it is.\<close>

definition rd :: "rlp_error + ('a \<times> bytes) \<Rightarrow> ('a \<times> bytes, rlp_error) outcome" where
  "rd x = of_result (\<lambda>e. e) x"

definition decode_to :: "bytes \<Rightarrow> (bytes option, rlp_error) outcome" where
  "decode_to to_bytes =
     (if to_bytes = [] then Ok None
      else if length to_bytes = 20
      then and_then (address_from_slice to_bytes) (\<lambda>addr. Ok (Some addr))
      else Error UnexpectedLength)"

text \<open>The signature fields: absent when the payload is used up, the last one optional.\<close>

definition tx_decode_signature ::
  "rlp_crate \<Rightarrow> bc_tx \<Rightarrow> bytes \<Rightarrow> (bc_tx \<times> bytes, rlp_error) outcome" where
  "tx_decode_signature R tx body =
     (if body = [] then Ok (tx, body)
      else
        and_then (rd (r_u256_dec R body))
      (\<lambda>(v, body). and_then (rd (r_u256_dec R body))
      (\<lambda>(r, body). and_then (rd (r_u256_dec R body))
      (\<lambda>(s, body). and_then (rd (r_bytes_dec R body))
      (\<lambda>(sig, body).
        let tx = tx\<lparr>tx_v := Some v, tx_r := Some r, tx_s := Some s, tx_pqc_signature := Some sig\<rparr> in
        if body = [] then Ok (tx, body)
        else and_then (rd (r_bytes_dec R body))
          (\<lambda>(pk_bytes, body).
             Ok (if pk_bytes \<noteq> [] then tx\<lparr>tx_pub_key := Some pk_bytes\<rparr> else tx, body)))))))"

definition tx_decode_fields :: "rlp_crate \<Rightarrow> bytes \<Rightarrow> (bc_tx \<times> bytes, rlp_error) outcome" where
  "tx_decode_fields R body =
        and_then (rd (r_u64_dec R body))
      (\<lambda>(chain_id, body). and_then (rd (r_u64_dec R body))
      (\<lambda>(nonce, body). and_then (rd (r_u256_dec R body))
      (\<lambda>(max_priority_fee_per_gas, body). and_then (rd (r_u256_dec R body))
      (\<lambda>(max_fee_per_gas, body). and_then (rd (r_u64_dec R body))
      (\<lambda>(gas_limit, body). and_then (rd (r_bytes_dec R body))
      (\<lambda>(to_bytes, body). and_then (decode_to to_bytes)
      (\<lambda>to. and_then (rd (r_u256_dec R body))
      (\<lambda>(value, body). and_then (rd (r_bytes_dec R body))
      (\<lambda>(data, body). tx_decode_signature R
         \<lparr>tx_chain_id = chain_id, tx_nonce = nonce,
          tx_max_priority_fee_per_gas = max_priority_fee_per_gas,
          tx_max_fee_per_gas = max_fee_per_gas, tx_gas_limit = gas_limit, tx_to = to,
          tx_value = value, tx_data = data, tx_v = None, tx_r = None, tx_s = None,
          tx_pqc_signature = None, tx_pub_key = None\<rparr> body)))))))))"

definition tx_decode :: "rlp_crate \<Rightarrow> bytes \<Rightarrow> (bc_tx \<times> bytes, rlp_error) outcome" where
  "tx_decode R buf =
     and_then (rd (r_header_dec R buf))
       (\<lambda>((lst, payload_length), buf).
         if \<not> lst then Error UnexpectedString
         else if length buf < payload_length then Error InputTooShort
         else
           and_then (split_at payload_length buf)
         (\<lambda>(payload, rest). and_then (tx_decode_fields R payload)
         (\<lambda>(tx, body).
           if body \<noteq> [] then Error (Rlp_Custom ''trailing bytes in transaction payload'')
           else Ok (tx, rest))))"

section \<open>Lengths and round trip\<close>

definition tx_typed :: "bc_tx \<Rightarrow> bool" where
  "tx_typed tx \<longleftrightarrow> (\<forall>a. tx_to tx = Some a \<longrightarrow> length a = 20)"

definition tx_fits :: "rlp_crate \<Rightarrow> bc_tx \<Rightarrow> bool" where
  "tx_fits R tx \<longleftrightarrow> tx_typed tx \<and> rlp_payload_length R tx < 2 ^ 63"

text \<open>
  The transaction that is read back: an unsigned one loses stray signature fields, a signed
  one has the missing ones filled in, and an empty public key becomes an absent one.
\<close>

definition tx_normal :: "bc_tx \<Rightarrow> bc_tx" where
  "tx_normal tx =
     (if has_signature tx
      then tx\<lparr>tx_v := Some (default_to 0 (tx_v tx)), tx_r := Some (default_to 0 (tx_r tx)),
              tx_s := Some (default_to 0 (tx_s tx)),
              tx_pqc_signature := Some (default_to [] (tx_pqc_signature tx)),
              tx_pub_key := (if default_to [] (tx_pub_key tx) = [] then None else tx_pub_key tx)\<rparr>
      else tx\<lparr>tx_v := None, tx_r := None, tx_s := None, tx_pqc_signature := None,
              tx_pub_key := None\<rparr>)"

definition tx_unsigned :: "bc_tx \<Rightarrow> bc_tx" where
  "tx_unsigned tx =
     tx\<lparr>tx_v := None, tx_r := None, tx_s := None, tx_pqc_signature := None, tx_pub_key := None\<rparr>"

definition tx_complete :: "bc_tx \<Rightarrow> bool" where
  "tx_complete tx \<longleftrightarrow> tx_v tx \<noteq> None \<and> tx_r tx \<noteq> None \<and> tx_s tx \<noteq> None \<and>
     tx_pqc_signature tx \<noteq> None"

text \<open>What the decoder returns: no signature field at all, or all but perhaps the last.\<close>

definition tx_wire :: "bc_tx \<Rightarrow> bool" where
  "tx_wire tx \<longleftrightarrow>
     tx_typed tx \<and> (tx = tx_unsigned tx \<or> tx_complete tx \<and> tx_pub_key tx \<noteq> Some [])"

lemma fields_length:
  assumes "rlp_laws R"
  shows "length (tx_encode_fields R tx) = rlp_payload_length R tx"
  by (simp add: tx_encode_fields_def rlp_payload_length_def rlp_lawsD [OF assms] split: option.split)

lemma tx_encode_length:
  assumes "rlp_laws R"
  shows "length (tx_encode R tx) = tx_length R tx"
  by (simp add: tx_encode_def tx_length_def Let_def fields_length [OF assms] rlp_lawsD [OF assms])

lemma tx_fits_fields:
  assumes "rlp_laws R" and "tx_fits R tx"
  shows "rlp_fits R (tx_data tx)" and "rlp_fits R (default_to [] (tx_to tx))"
    and "has_signature tx \<Longrightarrow> rlp_fits R (default_to [] (tx_pqc_signature tx))"
    and "has_signature tx \<Longrightarrow> rlp_fits R (default_to [] (tx_pub_key tx))"
proof -
  note l = rlp_lawsD(5) [OF assms(1)]
  have s: "rlp_payload_length R tx < 2 ^ 63" using assms(2) by (simp add: tx_fits_def)
  show "rlp_fits R (tx_data tx)"
    using s l [of "tx_data tx"] by (simp add: rlp_payload_length_def rlp_fits_def)
  show "rlp_fits R (default_to [] (tx_to tx))"
    using assms(2) by (simp add: tx_fits_def tx_typed_def rlp_fits_def default_to_def split: option.split)
  assume "has_signature tx"
  then show "rlp_fits R (default_to [] (tx_pqc_signature tx))"
    and "rlp_fits R (default_to [] (tx_pub_key tx))"
    using s l [of "default_to [] (tx_pqc_signature tx)"] l [of "default_to [] (tx_pub_key tx)"]
    by (simp_all add: rlp_payload_length_def rlp_fits_def)
qed

text \<open>Every transaction whose buffers are of any realistic size fits.\<close>

definition tx_small :: "bc_tx \<Rightarrow> bool" where
  "tx_small tx \<longleftrightarrow> tx_typed tx \<and> length (tx_data tx) < 2 ^ 60 \<and>
     length (default_to [] (tx_pqc_signature tx)) < 2 ^ 60 \<and>
     length (default_to [] (tx_pub_key tx)) < 2 ^ 60"

lemma tx_small_fits:
  assumes "rlp_laws R" and "tx_small tx"
  shows "tx_fits R tx"
proof -
  note l = rlp_lawsD(13-15) [OF assms(1)]
  have b: "r_bytes_len R b \<le> 9 + 2 ^ 60" if "length b < 2 ^ 60" for b
    using l(3) [of b] that by (simp add: rlp_fits_def)
  have t: "r_bytes_len R (default_to [] (tx_to tx)) \<le> 9 + 2 ^ 60"
    using assms(2) by (intro b) (auto simp: tx_small_def tx_typed_def default_to_def split: option.splits)
  have to: "(case tx_to tx of Some addr \<Rightarrow> r_addr_len R addr | None \<Rightarrow> r_slice_len R []) =
      r_bytes_len R (default_to [] (tx_to tx))"
    by (simp add: rlp_lawsD [OF assms(1)] default_to_def split: option.split)
  have "rlp_payload_length R tx \<le> 3 * 9 + 6 * 33 + 4 * (9 + 2 ^ 60)"
    using assms(2) t b [of "tx_data tx"] b [of "default_to [] (tx_pqc_signature tx)"]
      b [of "default_to [] (tx_pub_key tx)"] l(1) [of "tx_chain_id tx"] l(1) [of "tx_nonce tx"]
      l(1) [of "tx_gas_limit tx"] l(2) [of "tx_max_priority_fee_per_gas tx"]
      l(2) [of "tx_max_fee_per_gas tx"] l(2) [of "tx_value tx"] l(2) [of "default_to 0 (tx_v tx)"]
      l(2) [of "default_to 0 (tx_r tx)"] l(2) [of "default_to 0 (tx_s tx)"]
    by (simp add: rlp_payload_length_def to tx_small_def)
  then show ?thesis using assms(2) by (simp add: tx_fits_def tx_small_def)
qed

lemma enc_to:
  assumes "rlp_laws R"
  shows "(case tx_to tx of Some addr \<Rightarrow> r_addr_enc R addr | None \<Rightarrow> r_slice_enc R []) =
    r_bytes_enc R (default_to [] (tx_to tx))"
  by (simp add: rlp_lawsD [OF assms] default_to_def split: option.split)

lemma decode_to_typed: "tx_typed tx \<Longrightarrow> decode_to (default_to [] (tx_to tx)) = Ok (tx_to tx)"
  by (auto simp: decode_to_def default_to_def tx_typed_def split: option.split)

lemma decode_to_iff:
  "decode_to b = Ok t \<longleftrightarrow> b = default_to [] t \<and> (\<forall>a. t = Some a \<longrightarrow> length a = 20)"
  by (auto simp: decode_to_def default_to_def split: option.split)

lemma rd_simps [simp]: "rd (Inr x) = Ok x" "rd y = Inr x \<longleftrightarrow> y = Inr x" "panic_free (rd y)"
  by (simp_all add: rd_def)

lemma decode_signature_round:
  assumes "rlp_laws R" and "rlp_fits R sig" "rlp_fits R pk"
  shows "tx_decode_signature R tx (r_u256_enc R v @ r_u256_enc R r @ r_u256_enc R s
      @ r_bytes_enc R sig @ r_bytes_enc R pk @ tail) =
    Ok (let tx = tx\<lparr>tx_v := Some v, tx_r := Some r, tx_s := Some s, tx_pqc_signature := Some sig\<rparr>
        in if pk \<noteq> [] then tx\<lparr>tx_pub_key := Some pk\<rparr> else tx, tail)"
  by (simp add: tx_decode_signature_def Let_def rlp_u256.round_trip [OF assms(1)]
      rlp_u256.not_empty [OF assms(1)] rlp_bytes.round_trip [OF assms(1,2)]
      rlp_bytes.round_trip [OF assms(1,3)]
      rlp_bytes.not_empty [OF assms(1,3)])

text \<open>Bytes behind the fields of a signed transaction are left over.\<close>

lemma decode_fields_round:
  assumes "rlp_laws R" and "tx_fits R tx" and "tail = [] \<or> has_signature tx"
  shows "tx_decode_fields R (tx_encode_fields R tx @ tail) = Ok (tx_normal tx, tail)"
proof -
  note f = tx_fits_fields [OF assms(1,2)]
  have t: "decode_to (default_to [] (tx_to tx)) = Ok (tx_to tx)"
    using assms(2) by (simp add: tx_fits_def decode_to_typed)
  note r = rlp_u64.round_trip [OF assms(1)] rlp_u256.round_trip [OF assms(1)]
    rlp_bytes.round_trip [OF assms(1)]
  show ?thesis
  proof (cases "has_signature tx")
    case True
    have "tx_decode_fields R (tx_encode_fields R tx @ tail) = Ok (
        let tx' = (tx_unsigned tx)\<lparr>tx_v := Some (default_to 0 (tx_v tx)),
              tx_r := Some (default_to 0 (tx_r tx)), tx_s := Some (default_to 0 (tx_s tx)),
              tx_pqc_signature := Some (default_to [] (tx_pqc_signature tx))\<rparr>
        in if default_to [] (tx_pub_key tx) \<noteq> []
           then tx'\<lparr>tx_pub_key := Some (default_to [] (tx_pub_key tx))\<rparr> else tx', tail)"
      using True f
      by (simp add: tx_decode_fields_def tx_encode_fields_def enc_to [OF assms(1)] r t
          decode_signature_round [OF assms(1)] tx_unsigned_def Let_def)
    also have "\<dots> = Ok (tx_normal tx, tail)"
      using True by (cases tx) (auto simp: tx_normal_def tx_unsigned_def default_to_def split: option.split)
    finally show ?thesis .
  next
    case False
    then show ?thesis using f assms(3) rlp_bytes.round_trip [OF assms(1) f(1), of "[]"]
      by (simp add: tx_decode_fields_def tx_encode_fields_def enc_to [OF assms(1)] r t
          tx_decode_signature_def tx_normal_def)
  qed
qed

lemma tx_decode_encode:
  assumes "rlp_laws R" and "tx_fits R tx"
  shows "tx_decode R (tx_encode R tx @ rest) = Ok (tx_normal tx, rest)"
proof -
  have l: "length (tx_encode_fields R tx) = rlp_payload_length R tx"
    by (rule fields_length [OF assms(1)])
  have s: "rlp_payload_length R tx < 2 ^ 63" using assms(2) by (simp add: tx_fits_def)
  have "r_header_dec R (r_header_enc R True (rlp_payload_length R tx)
      @ tx_encode_fields R tx @ rest) =
    Inr ((True, rlp_payload_length R tx), tx_encode_fields R tx @ rest)"
    using rlp_lawsD(11) [OF assms(1) s, of "tx_encode_fields R tx @ rest"] l by simp
  then show ?thesis
    by (simp add: tx_decode_def tx_encode_def Let_def l [symmetric]
        decode_fields_round [OF assms, of "[]", simplified])
qed

section \<open>Every input that decodes is an encoding\<close>

lemma decode_signature_wire:
  assumes "rlp_laws R" and "tx_decode_signature R tx body = Ok (tx', [])"
    and "tx = tx_unsigned tx"
  shows "tx_unsigned tx' = tx \<and> (tx' = tx \<and> body = [] \<or> tx_complete tx' \<and> tx_pub_key tx' \<noteq> Some [] \<and>
      (\<exists>tail. body = r_u256_enc R (the (tx_v tx')) @ r_u256_enc R (the (tx_r tx'))
         @ r_u256_enc R (the (tx_s tx')) @ r_bytes_enc R (the (tx_pqc_signature tx')) @ tail \<and>
         (tail = r_bytes_enc R (default_to [] (tx_pub_key tx')) \<or> tail = [] \<and> tx_pub_key tx' = None)))"
proof (cases "body = []")
  case True
  then show ?thesis using assms(2,3) by (simp add: tx_decode_signature_def)
next
  case False
  let ?t = "\<lambda>v r s sig. tx\<lparr>tx_v := Some v, tx_r := Some r, tx_s := Some s, tx_pqc_signature := Some sig\<rparr>"
  obtain v b1 r b2 s b3 sig b4 where
      d: "r_u256_dec R body = Inr (v, b1)" "r_u256_dec R b1 = Inr (r, b2)"
        "r_u256_dec R b2 = Inr (s, b3)" "r_bytes_dec R b3 = Inr (sig, b4)"
    and last: "(if b4 = [] then Ok (?t v r s sig, b4)
        else and_then (rd (r_bytes_dec R b4)) (\<lambda>(pk_bytes, body).
             Ok (if pk_bytes \<noteq> [] then (?t v r s sig)\<lparr>tx_pub_key := Some pk_bytes\<rparr>
                 else ?t v r s sig, body))) = (Ok (tx', []) :: (bc_tx \<times> bytes, rlp_error) outcome)"
    using assms(2) False unfolding tx_decode_signature_def Let_def
    by (simp only: if_False and_then_Inr_iff rd_simps split_paired_Ex prod.case) blast
  have body: "body = r_u256_enc R v @ r_u256_enc R r @ r_u256_enc R s @ r_bytes_enc R sig @ b4"
    using d rlp_u256.canonical [OF assms(1)] rlp_bytes.canonical [OF assms(1)] by metis
  have u: "tx_unsigned (?t v r s sig) = tx"
    "tx_unsigned ((?t v r s sig)\<lparr>tx_pub_key := Some pk\<rparr>) = tx" "tx_pub_key tx = None" for pk
    using assms(3) by (cases tx; simp add: tx_unsigned_def)+
  show ?thesis
  proof (cases "b4 = []")
    case True
    with last have "tx' = ?t v r s sig" by simp
    with body True u show ?thesis by (simp add: tx_complete_def)
  next
    case False
    with last obtain pk where pk: "r_bytes_dec R b4 = Inr (pk, [])"
        "tx' = (if pk \<noteq> [] then (?t v r s sig)\<lparr>tx_pub_key := Some pk\<rparr> else ?t v r s sig)"
      by auto
    have b4: "b4 = r_bytes_enc R pk" using rlp_bytes.canonical [OF assms(1) pk(1)] by simp
    show ?thesis
      using pk(2) body b4 u by (cases "pk = []") (simp_all add: tx_complete_def default_to_def)
  qed
qed

text \<open>The encoding of a transaction whose signature fields are there, without the public key.\<close>

definition fields_base :: "rlp_crate \<Rightarrow> bc_tx \<Rightarrow> bytes" where
  "fields_base R tx =
     r_u64_enc R (tx_chain_id tx) @ r_u64_enc R (tx_nonce tx)
     @ r_u256_enc R (tx_max_priority_fee_per_gas tx) @ r_u256_enc R (tx_max_fee_per_gas tx)
     @ r_u64_enc R (tx_gas_limit tx) @ r_bytes_enc R (default_to [] (tx_to tx))
     @ r_u256_enc R (tx_value tx) @ r_bytes_enc R (tx_data tx)"

lemma fields_base_unsigned: "fields_base R (tx_unsigned tx) = fields_base R tx"
  by (simp add: fields_base_def tx_unsigned_def)

lemma fields_base_encode:
  assumes "rlp_laws R"
  shows "tx_encode_fields R tx = fields_base R tx @
    (if has_signature tx
     then r_u256_enc R (default_to 0 (tx_v tx)) @ r_u256_enc R (default_to 0 (tx_r tx))
       @ r_u256_enc R (default_to 0 (tx_s tx)) @ r_bytes_enc R (default_to [] (tx_pqc_signature tx))
       @ r_bytes_enc R (default_to [] (tx_pub_key tx))
     else [])"
  by (simp add: tx_encode_fields_def fields_base_def enc_to [OF assms])

lemma decode_fields_base:
  assumes "rlp_laws R" and "tx_decode_fields R payload = Ok (tx, [])"
  shows "\<exists>tx0 body. tx0 = tx_unsigned tx0 \<and> tx_typed tx0 \<and> payload = fields_base R tx0 @ body \<and>
    tx_decode_signature R tx0 body = Ok (tx, [])"
proof -
  obtain ch b1 no b2 mp b3 mf b4 gl b5 tb b6 to vl b7 da b8 where
      d: "r_u64_dec R payload = Inr (ch, b1)" "r_u64_dec R b1 = Inr (no, b2)"
        "r_u256_dec R b2 = Inr (mp, b3)" "r_u256_dec R b3 = Inr (mf, b4)"
        "r_u64_dec R b4 = Inr (gl, b5)" "r_bytes_dec R b5 = Inr (tb, b6)"
        "r_u256_dec R b6 = Inr (vl, b7)" "r_bytes_dec R b7 = Inr (da, b8)"
      and t: "decode_to tb = Ok to"
      and last: "tx_decode_signature R
         \<lparr>tx_chain_id = ch, tx_nonce = no, tx_max_priority_fee_per_gas = mp,
          tx_max_fee_per_gas = mf, tx_gas_limit = gl, tx_to = to, tx_value = vl, tx_data = da,
          tx_v = None, tx_r = None, tx_s = None, tx_pqc_signature = None, tx_pub_key = None\<rparr> b8 =
         Ok (tx, [])"
    using assms(2) unfolding tx_decode_fields_def
    by (simp only: and_then_Inr_iff rd_simps split_paired_Ex prod.case) blast
  note c = rlp_u64.canonical [OF assms(1)] rlp_u256.canonical [OF assms(1)]
    rlp_bytes.canonical [OF assms(1)]
  have "payload = r_u64_enc R ch @ r_u64_enc R no @ r_u256_enc R mp @ r_u256_enc R mf
      @ r_u64_enc R gl @ r_bytes_enc R tb @ r_u256_enc R vl @ r_bytes_enc R da @ b8"
    using c(1) [OF d(1)] c(1) [OF d(2)] c(2) [OF d(3)] c(2) [OF d(4)] c(1) [OF d(5)]
      c(3) [OF d(6)] c(2) [OF d(7)] c(3) [OF d(8)] by simp
  with t last show ?thesis
    by (intro exI conjI, rule_tac [4] last)
      (auto simp: fields_base_def tx_unsigned_def tx_typed_def decode_to_iff)
qed

lemma decode_fields_wire:
  assumes "rlp_laws R" and "tx_decode_fields R payload = Ok (tx, [])"
  shows "tx_wire tx"
    and "payload = tx_encode_fields R tx \<or>
      tx_complete tx \<and> tx_pub_key tx = None \<and>
      tx_encode_fields R tx = payload @ r_bytes_enc R []"
proof -
  obtain tx0 body where t0: "tx0 = tx_unsigned tx0" "tx_typed tx0"
      "payload = fields_base R tx0 @ body" "tx_decode_signature R tx0 body = Ok (tx, [])"
    using decode_fields_base [OF assms] by blast
  have s: "tx_unsigned tx = tx0"
    and w: "tx = tx0 \<and> body = [] \<or> tx_complete tx \<and> tx_pub_key tx \<noteq> Some [] \<and>
      (\<exists>tail. body = r_u256_enc R (the (tx_v tx)) @ r_u256_enc R (the (tx_r tx))
         @ r_u256_enc R (the (tx_s tx)) @ r_bytes_enc R (the (tx_pqc_signature tx)) @ tail \<and>
         (tail = r_bytes_enc R (default_to [] (tx_pub_key tx)) \<or> tail = [] \<and> tx_pub_key tx = None))"
    using decode_signature_wire [OF assms(1) t0(4,1)] by blast+
  have b: "fields_base R tx0 = fields_base R tx" using s fields_base_unsigned by metis
  have ty: "tx_typed tx" using t0(2) s by (auto simp: tx_typed_def tx_unsigned_def)
  then show "tx_wire tx" using w t0(1) by (auto simp: tx_wire_def)
  show "payload = tx_encode_fields R tx \<or> tx_complete tx \<and> tx_pub_key tx = None \<and>
      tx_encode_fields R tx = payload @ r_bytes_enc R []"
  proof (cases "tx_complete tx")
    case True
    then have h: "has_signature tx" "default_to 0 (tx_v tx) = the (tx_v tx)"
      "default_to 0 (tx_r tx) = the (tx_r tx)" "default_to 0 (tx_s tx) = the (tx_s tx)"
      "default_to [] (tx_pqc_signature tx) = the (tx_pqc_signature tx)"
      by (auto simp: tx_complete_def has_signature_def default_to_def)
    have "tx \<noteq> tx0" using True t0(1) by (cases tx0) (auto simp: tx_complete_def tx_unsigned_def)
    then show ?thesis
      using w True h b t0(3) by (auto simp: fields_base_encode [OF assms(1)] default_to_def)
  next
    case False
    then have e: "tx = tx0" "body = []" using w by auto
    have "\<not> has_signature tx0"
      using t0(1) by (cases tx0) (simp add: tx_unsigned_def has_signature_def)
    with e t0(3) show ?thesis by (simp add: fields_base_encode [OF assms(1)])
  qed
qed

lemma tx_wire_normal: "tx_wire tx \<Longrightarrow> tx_normal tx = tx"
  by (cases tx) (auto simp: tx_wire_def tx_normal_def tx_unsigned_def tx_complete_def
      has_signature_def default_to_def split: option.splits)

lemma tx_normal_wire: "tx_typed tx \<Longrightarrow> tx_wire (tx_normal tx)"
  by (cases tx) (auto simp: tx_wire_def tx_normal_def tx_unsigned_def tx_complete_def
      has_signature_def default_to_def tx_typed_def split: option.splits)

lemma tx_decode_Ok_iff:
  "tx_decode R buf = Ok (tx, rest) \<longleftrightarrow>
    (\<exists>n body. r_header_dec R buf = Inr ((True, n), body) \<and> n \<le> length body \<and> rest = drop n body \<and>
      tx_decode_fields R (take n body) = Ok (tx, []))"
  by (auto simp: tx_decode_def Let_def not_less split: if_splits)

lemma tx_decode_canonical:
  assumes "rlp_laws R" and "tx_decode R buf = Ok (tx, rest)"
  shows "tx_wire tx"
    and "\<exists>payload. buf = r_header_enc R True (length payload) @ payload @ rest \<and>
      (payload = tx_encode_fields R tx \<or> tx_complete tx \<and> tx_pub_key tx = None \<and>
        tx_encode_fields R tx = payload @ r_bytes_enc R [])"
    and "tx_pub_key tx \<noteq> None \<or> tx_v tx = None \<Longrightarrow> buf = tx_encode R tx @ rest"
proof -
  obtain n body where n: "r_header_dec R buf = Inr ((True, n), body)" "n \<le> length body"
      "rest = drop n body" "tx_decode_fields R (take n body) = Ok (tx, [])"
    using assms(2) by (auto simp: tx_decode_Ok_iff)
  let ?p = "take n body"
  note w = decode_fields_wire [OF assms(1) n(4)]
  show "tx_wire tx" by (rule w(1))
  have b: "buf = r_header_enc R True (length ?p) @ ?p @ rest"
    using rlp_lawsD(12) [OF assms(1) n(1)] n(2,3) by simp
  with w(2) show "\<exists>payload. buf = r_header_enc R True (length payload) @ payload @ rest \<and>
      (payload = tx_encode_fields R tx \<or> tx_complete tx \<and> tx_pub_key tx = None \<and>
        tx_encode_fields R tx = payload @ r_bytes_enc R [])" by blast
  assume "tx_pub_key tx \<noteq> None \<or> tx_v tx = None"
  then have "?p = tx_encode_fields R tx" using w(2) by (auto simp: tx_complete_def)
  with b show "buf = tx_encode R tx @ rest"
    by (simp add: tx_encode_def Let_def fields_length [OF assms(1), symmetric])
qed

text \<open>The buffers of a decoded transaction come out of the input.\<close>

lemma tx_decode_small:
  assumes "rlp_laws R" and "tx_decode R buf = Ok (tx, rest)" and "length buf < 2 ^ 60"
  shows "tx_small tx"
proof -
  note l = rlp_lawsD(5,8) [OF assms(1)]
  obtain payload where b: "buf = r_header_enc R True (length payload) @ payload @ rest"
      and p: "payload = tx_encode_fields R tx \<or> tx_complete tx \<and> tx_pub_key tx = None \<and>
        tx_encode_fields R tx = payload @ r_bytes_enc R []"
    using tx_decode_canonical(2) [OF assms(1,2)] by blast
  have w: "tx_wire tx" by (rule tx_decode_canonical(1) [OF assms(1,2)])
  have n: "length payload < 2 ^ 60" using assms(3) unfolding b by simp
  have "length (tx_encode_fields R tx) = length payload \<or>
      has_signature tx \<and> tx_pub_key tx = None \<and>
      length (tx_encode_fields R tx) = length payload + r_bytes_len R []"
    using p l by (auto simp: tx_complete_def has_signature_def)
  moreover have "length (tx_data tx) \<le> r_bytes_len R (tx_data tx)" by (rule l(1))
  ultimately have "length (tx_data tx) < 2 ^ 60"
    "has_signature tx \<Longrightarrow> length (default_to [] (tx_pqc_signature tx)) < 2 ^ 60 \<and>
       length (default_to [] (tx_pub_key tx)) < 2 ^ 60"
    using n l(1) [of "default_to [] (tx_pqc_signature tx)"] l(1) [of "default_to [] (tx_pub_key tx)"]
    by (auto simp: fields_length [OF assms(1)] rlp_payload_length_def default_to_def split: if_splits)
  moreover have "tx_pqc_signature tx = None \<and> tx_pub_key tx = None" if "\<not> has_signature tx"
    using w that by (cases tx) (auto simp: tx_wire_def has_signature_def tx_unsigned_def tx_complete_def)
  ultimately show ?thesis
    using w by (cases "has_signature tx") (auto simp: tx_small_def tx_wire_def default_to_def)
qed

lemma rd_panic_free [no_panic]: "panic_free (rd y)"
  by (rule rd_simps)

lemma decode_to_panic_free [no_panic]: "panic_free (decode_to b)"
  by (simp add: decode_to_def)

lemma decode_signature_panic_free [no_panic]: "panic_free (tx_decode_signature R tx body)"
  unfolding tx_decode_signature_def Let_def
  by (auto intro!: panic_free_and_then split: prod.splits)

lemma decode_fields_panic_free [no_panic]: "panic_free (tx_decode_fields R body)"
  unfolding tx_decode_fields_def
  by (intro panic_free_and_then, rule rd_panic_free)
    (auto simp: decode_to_panic_free decode_signature_panic_free intro!: panic_free_and_then
      split: prod.splits)

lemma tx_decode_panic_free [no_panic]: "panic_free (tx_decode R buf)"
  unfolding tx_decode_def Let_def
  by (auto simp: decode_fields_panic_free intro!: panic_free_and_then split: prod.splits)

text \<open>Transactions that the wire can carry are themselves an item of RLP.\<close>

definition tx_item_fits :: "rlp_crate \<Rightarrow> bc_tx \<Rightarrow> bool" where
  "tx_item_fits R tx \<longleftrightarrow> tx_wire tx \<and> tx_fits R tx"

definition tx_item_dec :: "rlp_crate \<Rightarrow> bytes \<Rightarrow> rlp_error + (bc_tx \<times> bytes)" where
  "tx_item_dec R buf =
     (case tx_decode R buf of Inr x \<Rightarrow> Inr x | Inl (Err e) \<Rightarrow> Inl e
      | Inl (Panic m) \<Rightarrow> Inl (Rlp_Other ''panic''))"

interpretation rlp_tx: rlp_item rlp_laws tx_item_fits tx_encode tx_length tx_item_dec
proof unfold_locales
  fix R :: rlp_crate and tx :: bc_tx and rest :: bytes
  assume R: "rlp_laws R" and f: "tx_item_fits R tx"
  show "tx_item_dec R (tx_encode R tx @ rest) = Inr (tx, rest)"
    using f tx_decode_encode [OF R, of tx rest]
    by (simp add: tx_item_dec_def tx_item_fits_def tx_wire_normal)
  show "length (tx_encode R tx) = tx_length R tx" by (rule tx_encode_length [OF R])
  have "length (r_header_enc R True (rlp_payload_length R tx)) > 0"
    by (simp add: rlp_lawsD [OF R])
  then show "tx_encode R tx \<noteq> []" by (auto simp: tx_encode_def Let_def)
qed

end
