(* ===== verification/Signing.thy ===== *)
theory Signing
  imports Crypto Rlp
begin

text \<open>
  \<^verbatim>\<open>src/transaction/signing.rs\<close>: signing a transaction and recovering its sender.  The
  hash that is signed covers the transaction without its signature fields; the composite
  signature is tied to the key and to the chain by the entanglement nonce.  Signing changes
  the transaction only when it succeeds, so it returns the new one.
\<close>

section \<open>Operations\<close>

definition nonce_preimage :: "64 word \<Rightarrow> bytes \<Rightarrow> bytes" where
  "nonce_preimage chain_id address =
     ascii ''entangle'' @ [ALGO_ID] @ [VERSION] @ be_bytes_u64 chain_id @ address"

definition compute_entanglement_nonce :: "hashes \<Rightarrow> 64 word \<Rightarrow> bytes \<Rightarrow> bytes" where
  "compute_entanglement_nonce H chain_id address =
     shake256 H (nonce_preimage chain_id address) 16"

text \<open>The bytes that are hashed: the type byte and the encoding of the unsigned copy.\<close>

definition signature_preimage :: "rlp_crate \<Rightarrow> bc_tx \<Rightarrow> bytes" where
  "signature_preimage R tx =
     TX_TYPE # tx_encode R
       \<lparr>tx_chain_id = tx_chain_id tx, tx_nonce = tx_nonce tx,
        tx_max_priority_fee_per_gas = tx_max_priority_fee_per_gas tx,
        tx_max_fee_per_gas = tx_max_fee_per_gas tx, tx_gas_limit = tx_gas_limit tx,
        tx_to = tx_to tx, tx_value = tx_value tx, tx_data = tx_data tx,
        tx_v = None, tx_r = None, tx_s = None, tx_pqc_signature = None, tx_pub_key = None\<rparr>"

definition signature_hash :: "hashes \<Rightarrow> rlp_crate \<Rightarrow> bc_tx \<Rightarrow> bytes" where
  "signature_hash H R tx = keccak256 H (signature_preimage R tx)"

definition expected_v :: "64 word \<Rightarrow> 256 word" where
  "expected_v chain_id = ucast chain_id * 2 + 35"

definition sign_transaction ::
  "('dv, 'ds, 'dg, 'v, 's, 'g, 'r, 'es, 'ep, 'pt, 'sc) crates \<Rightarrow> rlp_crate \<Rightarrow> 'r
     \<Rightarrow> bc_private_key \<Rightarrow> bc_tx \<Rightarrow> (bc_tx, crypto_error) outcome" where
  "sign_transaction K R r key tx =
     (let hash = signature_hash (hsh K) R tx;
          pub_key = bsk_public key;
          address = derive_address (hsh K) pub_key;
          entg_nonce = compute_entanglement_nonce (hsh K) (tx_chain_id tx) address;
          h_combined = compute_h_combined (hsh K) pub_key entg_nonce
      in if length (bsk_dilithium key) \<noteq> DIL_PRIVATE_KEY_SIZE
         then Error (SignatureError [Str ''ML-DSA-87 seed has wrong size: expected '',
                Num DIL_PRIVATE_KEY_SIZE, Str '', got '', Num (length (bsk_dilithium key))])
         else and_then (composite_sign K r key hash h_combined)
           (\<lambda>composite. Ok (tx\<lparr>
              tx_pqc_signature := Some composite,
              tx_pub_key := Some (bpk_to_bytes pub_key),
              tx_v := Some (expected_v (tx_chain_id tx)),
              tx_r := Some 0,
              tx_s := Some 0\<rparr>)))"

definition verify_signature ::
  "('dv, 'ds, 'dg, 'v, 's, 'g, 'r, 'es, 'ep, 'pt, 'sc) crates \<Rightarrow> bytes \<Rightarrow> 64 word \<Rightarrow> bytes
     \<Rightarrow> bytes \<Rightarrow> (bytes, crypto_error) outcome" where
  "verify_signature K tx_hash chain_id pub_key_bytes pqc_sig =
     and_then (bpk_from_bytes K pub_key_bytes)
       (\<lambda>pub_key.
          let address = derive_address (hsh K) pub_key;
              entg_nonce = compute_entanglement_nonce (hsh K) chain_id address;
              h_combined = compute_h_combined (hsh K) pub_key entg_nonce
          in and_then (composite_verify K pub_key tx_hash h_combined pqc_sig)
               (\<lambda>_. Ok address))"

definition recover_sender ::
  "('dv, 'ds, 'dg, 'v, 's, 'g, 'r, 'es, 'ep, 'pt, 'sc) crates \<Rightarrow> rlp_crate \<Rightarrow> bc_tx
     \<Rightarrow> (bytes, crypto_error) outcome" where
  "recover_sender K R tx =
     and_then (ok_or (SignatureError [Str ''transaction is not signed (pqc_signature missing)''])
         (tx_pqc_signature tx))
       (\<lambda>pqc_sig. and_then
         (ok_or (SignatureError [Str ''transaction is not signed (pub_key missing)''])
           (tx_pub_key tx))
         (\<lambda>pub_key_bytes.
            if tx_v tx \<noteq> Some (expected_v (tx_chain_id tx)) \<or> tx_r tx \<noteq> Some 0 \<or> tx_s tx \<noteq> Some 0
            then Error (SignatureError [Str (''non-canonical transaction envelope: v/r/s must equal ''
                   @ ''the mandated placeholders (v = chain_id*2+35, r = 0, s = 0)'')])
            else verify_signature K (signature_hash (hsh K) R tx) (tx_chain_id tx)
                   pub_key_bytes pqc_sig))"

section \<open>What is signed\<close>

lemma signature_preimage_unsigned: "signature_preimage R tx = TX_TYPE # tx_encode R (tx_unsigned tx)"
  by (cases tx) (simp add: signature_preimage_def tx_unsigned_def)

lemma signature_hash_unsigned:
  "tx_unsigned tx = tx_unsigned tx' \<Longrightarrow> signature_hash H R tx = signature_hash H R tx'"
  by (simp add: signature_hash_def signature_preimage_unsigned)

lemma tx_unsigned_idem [simp]: "tx_unsigned (tx_unsigned tx) = tx_unsigned tx"
  by (simp add: tx_unsigned_def)

lemma unsigned_fits:
  "tx_fits R tx \<Longrightarrow> tx_item_fits R (tx_unsigned tx)"
  by (auto simp: tx_item_fits_def tx_fits_def tx_wire_def tx_typed_def tx_unsigned_def
      rlp_payload_length_def has_signature_def)

lemma signature_preimage_inj:
  assumes "rlp_laws R" "tx_fits R tx" "tx_fits R tx'"
    and "signature_preimage R tx = signature_preimage R tx'"
  shows "tx_unsigned tx = tx_unsigned tx'"
  using rlp_tx.enc_inj [OF assms(1) unsigned_fits [OF assms(2)] unsigned_fits [OF assms(3)]] assms(4)
  by (simp add: signature_preimage_unsigned)

lemma expected_v_value: "unat (expected_v c) = 2 * unat c + 35"
proof -
  have c: "unat c < 2 ^ 64" using unsigned_less [of c] by simp
  have u: "unat (ucast c :: 256 word) = unat c"
    by (simp add: unsigned_ucast_eq take_bit_nat_eq_self_iff less_trans [OF c])
  have "unat (expected_v c) = (unat c * 2 + 35) mod 2 ^ 256"
    by (simp only: expected_v_def unat_word_ariths u len_num0 len_bit0) (simp add: mod_simps)
  also have "\<dots> = unat c * 2 + 35" using c by simp
  finally show ?thesis by simp
qed

text \<open>The two classical sub-signatures are never over the same message.\<close>

lemma curve_msg_inj:
  assumes "length h = length h'" "length x = length x'"
  shows "curve_msg h x c = curve_msg h' x' c' \<longleftrightarrow> h = h' \<and> x = x' \<and> c = c'"
  using assms by (auto simp: curve_msg_def)

lemma curve_msgs_differ: "curve_msg h x CURVE_ID_P521 \<noteq> curve_msg h' x' CURVE_ID_ED448"
proof
  assume "curve_msg h x CURVE_ID_P521 = curve_msg h' x' CURVE_ID_ED448"
  then have "last (curve_msg h x CURVE_ID_P521) = last (curve_msg h' x' CURVE_ID_ED448)"
    by (rule arg_cong)
  then show False by (simp add: curve_msg_def CURVE_ID_P521_def CURVE_ID_ED448_def)
qed

section \<open>Signing and recovering\<close>

definition bound_hash ::
  "('dv, 'ds, 'dg, 'v, 's, 'g, 'r, 'es, 'ep, 'pt, 'sc) crates \<Rightarrow> 64 word \<Rightarrow> bc_public_key \<Rightarrow> bytes"
where
  "bound_hash K chain_id pk =
     compute_h_combined (hsh K) pk
       (compute_entanglement_nonce (hsh K) chain_id (derive_address (hsh K) pk))"

lemma verify_signature_iff:
  "verify_signature K hash chain_id pkb sig = Ok a \<longleftrightarrow>
    (\<exists>pk. pkb = bpk_to_bytes pk \<and> pk_valid K pk \<and> a = derive_address (hsh K) pk \<and>
       composite_verify K pk hash (bound_hash K chain_id pk) sig = Ok ())"
  by (auto simp: verify_signature_def Let_def bpk_from_bytes_iff bound_hash_def)

lemma recover_sender_iff:
  "recover_sender K R tx = Ok a \<longleftrightarrow>
    tx_v tx = Some (expected_v (tx_chain_id tx)) \<and> tx_r tx = Some 0 \<and> tx_s tx = Some 0 \<and>
    (\<exists>pk sig. tx_pub_key tx = Some (bpk_to_bytes pk) \<and> tx_pqc_signature tx = Some sig \<and>
       pk_valid K pk \<and> a = derive_address (hsh K) pk \<and>
       composite_verify K pk (signature_hash (hsh K) R tx)
         (bound_hash K (tx_chain_id tx) pk) sig = Ok ())"
  by (auto simp: recover_sender_def verify_signature_iff split: if_splits)

definition signed_tx :: "bc_tx \<Rightarrow> bc_public_key \<Rightarrow> bytes \<Rightarrow> bc_tx" where
  "signed_tx tx pk sig = tx\<lparr>tx_pqc_signature := Some sig, tx_pub_key := Some (bpk_to_bytes pk),
     tx_v := Some (expected_v (tx_chain_id tx)), tx_r := Some 0, tx_s := Some 0\<rparr>"

lemma signed_tx_simps [simp]:
  "tx_unsigned (signed_tx tx pk sig) = tx_unsigned tx"
  "tx_chain_id (signed_tx tx pk sig) = tx_chain_id tx"
  "tx_pqc_signature (signed_tx tx pk sig) = Some sig"
  "tx_pub_key (signed_tx tx pk sig) = Some (bpk_to_bytes pk)"
  "tx_v (signed_tx tx pk sig) = Some (expected_v (tx_chain_id tx))"
  "tx_r (signed_tx tx pk sig) = Some 0" "tx_s (signed_tx tx pk sig) = Some 0"
  "tx_typed (signed_tx tx pk sig) = tx_typed tx"
  by (simp_all add: signed_tx_def tx_unsigned_def tx_typed_def)

lemma sign_transaction_eq:
  "sign_transaction K R r k tx =
    (if length (bsk_dilithium k) \<noteq> DIL_PRIVATE_KEY_SIZE
     then Error (SignatureError [Str ''ML-DSA-87 seed has wrong size: expected '',
            Num DIL_PRIVATE_KEY_SIZE, Str '', got '', Num (length (bsk_dilithium k))])
     else and_then (composite_sign K r k (signature_hash (hsh K) R tx)
         (bound_hash K (tx_chain_id tx) (bsk_public k)))
       (\<lambda>sig. Ok (signed_tx tx (bsk_public k) sig)))"
  by (simp add: sign_transaction_def Let_def bound_hash_def signed_tx_def)

lemma signed_recovers:
  assumes "crates_laws K C" and "key_wf K k"
  shows "\<exists>sig. sign_transaction K R r k tx = Ok (signed_tx tx (bsk_public k) sig) \<and>
    length sig = 4873 \<and>
    recover_sender K R (signed_tx tx (bsk_public k) sig) =
      Ok (derive_address (hsh K) (bsk_public k))"
proof -
  have "length (bsk_dilithium k) = 32"
    using assms(2) by (simp add: key_wf_def dil_leg_pair_def)
  moreover have "signature_hash (hsh K) R (signed_tx tx (bsk_public k) sig) =
      signature_hash (hsh K) R tx" for sig
    by (rule signature_hash_unsigned) simp
  ultimately show ?thesis
    using composite_sign_verify [OF assms, of r "signature_hash (hsh K) R tx"
        "bound_hash K (tx_chain_id tx) (bsk_public k)"] key_wf_pk_valid [OF assms]
    by (auto simp: sign_transaction_eq size_consts recover_sender_iff)
qed

lemma sign_transaction_OkD:
  assumes "sign_transaction K R r k tx = Ok tx'"
  shows "\<exists>sig. tx' = signed_tx tx (bsk_public k) sig"
  using assms by (auto simp: sign_transaction_eq split: if_splits)

lemma verify_signature_panic_free [no_panic]: "panic_free (verify_signature K h c pkb sig)"
  by (auto simp: verify_signature_def Let_def bpk_from_bytes_panic_free
      composite_verify_panic_free intro!: panic_free_and_then)

lemma recover_sender_panic_free [no_panic]: "panic_free (recover_sender K R tx)"
  by (auto simp: recover_sender_def verify_signature_panic_free intro!: panic_free_and_then)

text \<open>Under a given key, recovery is the composite verification, and gives that key's address.\<close>

lemma recover_with_key:
  assumes "pk_valid K pk" and "tx_pub_key tx = Some (bpk_to_bytes pk)" "tx_pqc_signature tx = Some sig"
    and "tx_v tx = Some (expected_v (tx_chain_id tx))" "tx_r tx = Some 0" "tx_s tx = Some 0"
  shows "recover_sender K R tx = Ok a \<longleftrightarrow> a = derive_address (hsh K) pk \<and>
    composite_verify K pk (signature_hash (hsh K) R tx) (bound_hash K (tx_chain_id tx) pk) sig = Ok ()"
  using assms bpk_to_bytes_inj [OF assms(1)] by (auto simp: recover_sender_iff)

lemma reject_same_address:
  assumes "panic_free x" and "\<And>a. x = Inr a \<Longrightarrow> a = addr"
  shows "match_result x (\<lambda>a. assert_that (a \<noteq> addr) m) (\<lambda>_. Ok ()) = Ok () \<longleftrightarrow> \<not> accepted x"
  using assms by (auto elim!: not_panic_cases simp: assert_that_def)

end
