(* ===== verification/Api.thy ===== *)
theory Api
  imports Signing
begin

text \<open>
  \<^verbatim>\<open>src/api.rs\<close>, the functions an application calls, and \<^verbatim>\<open>src/wasm.rs\<close>, the wallet
  that is exported to JavaScript.  Errors of the latter are the text of the error.  The
  \<^verbatim>\<open>hex\<close> and \<^verbatim>\<open>serde_json\<close> crates are parameters of the functions that use them.
\<close>

section \<open>The high-level interface\<close>

definition DEFAULT_ACCOUNT_PATH :: rstr where
  "DEFAULT_ACCOUNT_PATH = lit (''m/44'' @ [CHR 0x27] @ ''/60'' @ [CHR 0x27] @ ''/0'' @ [CHR 0x27]
     @ ''/0'' @ [CHR 0x27] @ ''/0'' @ [CHR 0x27])"

definition restore_wallet ::
  "('dv, 'ds, 'dg, 'v, 's, 'g, 'r, 'es, 'ep, 'pt, 'sc) crates \<Rightarrow> 'mn bip39 \<Rightarrow> ('x, 'cn) bip32
     \<Rightarrow> rstr \<Rightarrow> rstr \<Rightarrow> (bc_private_key, crypto_error) outcome" where
  "restore_wallet K M X mnemonic passphrase =
     and_then (seed_from_mnemonic M mnemonic passphrase)
       (\<lambda>root_seed. and_then (parse_hardened_path DEFAULT_ACCOUNT_PATH)
       (\<lambda>path. and_then (derive_child_seed X root_seed path)
       (\<lambda>child_seed. and_then (bsk_generate K child_seed)
       (\<lambda>(priv_key, _). Ok priv_key))))"

definition create_wallet ::
  "('dv, 'ds, 'dg, 'v, 's, 'g, 'r, 'es, 'ep, 'pt, 'sc) crates \<Rightarrow> 'mn bip39 \<Rightarrow> ('x, 'cn) bip32
     \<Rightarrow> (nat \<Rightarrow> string + bytes) \<Rightarrow> rstr \<Rightarrow> (rstr \<times> bc_private_key, crypto_error) outcome" where
  "create_wallet K M X getrandom passphrase =
     and_then (generate_mnemonic M getrandom)
       (\<lambda>mnemonic. and_then (restore_wallet K M X mnemonic passphrase)
       (\<lambda>priv_key. Ok (mnemonic, priv_key)))"

definition api_sign_message ::
  "('dv, 'ds, 'dg, 'v, 's, 'g, 'r, 'es, 'ep, 'pt, 'sc) crates \<Rightarrow> 'r \<Rightarrow> bytes \<Rightarrow> bc_private_key
     \<Rightarrow> (bytes, crypto_error) outcome" where
  "api_sign_message K r message key = sign_message K r key message"

definition api_verify_message ::
  "('dv, 'ds, 'dg, 'v, 's, 'g, 'r, 'es, 'ep, 'pt, 'sc) crates \<Rightarrow> bytes \<Rightarrow> bytes \<Rightarrow> bc_public_key
     \<Rightarrow> (bool, crypto_error) outcome" where
  "api_verify_message K message signature pub_key = verify_message K pub_key message signature"

definition api_sign_transaction ::
  "('dv, 'ds, 'dg, 'v, 's, 'g, 'r, 'es, 'ep, 'pt, 'sc) crates \<Rightarrow> rlp_crate \<Rightarrow> 'r \<Rightarrow> bc_tx
     \<Rightarrow> bc_private_key \<Rightarrow> (bc_tx, crypto_error) outcome" where
  "api_sign_transaction K R r tx key = sign_transaction K R r key tx"

definition api_verify_transaction ::
  "('dv, 'ds, 'dg, 'v, 's, 'g, 'r, 'es, 'ep, 'pt, 'sc) crates \<Rightarrow> rlp_crate \<Rightarrow> bc_tx
     \<Rightarrow> (bytes, crypto_error) outcome" where
  "api_verify_transaction K R tx = recover_sender K R tx"

section \<open>The wallet for browsers\<close>

definition js_err :: "('a, crypto_error) outcome \<Rightarrow> ('a, message) outcome" where
  "js_err x = map_err display_crypto_error x"

definition addr_hex :: "hashes \<Rightarrow> (bytes \<Rightarrow> rstr) \<Rightarrow> bc_public_key \<Rightarrow> rstr" where
  "addr_hex H hex_encode pk = lit ''0x'' @ hex_encode (derive_address H pk)"

record black_wallet =
  bw_key :: bc_private_key
  bw_mnemonic :: rstr

definition wallet_create ::
  "('dv, 'ds, 'dg, 'v, 's, 'g, 'r, 'es, 'ep, 'pt, 'sc) crates \<Rightarrow> 'mn bip39 \<Rightarrow> ('x, 'cn) bip32
     \<Rightarrow> (nat \<Rightarrow> string + bytes) \<Rightarrow> rstr \<Rightarrow> (black_wallet, message) outcome" where
  "wallet_create K M X getrandom passphrase =
     and_then (js_err (create_wallet K M X getrandom passphrase))
       (\<lambda>(mnemonic, key). Ok \<lparr>bw_key = key, bw_mnemonic = mnemonic\<rparr>)"

definition wallet_from_mnemonic ::
  "('dv, 'ds, 'dg, 'v, 's, 'g, 'r, 'es, 'ep, 'pt, 'sc) crates \<Rightarrow> 'mn bip39 \<Rightarrow> ('x, 'cn) bip32
     \<Rightarrow> rstr \<Rightarrow> rstr \<Rightarrow> (black_wallet, message) outcome" where
  "wallet_from_mnemonic K M X mnemonic passphrase =
     and_then (js_err (restore_wallet K M X mnemonic passphrase))
       (\<lambda>key. Ok \<lparr>bw_key = key, bw_mnemonic = mnemonic\<rparr>)"

definition account_path :: "32 word \<Rightarrow> rstr" where
  "account_path index =
     lit (''m/44'' @ [CHR 0x27] @ ''/60'' @ [CHR 0x27] @ ''/0'' @ [CHR 0x27] @ ''/0'' @ [CHR 0x27]
       @ ''/'') @ show_nat (unat index) @ lit [CHR 0x27]"

definition wallet_from_mnemonic_at ::
  "('dv, 'ds, 'dg, 'v, 's, 'g, 'r, 'es, 'ep, 'pt, 'sc) crates \<Rightarrow> 'mn bip39 \<Rightarrow> ('x, 'cn) bip32
     \<Rightarrow> rstr \<Rightarrow> rstr \<Rightarrow> 32 word \<Rightarrow> (black_wallet, message) outcome" where
  "wallet_from_mnemonic_at K M X mnemonic passphrase index =
     and_then (js_err (seed_from_mnemonic M mnemonic passphrase))
       (\<lambda>root_seed. and_then (js_err (parse_hardened_path (account_path index)))
       (\<lambda>path. and_then (js_err (derive_child_seed X root_seed path))
       (\<lambda>child_seed. and_then (js_err (bsk_generate K child_seed))
       (\<lambda>(key, _). Ok \<lparr>bw_key = key, bw_mnemonic = mnemonic\<rparr>))))"

definition wallet_mnemonic :: "black_wallet \<Rightarrow> rstr" where
  "wallet_mnemonic w = bw_mnemonic w"

definition wallet_address :: "hashes \<Rightarrow> (bytes \<Rightarrow> rstr) \<Rightarrow> black_wallet \<Rightarrow> rstr" where
  "wallet_address H hex_encode w = addr_hex H hex_encode (bsk_public (bw_key w))"

definition wallet_public_key :: "black_wallet \<Rightarrow> bytes" where
  "wallet_public_key w = bpk_to_bytes (bsk_public (bw_key w))"

definition wallet_sign_message ::
  "('dv, 'ds, 'dg, 'v, 's, 'g, 'r, 'es, 'ep, 'pt, 'sc) crates \<Rightarrow> 'r \<Rightarrow> black_wallet \<Rightarrow> bytes
     \<Rightarrow> (bytes, message) outcome" where
  "wallet_sign_message K r w message = js_err (sign_message K r (bw_key w) message)"

record tx_json =
  j_from_str :: "rstr \<Rightarrow> string + bc_tx"
  j_to_string :: "bc_tx \<Rightarrow> string + rstr"

definition wallet_sign_transaction ::
  "('dv, 'ds, 'dg, 'v, 's, 'g, 'r, 'es, 'ep, 'pt, 'sc) crates \<Rightarrow> rlp_crate \<Rightarrow> tx_json \<Rightarrow> 'r
     \<Rightarrow> black_wallet \<Rightarrow> rstr \<Rightarrow> (rstr, message) outcome" where
  "wallet_sign_transaction K R J r w tx_str =
     and_then (of_result (\<lambda>e. [Ext e]) (j_from_str J tx_str))
       (\<lambda>tx. and_then (js_err (sign_transaction K R r (bw_key w) tx))
       (\<lambda>tx. of_result (\<lambda>e. [Ext e]) (j_to_string J tx)))"

definition wasm_verify_message ::
  "('dv, 'ds, 'dg, 'v, 's, 'g, 'r, 'es, 'ep, 'pt, 'sc) crates \<Rightarrow> bytes \<Rightarrow> bytes \<Rightarrow> bytes
     \<Rightarrow> (bool, message) outcome" where
  "wasm_verify_message K message signature public_key =
     and_then (js_err (bpk_from_bytes K public_key))
       (\<lambda>pk. unwrap_or False (verify_message K pk message signature))"

definition wasm_recover_sender ::
  "('dv, 'ds, 'dg, 'v, 's, 'g, 'r, 'es, 'ep, 'pt, 'sc) crates \<Rightarrow> rlp_crate \<Rightarrow> tx_json
     \<Rightarrow> (bytes \<Rightarrow> rstr) \<Rightarrow> rstr \<Rightarrow> (rstr, message) outcome" where
  "wasm_recover_sender K R J hex_encode signed_tx_json =
     and_then (of_result (\<lambda>e. [Ext e]) (j_from_str J signed_tx_json))
       (\<lambda>tx. and_then (js_err (recover_sender K R tx))
       (\<lambda>addr. Ok (lit ''0x'' @ hex_encode addr)))"

definition wasm_validate_mnemonic :: "'mn bip39 \<Rightarrow> rstr \<Rightarrow> bool" where
  "wasm_validate_mnemonic M mnemonic = validate_mnemonic M mnemonic"

section \<open>Account paths\<close>

lemma js_err_Inr_iff [simp]: "js_err x = Inr a \<longleftrightarrow> x = Inr a"
  by (simp add: js_err_def)

lemma js_err_Ok [simp]: "js_err (Inr a) = Inr a"
  by (simp add: js_err_def)

lemma js_err_and_then: "js_err (and_then x f) = and_then (js_err x) (\<lambda>a. js_err (f a))"
  unfolding js_err_def by (cases "(display_crypto_error, x)" rule: map_err.cases) auto

lemma account_path_print: "account_path index = print_path [44, 60, 0, 0, index]"
  by (simp add: account_path_def print_path_def lit_def show_nat.simps)

lemma DEFAULT_ACCOUNT_PATH_account: "DEFAULT_ACCOUNT_PATH = account_path 0"
  by (simp add: account_path_def DEFAULT_ACCOUNT_PATH_def lit_def show_nat.simps)

lemma parse_account_path:
  assumes "index < 0x80000000"
  shows "parse_hardened_path (account_path index) =
    Ok [0x8000002C, 0x8000003C, 0x80000000, 0x80000000, harden index]"
  using parse_print_path [of "[44, 60, 0, 0, index]"] assms
  by (simp add: account_path_print harden_def)

lemma account_index_too_large:
  assumes "0x80000000 \<le> index"
  shows "parse_hardened_path (account_path index) =
    Error (Custom [Str ''BIP32: index too large before hardening at position '', Num 4])"
proof -
  let ?ns = "[44, 60, 0, 0, index] :: 32 word list"
  have ne: "?ns \<noteq> []" and "print_segments ?ns \<noteq> []" using print_segments_hd [of ?ns] by auto
  moreover have "\<not> index \<le> 0x7FFFFFFF" using assms by (auto simp: word_le_nat_alt)
  ultimately show ?thesis
    unfolding account_path_print
    by (simp add: parse_hardened_path_def trim_print_path strip_print_path split_print_segments
        parse_print_segment parse_segment_def [of "Suc (Suc (Suc (Suc 0)))"] trim_print_segment
        parse_show_u32 del: insert_iff print_segments.simps)
qed

end
