(* ===== verification/Fuzz.thy ===== *)
theory Fuzz
  imports Api
begin

text \<open>
  The fuzz targets of \<^verbatim>\<open>fuzz/fuzz_targets\<close>: each is a function of the fuzzer's input that
  returns or panics, its \<^verbatim>\<open>assert!\<close>s being the invariants the target states.  A structured
  input is a record with the fields the \<^verbatim>\<open>arbitrary\<close> crate fills.
\<close>

section \<open>Decoding a transaction\<close>

definition fuzz_tx_decode ::
  "('dv, 'ds, 'dg, 'v, 's, 'g, 'r, 'es, 'ep, 'pt, 'sc) crates \<Rightarrow> rlp_crate \<Rightarrow> bytes
     \<Rightarrow> (unit, crypto_error) outcome" where
  "fuzz_tx_decode K R data =
     match_result (tx_decode R data)
       (\<lambda>(tx, cursor).
          let hash = signature_hash (hsh K) R tx in
          and_then (assert_that (length hash = 32) [Str ''signature_hash must always return 32 bytes''])
         (\<lambda>_. and_then (discard (recover_sender K R tx))
         (\<lambda>_. let encoded = TX_TYPE # tx_encode R tx in
          and_then (slice_from 1 encoded)
         (\<lambda>re_encoded_slice. match_result (tx_decode R re_encoded_slice)
            (\<lambda>(tx2, _). assert_that (signature_hash (hsh K) R tx = signature_hash (hsh K) R tx2)
               [Str (''encode'' @ [CHR 0xE2, CHR 0x86, CHR 0x92] @ ''decode roundtrip must preserve signature_hash'')])
            (\<lambda>_. Ok ())))))
       (\<lambda>_. Ok ())"

section \<open>Parsing a public key\<close>

definition fuzz_pubkey_parse ::
  "('dv, 'ds, 'dg, 'v, 's, 'g, 'r, 'es, 'ep, 'pt, 'sc) crates \<Rightarrow> bytes
     \<Rightarrow> (unit, crypto_error) outcome" where
  "fuzz_pubkey_parse K data =
     match_result (bpk_from_bytes K data)
       (\<lambda>pk.
          and_then (assert_that (length (bpk_dilithium pk) = 2592) [Str ''dilithium sub-key must be 2592 bytes''])
         (\<lambda>_. and_then (assert_that (length (bpk_p521 pk) = 133) [Str ''P-521 sub-key must be 133 bytes''])
         (\<lambda>_. and_then (assert_that (length (bpk_ed448 pk) = 57) [Str ''Ed448 sub-key must be 57 bytes''])
         (\<lambda>_. let b = bpk_to_bytes pk in
          and_then (assert_that (length b = COMPOSITE_PK_SIZE) [Str ''assertion failed''])
         (\<lambda>_. and_then (expect [Str ''re-parsing to_bytes output must always succeed''] (bpk_from_bytes K b))
         (\<lambda>pk2. and_then (assert_that (bpk_to_bytes pk = bpk_to_bytes pk2) [Str ''roundtrip must be identity''])
         (\<lambda>_. let addr = derive_address (hsh K) pk; addr2 = derive_address (hsh K) pk2 in
          assert_that (addr = addr2) [Str ''same key bytes must yield same address''])))))))
       (\<lambda>_. Ok ())"

section \<open>Signing and recovering\<close>

record fuzz_sign_input =
  fs_seed :: bytes
  fs_chain_id :: "64 word"
  fs_nonce :: "64 word"
  fs_gas_limit :: "64 word"
  fs_value_lo :: "128 word"
  fs_value_hi :: "128 word"
  fs_max_priority_fee :: "64 word"
  fs_max_fee :: "64 word"
  fs_has_to :: bool
  fs_to_bytes :: bytes
  fs_data :: bytes

text \<open>\<^verbatim>\<open>U256::from(hi) << k | U256::from(lo)\<close>.\<close>

definition u256_of_halves :: "nat \<Rightarrow> 'a::len word \<Rightarrow> 'a word \<Rightarrow> 256 word" where
  "u256_of_halves k hi lo = push_bit k (ucast hi) OR ucast lo"

text \<open>
  The field \<open>to_bytes\<close> of the inputs is an array of 20 bytes by its type, so \<^verbatim>\<open>Address::from_slice\<close>
  of it is the array itself.
\<close>

definition fuzz_sign_tx :: "fuzz_sign_input \<Rightarrow> bc_tx" where
  "fuzz_sign_tx i =
     \<lparr>tx_chain_id = fs_chain_id i, tx_nonce = fs_nonce i,
      tx_max_priority_fee_per_gas = ucast (fs_max_priority_fee i),
      tx_max_fee_per_gas = ucast (fs_max_fee i), tx_gas_limit = fs_gas_limit i,
      tx_to = (if fs_has_to i then Some (fs_to_bytes i) else None),
      tx_value = u256_of_halves 128 (fs_value_hi i) (fs_value_lo i), tx_data = fs_data i,
      tx_v = None, tx_r = None, tx_s = None, tx_pqc_signature = None, tx_pub_key = None\<rparr>"

definition fuzz_tx_sign_recover ::
  "('dv, 'ds, 'dg, 'v, 's, 'g, 'r, 'es, 'ep, 'pt, 'sc) crates \<Rightarrow> rlp_crate \<Rightarrow> 'r
     \<Rightarrow> fuzz_sign_input \<Rightarrow> (unit, crypto_error) outcome" where
  "fuzz_tx_sign_recover K R r i =
     match_result (bsk_generate K (fs_seed i))
       (\<lambda>(priv_key, pub_key).
          let expected_addr = derive_address (hsh K) pub_key in
          match_result (sign_transaction K R r priv_key (fuzz_sign_tx i))
            (\<lambda>tx. match_result (recover_sender K R tx)
               (\<lambda>recovered. assert_that (recovered = expected_addr)
                  [Str ''recovered address must match the signing key's address (chain_id='',
                   Num (unat (fs_chain_id i)), Str '', nonce='', Num (unat (fs_nonce i)),
                   Str '', data_len='', Num (length (tx_data tx)), Str '')''])
               (\<lambda>e. Panics (Str ''recover_sender failed on a freshly-signed tx: ''
                  # display_crypto_error e)))
            (\<lambda>_. Ok ()))
       (\<lambda>_. Ok ())"

section \<open>The signature hash\<close>

record fuzz_hash_input =
  fh_chain_id :: "64 word"
  fh_nonce :: "64 word"
  fh_gas_limit :: "64 word"
  fh_max_priority_fee_lo :: "64 word"
  fh_max_priority_fee_hi :: "64 word"
  fh_max_fee_lo :: "64 word"
  fh_max_fee_hi :: "64 word"
  fh_value_lo :: "128 word"
  fh_value_hi :: "128 word"
  fh_has_to :: bool
  fh_to_bytes :: bytes
  fh_data :: bytes
  fh_has_sig :: bool
  fh_v_val :: "64 word"
  fh_pqc_sig_len :: "8 word"
  fh_pub_key_len :: "8 word"

definition fuzz_build_tx :: "fuzz_hash_input \<Rightarrow> bool \<Rightarrow> bc_tx" where
  "fuzz_build_tx i include_sig =
     (let value = u256_of_halves 128 (fh_value_hi i) (fh_value_lo i);
          max_prio = u256_of_halves 64 (fh_max_priority_fee_hi i) (fh_max_priority_fee_lo i);
          max_fee = u256_of_halves 64 (fh_max_fee_hi i) (fh_max_fee_lo i)
      in \<lparr>tx_chain_id = fh_chain_id i, tx_nonce = fh_nonce i,
          tx_max_priority_fee_per_gas = max_prio, tx_max_fee_per_gas = max_fee,
          tx_gas_limit = fh_gas_limit i,
          tx_to = (if fh_has_to i then Some (fh_to_bytes i) else None),
          tx_value = value, tx_data = fh_data i,
          tx_v = (if include_sig \<and> fh_has_sig i then Some (ucast (fh_v_val i)) else None),
          tx_r = (if include_sig \<and> fh_has_sig i then Some 0 else None),
          tx_s = (if include_sig \<and> fh_has_sig i then Some 0 else None),
          tx_pqc_signature = (if include_sig \<and> fh_has_sig i
            then Some (replicate (unat (fh_pqc_sig_len i)) 0xab) else None),
          tx_pub_key = (if include_sig \<and> fh_has_sig i
            then Some (replicate (unat (fh_pub_key_len i)) 0xcd) else None)\<rparr>)"

definition fuzz_signature_hash ::
  "('dv, 'ds, 'dg, 'v, 's, 'g, 'r, 'es, 'ep, 'pt, 'sc) crates \<Rightarrow> rlp_crate
     \<Rightarrow> fuzz_hash_input \<Rightarrow> (unit, crypto_error) outcome" where
  "fuzz_signature_hash K R i =
     (let tx = fuzz_build_tx i False; h1 = signature_hash (hsh K) R tx in
        and_then (assert_that (length h1 = 32) [Str ''signature_hash must return exactly 32 bytes''])
      (\<lambda>_. let h2 = signature_hash (hsh K) R tx in
        and_then (assert_that (h1 = h2) [Str ''signature_hash must be deterministic''])
      (\<lambda>_. let tx_with_sig = fuzz_build_tx i True; h_with_sig = signature_hash (hsh K) R tx_with_sig in
        and_then (assert_that (h1 = h_with_sig)
          [Str ''v/r/s/pqc_signature/pub_key must not affect signature_hash''])
      (\<lambda>_. let tx_diff = tx\<lparr>tx_chain_id := tx_chain_id tx + 1\<rparr>;
             h_diff = signature_hash (hsh K) R tx_diff in
        and_then (assert_that (h1 \<noteq> h_diff)
          [Str ''different chain_id must produce different signature_hash''])
      (\<lambda>_. discard (recover_sender K R tx))))))"
section \<open>Mnemonics and derivation\<close>

record fuzz_mnemonic_input =
  fm_mnemonic_bytes :: bytes
  fm_passphrase :: rstr
  fm_master_seed :: bytes
  fm_path :: "32 word list"
  fm_mdecc_seed :: bytes
  fm_curve_id :: byte
  fm_seed_size :: "16 word"
  fm_path_string :: rstr

text \<open>The nested loop over the curve ids and sizes, for the pairs that are left.\<close>

fun fuzz_spec_curves :: "hashes \<Rightarrow> bytes \<Rightarrow> (byte \<times> nat) list \<Rightarrow> (unit, crypto_error) outcome" where
  "fuzz_spec_curves H seed [] = Ok ()"
| "fuzz_spec_curves H seed ((curve_id, sz) # rest) =
     and_then (is_ok (derive_mdecc_curve_seed H seed curve_id sz))
       (\<lambda>ok. and_then (assert_that ok
          [Str ''derive_mdecc_curve_seed must succeed for spec curve IDs with any non-empty seed''])
       (\<lambda>_. fuzz_spec_curves H seed rest))"

definition fuzz_mnemonic_seed ::
  "hashes \<Rightarrow> 'mn bip39 \<Rightarrow> ('x, 'cn) bip32 \<Rightarrow> fuzz_mnemonic_input \<Rightarrow> (unit, crypto_error) outcome"
where
  "fuzz_mnemonic_seed H M X i =
     (let mnemonic_str = from_utf8_lossy (fm_mnemonic_bytes i);
          is_valid = validate_mnemonic M mnemonic_str;
          seed_result = seed_from_mnemonic M mnemonic_str (fm_passphrase i)
      in and_then
           (if is_valid
            then match_result seed_result
              (\<lambda>seed. assert_that (length seed = 64) [Str ''BIP-39 seed must always be 64 bytes''])
              (\<lambda>_. Ok ())
            else discard seed_result)
      (\<lambda>_. and_then (discard (parse_hardened_path (fm_path_string i)))
      (\<lambda>_. and_then (discard (derive_child_seed X (fm_master_seed i) (take 32 (fm_path i))))
      (\<lambda>_. let capped_size = min (unat (fm_seed_size i)) 1024 in
        and_then (discard (derive_mdecc_curve_seed H (fm_mdecc_seed i) (fm_curve_id i) capped_size))
      (\<lambda>_. if fm_mdecc_seed i \<noteq> []
        then fuzz_spec_curves H (fm_mdecc_seed i)
          (concat (map (\<lambda>curve_id. map (Pair curve_id) [32, 57, 66]) [CURVE_ID_P521, CURVE_ID_ED448]))
        else Ok ())))))"

section \<open>The composite verifier\<close>

definition FIXED_SEED :: bytes where
  "FIXED_SEED = map (\<lambda>i. word_of_nat ((i * 7 + 13) mod 256)) [0..<64]"

definition fuzz_key_and_addr ::
  "('dv, 'ds, 'dg, 'v, 's, 'g, 'r, 'es, 'ep, 'pt, 'sc) crates
     \<Rightarrow> (bc_private_key \<times> bytes, crypto_error) outcome" where
  "fuzz_key_and_addr K =
     and_then (expect [Str ''keygen must succeed for fixed seed''] (bsk_generate K FIXED_SEED))
       (\<lambda>(priv_key, pub_key). let addr = derive_address (hsh K) pub_key in Ok (priv_key, addr))"

definition fuzz_victim_tx :: "bytes \<Rightarrow> bc_tx" where
  "fuzz_victim_tx data =
     \<lparr>tx_chain_id = 1, tx_nonce = 42, tx_max_priority_fee_per_gas = 1500000000,
      tx_max_fee_per_gas = 30000000000, tx_gas_limit = 21000, tx_to = Some (replicate 20 0xaa),
      tx_value = 1000000000000000000, tx_data = [], tx_v = Some (2 + 35), tx_r = Some 0,
      tx_s = Some 0, tx_pqc_signature = Some data, tx_pub_key = None\<rparr>"

definition fuzz_second_tx :: bc_tx where
  "fuzz_second_tx =
     \<lparr>tx_chain_id = 1, tx_nonce = 1, tx_max_priority_fee_per_gas = 0, tx_max_fee_per_gas = 0,
      tx_gas_limit = 21000, tx_to = None, tx_value = 0, tx_data = [], tx_v = None, tx_r = None,
      tx_s = None, tx_pqc_signature = None, tx_pub_key = None\<rparr>"

definition fuzz_composite_sig_verify ::
  "('dv, 'ds, 'dg, 'v, 's, 'g, 'r, 'es, 'ep, 'pt, 'sc) crates \<Rightarrow> rlp_crate \<Rightarrow> 'r \<Rightarrow> bytes
     \<Rightarrow> (unit, crypto_error) outcome" where
  "fuzz_composite_sig_verify K R r data =
     and_then (fuzz_key_and_addr K)
       (\<lambda>(priv_key, signer_addr). and_then
         (unwrapped (bsk_generate K FIXED_SEED))
       (\<lambda>(_, pub_key).
          let tx = (fuzz_victim_tx data)\<lparr>tx_pub_key := Some (bpk_to_bytes pub_key)\<rparr> in
          and_then (match_result (recover_sender K R tx)
            (\<lambda>recovered. assert_that (recovered \<noteq> signer_addr)
               [Str ''fuzzer-provided sig must not verify as the signer's address''])
            (\<lambda>_. Ok ()))
       (\<lambda>_. and_then (match_result (sign_transaction K R r priv_key fuzz_second_tx)
            (\<lambda>signed. Ok (signed\<lparr>tx_pub_key := Some data\<rparr>))
            (\<lambda>_. Ok tx))
       (\<lambda>tx2. discard (recover_sender K R tx2)))))"

section \<open>What the targets do\<close>

lemma fuzz_pubkey_parse_ok: "fuzz_pubkey_parse K data = Ok ()"
  unfolding fuzz_pubkey_parse_def
proof (rule match_result_Ok [OF bpk_from_bytes_panic_free], goal_cases)
  case (1 pk)
  then have p: "pk_valid K pk" by (simp add: bpk_from_bytes_iff)
  then have "bpk_from_bytes K (bpk_to_bytes pk) = Ok pk" by (simp add: bpk_from_bytes_iff)
  with p pk_valid_size [OF p] show ?case by (simp add: size_consts pk_valid_def Let_def)
qed simp

lemma fuzz_tx_decode_ok:
  assumes "hash_laws (hsh K)" "rlp_laws R" and "length data < 2 ^ 60"
  shows "fuzz_tx_decode K R data = Ok ()"
  unfolding fuzz_tx_decode_def
proof (rule match_result_Ok [OF tx_decode_panic_free], goal_cases)
  case (1 x)
  obtain tx rest where x: "x = (tx, rest)" by (cases x)
  with 1 have d: "tx_decode R data = Ok (tx, rest)" by simp
  have w: "tx_wire tx" and s: "tx_small tx"
    using tx_decode_canonical(1) [OF assms(2) d] tx_decode_small [OF assms(2) d assms(3)] by auto
  have "tx_decode R (tx_encode R tx) = Ok (tx, [])"
    using tx_decode_encode [OF assms(2) tx_small_fits [OF assms(2) s], of "[]"] w
    by (simp add: tx_wire_normal)
  then show ?case
    by (simp add: x Let_def signature_hash_def hash_lawsD [OF assms(1)]
        discard_panic_free [OF recover_sender_panic_free])
qed simp

lemma fuzz_sign_never_fails:
  assumes "crates_laws K C" and "length (fs_seed i) = 64"
  shows "fuzz_tx_sign_recover K R r i =
    (case bsk_generate K (fs_seed i) of Inl (Panic m) \<Rightarrow> Panics m | _ \<Rightarrow> Ok ())"
proof (cases "bsk_generate K (fs_seed i)")
  case (Inl e)
  then show ?thesis by (simp add: fuzz_tx_sign_recover_def split: failure.split)
next
  case (Inr x)
  then obtain k pub where g: "bsk_generate K (fs_seed i) = Ok (k, pub)" by (cases x) auto
  obtain sig where "sign_transaction K R r k (fuzz_sign_tx i) =
        Ok (signed_tx (fuzz_sign_tx i) (bsk_public k) sig)"
      "recover_sender K R (signed_tx (fuzz_sign_tx i) (bsk_public k) sig) =
        Ok (derive_address (hsh K) (bsk_public k))"
    using signed_recovers [OF assms(1) bsk_generate_wf [OF assms(1) g]] by blast
  then show ?thesis
    using g bsk_generate_Ok(2) [OF assms(1) g] by (simp add: fuzz_tx_sign_recover_def Let_def)
qed

text \<open>
  The two transactions of the hash target have different pre-images, so that its last
  assertion can only fail on a collision of the hash function.
\<close>

lemma fuzz_build_unsigned: "tx_unsigned (fuzz_build_tx i b) = fuzz_build_tx i False"
  by (simp add: fuzz_build_tx_def Let_def tx_unsigned_def)

lemma fuzz_build_small:
  assumes "length (fh_to_bytes i) = 20" "length (fh_data i) < 2 ^ 60"
  shows "tx_small (fuzz_build_tx i False)"
    "tx_small ((fuzz_build_tx i False)\<lparr>tx_chain_id := c\<rparr>)"
  using assms by (simp_all add: fuzz_build_tx_def Let_def tx_small_def tx_typed_def default_to_def)

lemma fuzz_chain_preimage:
  assumes "rlp_laws R" "length (fh_to_bytes i) = 20" "length (fh_data i) < 2 ^ 60"
  shows "signature_preimage R (fuzz_build_tx i False) \<noteq>
    signature_preimage R ((fuzz_build_tx i False)\<lparr>tx_chain_id := fh_chain_id i + 1\<rparr>)"
proof
  note f = tx_small_fits [OF assms(1) fuzz_build_small(1) [OF assms(2,3)]]
    tx_small_fits [OF assms(1) fuzz_build_small(2) [OF assms(2,3), of "fh_chain_id i + 1"]]
  assume "signature_preimage R (fuzz_build_tx i False) =
    signature_preimage R ((fuzz_build_tx i False)\<lparr>tx_chain_id := fh_chain_id i + 1\<rparr>)"
  from signature_preimage_inj [OF assms(1) f this]
  show False by (simp add: tx_unsigned_def fuzz_build_tx_def Let_def)
qed

lemma fuzz_signature_hash_iff:
  assumes "hash_laws (hsh K)"
  shows "fuzz_signature_hash K R i = Ok () \<longleftrightarrow>
    keccak256 (hsh K) (signature_preimage R (fuzz_build_tx i False)) \<noteq>
    keccak256 (hsh K) (signature_preimage R
      ((fuzz_build_tx i False)\<lparr>tx_chain_id := fh_chain_id i + 1\<rparr>))"
proof -
  have "signature_hash (hsh K) R (fuzz_build_tx i True) = signature_hash (hsh K) R (fuzz_build_tx i False)"
    by (rule signature_hash_unsigned) (simp add: fuzz_build_unsigned)
  moreover have "tx_chain_id (fuzz_build_tx i False) = fh_chain_id i"
    by (simp add: fuzz_build_tx_def Let_def)
  ultimately show ?thesis
    by (simp add: fuzz_signature_hash_def Let_def discard_panic_free [OF recover_sender_panic_free]
        signature_hash_def hash_lawsD [OF assms])
qed

lemma derive_mdecc_is_ok:
  assumes "hash_laws H" and "n \<le> 16320"
  shows "is_ok (derive_mdecc_curve_seed H seed c n) = Ok True"
  using derive_mdecc_curve_seed_Ok [OF assms, of seed c] by auto

lemma fuzz_spec_curves_ok:
  assumes "hash_laws H" and "\<forall>(c, n)\<in>set ps. n \<le> 16320"
  shows "fuzz_spec_curves H seed ps = Ok ()"
  using assms(2)
proof (induction ps)
  case Nil
  then show ?case by simp
next
  case (Cons p ps)
  obtain c n where p: "p = (c, n)" by (cases p)
  with Cons show ?case by (simp add: derive_mdecc_is_ok [OF assms(1)])
qed

lemma fuzz_mnemonic_seed_ok:
  assumes "hash_laws H" "bip39_laws M"
  shows "fuzz_mnemonic_seed H M X i = Ok ()"
proof -
  have m: "match_result (seed_from_mnemonic M s pw)
      (\<lambda>seed. assert_that (length seed = 64) msg) (\<lambda>_. Ok ()) = (Ok () :: (unit, crypto_error) outcome)"
    for s pw msg
    using seed_from_mnemonic_size [OF assms(2)]
    by (intro match_result_Ok [OF seed_from_mnemonic_panic_free]) auto
  show ?thesis
    by (simp add: fuzz_mnemonic_seed_def Let_def m discard_panic_free [OF seed_from_mnemonic_panic_free]
        discard_panic_free [OF parse_hardened_path_panic_free]
        discard_panic_free [OF derive_child_seed_panic_free]
        discard_panic_free [OF derive_mdecc_panic_free] derive_mdecc_is_ok [OF assms(1)])
qed

text \<open>The target of the composite verifier panics exactly on a signature that verifies.\<close>

lemma fuzz_composite_verify_iff:
  assumes "crates_laws K C" and "bsk_generate K FIXED_SEED = Ok (k, pub)"
  defines "tx \<equiv> \<lambda>data. (fuzz_victim_tx data)\<lparr>tx_pub_key := Some (bpk_to_bytes pub)\<rparr>"
  shows "fuzz_composite_sig_verify K R r data = Ok () \<longleftrightarrow> \<not> accepted (recover_sender K R (tx data))"
    and "panic_free (fuzz_composite_sig_verify K R r data) \<longleftrightarrow>
      \<not> accepted (recover_sender K R (tx data))"
proof -
  have w: "key_wf K k" by (rule bsk_generate_wf [OF assms(1,2)])
  have p: "pub = bsk_public k" by (rule bsk_generate_Ok(2) [OF assms(1,2)])
  have a: "recover_sender K R (tx data) = Ok a \<Longrightarrow> a = derive_address (hsh K) pub" for a
    using bpk_to_bytes_inj [OF _ key_wf_pk_valid [OF assms(1) w]]
    by (auto simp: recover_sender_iff tx_def p)
  obtain t where t: "sign_transaction K R r k fuzz_second_tx = Ok t"
    using signed_recovers [OF assms(1) w] by blast
  have f: "fuzz_composite_sig_verify K R r data =
      match_result (recover_sender K R (tx data))
        (\<lambda>recovered. assert_that (recovered \<noteq> derive_address (hsh K) pub)
          [Str ''fuzzer-provided sig must not verify as the signer's address'']) (\<lambda>_. Ok ())"
    by (simp add: fuzz_composite_sig_verify_def fuzz_key_and_addr_def assms(2) Let_def t
        discard_panic_free [OF recover_sender_panic_free] tx_def)
  show "fuzz_composite_sig_verify K R r data = Ok () \<longleftrightarrow> \<not> accepted (recover_sender K R (tx data))"
    and "panic_free (fuzz_composite_sig_verify K R r data) \<longleftrightarrow>
      \<not> accepted (recover_sender K R (tx data))"
    using recover_sender_panic_free [of K R "tx data"] a unfolding f
    by (auto elim!: not_panic_cases simp: assert_that_def)
qed

end
