(* ===== verification/Demo.thy ===== *)
theory Demo
  imports Api
begin

text \<open>
  The demonstration programs of \<^verbatim>\<open>src/bin\<close>.  \<^verbatim>\<open>demo.rs\<close> goes through the high-level
  interface; \<^verbatim>\<open>low_level_demo.rs\<close> spells out the composite scheme over the operations of the
  three backends.  A \<^verbatim>\<open>main\<close> is the function from what the operating system hands out
  (entropy, signing randomness) to the values it prints, or to the error it returns, or a
  panic.  The lemmas compare the second program with the library it explains.
\<close>

section \<open>The high-level demo\<close>

definition DEMO_MESSAGE :: bytes where
  "DEMO_MESSAGE = ascii ''Auth verification: user_login_token_12345''"

definition demo_tx :: bc_tx where
  "demo_tx =
     \<lparr>tx_chain_id = 1, tx_nonce = 42, tx_max_priority_fee_per_gas = 1500000000,
      tx_max_fee_per_gas = 30000000000, tx_gas_limit = 21000, tx_to = Some (replicate 20 0xaa),
      tx_value = 500000000000000000, tx_data = [0xde, 0xad, 0xbe, 0xef], tx_v = None,
      tx_r = None, tx_s = None, tx_pqc_signature = None, tx_pub_key = None\<rparr>"

record demo_report =
  dr_mnemonic :: rstr
  dr_address :: bytes
  dr_signature_len :: nat
  dr_signature_prefix :: bytes
  dr_is_valid :: bool
  dr_unsigned_hash :: bytes
  dr_composite_len :: nat
  dr_envelope :: "256 word option \<times> 256 word option \<times> 256 word option"
  dr_recovered :: bytes
  dr_exit_code :: nat

definition demo_main ::
  "('dv, 'ds, 'dg, 'v, 's, 'g, 'r, 'es, 'ep, 'pt, 'sc) crates \<Rightarrow> 'mn bip39 \<Rightarrow> ('x, 'cn) bip32
     \<Rightarrow> rlp_crate \<Rightarrow> (nat \<Rightarrow> string + bytes) \<Rightarrow> 'r \<Rightarrow> 'r \<Rightarrow> (demo_report, crypto_error) outcome"
where
  "demo_main K M X R getrandom r1 r2 =
     and_then (create_wallet K M X getrandom (lit ''my_secure_passphrase''))
   (\<lambda>(mnemonic, private_key).
     let public_key = bsk_public private_key; address = derive_address (hsh K) public_key in
     and_then (api_sign_message K r1 DEMO_MESSAGE private_key)
   (\<lambda>signature. and_then (slice_to 32 signature)
   (\<lambda>prefix. and_then (api_verify_message K DEMO_MESSAGE signature public_key)
   (\<lambda>is_valid. and_then
       (assert_that is_valid [Str ''Freshly generated message signature must be valid''])
   (\<lambda>_. let tx = demo_tx; unsigned_hash = signature_hash (hsh K) R tx in
     and_then (api_sign_transaction K R r2 tx private_key)
   (\<lambda>tx. and_then (expect [Str ''called `Option::unwrap()` on a `None` value'']
         (ok_or () (tx_pqc_signature tx)))
   (\<lambda>composite. and_then (api_verify_transaction K R tx)
   (\<lambda>recovered_address.
     Ok \<lparr>dr_mnemonic = mnemonic, dr_address = address, dr_signature_len = length signature,
         dr_signature_prefix = prefix, dr_is_valid = is_valid, dr_unsigned_hash = unsigned_hash,
         dr_composite_len = length composite, dr_envelope = (tx_v tx, tx_r tx, tx_s tx),
         dr_recovered = recovered_address,
         dr_exit_code = (if recovered_address = address then 0 else 1)\<rparr>))))))))"

section \<open>The low-level demo\<close>

text \<open>The two error types that the question marks of \<^verbatim>\<open>main\<close> box.\<close>

datatype boxed_error = Crypto_Error crypto_error | MlDsa_Error dil_error

text \<open>Steps 1 to 7: from the entropy to the keys of the three algorithms.\<close>

record ('dv, 'ds, 's, 'es, 'ep) ll_keys =
  ll_mnemonic :: rstr
  ll_child_seed :: bytes
  ll_dil_pk_buf :: bytes
  ll_dil_sk :: "('dv, 'ds) dil_private_key"
  ll_p521_pk_bytes :: bytes
  ll_p521_sk :: 's
  ll_ed448_pk_bytes :: bytes
  ll_ed448_sk :: "('es, 'ep) ed448_private_key"

definition LL_PASSPHRASE :: rstr where
  "LL_PASSPHRASE = lit ''my_custom_passphrase''"

definition LL_PATH :: rstr where
  "LL_PATH = lit (''m/44'' @ [CHR 0x27] @ ''/60'' @ [CHR 0x27] @ ''/0'' @ [CHR 0x27]
     @ ''/0'' @ [CHR 0x27] @ ''/0'' @ [CHR 0x27])"

definition ll_seed ::
  "'mn bip39 \<Rightarrow> ('x, 'cn) bip32 \<Rightarrow> (nat \<Rightarrow> string + bytes)
     \<Rightarrow> (rstr \<times> bytes, crypto_error) outcome" where
  "ll_seed M X getrandom =
     and_then (generate_mnemonic M getrandom)
   (\<lambda>mnemonic. and_then (seed_from_mnemonic M mnemonic LL_PASSPHRASE)
   (\<lambda>root_seed. and_then (parse_hardened_path LL_PATH)
   (\<lambda>path. and_then (derive_child_seed X root_seed path)
   (\<lambda>child_seed. Ok (mnemonic, child_seed)))))"

definition ll_generate ::
  "('dv, 'ds, 'dg, 'v, 's, 'g, 'r, 'es, 'ep, 'pt, 'sc) crates \<Rightarrow> rstr \<Rightarrow> bytes
     \<Rightarrow> (('dv, 'ds, 's, 'es, 'ep) ll_keys, crypto_error) outcome" where
  "ll_generate K mnemonic child_seed =
     and_then (and_then (slice_to DIL_SEED_SIZE child_seed) (copy_from_slice DIL_SEED_SIZE))
   (\<lambda>dil_seed. and_then (slice 32 64 child_seed)
   (\<lambda>mdecc_seed. and_then (dil_new_key_from_seed (mld K) dil_seed)
   (\<lambda>(dil_pk, dil_sk). and_then (dil_pk_pack (mld K) dil_pk)
   (\<lambda>dil_pk_buf. and_then (dil_sk_pack (mld K) dil_sk)
   (\<lambda>dil_sk_buf. and_then (slice_to 32 dil_pk_buf)
   (\<lambda>_. and_then (slice_to 32 dil_sk_buf)
   (\<lambda>_. and_then (derive_mdecc_curve_seed (hsh K) mdecc_seed CURVE_ID_P521 P521_SEED_SIZE)
   (\<lambda>p521_seed. and_then (p521_derive_key_typed (p5 K) (hsh K) p521_seed)
   (\<lambda>(p521_pk, p521_sk).
     let p521_pk_bytes = p521_pk_as_bytes (p5 K) p521_pk in
     and_then (derive_mdecc_curve_seed (hsh K) mdecc_seed CURVE_ID_ED448 ED448_SEED_SIZE)
   (\<lambda>ed448_seed. and_then (ed448_new_key_from_seed (edr K) ed448_seed)
   (\<lambda>(ed448_pk, ed448_sk).
     let ed448_pk_bytes = ed448_pk_as_bytes ed448_pk in
     and_then (ed448_sk_as_bytes (edr K) ed448_sk)
   (\<lambda>_. Ok \<lparr>ll_mnemonic = mnemonic, ll_child_seed = child_seed, ll_dil_pk_buf = dil_pk_buf,
            ll_dil_sk = dil_sk, ll_p521_pk_bytes = p521_pk_bytes, ll_p521_sk = p521_sk,
            ll_ed448_pk_bytes = ed448_pk_bytes, ll_ed448_sk = ed448_sk\<rparr>))))))))))))"

text \<open>Steps 8 and 9: the composite key, its address, and the transaction.\<close>

definition ll_address :: "hashes \<Rightarrow> bytes \<Rightarrow> (bytes, 'e) outcome" where
  "ll_address H composite_pk_bytes =
     (let hash = keccak256 H composite_pk_bytes in
      and_then (slice 12 32 hash) address_from_slice)"

definition ll_tx :: bc_tx where
  "ll_tx =
     \<lparr>tx_chain_id = 1, tx_nonce = 42, tx_max_priority_fee_per_gas = 2000000000,
      tx_max_fee_per_gas = 50000000000, tx_gas_limit = 21000, tx_to = Some (replicate 20 0xbb),
      tx_value = 500000000000000000, tx_data = [1, 2, 3, 4], tx_v = None,
      tx_r = None, tx_s = None, tx_pqc_signature = None, tx_pub_key = None\<rparr>"

text \<open>Step 10: the nonce of this program does not contain the chain id.\<close>

definition ll_nonce_preimage :: "bytes \<Rightarrow> bytes" where
  "ll_nonce_preimage address = ascii ''entangle'' @ [ALGO_ID] @ [VERSION] @ address"

definition ll_h_combined :: "hashes \<Rightarrow> bytes \<Rightarrow> bytes \<Rightarrow> bytes \<Rightarrow> bytes \<Rightarrow> bytes" where
  "ll_h_combined H dil_pk p521_pk ed448_pk address =
     (let entanglement_nonce = shake256 H (ll_nonce_preimage address) 16
      in shake256 H (dil_pk @ p521_pk @ ed448_pk @ entanglement_nonce) 32)"

text \<open>Step 11: the three detached signatures.\<close>

definition ll_sign ::
  "('dv, 'ds, 'dg, 'v, 's, 'g, 'r, 'es, 'ep, 'pt, 'sc) crates \<Rightarrow> 'r
     \<Rightarrow> ('dv, 'ds, 's, 'es, 'ep) ll_keys \<Rightarrow> bytes \<Rightarrow> bytes
     \<Rightarrow> (bytes \<times> bytes \<times> bytes, crypto_error) outcome" where
  "ll_sign K r keys tx_hash h_combined =
     and_then (dil_sign_internal (mld K) (ll_dil_sk keys) tx_hash)
   (\<lambda>dil_sig.
     let p521_msg = tx_hash @ h_combined @ [CURVE_ID_P521];
         p521_sig = p521_sign_msg (p5 K) r (ll_p521_sk keys) p521_msg;
         ed448_msg = tx_hash @ h_combined @ [CURVE_ID_ED448] in
     and_then (ed448_sign_msg (edr K) (ll_ed448_sk keys) ed448_msg None)
   (\<lambda>ed448_sig. Ok (dil_sig, p521_sig, ed448_sig)))"

text \<open>
  Step 12, on the received bytes; the signature is cut with the lengths of the first and the
  last part.
\<close>

definition ll_verify ::
  "('dv, 'ds, 'dg, 'v, 's, 'g, 'r, 'es, 'ep, 'pt, 'sc) crates \<Rightarrow> bytes \<Rightarrow> bytes \<Rightarrow> bytes
     \<Rightarrow> nat \<Rightarrow> nat \<Rightarrow> (bytes \<times> bytes, boxed_error) outcome" where
  "ll_verify K composite_pk_bytes composite_signature tx_hash dil_sig_len ed448_sig_len =
     and_then (slice_to DIL_PUBLIC_KEY_SIZE composite_pk_bytes)
   (\<lambda>rx_dil_pk. and_then
     (slice DIL_PUBLIC_KEY_SIZE (DIL_PUBLIC_KEY_SIZE + P521_PUBLIC_KEY_SIZE) composite_pk_bytes)
   (\<lambda>rx_p521_pk. and_then
     (slice_from (DIL_PUBLIC_KEY_SIZE + P521_PUBLIC_KEY_SIZE) composite_pk_bytes)
   (\<lambda>rx_ed448_pk. and_then (ll_address (hsh K) composite_pk_bytes)
   (\<lambda>verify_address.
     let v_h_combined = ll_h_combined (hsh K) rx_dil_pk rx_p521_pk rx_ed448_pk verify_address in
     and_then (slice_to dil_sig_len composite_signature)
   (\<lambda>rx_dil_sig.
     let rx_ed448_sig_offset = length composite_signature - ed448_sig_len in
     and_then (slice dil_sig_len rx_ed448_sig_offset composite_signature)
   (\<lambda>rx_p521_sig. and_then (slice_from rx_ed448_sig_offset composite_signature)
   (\<lambda>rx_ed448_sig. and_then (map_err MlDsa_Error (dil_pk_from_bytes (mld K) rx_dil_pk))
   (\<lambda>dil_pk. and_then (map_err MlDsa_Error (dil_verify_internal (mld K) dil_pk tx_hash rx_dil_sig))
   (\<lambda>_. and_then (map_err Crypto_Error (p521_pk_from_bytes (p5 K) rx_p521_pk))
   (\<lambda>p521_pk. and_then (map_err Crypto_Error (p521_verify_sig (p5 K) p521_pk
         (tx_hash @ v_h_combined @ [CURVE_ID_P521]) rx_p521_sig))
   (\<lambda>_. and_then (map_err Crypto_Error (ed448_pk_from_bytes (gld K) rx_ed448_pk
         :: ('ep ed448_public_key, crypto_error) outcome))
   (\<lambda>ed448_pk. and_then (map_err Crypto_Error (ed448_verify_sig (hsh K) (edr K) (gld K) ed448_pk
         (tx_hash @ v_h_combined @ [CURVE_ID_ED448]) rx_ed448_sig None))
   (\<lambda>_. Ok (verify_address, v_h_combined))))))))))))))"

record ll_report =
  lr_mnemonic :: rstr
  lr_child_seed :: bytes
  lr_composite_pk :: bytes
  lr_address :: bytes
  lr_tx_hash :: bytes
  lr_h_combined :: bytes
  lr_composite_signature :: bytes
  lr_verify_address :: bytes
  lr_verify_h_combined :: bytes

definition ll_main ::
  "('dv, 'ds, 'dg, 'v, 's, 'g, 'r, 'es, 'ep, 'pt, 'sc) crates \<Rightarrow> 'mn bip39 \<Rightarrow> ('x, 'cn) bip32
     \<Rightarrow> rlp_crate \<Rightarrow> (nat \<Rightarrow> string + bytes) \<Rightarrow> 'r \<Rightarrow> (ll_report, boxed_error) outcome" where
  "ll_main K M X R getrandom r =
     and_then (map_err Crypto_Error (ll_seed M X getrandom))
   (\<lambda>(mnemonic, child_seed). and_then (map_err Crypto_Error (ll_generate K mnemonic child_seed))
   (\<lambda>keys.
     let composite_pk_bytes = ll_dil_pk_buf keys @ ll_p521_pk_bytes keys @ ll_ed448_pk_bytes keys in
     and_then (ll_address (hsh K) composite_pk_bytes)
   (\<lambda>address.
     let tx_hash = signature_hash (hsh K) R ll_tx;
         h_combined = ll_h_combined (hsh K) (ll_dil_pk_buf keys) (ll_p521_pk_bytes keys)
           (ll_ed448_pk_bytes keys) address in
     and_then (map_err Crypto_Error (ll_sign K r keys tx_hash h_combined))
   (\<lambda>(dil_sig, p521_sig, ed448_sig).
     let composite_signature = dil_sig @ p521_sig @ ed448_sig in
     and_then (ll_verify K composite_pk_bytes composite_signature tx_hash
         (length dil_sig) (length ed448_sig))
   (\<lambda>(verify_address, v_h_combined).
     Ok \<lparr>lr_mnemonic = mnemonic, lr_child_seed = child_seed,
         lr_composite_pk = composite_pk_bytes, lr_address = address, lr_tx_hash = tx_hash,
         lr_h_combined = h_combined, lr_composite_signature = composite_signature,
         lr_verify_address = verify_address, lr_verify_h_combined = v_h_combined\<rparr>)))))"

section \<open>What the demos do\<close>

text \<open>The keys of the low-level demo are those of the library, under their own names.\<close>

definition ll_of ::
  "('dv, 'ds, 'dg, 'v, 's, 'g, 'r, 'es, 'ep, 'pt, 'sc) crates \<Rightarrow> rstr \<Rightarrow> bytes \<Rightarrow> 's
     \<Rightarrow> ('dv, 'ds, 's, 'es, 'ep) ll_keys" where
  "ll_of K mn seed sk =
     (let k = keys_of K seed sk;
          d = d_from_seed (mld K) (take 32 seed);
          e = e_sk_from (edr K) (ed448_curve_seed (hsh K) seed)
      in \<lparr>ll_mnemonic = mn, ll_child_seed = seed, ll_dil_pk_buf = bpk_dilithium (bsk_public k),
          ll_dil_sk = \<lparr>dsk_inner = d, dsk_public = d_verifying_key (mld K) d\<rparr>,
          ll_p521_pk_bytes = bpk_p521 (bsk_public k), ll_p521_sk = sk,
          ll_ed448_pk_bytes = bpk_ed448 (bsk_public k),
          ll_ed448_sk = \<lparr>esk_inner = e,
            esk_public = ed448_from_trusted_inner (edr K) (e_pk_from (edr K) e)\<rparr>\<rparr>)"

lemma ll_generate_eq:
  assumes "crates_laws K C" and "64 \<le> length seed"
  shows "ll_generate K mn seed = and_then (p521_keys K seed) (\<lambda>(pk, sk). Ok (ll_of K mn seed sk))"
proof -
  note L = crates_lawsD [OF assms(1)]
  note defs = ll_generate_def size_consts dil_new_key_from_seed_def dil_from_seed_eq [OF L(2)]
    curve_seeds [OF L(1)] p521_derive_key_typed_def p521_keys_def [symmetric] ed448_new_key_from_seed_def
    ed448_from_seed_eq Let_def dil_sk_pack_def dil_pk_pack_def ml_dsa_lawsD [OF L(2)]
    ed448_sk_as_bytes_def ed448_rust_lawsD [OF L(7)]
  show ?thesis
  proof (cases "p521_keys K seed")
    case (Inl e)
    then show ?thesis using assms(2) by (simp add: defs)
  next
    case (Inr kp)
    then obtain pk sk where kp: "p521_keys K seed = Ok (pk, sk)" by (cases kp) auto
    then have "pk = p_vk_of (p5 K) sk" by (rule p521_keys_Ok(1) [OF assms(1)])
    with kp show ?thesis using assms(2)
      by (simp add: defs ll_of_def keys_of_def p521_pk_as_bytes_def ed448_pk_as_bytes_def
          ed448_from_trusted_inner_def)
  qed
qed

lemma ll_sign_eq:
  assumes "crates_laws K C" and "64 \<le> length seed" and "p521_keys K seed = Ok (pk, sk)"
  shows "composite_sign K r (keys_of K seed sk) hash h =
    and_then (ll_sign K r (ll_of K mn seed sk) hash h) (\<lambda>(d, p, e). Ok (d @ p @ e))"
proof -
  note L = crates_lawsD [OF assms(1)]
  note k = p521_keys_Ok(3) [OF assms(1,3)]
  let ?e = "e_sk_from (edr K) (ed448_curve_seed (hsh K) seed)"
  have e: "ed448_sk_from_bytes (edr K) (ed448_curve_seed (hsh K) seed) =
      Ok (ed448_from_trusted_inner (edr K) (e_pk_from (edr K) ?e),
        \<lparr>esk_inner = ?e, esk_public = ed448_from_trusted_inner (edr K) (e_pk_from (edr K) ?e)\<rparr>)"
    by (simp add: ed448_sk_from_bytes_iff curve_seeds [OF L(1)])
  show ?thesis using assms(2)
    by (simp add: composite_sign_def ll_sign_def dil_leg_sign_def dil_sk_from_bytes_iff [OF L(2)]
        p521_leg_sign_def p521_sk_from_bytes_def keys_of_def ll_of_def Let_def k ed448_sign_with_def
        curve_msg_def e and_then_assoc)
qed

text \<open>
  Its verification of the received bytes is \<open>composite_verify\<close> with another binding hash: the
  nonce without the chain id.
\<close>

definition ll_bound_hash :: "hashes \<Rightarrow> bc_public_key \<Rightarrow> bytes" where
  "ll_bound_hash H pk =
     compute_h_combined H pk (shake256 H (ll_nonce_preimage (derive_address H pk)) 16)"

lemma ll_address_eq:
  assumes "hash_laws H"
  shows "ll_address H (bpk_to_bytes pk) = Ok (derive_address H pk)"
  by (simp add: ll_address_def Let_def bpk_to_bytes_def derive_address_def hash_lawsD [OF assms])

lemma ll_h_combined_eq:
  "ll_h_combined H (bpk_dilithium pk) (bpk_p521 pk) (bpk_ed448 pk) (derive_address H pk) =
    ll_bound_hash H pk"
  by (simp add: ll_h_combined_def ll_bound_hash_def compute_h_combined_def Let_def)

lemma ll_verify_eq:
  assumes "crates_laws K C" and "pk_valid K pk" and "length sig = 4873"
  shows "ll_verify K (bpk_to_bytes pk) sig hash 4627 114 = Ok x \<longleftrightarrow>
    composite_verify K pk hash (ll_bound_hash (hsh K) pk) sig = Ok () \<and>
    x = (derive_address (hsh K) pk, ll_bound_hash (hsh K) pk)"
proof -
  note L = crates_lawsD [OF assms(1)]
  have s: "length (bpk_dilithium pk) = 2592" "length (bpk_p521 pk) = 133" "length (bpk_ed448 pk) = 57"
    using assms(2) by (simp_all add: pk_valid_def)
  then have b: "length (bpk_to_bytes pk) = 2782" "take 2592 (bpk_to_bytes pk) = bpk_dilithium pk"
      "take 133 (drop 2592 (bpk_to_bytes pk)) = bpk_p521 pk" "drop 2725 (bpk_to_bytes pk) = bpk_ed448 pk"
    by (simp_all add: bpk_to_bytes_def)
  show ?thesis
    by (auto simp: ll_verify_def size_consts b assms(3) ll_address_eq [OF L(1)] ll_h_combined_eq Let_def
        composite_verify_iff dil_leg_verify_def p521_leg_verify_def ed448_verify_with_def curve_msg_def)
qed

lemma ll_sign_sizes:
  assumes "crates_laws K C" and "ll_sign K r keys hash h = Ok (d, p, e)"
  shows "length d = 4627" and "length e = 114"
proof -
  note L = crates_lawsD [OF assms(1)]
  have d: "dil_sign_internal (mld K) (ll_dil_sk keys) hash = (Ok d :: (bytes, crypto_error) outcome)"
    and e: "ed448_sign_msg (edr K) (ll_ed448_sk keys) (hash @ h @ [CURVE_ID_ED448]) None = Ok e"
    using assms(2) by (auto simp: ll_sign_def Let_def)
  have "\<exists>sig. dil_sign_internal (mld K) (ll_dil_sk keys) hash = (Ok sig :: (bytes, crypto_error) outcome) \<and>
      length sig = 4627"
    using dil_sign_verify_inner [OF L(2)] by blast
  with d show "length d = 4627" by auto
  show "length e = 114"
    using ed448_sign_valid [OF L(7), of None "ll_ed448_sk keys" "hash @ h @ [CURVE_ID_ED448]"] e
      rfc8032_validD(1) by fastforce
qed

lemma ll_main_Ok:
  assumes "crates_laws K C" and "ll_seed M X getrandom = Ok (mn, seed)"
    and "bsk_generate K seed = Ok (k, pub)"
  shows "\<exists>sig. composite_sign K r k (signature_hash (hsh K) R ll_tx) (ll_bound_hash (hsh K) pub) = Ok sig \<and>
    ll_main K M X R getrandom r = Ok
      \<lparr>lr_mnemonic = mn, lr_child_seed = seed, lr_composite_pk = bpk_to_bytes pub,
       lr_address = derive_address (hsh K) pub, lr_tx_hash = signature_hash (hsh K) R ll_tx,
       lr_h_combined = ll_bound_hash (hsh K) pub, lr_composite_signature = sig,
       lr_verify_address = derive_address (hsh K) pub,
       lr_verify_h_combined = ll_bound_hash (hsh K) pub\<rparr>"
proof -
  let ?hash = "signature_hash (hsh K) R ll_tx" and ?h = "ll_bound_hash (hsh K) pub"
  note L = crates_lawsD [OF assms(1)]
  have s: "64 \<le> length seed" and p: "pub = bsk_public k"
    by (rule bsk_generate_Ok(1,2) [OF assms(1,3)])+
  obtain sk where k: "k = keys_of K seed sk" "p521_keys K seed = Ok (p_vk_of (p5 K) sk, sk)"
    using bsk_generate_Ok(3) [OF assms(1,3)] by blast
  have w: "key_wf K k" by (rule bsk_generate_wf [OF assms(1,3)])
  have v: "pk_valid K pub" using key_wf_pk_valid [OF assms(1) w] p by simp
  have g: "ll_generate K mn seed = Ok (ll_of K mn seed sk)"
    by (simp add: ll_generate_eq [OF assms(1) s] k)
  have b: "ll_dil_pk_buf (ll_of K mn seed sk) = bpk_dilithium pub"
      "ll_p521_pk_bytes (ll_of K mn seed sk) = bpk_p521 pub"
      "ll_ed448_pk_bytes (ll_of K mn seed sk) = bpk_ed448 pub"
    by (simp_all add: ll_of_def Let_def p k)
  have a: "ll_address (hsh K) (bpk_dilithium pub @ bpk_p521 pub @ bpk_ed448 pub) =
      Ok (derive_address (hsh K) pub)"
    using ll_address_eq [OF L(1), of pub] by (simp add: bpk_to_bytes_def)
  obtain sig where c: "composite_sign K r k ?hash ?h = Ok sig" "length sig = 4873"
      "composite_verify K pub ?hash ?h sig = Ok ()"
    using composite_sign_verify [OF assms(1) w, of r ?hash ?h] p by blast
  then obtain d q e where d: "ll_sign K r (ll_of K mn seed sk) ?hash ?h = Ok (d, q, e)" "sig = d @ q @ e"
    using ll_sign_eq [OF assms(1) s k(2), of r ?hash ?h mn] by (auto simp: k(1))
  note l = ll_sign_sizes [OF assms(1) d(1)]
  have r: "ll_verify K (bpk_to_bytes pub) sig ?hash (length d) (length e) =
      Ok (derive_address (hsh K) pub, ?h)"
    using ll_verify_eq [OF assms(1) v c(2), of ?hash] c(3) by (simp add: l)
  show ?thesis
    using c(1) r by (simp add: ll_main_def assms(2) g b a ll_h_combined_eq Let_def d bpk_to_bytes_def)
qed

text \<open>
  The nonce pre-image of the low-level demo is eight bytes shorter than the library's, whatever
  the chain, so the two binding hashes can only agree on a collision of SHAKE256.
\<close>

lemma ll_nonce_preimage_differs:
  assumes "hash_laws H"
  shows "ll_nonce_preimage (derive_address H pk) \<noteq> nonce_preimage c (derive_address H pk')"
proof
  assume "ll_nonce_preimage (derive_address H pk) = nonce_preimage c (derive_address H pk')"
  then have "length (ll_nonce_preimage (derive_address H pk)) =
      length (nonce_preimage c (derive_address H pk'))" by (rule arg_cong)
  then show False
    by (simp add: ll_nonce_preimage_def nonce_preimage_def derive_address_size [OF assms])
qed

lemma bound_hash_collision:
  assumes "bound_hash K c pk = ll_bound_hash (hsh K) pk"
  defines "n \<equiv> nonce_preimage c (derive_address (hsh K) pk)"
    and "n' \<equiv> ll_nonce_preimage (derive_address (hsh K) pk)"
  shows "shake256 (hsh K) n 16 = shake256 (hsh K) n' 16 \<or>
    (bpk_to_bytes pk @ shake256 (hsh K) n 16 \<noteq> bpk_to_bytes pk @ shake256 (hsh K) n' 16 \<and>
     shake256 (hsh K) (bpk_to_bytes pk @ shake256 (hsh K) n 16) 32 =
     shake256 (hsh K) (bpk_to_bytes pk @ shake256 (hsh K) n' 16) 32)"
  using assms(1) by (auto simp: bound_hash_def ll_bound_hash_def compute_entanglement_nonce_def
      compute_h_combined_def bpk_to_bytes_def n_def n'_def)

lemma demo_main_Ok:
  assumes "crates_laws K C"
    and "create_wallet K M X getrandom (lit ''my_secure_passphrase'') = Ok (phrase, key)"
    and "key_wf K key"
  shows "\<exists>rep. demo_main K M X R getrandom r1 r2 = Ok rep \<and> dr_mnemonic rep = phrase \<and>
    dr_address rep = derive_address (hsh K) (bsk_public key) \<and> dr_is_valid rep \<and>
    dr_signature_len rep = 4873 \<and> dr_composite_len rep = 4873 \<and>
    dr_envelope rep = (Some 37, Some 0, Some 0) \<and>
    dr_recovered rep = dr_address rep \<and> dr_exit_code rep = 0"
proof -
  let ?pk = "bsk_public key"
  obtain sig where s: "sign_message K r1 key DEMO_MESSAGE = Ok sig" "length sig = 4873"
      "verify_message K ?pk DEMO_MESSAGE sig = Ok True"
    using composite_sign_verify [OF assms(1,3)]
    by (fastforce simp: sign_message_def verify_message_def Let_def)
  obtain sig' where t: "sign_transaction K R r2 key demo_tx = Ok (signed_tx demo_tx ?pk sig')"
      "length sig' = 4873"
      "recover_sender K R (signed_tx demo_tx ?pk sig') = Ok (derive_address (hsh K) ?pk)"
    using signed_recovers [OF assms(1,3)] by blast
  have "expected_v (tx_chain_id demo_tx) = 37"
    by (simp add: expected_v_def demo_tx_def)
  with s t show ?thesis
    by (simp add: demo_main_def assms(2) Let_def api_sign_message_def api_verify_message_def
        api_sign_transaction_def api_verify_transaction_def)
qed

end
