(* ===== verification/Self_Tests.thy ===== *)
theory Self_Tests
  imports Ed448_Verify MlDsa
begin

text \<open>
  The programs \<^verbatim>\<open>test_dilithium.rs\<close>, \<^verbatim>\<open>test_ed448.rs\<close> and \<^verbatim>\<open>test_verify_roundtrip.rs\<close> of
  \<^verbatim>\<open>src/bin\<close>.  Each draws fresh keys, signs, verifies, and prints what it found: the model
  returns the printed verdicts as a record, and panics where the program does.  The draws of
  randomness are arguments, in the order in which they are made.
\<close>

section \<open>ML-DSA-87\<close>

record dil_test_report =
  dt_pk_len :: nat
  dt_sk_len :: nat
  dt_name :: string
  dt_pk_match :: bool
  dt_sig_len :: nat
  dt_verified :: bool
  dt_bad_verified :: bool
  dt_deterministic :: bool
  dt_dyn_verified :: bool

definition DIL_TEST_MESSAGE :: bytes where
  "DIL_TEST_MESSAGE = ascii ''Hello from Blackchain PQC via ML-DSA-87!''"

definition test_dilithium ::
  "('vk, 'sk, 'sig) ml_dsa \<Rightarrow> ('r \<Rightarrow> nat \<Rightarrow> string + bytes) \<Rightarrow> 'r \<Rightarrow> 'r \<Rightarrow> 'r
     \<Rightarrow> (dil_test_report, crypto_error) outcome" where
  "test_dilithium D getrandom r1 r2 r3 =
     (let dil_scheme = dil_scheme D getrandom; message = DIL_TEST_MESSAGE in
      and_then (expect [Str ''Failed to generate keys'']
        (dil_generate_key D (getrandom r1 DIL_SEED_SIZE)))
   (\<lambda>(pk, sk). and_then (unwrapped (pk_marshal (dil_dyn_pk D pk)))
   (\<lambda>pk_bytes. and_then (unwrapped (sk_marshal (dil_dyn_sk D sk)))
   (\<lambda>sk_bytes. and_then (expect [Str ''Failed to unmarshal public key'']
        (sch_unmarshal_public dil_scheme pk_bytes))
   (\<lambda>pk2. and_then (unwrapped (pk_marshal pk2))
   (\<lambda>pk2_bytes. and_then (dil_sign_internal D sk message)
   (\<lambda>signature. and_then (is_ok (dil_verify_internal D pk message signature))
   (\<lambda>verified. and_then (xor_first 1 signature)
   (\<lambda>bad_sig. and_then (is_ok (dil_verify_internal D pk message bad_sig))
   (\<lambda>bad_verified. let seed = replicate 32 0x42 in and_then (dil_derive_key_typed D seed)
   (\<lambda>(seed_pk1, _). and_then (dil_derive_key_typed D seed)
   (\<lambda>(seed_pk2, _). and_then (unwrapped (sch_generate_key dil_scheme r2))
   (\<lambda>(dyn_pk, dyn_sk). and_then (sch_sign dil_scheme r3 dyn_sk message None)
   (\<lambda>sig. and_then (sch_verify dil_scheme dyn_pk message sig None)
   (\<lambda>dyn_verified.
      Ok \<lparr>dt_pk_len = length pk_bytes, dt_sk_len = length sk_bytes, dt_name = sch_name dil_scheme,
          dt_pk_match = (pk2_bytes = pk_bytes), dt_sig_len = length signature,
          dt_verified = verified, dt_bad_verified = bad_verified,
          dt_deterministic = dil_pk_eq seed_pk1 seed_pk2,
          dt_dyn_verified = dyn_verified\<rparr>)))))))))))))))"

lemma test_dilithium_Ok:
  assumes L: "ml_dsa_laws D" and "getrandom r1 32 = Inr e1" "length e1 = 32"
    and "getrandom r2 32 = Inr e2" "length e2 = 32"
  shows "\<exists>b sig. (dil_sign_internal D \<lparr>dsk_inner = d_from_seed D e1,
      dsk_public = d_verifying_key D (d_from_seed D e1)\<rparr> DIL_TEST_MESSAGE :: (bytes, crypto_error) outcome) =
      Ok (b # sig) \<and>
    test_dilithium D getrandom r1 r2 r3 = Ok
      \<lparr>dt_pk_len = 2592, dt_sk_len = 32, dt_name = ''ML-DSA-87'', dt_pk_match = True,
       dt_sig_len = 4627, dt_verified = True,
       dt_bad_verified = accepted (dil_verify_internal D (d_verifying_key D (d_from_seed D e1))
         DIL_TEST_MESSAGE ((b XOR 1) # sig)),
       dt_deterministic = True, dt_dyn_verified = True\<rparr>"
proof -
  let ?sk = "\<lambda>e. \<lparr>dsk_inner = d_from_seed D e, dsk_public = d_verifying_key D (d_from_seed D e)\<rparr>"
  have g: "dil_from_seed D e = Ok (d_verifying_key D (d_from_seed D e), ?sk e)"
    if "length e = 32" for e
    by (rule dil_from_seed_eq [OF L that])
  obtain sig1 where s1: "(dil_sign_internal D (?sk e1) DIL_TEST_MESSAGE :: (bytes, crypto_error) outcome) = Ok sig1"
      "length sig1 = 4627" "dil_verify_internal D (d_verifying_key D (d_from_seed D e1)) DIL_TEST_MESSAGE sig1 = Ok ()"
    using dil_sign_verify_inner [OF L, of "?sk e1" DIL_TEST_MESSAGE] by auto
  obtain sig2 where s2: "(dil_sign_internal D (?sk e2) DIL_TEST_MESSAGE :: (bytes, crypto_error) outcome) = Ok sig2"
      "dil_verify_internal D (d_verifying_key D (d_from_seed D e2)) DIL_TEST_MESSAGE sig2 = Ok ()"
    using dil_sign_verify_inner [OF L, of "?sk e2" DIL_TEST_MESSAGE] by auto
  obtain b rest where b: "sig1 = b # rest" using s1(2) by (cases sig1) auto
  show ?thesis
    using assms(2-5) s1 s2
    by (simp add: test_dilithium_def Let_def dil_generate_key_def size_consts g dil_dyn_pk_def
        dil_dyn_sk_def dil_pk_to_vec_def dil_seed_bytes_Ok [OF L] dil_scheme_def
        dil_pk_from_bytes_iff [OF L] dil_sk_from_bytes_iff [OF L] ml_dsa_lawsD [OF L] b xor_first_def
        dil_derive_key_typed_def dil_new_key_from_seed_def dil_pk_eq_def dil_dyn_sign_def
        is_ok_panic_free [OF dil_verify_panic_free] has_context_def dil_dyn_verify_def dil_pk_try_from_def)
qed

section \<open>Ed448\<close>

record ed448_test_report =
  et_pk_len :: nat
  et_sk_len :: nat
  et_sig_len :: nat
  et_context_verified :: bool
  et_cross_context_rejected :: bool
  et_dyn_verified :: bool

definition ED448_TEST_MESSAGE :: bytes where
  "ED448_TEST_MESSAGE = ascii ''Hello from Blackchain PQC via Ed448!''"

definition ED448_TEST_MESSAGE2 :: bytes where
  "ED448_TEST_MESSAGE2 = ascii ''network roundtrip test''"

text \<open>
  The random seed \<open>r2\<close> of step 6 is the buffer that \<^verbatim>\<open>fill_bytes\<close> filled.  The messages of the
  failed checks are those of the panics; what the program prints on the way is in the record.
\<close>

definition test_ed448 ::
  "hashes \<Rightarrow> ('esk, 'epk) ed448_rust \<Rightarrow> ('pt, 'sc) goldilocks \<Rightarrow> ('r \<Rightarrow> nat \<Rightarrow> bytes) \<Rightarrow> 'r \<Rightarrow> 'r
     \<Rightarrow> 'r \<Rightarrow> 'r \<Rightarrow> 'r \<Rightarrow> (ed448_test_report, crypto_error) outcome" where
  "test_ed448 H E G os_rng r1 r2 r3 r4 r5 =
     (let message = ED448_TEST_MESSAGE in
      and_then (expect [Str ''Failed to generate keys''] (ed448_generate_key E os_rng r1))
   (\<lambda>(pk, sk). and_then (unwrapped (pk_marshal (ed448_dyn_pk pk)))
   (\<lambda>pk_bytes. and_then (unwrapped (sk_marshal (ed448_dyn_sk E sk)))
   (\<lambda>sk_bytes. and_then (assert_that (length pk_bytes = ED448_PUBLIC_KEY_SIZE) [Str ''assertion failed''])
   (\<lambda>_. and_then (assert_that (length sk_bytes = ED448_PRIVATE_KEY_SIZE) [Str ''assertion failed''])
   (\<lambda>_. and_then (expect [Str ''Failed to sign''] (ed448_sign_msg E sk message None))
   (\<lambda>signature. and_then (slice_to 16 signature)
   (\<lambda>_. and_then (assert_that (length signature = ED448_SIGNATURE_SIZE) [Str ''assertion failed''])
   (\<lambda>_. and_then (is_ok (ed448_verify_sig H E G pk message signature None))
   (\<lambda>ok. and_then (assert_that ok [Str ''Verification should have succeeded''])
   (\<lambda>_. and_then (xor_first 0xFF signature)
   (\<lambda>bad_sig. and_then (is_ok (ed448_verify_sig H E G pk message bad_sig None))
   (\<lambda>bad. and_then (assert_that (\<not> bad) [Str ''Bad verification should have failed''])
   (\<lambda>_. let opts = \<lparr>opts_context = lit ''blackchain-tx''\<rparr> in
      and_then (expect [Str ''Failed context sign''] (ed448_sign_msg E sk message (Some opts)))
   (\<lambda>ctx_sig. and_then (is_ok (ed448_verify_sig H E G pk message ctx_sig (Some opts)))
   (\<lambda>ctx_ok. and_then (is_ok (ed448_verify_sig H E G pk message ctx_sig None))
   (\<lambda>cross_ok. let root_seed = os_rng r2 ED448_SEED_SIZE in
      and_then (ed448_new_key_from_seed E root_seed)
   (\<lambda>(pk_a, _). and_then (ed448_new_key_from_seed E root_seed)
   (\<lambda>(pk_b, _). and_then
        (assert_that (ed448_pk_eq pk_a pk_b) [Str ''Deterministic tests failed''])
   (\<lambda>_. let msg2 = ED448_TEST_MESSAGE2 in
      and_then (unwrapped (ed448_generate_key E os_rng r3))
   (\<lambda>(pk_orig, sk_orig). and_then (unwrapped (ed448_sign_msg E sk_orig msg2 None))
   (\<lambda>sig2. and_then (unwrapped (pk_marshal (ed448_dyn_pk pk_orig)))
   (\<lambda>pk_bytes2. and_then (unwrapped (ed448_pk_from_bytes G pk_bytes2
        :: ('epk ed448_public_key, crypto_error) outcome))
   (\<lambda>pk_recv. and_then (is_ok (ed448_verify_sig H E G pk_recv msg2 sig2 None))
   (\<lambda>recv_ok. and_then
        (assert_that recv_ok [Str ''Public key roundtrip verification failed''])
   (\<lambda>_. let s = ed448_scheme H E G os_rng in
      and_then (unwrapped (sch_generate_key s r4))
   (\<lambda>(dyn_pk, dyn_sk). and_then (sch_sign s r5 dyn_sk message None)
   (\<lambda>dyn_sig. and_then (sch_verify s dyn_pk message dyn_sig None)
   (\<lambda>dyn_verified.
      Ok \<lparr>et_pk_len = length pk_bytes, et_sk_len = length sk_bytes,
          et_sig_len = length signature, et_context_verified = ctx_ok,
          et_cross_context_rejected = (\<not> cross_ok),
          et_dyn_verified = dyn_verified\<rparr>)))))))))))))))))))))))))))))"

section \<open>Ten keys through their byte form\<close>

definition ROUNDTRIP_MESSAGE :: bytes where
  "ROUNDTRIP_MESSAGE = ascii ''roundtrip test''"

text \<open>The body of the loop, and the loop over the draws of its iterations.\<close>

definition roundtrip_trial ::
  "hashes \<Rightarrow> ('esk, 'epk) ed448_rust \<Rightarrow> ('pt, 'sc) goldilocks \<Rightarrow> ('r \<Rightarrow> nat \<Rightarrow> bytes) \<Rightarrow> 'r
     \<Rightarrow> (bool \<times> bool, crypto_error) outcome" where
  "roundtrip_trial H E G os_rng r =
     and_then (unwrapped (ed448_generate_key E os_rng r))
   (\<lambda>(pk, sk). and_then (unwrapped (ed448_sign_msg E sk ROUNDTRIP_MESSAGE None))
   (\<lambda>sig. and_then (unwrapped (pk_marshal (ed448_dyn_pk pk)))
   (\<lambda>pk_bytes. and_then (unwrapped (ed448_pk_from_bytes G pk_bytes
        :: ('epk ed448_public_key, crypto_error) outcome))
   (\<lambda>pk2. and_then (unwrapped (pk_marshal (ed448_dyn_pk pk2)))
   (\<lambda>pk2_bytes. and_then (is_ok (ed448_verify_sig H E G pk2 ROUNDTRIP_MESSAGE sig None))
   (\<lambda>verify_ok. Ok (pk_bytes = pk2_bytes, verify_ok)))))))"

fun test_verify_roundtrip ::
  "hashes \<Rightarrow> ('esk, 'epk) ed448_rust \<Rightarrow> ('pt, 'sc) goldilocks \<Rightarrow> ('r \<Rightarrow> nat \<Rightarrow> bytes) \<Rightarrow> 'r list
     \<Rightarrow> ((bool \<times> bool) list, crypto_error) outcome" where
  "test_verify_roundtrip H E G os_rng [] = Ok []"
| "test_verify_roundtrip H E G os_rng (r # rs) =
     and_then (roundtrip_trial H E G os_rng r)
   (\<lambda>t. and_then (test_verify_roundtrip H E G os_rng rs) (\<lambda>ts. Ok (t # ts)))"

section \<open>What the programs report\<close>

text \<open>The key pair of a seed, and what is known of its signatures.\<close>

definition ed448_key_of :: "('esk, 'epk) ed448_rust \<Rightarrow> bytes \<Rightarrow> ('esk, 'epk) ed448_private_key" where
  "ed448_key_of E seed =
     (let inner = e_sk_from E seed
      in \<lparr>esk_inner = inner, esk_public = ed448_from_trusted_inner E (e_pk_from E inner)\<rparr>)"

lemma ed448_from_seed_key:
  "length seed = 57 \<Longrightarrow> ed448_from_seed E seed = Ok (esk_public (ed448_key_of E seed), ed448_key_of E seed)"
  by (simp add: ed448_from_seed_eq ed448_key_of_def Let_def)

lemma ed448_key_signs:
  assumes "ed448_laws (H, E, G, C)" and "length (ed448_ctx opts) \<le> 255"
  obtains sig where "ed448_sign_msg E (ed448_key_of E seed) m opts = Ok sig" "length sig = 114"
    "ed448_verify_sig H E G (esk_public (ed448_key_of E seed)) m sig opts = Ok ()"
    "ed448_pk_from_bytes G (epk_raw (esk_public (ed448_key_of E seed))) =
      (Ok \<lparr>epk_raw = epk_raw (esk_public (ed448_key_of E seed)), epk_trusted_inner = None\<rparr>
        :: ('ep ed448_public_key, crypto_error) outcome)"
    "ed448_verify_sig H E G \<lparr>epk_raw = epk_raw (esk_public (ed448_key_of E seed)),
      epk_trusted_inner = None\<rparr> m sig opts = Ok ()"
proof -
  have L: "curve_laws G C" "point_laws G C" "ed448_rust_laws H E G C"
    using assms(1) by (simp_all add: curve_laws_def)
  let ?k = "ed448_key_of E seed"
  have p: "esk_public ?k = ed448_from_trusted_inner E (e_pk_from E (esk_inner ?k))"
    by (simp add: ed448_key_of_def Let_def)
  then have r: "epk_raw (esk_public ?k) = e_pk_as_byte E (e_pk_from E (esk_inner ?k))"
    by (simp add: ed448_from_trusted_inner_def)
  have l: "length (epk_raw (esk_public ?k)) = 57"
    by (simp add: r ed448_rust_lawsD [OF L(3)])
  obtain sig where s: "ed448_sign_msg E ?k m opts = Ok sig"
      "rfc8032_valid H G C (mode_from_opts opts) (ed448_ctx opts) (epk_raw (esk_public ?k)) m sig"
      "ed448_verify_sig H E G (esk_public ?k) m sig opts = Ok ()"
    using ed448_sign_in_memory [OF L(3) assms(2) p, of m] r by auto
  show thesis
  proof (rule that [OF s(1) rfc8032_validD(1) [OF s(2)] s(3)])
    show "ed448_pk_from_bytes G (epk_raw (esk_public ?k)) =
      (Ok \<lparr>epk_raw = epk_raw (esk_public ?k), epk_trusted_inner = None\<rparr>
        :: ('ep ed448_public_key, crypto_error) outcome)"
      using l rfc8032_validD(4) [OF s(2)] by (simp add: ed448_pk_from_bytes_iff [OF L(2)])
    show "ed448_verify_sig H E G \<lparr>epk_raw = epk_raw (esk_public ?k), epk_trusted_inner = None\<rparr>
        m sig opts = Ok ()"
      using s(2) by (simp add: ed448_verify_untrusted [OF L(1) l])
  qed
qed

lemma ed448_key_bytes:
  assumes "ed448_rust_laws H E G C" and "length seed = 57"
  shows "ed448_sk_as_bytes E (ed448_key_of E seed) = Ok seed"
    and "ed448_sk_from_bytes E seed = Ok (esk_public (ed448_key_of E seed), ed448_key_of E seed)"
    and "length (epk_raw (esk_public (ed448_key_of E seed))) = 57"
  using assms(2) by (simp_all add: ed448_sk_as_bytes_def ed448_key_of_def Let_def size_consts
      ed448_rust_lawsD [OF assms(1)] ed448_sk_from_bytes_iff ed448_from_trusted_inner_def)

lemma roundtrip_trial_Ok:
  assumes "ed448_laws (H, E, G, C)" and "length (os_rng r 57) = 57"
  shows "roundtrip_trial H E G os_rng r = Ok (True, True)"
proof -
  obtain sig where s: "ed448_sign_msg E (ed448_key_of E (os_rng r 57)) ROUNDTRIP_MESSAGE None = Ok sig"
    "ed448_pk_from_bytes G (epk_raw (esk_public (ed448_key_of E (os_rng r 57)))) =
      (Ok \<lparr>epk_raw = epk_raw (esk_public (ed448_key_of E (os_rng r 57))), epk_trusted_inner = None\<rparr>
        :: ('b ed448_public_key, crypto_error) outcome)"
    "ed448_verify_sig H E G \<lparr>epk_raw = epk_raw (esk_public (ed448_key_of E (os_rng r 57))),
      epk_trusted_inner = None\<rparr> ROUNDTRIP_MESSAGE sig None = Ok ()"
    by (rule ed448_key_signs [OF assms(1), of None "os_rng r 57" ROUNDTRIP_MESSAGE]) auto
  then show ?thesis
    using assms(2) by (simp add: roundtrip_trial_def ed448_generate_key_def
        ed448_generate_key_with_rng_def size_consts ed448_from_seed_key ed448_dyn_pk_def)
qed

lemma test_verify_roundtrip_Ok:
  assumes "ed448_laws (H, E, G, C)" and "\<forall>r\<in>set rs. length (os_rng r 57) = 57"
  shows "test_verify_roundtrip H E G os_rng rs = Ok (replicate (length rs) (True, True))"
  using assms(2)
proof (induction rs)
  case Nil
  then show ?case by simp
next
  case (Cons r rs)
  then show ?case using roundtrip_trial_Ok [OF assms(1), of os_rng r] by simp
qed

text \<open>The program for Ed448 panics exactly when the signature with a flipped first byte verifies.\<close>

lemma test_ed448_run:
  assumes "ed448_laws (H, E, G, C)" and "\<And>r. length (os_rng r 57) = 57"
  shows "\<exists>b sig csig.
    ed448_sign_msg E (ed448_key_of E (os_rng r1 57)) ED448_TEST_MESSAGE None = Ok (b # sig) \<and>
    ed448_sign_msg E (ed448_key_of E (os_rng r1 57)) ED448_TEST_MESSAGE
      (Some \<lparr>opts_context = lit ''blackchain-tx''\<rparr>) = Ok csig \<and>
    test_ed448 H E G os_rng r1 r2 r3 r4 r5 =
      (if accepted (ed448_verify_sig H E G (esk_public (ed448_key_of E (os_rng r1 57)))
            ED448_TEST_MESSAGE ((b XOR 0xFF) # sig) None)
       then Panics [Str ''Bad verification should have failed'']
       else Ok \<lparr>et_pk_len = 57, et_sk_len = 57, et_sig_len = 114, et_context_verified = True,
         et_cross_context_rejected = (\<not> accepted (ed448_verify_sig H E G
           (esk_public (ed448_key_of E (os_rng r1 57))) ED448_TEST_MESSAGE csig None)),
         et_dyn_verified = True\<rparr>)"
proof -
  have L: "ed448_rust_laws H E G C" using assms(1) by simp
  let ?k = "\<lambda>r. ed448_key_of E (os_rng r 57)"
  let ?o = "Some \<lparr>opts_context = lit ''blackchain-tx''\<rparr>"
  have c: "length (ed448_ctx ?o) \<le> 255"
    by (simp add: ed448_ctx_def mode_from_opts_def mode_context_opt_def PREHASH_CONTEXT_def lit_def
        utf8_def utf8_char_def)
  obtain sig where s: "ed448_sign_msg E (?k r1) ED448_TEST_MESSAGE None = Ok sig" "length sig = 114"
      "ed448_verify_sig H E G (esk_public (?k r1)) ED448_TEST_MESSAGE sig None = Ok ()"
    by (rule ed448_key_signs [OF assms(1), of None "os_rng r1 57" ED448_TEST_MESSAGE]) auto
  obtain csig where cs: "ed448_sign_msg E (?k r1) ED448_TEST_MESSAGE ?o = Ok csig"
      "ed448_verify_sig H E G (esk_public (?k r1)) ED448_TEST_MESSAGE csig ?o = Ok ()"
    by (rule ed448_key_signs [OF assms(1) c, of "os_rng r1 57" ED448_TEST_MESSAGE]) auto
  obtain sig2 where s2: "ed448_sign_msg E (?k r3) ED448_TEST_MESSAGE2 None = Ok sig2"
    "ed448_pk_from_bytes G (epk_raw (esk_public (?k r3))) =
      (Ok \<lparr>epk_raw = epk_raw (esk_public (?k r3)), epk_trusted_inner = None\<rparr>
        :: ('b ed448_public_key, crypto_error) outcome)"
    "ed448_verify_sig H E G \<lparr>epk_raw = epk_raw (esk_public (?k r3)), epk_trusted_inner = None\<rparr>
      ED448_TEST_MESSAGE2 sig2 None = Ok ()"
    by (rule ed448_key_signs [OF assms(1), of None "os_rng r3 57" ED448_TEST_MESSAGE2]) auto
  obtain sig4 where s4: "ed448_sign_msg E (?k r4) ED448_TEST_MESSAGE None = Ok sig4"
    "ed448_pk_from_bytes G (epk_raw (esk_public (?k r4))) =
      (Ok \<lparr>epk_raw = epk_raw (esk_public (?k r4)), epk_trusted_inner = None\<rparr>
        :: ('b ed448_public_key, crypto_error) outcome)"
    "ed448_verify_sig H E G \<lparr>epk_raw = epk_raw (esk_public (?k r4)), epk_trusted_inner = None\<rparr>
      ED448_TEST_MESSAGE sig4 None = Ok ()"
    by (rule ed448_key_signs [OF assms(1), of None "os_rng r4 57" ED448_TEST_MESSAGE]) auto
  obtain b rest where b: "sig = b # rest" using s(2) by (cases sig) auto
  show ?thesis
    using s(1,3) cs s2 s4 s(2)
    by (simp add: test_ed448_def Let_def ed448_generate_key_def ed448_generate_key_with_rng_def
        size_consts ed448_from_seed_key assms(2) ed448_dyn_pk_def ed448_dyn_sk_def ed448_key_bytes [OF L]
        is_ok_panic_free [OF ed448_verify_sig_panic_free] b xor_first_def ed448_new_key_from_seed_def
        ed448_pk_eq_def ct_eq_def ed448_scheme_def ed448_dyn_sign_def ed448_sk_try_from_def
        ed448_dyn_verify_def)
qed

end
