(* ===== verification/Attacks.thy ===== *)
theory Attacks
  imports Api
begin

text \<open>
  \<^verbatim>\<open>src/attack_vectors.rs\<close>: the malicious inputs against which the library is tested.  A test
  is a function from the crates and the draws of randomness to \<open>Ok ()\<close>, or to the panic of an
  assertion that fails or of an \<^verbatim>\<open>unwrap\<close>.  The lemmas show which tests pass for every
  implementation of the crates that keeps its documented laws, and to which event the failure of
  the others comes down.

  \<open>negate\<close> is what the tests ask of the \<^verbatim>\<open>p521\<close> crate beyond the library: the signature
  \<open>(r, n - s)\<close> made from \<open>(r, s)\<close> with \<^verbatim>\<open>Signature::from_scalars\<close>.
\<close>

section \<open>Helpers\<close>

definition wallet_seed :: "byte \<Rightarrow> bytes" where
  "wallet_seed tag = map (\<lambda>i. word_of_nat i XOR tag XOR 0x5a) [0..<64]"

definition wallet ::
  "('dv, 'ds, 'dg, 'v, 's, 'g, 'r, 'es, 'ep, 'pt, 'sc) crates \<Rightarrow> byte
     \<Rightarrow> (bc_private_key \<times> bc_public_key, crypto_error) outcome" where
  "wallet K tag = unwrapped (bsk_generate K (wallet_seed tag))"

definition sample_tx :: bc_tx where
  "sample_tx =
     \<lparr>tx_chain_id = 1, tx_nonce = 3, tx_max_priority_fee_per_gas = 1500000000,
      tx_max_fee_per_gas = 30000000000, tx_gas_limit = 21000, tx_to = Some (replicate 20 0xaa),
      tx_value = 1000000, tx_data = [1, 2, 3, 4], tx_v = None, tx_r = None, tx_s = None,
      tx_pqc_signature = None, tx_pub_key = None\<rparr>"

definition p521_sig_range :: "nat \<times> nat" where
  "p521_sig_range = (DIL_SIGNATURE_SIZE, DIL_SIGNATURE_SIZE + P521_SIGNATURE_SIZE)"

definition ed448_sig_range :: "nat \<times> nat" where
  "ed448_sig_range = (DIL_SIGNATURE_SIZE + P521_SIGNATURE_SIZE,
     DIL_SIGNATURE_SIZE + P521_SIGNATURE_SIZE + ED448_SIGNATURE_SIZE)"

definition get_range :: "nat \<times> nat \<Rightarrow> bytes \<Rightarrow> (bytes, 'e) outcome" where
  "get_range r xs = slice (fst r) (snd r) xs"

definition set_range :: "nat \<times> nat \<Rightarrow> bytes \<Rightarrow> bytes \<Rightarrow> (bytes, 'e) outcome" where
  "set_range r new xs = splice_at (fst r) (snd r) new xs"

definition p521_high_s_twin ::
  "('v, 's, 'g, 'r) p521 \<Rightarrow> ('g \<Rightarrow> string + 'g) \<Rightarrow> bytes \<Rightarrow> (bytes, crypto_error) outcome" where
  "p521_high_s_twin P negate sig132 =
     and_then (expect [Str ''valid P-521 signature'']
         (of_result sig_error_ext (p_sig_from_slice P sig132)))
   (\<lambda>s. and_then (expect [Str ''negated-s signature is well-formed'']
         (of_result sig_error_ext (negate s)))
   (\<lambda>twin. Ok (p_sig_to_bytes P twin)))"

section \<open>Signature malleability\<close>

definition attack_p521_high_s_twin ::
  "('v, 's, 'g, 'r) p521 \<Rightarrow> ('g \<Rightarrow> string + 'g) \<Rightarrow> 'r \<Rightarrow> 'r \<Rightarrow> (unit, crypto_error) outcome" where
  "attack_p521_high_s_twin P negate r1 r2 =
     and_then (unwrapped (p521_generate_key P r1))
   (\<lambda>(pk, sk).
     let msg = ascii ''malleability probe''; sig = p521_sign_msg P r2 sk msg in
     and_then (assert_ok (p521_verify_sig P pk msg sig) [Str ''assertion failed''])
   (\<lambda>_. and_then (p521_high_s_twin P negate sig)
   (\<lambda>twin. and_then (assert_that (twin \<noteq> sig) [Str ''twin must differ from the canonical signature''])
   (\<lambda>_. and_then (slice_to 66 twin)
   (\<lambda>twin_r. and_then (slice_to 66 sig)
   (\<lambda>sig_r. and_then (assert_that (twin_r = sig_r) [Str ''r component must be identical''])
   (\<lambda>_. and_then (slice_from 66 twin)
   (\<lambda>twin_s. and_then (slice_from 66 sig)
   (\<lambda>sig_s. and_then (assert_that (twin_s \<noteq> sig_s) [Str ''s component must differ (n - s)''])
   (\<lambda>_. assert_err (p521_verify_sig P pk msg twin)
      [Str ''high-S malleability twin must be rejected'']))))))))))"

definition attack_composite_malleation ::
  "('dv, 'ds, 'dg, 'v, 's, 'g, 'r, 'es, 'ep, 'pt, 'sc) crates \<Rightarrow> ('g \<Rightarrow> string + 'g) \<Rightarrow> 'r
     \<Rightarrow> (unit, crypto_error) outcome" where
  "attack_composite_malleation K negate r =
     and_then (wallet K 1)
   (\<lambda>(sk, pk).
     let msg = ascii ''composite malleability'' in
     and_then (unwrapped (sign_message K r sk msg))
   (\<lambda>composite. and_then (unwrapped (verify_message K pk msg composite))
   (\<lambda>ok. and_then (assert_that ok [Str ''assertion failed''])
   (\<lambda>_. and_then (get_range p521_sig_range composite)
   (\<lambda>part. and_then (p521_high_s_twin (p5 K) negate part)
   (\<lambda>twin. and_then (set_range p521_sig_range twin composite)
   (\<lambda>composite. assert_err (verify_message K pk msg composite)
      [Str ''composite with malleated P-521 sub-signature must be rejected''])))))))"

definition attack_transaction_malleation ::
  "('dv, 'ds, 'dg, 'v, 's, 'g, 'r, 'es, 'ep, 'pt, 'sc) crates \<Rightarrow> rlp_crate \<Rightarrow> ('g \<Rightarrow> string + 'g)
     \<Rightarrow> 'r \<Rightarrow> (unit, crypto_error) outcome" where
  "attack_transaction_malleation K R negate r =
     and_then (wallet K 2)
   (\<lambda>(sk, pk).
     let expected = derive_address (hsh K) pk; tx = sample_tx in
     and_then (unwrapped (sign_transaction K R r sk tx))
   (\<lambda>tx. and_then (unwrapped (recover_sender K R tx))
   (\<lambda>recovered. and_then (assert_that (recovered = expected) [Str ''assertion failed''])
   (\<lambda>_. and_then (expect [Str ''called `Option::unwrap()` on a `None` value'']
        (ok_or () (tx_pqc_signature tx)))
   (\<lambda>comp. and_then (get_range p521_sig_range comp)
   (\<lambda>part. and_then (p521_high_s_twin (p5 K) negate part)
   (\<lambda>twin. and_then (set_range p521_sig_range twin comp)
   (\<lambda>comp. assert_err (recover_sender K R (tx\<lparr>tx_pqc_signature := Some comp\<rparr>))
      [Str ''malleated transaction must not recover a sender (txid malleability blocked)'']))))))))"

text \<open>The loop over the bytes of \<open>S\<close>, for those that are left.\<close>

fun ed448_s_loop ::
  "('dv, 'ds, 'dg, 'v, 's, 'g, 'r, 'es, 'ep, 'pt, 'sc) crates \<Rightarrow> bc_public_key \<Rightarrow> bytes \<Rightarrow> bytes
     \<Rightarrow> nat list \<Rightarrow> (unit, crypto_error) outcome" where
  "ed448_s_loop K pk msg base [] = Ok ()"
| "ed448_s_loop K pk msg base (byte_idx # rest) =
     (let s_byte = fst ed448_sig_range + 57 + byte_idx in
      and_then (or_at s_byte 0xC0 base)
        (\<lambda>comp. and_then (assert_err (verify_message K pk msg comp)
          [Str ''non-canonical Ed448 S (byte '', Num byte_idx, Str '') must be rejected''])
        (\<lambda>_. ed448_s_loop K pk msg base rest)))"

definition attack_ed448_noncanonical_s ::
  "('dv, 'ds, 'dg, 'v, 's, 'g, 'r, 'es, 'ep, 'pt, 'sc) crates \<Rightarrow> 'r
     \<Rightarrow> (unit, crypto_error) outcome" where
  "attack_ed448_noncanonical_s K r =
     and_then (wallet K 3)
   (\<lambda>(sk, pk).
     let msg = ascii ''ed448 canonical probe'' in
     and_then (unwrapped (sign_message K r sk msg))
   (\<lambda>base. and_then (unwrapped (verify_message K pk msg base))
   (\<lambda>ok. and_then (assert_that ok [Str ''assertion failed''])
   (\<lambda>_. ed448_s_loop K pk msg base [56, 55]))))"

section \<open>Splicing\<close>

definition attack_splice_ed448_subsig ::
  "('dv, 'ds, 'dg, 'v, 's, 'g, 'r, 'es, 'ep, 'pt, 'sc) crates \<Rightarrow> 'r \<Rightarrow> 'r
     \<Rightarrow> (unit, crypto_error) outcome" where
  "attack_splice_ed448_subsig K ra rb =
     and_then (wallet K 10)
   (\<lambda>(sk_a, pk_a). and_then (wallet K 11)
   (\<lambda>(sk_b, _).
     let msg = ascii ''splice probe'' in
     and_then (unwrapped (sign_message K ra sk_a msg))
   (\<lambda>comp_a. and_then (unwrapped (sign_message K rb sk_b msg))
   (\<lambda>comp_b. and_then (get_range ed448_sig_range comp_b)
   (\<lambda>part. and_then (set_range ed448_sig_range part comp_a)
   (\<lambda>spliced. assert_err (verify_message K pk_a msg spliced)
      [Str (''A'' @ [CHR 0x27] @ ''s signature with B'' @ [CHR 0x27]
        @ ''s Ed448 sub-signature must not verify under A'')]))))))"

definition attack_splice_mldsa_subsig ::
  "('dv, 'ds, 'dg, 'v, 's, 'g, 'r, 'es, 'ep, 'pt, 'sc) crates \<Rightarrow> 'r \<Rightarrow> 'r
     \<Rightarrow> (unit, crypto_error) outcome" where
  "attack_splice_mldsa_subsig K ra rb =
     and_then (wallet K 12)
   (\<lambda>(sk_a, pk_a). and_then (wallet K 13)
   (\<lambda>(sk_b, _).
     let msg = ascii ''mldsa binding probe'' in
     and_then (unwrapped (sign_message K ra sk_a msg))
   (\<lambda>comp_a. and_then (unwrapped (sign_message K rb sk_b msg))
   (\<lambda>comp_b. and_then (slice_to DIL_SIGNATURE_SIZE comp_b)
   (\<lambda>part. and_then (splice_at 0 DIL_SIGNATURE_SIZE part comp_a)
   (\<lambda>spliced. assert_err (verify_message K pk_a msg spliced)
      [Str (''A'' @ [CHR 0x27] @ ''s signature with B'' @ [CHR 0x27]
        @ ''s ML-DSA sub-signature must not verify under A'')]))))))"

definition attack_frankenstein_pubkey ::
  "('dv, 'ds, 'dg, 'v, 's, 'g, 'r, 'es, 'ep, 'pt, 'sc) crates \<Rightarrow> 'r
     \<Rightarrow> (unit, crypto_error) outcome" where
  "attack_frankenstein_pubkey K r =
     and_then (wallet K 20)
   (\<lambda>(sk_a, pk_a). and_then (wallet K 21)
   (\<lambda>(_, pk_b). and_then (slice_to DIL_PUBLIC_KEY_SIZE (bpk_dilithium pk_a))
   (\<lambda>d. and_then (slice_to P521_PUBLIC_KEY_SIZE (bpk_p521 pk_b))
   (\<lambda>p. and_then (slice_to ED448_PUBLIC_KEY_SIZE (bpk_ed448 pk_b))
   (\<lambda>e. and_then (unwrapped (bpk_from_bytes K (d @ p @ e)))
   (\<lambda>franken_pk. and_then (assert_that
        (derive_address (hsh K) franken_pk \<noteq> derive_address (hsh K) pk_a) [Str ''assertion failed''])
   (\<lambda>_. and_then (assert_that
        (derive_address (hsh K) franken_pk \<noteq> derive_address (hsh K) pk_b) [Str ''assertion failed''])
   (\<lambda>_. let msg = ascii ''franken probe'' in
     and_then (unwrapped (sign_message K r sk_a msg))
   (\<lambda>comp_a. assert_err (verify_message K franken_pk msg comp_a)
      [Str (''A'' @ [CHR 0x27] @ ''s signature must not verify under a spliced composite key'')])))))))))"

section \<open>Tampering with transactions and encodings\<close>

definition attack_tx_tamper_recipient ::
  "('dv, 'ds, 'dg, 'v, 's, 'g, 'r, 'es, 'ep, 'pt, 'sc) crates \<Rightarrow> rlp_crate \<Rightarrow> 'r
     \<Rightarrow> (unit, crypto_error) outcome" where
  "attack_tx_tamper_recipient K R r =
     and_then (wallet K 30)
   (\<lambda>(sk, pk).
     let signer = derive_address (hsh K) pk; tx = sample_tx in
     and_then (unwrapped (sign_transaction K R r sk tx))
   (\<lambda>tx. and_then (unwrapped (recover_sender K R tx))
   (\<lambda>recovered. and_then (assert_that (recovered = signer) [Str ''assertion failed''])
   (\<lambda>_. match_result (recover_sender K R (tx\<lparr>tx_to := Some (replicate 20 0xbb)\<rparr>))
      (\<lambda>addr. assert_that (addr \<noteq> signer) [Str ''tampered recipient must not recover signer''])
      (\<lambda>_. Ok ())))))"

definition attack_tx_tamper_value ::
  "('dv, 'ds, 'dg, 'v, 's, 'g, 'r, 'es, 'ep, 'pt, 'sc) crates \<Rightarrow> rlp_crate \<Rightarrow> 'r
     \<Rightarrow> (unit, crypto_error) outcome" where
  "attack_tx_tamper_value K R r =
     and_then (wallet K 31)
   (\<lambda>(sk, pk).
     let signer = derive_address (hsh K) pk; tx = sample_tx in
     and_then (unwrapped (sign_transaction K R r sk tx))
   (\<lambda>tx. match_result (recover_sender K R (tx\<lparr>tx_value := 999999999\<rparr>))
      (\<lambda>addr. assert_that (addr \<noteq> signer) [Str ''assertion failed''])
      (\<lambda>_. Ok ())))"

definition attack_tx_swapped_pubkey ::
  "('dv, 'ds, 'dg, 'v, 's, 'g, 'r, 'es, 'ep, 'pt, 'sc) crates \<Rightarrow> rlp_crate \<Rightarrow> 'r
     \<Rightarrow> (unit, crypto_error) outcome" where
  "attack_tx_swapped_pubkey K R r =
     and_then (wallet K 32)
   (\<lambda>(sk_a, _). and_then (wallet K 33)
   (\<lambda>(_, pk_b). and_then (unwrapped (sign_transaction K R r sk_a sample_tx))
   (\<lambda>tx. assert_err (recover_sender K R (tx\<lparr>tx_pub_key := Some (bpk_to_bytes pk_b)\<rparr>))
      [Str (''A'' @ [CHR 0x27] @ ''s signature under B'' @ [CHR 0x27]
        @ ''s public key must not recover'')])))"

definition attack_rlp_trailing_bytes :: "rlp_crate \<Rightarrow> (unit, rlp_error) outcome" where
  "attack_rlp_trailing_bytes R =
     (let out = tx_encode R sample_tx @ [0xde, 0xad] in
      and_then (unwrapped (tx_decode R out))
    (\<lambda>(decoded, slice). and_then
        (assert_that (tx_v decoded = None) [Str ''trailing bytes must not become signature fields''])
    (\<lambda>_. assert_that (slice = [0xde, 0xad]) [Str ''trailing bytes must be left unconsumed''])))"

definition attack_rlp_oversized_to :: "rlp_crate \<Rightarrow> (unit, rlp_error) outcome" where
  "attack_rlp_oversized_to R =
     (let body = r_u64_enc R 1 @ r_u64_enc R 0 @ r_u256_enc R 0 @ r_u256_enc R 0 @ r_u64_enc R 0
            @ r_bytes_enc R (replicate 21 0x11) @ r_u256_enc R 0 @ r_bytes_enc R [];
          framed = r_header_enc R True (length body) @ body
      in assert_err (tx_decode R framed) [Str ''a 21-byte `to` field must be rejected''])"

section \<open>Wallets and derivation\<close>

fun join_spaces :: "string list \<Rightarrow> rstr" where
  "join_spaces [] = []"
| "join_spaces [w] = lit w"
| "join_spaces (w # ws) = lit w @ 32 # join_spaces ws"

definition attack_bip39_phrase :: "'mn bip39 \<Rightarrow> rstr \<Rightarrow> (unit, crypto_error) outcome" where
  "attack_bip39_phrase M phrase =
     and_then (assert_that (\<not> validate_mnemonic M phrase) [Str ''assertion failed''])
       (\<lambda>_. assert_err (seed_from_mnemonic M phrase []) [Str ''assertion failed''])"

definition attack_bip39_bad_checksum :: "'mn bip39 \<Rightarrow> (unit, crypto_error) outcome" where
  "attack_bip39_bad_checksum M =
     (let bad = join_spaces (replicate 24 ''abandon'') in attack_bip39_phrase M bad)"

definition attack_bip39_wrong_word_count :: "'mn bip39 \<Rightarrow> (unit, crypto_error) outcome" where
  "attack_bip39_wrong_word_count M =
     (let twelve = join_spaces (replicate 11 ''abandon'' @ [''about'']) in attack_bip39_phrase M twelve)"

definition attack_bip32_nonhardened :: "('x, 'cn) bip32 \<Rightarrow> (unit, crypto_error) outcome" where
  "attack_bip32_nonhardened X =
     (let master = replicate 64 7 in
      and_then (assert_err (derive_child_seed X master [0]) [Str ''assertion failed''])
    (\<lambda>_. and_then (assert_err (derive_child_seed X master [44]) [Str ''assertion failed''])
    (\<lambda>_. assert_ok (derive_child_seed X master [0x8000002C]) [Str ''assertion failed''])))"

definition attack_short_seed ::
  "('dv, 'ds, 'dg, 'v, 's, 'g, 'r, 'es, 'ep, 'pt, 'sc) crates \<Rightarrow> (unit, crypto_error) outcome"
where
  "attack_short_seed K =
     and_then (assert_err (bsk_generate K (replicate 32 0)) [Str ''assertion failed''])
   (\<lambda>_. and_then (assert_err (bsk_generate K (replicate 63 0)) [Str ''assertion failed''])
   (\<lambda>_. assert_ok (bsk_generate K (replicate 64 0)) [Str ''assertion failed'']))"

definition attack_kdf_domain_separation :: "hashes \<Rightarrow> (unit, crypto_error) outcome" where
  "attack_kdf_domain_separation H =
     (let master = replicate 16 0x33 in
      and_then (unwrapped (derive_mdecc_curve_seed H master CURVE_ID_P521 32))
    (\<lambda>p521_seed. and_then (unwrapped (derive_mdecc_curve_seed H master CURVE_ID_ED448 32))
    (\<lambda>ed448_seed. assert_that (p521_seed \<noteq> ed448_seed)
       [Str ''curve-ID domain separation must make sub-seeds independent''])))"

section \<open>Degenerate keys\<close>

definition attack_all_zero_pubkey ::
  "('dv, 'ds, 'dg, 'v, 's, 'g, 'r, 'es, 'ep, 'pt, 'sc) crates \<Rightarrow> (unit, crypto_error) outcome"
where
  "attack_all_zero_pubkey K =
     (let zero = replicate (DIL_PUBLIC_KEY_SIZE + P521_PUBLIC_KEY_SIZE + ED448_PUBLIC_KEY_SIZE) 0
      in assert_err (bpk_from_bytes K zero)
        [Str ''all-zero composite public key must be rejected (invalid P-521 / Ed448 point)''])"

definition attack_wrong_length_pubkey ::
  "('dv, 'ds, 'dg, 'v, 's, 'g, 'r, 'es, 'ep, 'pt, 'sc) crates \<Rightarrow> (unit, crypto_error) outcome"
where
  "attack_wrong_length_pubkey K =
     (let total = DIL_PUBLIC_KEY_SIZE + P521_PUBLIC_KEY_SIZE + ED448_PUBLIC_KEY_SIZE in
      and_then (assert_err (bpk_from_bytes K (replicate (total - 1) 0)) [Str ''assertion failed''])
    (\<lambda>_. assert_err (bpk_from_bytes K (replicate (total + 1) 0)) [Str ''assertion failed'']))"

definition attack_all_zero_p521_pubkey ::
  "('v, 's, 'g, 'r) p521 \<Rightarrow> (unit, crypto_error) outcome" where
  "attack_all_zero_p521_pubkey P =
     assert_err (p521_pk_from_bytes P (replicate P521_PUBLIC_KEY_SIZE 0)) [Str ''assertion failed'']"

section \<open>The twin of a P-521 signature\<close>

text \<open>
  The negation of a low \<open>s\<close> is a high one, which normalises back, and leaves \<open>r\<close> as it is.
\<close>

definition negate_laws :: "('v, 's, 'g, 'r) p521 \<Rightarrow> ('g \<Rightarrow> string + 'g) \<Rightarrow> bool" where
  "negate_laws P negate \<longleftrightarrow>
     (\<forall>g. p_normalize_s P g = None \<longrightarrow>
        (\<exists>g'. negate g = Inr g' \<and> p_normalize_s P g' = Some g \<and>
           take 66 (p_sig_to_bytes P g') = take 66 (p_sig_to_bytes P g)))"

lemma p521_twin:
  assumes "p521_laws P" "negate_laws P negate"
    and "p_sig_from_slice P sig = Inr g" "p_normalize_s P g = None"
  obtains twin where "p521_high_s_twin P negate sig = Ok twin" "length twin = 132" "twin \<noteq> sig"
    "take 66 twin = take 66 sig" "drop 66 twin \<noteq> drop 66 sig"
    "\<And>v m. p521_verify_sig P v m twin \<noteq> Ok ()"
proof -
  note L = p521_lawsD [OF assms(1)]
  obtain g' where g': "negate g = Inr g'" "p_normalize_s P g' = Some g"
      "take 66 (p_sig_to_bytes P g') = take 66 (p_sig_to_bytes P g)"
    using assms(2,4) unfolding negate_laws_def by blast
  have sig: "sig = p_sig_to_bytes P g" using L(5) [OF assms(3)] by simp
  let ?t = "p_sig_to_bytes P g'"
  have "g' \<noteq> g" using g'(2) assms(4) by auto
  then have n: "?t \<noteq> sig" using L(4) [of g'] assms(3) by auto
  then have d: "drop 66 ?t \<noteq> drop 66 sig"
    using g'(3) append_take_drop_id [of 66 ?t] append_take_drop_id [of 66 sig] unfolding sig by metis
  show thesis
  proof (rule that [of ?t])
    show "p521_high_s_twin P negate sig = Ok ?t"
      by (simp add: p521_high_s_twin_def assms(3) g'(1))
    show "p521_verify_sig P v m ?t \<noteq> Ok ()" for v m
      using g'(2) L(4) [of g'] by (simp add: p521_verify_sig_iff)
  qed (use n d g'(3) L(3) sig in auto)
qed

lemma attack_p521_high_s_twin_passes:
  assumes "p521_laws P" "negate_laws P negate"
  shows "attack_p521_high_s_twin P negate r1 r2 = Ok ()"
proof -
  let ?k = "p_sk_random P r1" and ?m = "ascii ''malleability probe''"
  let ?sig = "p521_sign_msg P r2 ?k ?m"
  note s = p521_sign_verify(1) [OF assms(1), of r2 ?k ?m] p521_sign_verify(2) [OF assms(1), of ?k ?m r2]
  obtain g where g: "p_sig_from_slice P ?sig = Inr g" "p_normalize_s P g = None"
    using s(2) by (auto simp: p521_verify_sig_iff)
  obtain twin where t: "p521_high_s_twin P negate ?sig = Ok twin" "length twin = 132" "twin \<noteq> ?sig"
      "take 66 twin = take 66 ?sig" "drop 66 twin \<noteq> drop 66 ?sig"
      "p521_verify_sig P (p_vk_of P ?k) ?m twin \<noteq> Ok ()"
    by (rule p521_twin [OF assms g]) blast
  show ?thesis
    using s t by (simp add: attack_p521_high_s_twin_def p521_generate_key_def Let_def
        assert_err_iff [OF p521_verify_panic_free])
qed

section \<open>Changing one part of a composite signature\<close>

definition message_hash ::
  "('dv, 'ds, 'dg, 'v, 's, 'g, 'r, 'es, 'ep, 'pt, 'sc) crates \<Rightarrow> bc_public_key \<Rightarrow> bytes" where
  "message_hash K pk = compute_h_combined (hsh K) pk (replicate 16 0)"

lemma verify_message_iff:
  "verify_message K pk m sig = Ok b \<longleftrightarrow>
    b \<and> composite_verify K pk (keccak256 (hsh K) m) (message_hash K pk) sig = Ok ()"
  by (auto simp: verify_message_def message_hash_def Let_def)

lemma verify_message_accepted:
  "accepted (verify_message K pk m sig) \<longleftrightarrow>
    composite_verify K pk (keccak256 (hsh K) m) (message_hash K pk) sig = Ok ()"
  by (auto simp: verify_message_iff)

text \<open>A signed message, in its three parts.\<close>

lemma signed_message_parts:
  assumes "crates_laws K C" and "key_wf K k"
  obtains d p e where "sign_message K r k m = Ok (d @ p @ e)"
    "length d = 4627" "length p = 132" "length e = 114"
    "dil_leg_verify (mld K) (bpk_dilithium (bsk_public k)) (keccak256 (hsh K) m) d = Ok ()"
    "p521_leg_verify (p5 K) (bpk_p521 (bsk_public k)) (curve_msg (keccak256 (hsh K) m)
       (message_hash K (bsk_public k)) CURVE_ID_P521) p = Ok ()"
    "ed448_verify_with (hsh K) (edr K) (gld K) (bpk_ed448 (bsk_public k))
       (curve_msg (keccak256 (hsh K) m) (message_hash K (bsk_public k)) CURVE_ID_ED448) e = Ok ()"
proof -
  obtain sig where s: "composite_sign K r k (keccak256 (hsh K) m) (message_hash K (bsk_public k)) = Ok sig"
      "length sig = 4873"
      "composite_verify K (bsk_public k) (keccak256 (hsh K) m) (message_hash K (bsk_public k)) sig = Ok ()"
    using composite_sign_verify [OF assms] by blast
  show thesis
    by (rule that [of "take 4627 sig" "take 132 (drop 4627 sig)" "drop 4759 sig"])
      (use s split_three [of sig 4627 132 114] in \<open>simp_all add: composite_verify_iff sign_message_def
        message_hash_def Let_def\<close>)
qed

lemma composite_parts:
  assumes "length d = 4627" "length p = 132" "length e = 114"
  shows "composite_verify K pk hash h (d @ p @ e) = Ok () \<longleftrightarrow>
    dil_leg_verify (mld K) (bpk_dilithium pk) hash d = Ok () \<and>
    p521_leg_verify (p5 K) (bpk_p521 pk) (curve_msg hash h CURVE_ID_P521) p = Ok () \<and>
    ed448_verify_with (hsh K) (edr K) (gld K) (bpk_ed448 pk) (curve_msg hash h CURVE_ID_ED448) e = Ok ()"
  using assms by (simp add: composite_verify_iff)

lemma part_ranges:
  assumes "length d = 4627" "length p = 132" "length e = 114"
  shows "get_range p521_sig_range (d @ p @ e) = Ok p"
    and "get_range ed448_sig_range (d @ p @ e) = Ok e"
    and "length p' = 132 \<Longrightarrow> set_range p521_sig_range p' (d @ p @ e) = Ok (d @ p' @ e)"
    and "length e' = 114 \<Longrightarrow> set_range ed448_sig_range e' (d @ p @ e) = Ok (d @ p @ e')"
    and "slice_to 4627 (d @ p @ e) = Ok d"
    and "length d' = 4627 \<Longrightarrow> splice_at 0 4627 d' (d @ p @ e) = Ok (d' @ p @ e)"
  using assms by (simp_all add: get_range_def set_range_def p521_sig_range_def ed448_sig_range_def
      size_consts splice_at_in_range)

lemma p521_leg_low_s:
  assumes "p521_leg_verify P pk m sig = Ok ()"
  obtains g where "p_sig_from_slice P sig = Inr g" "p_normalize_s P g = None"
  using assms that by (auto simp: p521_leg_verify_def p521_verify_sig_iff)

text \<open>A composite signature with the twin in place of its P-521 part is never accepted.\<close>

lemma twin_part_rejected:
  assumes "\<And>v m. p521_verify_sig P v m p \<noteq> Ok ()"
  shows "p521_leg_verify P pk m p \<noteq> Ok ()"
  using assms by (auto simp: p521_leg_verify_def)

lemma attack_composite_malleation_passes:
  assumes "crates_laws K C" "negate_laws (p5 K) negate"
    and "bsk_generate K (wallet_seed 1) = Ok (k, pub)"
  shows "attack_composite_malleation K negate r = Ok ()"
proof -
  let ?m = "ascii ''composite malleability''"
  note L = crates_lawsD [OF assms(1)]
  have w: "key_wf K k" by (rule bsk_generate_wf [OF assms(1,3)])
  have pub: "pub = bsk_public k" by (rule bsk_generate_Ok(2) [OF assms(1,3)])
  obtain d p e where s: "sign_message K r k ?m = Ok (d @ p @ e)"
      and l: "length d = 4627" "length p = 132" "length e = 114"
      and v: "dil_leg_verify (mld K) (bpk_dilithium (bsk_public k)) (keccak256 (hsh K) ?m) d = Ok ()"
        "p521_leg_verify (p5 K) (bpk_p521 (bsk_public k)) (curve_msg (keccak256 (hsh K) ?m)
           (message_hash K (bsk_public k)) CURVE_ID_P521) p = Ok ()"
        "ed448_verify_with (hsh K) (edr K) (gld K) (bpk_ed448 (bsk_public k))
           (curve_msg (keccak256 (hsh K) ?m) (message_hash K (bsk_public k)) CURVE_ID_ED448) e = Ok ()"
    by (rule signed_message_parts [OF assms(1) w])
  obtain g where g: "p_sig_from_slice (p5 K) p = Inr g" "p_normalize_s (p5 K) g = None"
    by (rule p521_leg_low_s [OF v(2)])
  obtain twin where t: "p521_high_s_twin (p5 K) negate p = Ok twin" "length twin = 132"
      "\<And>v m. p521_verify_sig (p5 K) v m twin \<noteq> Ok ()"
    by (rule p521_twin [OF L(3) assms(2) g]) blast
  have "verify_message K (bsk_public k) ?m (d @ p @ e) = Ok True"
    by (simp add: verify_message_iff composite_parts [OF l] v)
  moreover have "\<not> accepted (verify_message K (bsk_public k) ?m (d @ twin @ e))"
    using twin_part_rejected [OF t(3)]
    by (simp add: verify_message_iff composite_parts [OF l(1) t(2) l(3)])
  ultimately show ?thesis
    using s t(1) assms(3)
    by (simp add: attack_composite_malleation_def wallet_def pub Let_def part_ranges(1) [OF l]
        part_ranges(3) [OF l t(2)]
        assert_err_iff [OF verify_message_panic_free])
qed

lemma attack_transaction_malleation_passes:
  assumes "crates_laws K C" "negate_laws (p5 K) negate"
    and "bsk_generate K (wallet_seed 2) = Ok (k, pub)"
  shows "attack_transaction_malleation K R negate r = Ok ()"
proof -
  let ?h = "signature_hash (hsh K) R sample_tx" and ?b = "bound_hash K (tx_chain_id sample_tx) (bsk_public k)"
  note L = crates_lawsD [OF assms(1)]
  have w: "key_wf K k" by (rule bsk_generate_wf [OF assms(1,3)])
  have pub: "pub = bsk_public k" by (rule bsk_generate_Ok(2) [OF assms(1,3)])
  have h: "signature_hash (hsh K) R (signed_tx sample_tx (bsk_public k) sig) = ?h" for sig
    by (rule signature_hash_unsigned) simp
  obtain sig where s: "sign_transaction K R r k sample_tx = Ok (signed_tx sample_tx (bsk_public k) sig)"
      "length sig = 4873" "recover_sender K R (signed_tx sample_tx (bsk_public k) sig) =
        Ok (derive_address (hsh K) (bsk_public k))"
    using signed_recovers [OF assms(1) w] by blast
  have pv: "pk_valid K (bsk_public k)" by (rule key_wf_pk_valid [OF assms(1) w])
  have c: "recover_sender K R (signed_tx sample_tx (bsk_public k) sig) = Ok a \<longleftrightarrow>
      a = derive_address (hsh K) (bsk_public k) \<and> composite_verify K (bsk_public k) ?h ?b sig = Ok ()" for sig a
    using pv bpk_to_bytes_inj [OF pv] by (auto simp: recover_sender_iff h)
  define d p e where "d = take 4627 sig" and "p = take 132 (drop 4627 sig)" and "e = drop 4759 sig"
  have sig: "sig = d @ p @ e" and l: "length d = 4627" "length p = 132" "length e = 114"
    using s(2) split_three [of sig 4627 132 114] by (simp_all add: d_def p_def e_def)
  have "p521_leg_verify (p5 K) (bpk_p521 (bsk_public k)) (curve_msg ?h ?b CURVE_ID_P521) p = Ok ()"
    using s(3) unfolding c sig composite_parts [OF l] by blast
  then obtain g where g: "p_sig_from_slice (p5 K) p = Inr g" "p_normalize_s (p5 K) g = None"
    by (rule p521_leg_low_s)
  obtain twin where t: "p521_high_s_twin (p5 K) negate p = Ok twin" "length twin = 132"
      "\<And>v m. p521_verify_sig (p5 K) v m twin \<noteq> Ok ()"
    by (rule p521_twin [OF L(3) assms(2) g]) blast
  have tx: "(signed_tx sample_tx (bsk_public k) sig)\<lparr>tx_pqc_signature := Some sig'\<rparr> =
      signed_tx sample_tx (bsk_public k) sig'" for sig'
    by (simp add: signed_tx_def)
  have "\<not> accepted (recover_sender K R (signed_tx sample_tx (bsk_public k) (d @ twin @ e)))"
    using twin_part_rejected [OF t(3)] by (simp add: c composite_parts [OF l(1) t(2) l(3)])
  then show ?thesis
    using s(1,3) t(1) assms(3)
    by (simp add: attack_transaction_malleation_def wallet_def pub Let_def tx
        part_ranges(1) [OF l, folded sig] part_ranges(3) [OF l t(2), folded sig]
        assert_err_iff [OF recover_sender_panic_free])
qed

text \<open>An \<open>S\<close> with the two top bits of one of its last two bytes set is not below the group order.\<close>

lemma le_nat_nth_le: "i < length xs \<Longrightarrow> 256 ^ i * unat (xs ! i) \<le> le_nat xs"
proof (induction xs arbitrary: i)
  case (Cons x xs)
  then show ?case by (cases i) (auto simp: algebra_simps trans_le_add2)
qed simp

lemma or_192_le: "192 \<le> unat (b OR 0xC0 :: byte)"
proof -
  have "uint (0xC0 :: byte) \<le> uint (0xC0 OR b)"
    unfolding unsigned_or_eq by (rule or_greater_eq) simp
  then have "unat (0xC0 :: byte) \<le> unat (b OR 0xC0)"
    by (simp only: unat_eq_nat_uint or.commute nat_mono)
  then show ?thesis by simp
qed

lemma high_s_not_canonical:
  assumes "length sig = 114" "i = 55 \<or> i = 56" "order C \<le> 2 ^ 446"
  shows "\<not> rfc8032_valid H G C mode ctx pk m (sig[57 + i := sig ! (57 + i) OR 0xC0])"
proof
  let ?s = "sig[57 + i := sig ! (57 + i) OR 0xC0]"
  assume "rfc8032_valid H G C mode ctx pk m ?s"
  then have lt: "le_nat (drop 57 ?s) < 2 ^ 446"
    using rfc8032_validD(3) assms(3) by fastforce
  have i: "i < length (drop 57 ?s)" "drop 57 ?s ! i = sig ! (57 + i) OR 0xC0"
    using assms(1,2) by auto
  have "256 ^ 55 * 192 \<le> 256 ^ i * unat (drop 57 ?s ! i)"
    unfolding i(2) using assms(2) or_192_le [of "sig ! (57 + i)"] by (intro mult_le_mono power_increasing) auto
  also have "\<dots> \<le> le_nat (drop 57 ?s)" by (rule le_nat_nth_le [OF i(1)])
  finally have "256 ^ 55 * 192 \<le> le_nat (drop 57 ?s)" .
  moreover have "(2 :: nat) ^ 446 \<le> 256 ^ 55 * 192" by simp
  ultimately show False using lt by simp
qed

lemma attack_ed448_noncanonical_s_passes:
  assumes "crates_laws K C" "order C \<le> 2 ^ 446"
    and "bsk_generate K (wallet_seed 3) = Ok (k, pub)"
  shows "attack_ed448_noncanonical_s K r = Ok ()"
proof -
  let ?m = "ascii ''ed448 canonical probe''"
  note L = crates_lawsD [OF assms(1)]
  have w: "key_wf K k" by (rule bsk_generate_wf [OF assms(1,3)])
  have pub: "pub = bsk_public k" by (rule bsk_generate_Ok(2) [OF assms(1,3)])
  obtain d p e where s: "sign_message K r k ?m = Ok (d @ p @ e)"
      and l: "length d = 4627" "length p = 132" "length e = 114"
      and v: "dil_leg_verify (mld K) (bpk_dilithium (bsk_public k)) (keccak256 (hsh K) ?m) d = Ok ()"
        "p521_leg_verify (p5 K) (bpk_p521 (bsk_public k)) (curve_msg (keccak256 (hsh K) ?m)
           (message_hash K (bsk_public k)) CURVE_ID_P521) p = Ok ()"
        "ed448_verify_with (hsh K) (edr K) (gld K) (bpk_ed448 (bsk_public k))
           (curve_msg (keccak256 (hsh K) ?m) (message_hash K (bsk_public k)) CURVE_ID_ED448) e = Ok ()"
    by (rule signed_message_parts [OF assms(1) w])
  have ok: "verify_message K (bsk_public k) ?m (d @ p @ e) = Ok True"
    by (simp add: verify_message_iff composite_parts [OF l] v)
  have u: "(d @ p @ e)[4816 + i := (d @ p @ e) ! (4816 + i) OR 0xC0] =
      d @ p @ e[57 + i := e ! (57 + i) OR 0xC0]" for i
    using l by (simp add: list_update_append nth_append)
  have bad: "\<not> accepted (verify_message K (bsk_public k) ?m
      ((d @ p @ e)[4816 + i := (d @ p @ e) ! (4816 + i) OR 0xC0]))" if "i = 55 \<or> i = 56" for i
    using high_s_not_canonical [OF l(3) that assms(2)] l unfolding u
    by (simp add: verify_message_iff composite_parts ed448_verify_with_iff [OF L(5)])
  note bad' = bad [of 55, simplified] bad [of 56, simplified]
  show ?thesis
    using s ok bad' l assms(3)
    by (simp add: attack_ed448_noncanonical_s_def wallet_def pub Let_def ed448_sig_range_def size_consts
        assert_err_iff [OF verify_message_panic_free])
qed

text \<open>A part that another key signed passes or fails by its own algorithm alone.\<close>

lemma attack_splice_ed448_iff:
  assumes "crates_laws K C" and "bsk_generate K (wallet_seed 10) = Ok (ka, pa)"
    and "bsk_generate K (wallet_seed 11) = Ok (kb, pb)"
  shows "\<exists>d p e. sign_message K rb kb (ascii ''splice probe'') = Ok (d @ p @ e) \<and>
    length d = 4627 \<and> length p = 132 \<and> length e = 114 \<and>
    (attack_splice_ed448_subsig K ra rb = Ok () \<longleftrightarrow>
     ed448_verify_with (hsh K) (edr K) (gld K) (bpk_ed448 pa)
       (curve_msg (keccak256 (hsh K) (ascii ''splice probe'')) (message_hash K pa) CURVE_ID_ED448) e \<noteq> Ok ())"
proof -
  let ?m = "ascii ''splice probe''"
  have pub: "pa = bsk_public ka" by (rule bsk_generate_Ok(2) [OF assms(1,2)])
  obtain d p e where a: "sign_message K ra ka ?m = Ok (d @ p @ e)"
      and l: "length d = 4627" "length p = 132" "length e = 114"
      and v: "dil_leg_verify (mld K) (bpk_dilithium (bsk_public ka)) (keccak256 (hsh K) ?m) d = Ok ()"
        "p521_leg_verify (p5 K) (bpk_p521 (bsk_public ka)) (curve_msg (keccak256 (hsh K) ?m)
           (message_hash K (bsk_public ka)) CURVE_ID_P521) p = Ok ()"
    by (rule signed_message_parts [OF assms(1) bsk_generate_wf [OF assms(1,2)]]) blast
  obtain d' p' e' where b: "sign_message K rb kb ?m = Ok (d' @ p' @ e')"
      and l': "length d' = 4627" "length p' = 132" "length e' = 114"
    by (rule signed_message_parts [OF assms(1) bsk_generate_wf [OF assms(1,3)]]) blast
  have "attack_splice_ed448_subsig K ra rb = Ok () \<longleftrightarrow>
      \<not> accepted (verify_message K pa ?m (d @ p @ e'))"
    using a b assms(2,3)
    by (simp add: attack_splice_ed448_subsig_def wallet_def Let_def part_ranges(2) [OF l']
        part_ranges(4) [OF l l'(3)] assert_err_iff [OF verify_message_panic_free])
  then have "attack_splice_ed448_subsig K ra rb = Ok () \<longleftrightarrow>
     ed448_verify_with (hsh K) (edr K) (gld K) (bpk_ed448 pa)
       (curve_msg (keccak256 (hsh K) ?m) (message_hash K pa) CURVE_ID_ED448) e' \<noteq> Ok ()"
    using v by (simp add: verify_message_accepted composite_parts [OF l(1,2) l'(3)] pub del: accepted_iff)
  with b l' show ?thesis by blast
qed

lemma attack_splice_mldsa_iff:
  assumes "crates_laws K C" and "bsk_generate K (wallet_seed 12) = Ok (ka, pa)"
    and "bsk_generate K (wallet_seed 13) = Ok (kb, pb)"
  shows "\<exists>d p e. sign_message K rb kb (ascii ''mldsa binding probe'') = Ok (d @ p @ e) \<and>
    length d = 4627 \<and> length p = 132 \<and> length e = 114 \<and>
    (attack_splice_mldsa_subsig K ra rb = Ok () \<longleftrightarrow>
     dil_leg_verify (mld K) (bpk_dilithium pa) (keccak256 (hsh K) (ascii ''mldsa binding probe'')) d \<noteq> Ok ())"
proof -
  let ?m = "ascii ''mldsa binding probe''"
  have pub: "pa = bsk_public ka" by (rule bsk_generate_Ok(2) [OF assms(1,2)])
  obtain d p e where a: "sign_message K ra ka ?m = Ok (d @ p @ e)"
      and l: "length d = 4627" "length p = 132" "length e = 114"
      and v: "p521_leg_verify (p5 K) (bpk_p521 (bsk_public ka)) (curve_msg (keccak256 (hsh K) ?m)
           (message_hash K (bsk_public ka)) CURVE_ID_P521) p = Ok ()"
        "ed448_verify_with (hsh K) (edr K) (gld K) (bpk_ed448 (bsk_public ka))
           (curve_msg (keccak256 (hsh K) ?m) (message_hash K (bsk_public ka)) CURVE_ID_ED448) e = Ok ()"
    by (rule signed_message_parts [OF assms(1) bsk_generate_wf [OF assms(1,2)]]) blast
  obtain d' p' e' where b: "sign_message K rb kb ?m = Ok (d' @ p' @ e')"
      and l': "length d' = 4627" "length p' = 132" "length e' = 114"
    by (rule signed_message_parts [OF assms(1) bsk_generate_wf [OF assms(1,3)]]) blast
  have "attack_splice_mldsa_subsig K ra rb = Ok () \<longleftrightarrow>
      \<not> accepted (verify_message K pa ?m (d' @ p @ e))"
    using a b assms(2,3)
    by (simp add: attack_splice_mldsa_subsig_def wallet_def Let_def size_consts part_ranges(5) [OF l']
        part_ranges(6) [OF l l'(1)] assert_err_iff [OF verify_message_panic_free])
  then have "attack_splice_mldsa_subsig K ra rb = Ok () \<longleftrightarrow>
     dil_leg_verify (mld K) (bpk_dilithium pa) (keccak256 (hsh K) ?m) d' \<noteq> Ok ()"
    using v by (simp add: verify_message_accepted composite_parts [OF l'(1) l(2,3)] pub del: accepted_iff)
  with b l' show ?thesis by blast
qed

text \<open>
  The key with the ML-DSA-87 part of one identity and the classical parts of another is a valid
  key, so the test of it comes down to two addresses and to the classical parts of a signature
  that was made for another key.
\<close>

definition franken_key :: "bc_public_key \<Rightarrow> bc_public_key \<Rightarrow> bc_public_key" where
  "franken_key pa pb = pb\<lparr>bpk_dilithium := bpk_dilithium pa\<rparr>"

lemma franken_key_valid: "pk_valid K pa \<Longrightarrow> pk_valid K pb \<Longrightarrow> pk_valid K (franken_key pa pb)"
  by (simp add: pk_valid_def franken_key_def)

lemma franken_key_parts [simp]:
  "bpk_dilithium (franken_key pa pb) = bpk_dilithium pa" "bpk_p521 (franken_key pa pb) = bpk_p521 pb"
  "bpk_ed448 (franken_key pa pb) = bpk_ed448 pb"
  by (simp_all add: franken_key_def)

lemma attack_frankenstein_iff:
  assumes "crates_laws K C" and "bsk_generate K (wallet_seed 20) = Ok (ka, pa)"
    and "bsk_generate K (wallet_seed 21) = Ok (kb, pb)"
  defines "f \<equiv> franken_key pa pb" and "m \<equiv> ascii ''franken probe''"
  shows "\<exists>d p e. sign_message K r ka m = Ok (d @ p @ e) \<and>
    length d = 4627 \<and> length p = 132 \<and> length e = 114 \<and>
    (attack_frankenstein_pubkey K r = Ok () \<longleftrightarrow>
     derive_address (hsh K) f \<noteq> derive_address (hsh K) pa \<and>
     derive_address (hsh K) f \<noteq> derive_address (hsh K) pb \<and>
     \<not> (p521_leg_verify (p5 K) (bpk_p521 pb)
          (curve_msg (keccak256 (hsh K) m) (message_hash K f) CURVE_ID_P521) p = Ok () \<and>
        ed448_verify_with (hsh K) (edr K) (gld K) (bpk_ed448 pb)
          (curve_msg (keccak256 (hsh K) m) (message_hash K f) CURVE_ID_ED448) e = Ok ()))"
proof -
  have pub: "pa = bsk_public ka" by (rule bsk_generate_Ok(2) [OF assms(1,2)])
  have wa: "key_wf K ka" by (rule bsk_generate_wf [OF assms(1,2)])
  have va: "pk_valid K pa" using key_wf_pk_valid [OF assms(1) wa] by (simp add: pub)
  have vb: "pk_valid K pb"
    using key_wf_pk_valid [OF assms(1) bsk_generate_wf [OF assms(1,3)]] bsk_generate_Ok(2) [OF assms(1,3)]
    by simp
  obtain d p e where a: "sign_message K r ka m = Ok (d @ p @ e)"
      and l: "length d = 4627" "length p = 132" "length e = 114"
      and v: "dil_leg_verify (mld K) (bpk_dilithium pa) (keccak256 (hsh K) m) d = Ok ()"
    unfolding pub by (rule signed_message_parts [OF assms(1) wa]) blast
  have b: "bpk_from_bytes K (bpk_dilithium pa @ bpk_p521 pb @ bpk_ed448 pb) = Ok f"
    using franken_key_valid [OF va vb]
    by (simp add: bpk_from_bytes_iff f_def bpk_to_bytes_def)
  have "attack_frankenstein_pubkey K r = Ok () \<longleftrightarrow>
     derive_address (hsh K) f \<noteq> derive_address (hsh K) pa \<and>
     derive_address (hsh K) f \<noteq> derive_address (hsh K) pb \<and>
     composite_verify K f (keccak256 (hsh K) m) (message_hash K f) (d @ p @ e) \<noteq> Ok ()"
    using a b va vb assms(2,3)
    by (auto simp: attack_frankenstein_pubkey_def wallet_def Let_def size_consts pk_valid_def
        m_def [symmetric] assert_that_def assert_err_iff [OF verify_message_panic_free]
        verify_message_accepted simp del: accepted_iff)
  then show ?thesis using a l v by (auto simp: composite_parts [OF l] f_def)
qed

section \<open>Tampering\<close>

text \<open>
  A changed transaction under the old signature, or the old signature under another key, is
  accepted exactly when the composite verifier accepts the old signature for the new hash.
\<close>

lemma signed_sample:
  assumes "crates_laws K C" and "bsk_generate K seed = Ok (k, pub)"
  obtains sig where "sign_transaction K R r k sample_tx = Ok (signed_tx sample_tx pub sig)"
    "recover_sender K R (signed_tx sample_tx pub sig) = Ok (derive_address (hsh K) pub)" "pk_valid K pub"
proof -
  have w: "key_wf K k" by (rule bsk_generate_wf [OF assms])
  have pub: "pub = bsk_public k" by (rule bsk_generate_Ok(2) [OF assms])
  show thesis
    using signed_recovers [OF assms(1) w, of R r sample_tx] key_wf_pk_valid [OF assms(1) w] that
    unfolding pub by blast
qed

lemma attack_tx_tamper_recipient_iff:
  assumes "crates_laws K C" and "bsk_generate K (wallet_seed 30) = Ok (k, pub)"
  shows "\<exists>sig. sign_transaction K R r k sample_tx = Ok (signed_tx sample_tx pub sig) \<and>
    (attack_tx_tamper_recipient K R r = Ok () \<longleftrightarrow>
     composite_verify K pub (signature_hash (hsh K) R (sample_tx\<lparr>tx_to := Some (replicate 20 0xbb)\<rparr>))
       (bound_hash K 1 pub) sig \<noteq> Ok ())"
proof -
  obtain sig where s: "sign_transaction K R r k sample_tx = Ok (signed_tx sample_tx pub sig)"
      "recover_sender K R (signed_tx sample_tx pub sig) = Ok (derive_address (hsh K) pub)" "pk_valid K pub"
    by (rule signed_sample [OF assms])
  let ?t = "(signed_tx sample_tx pub sig)\<lparr>tx_to := Some (replicate 20 0xbb)\<rparr>"
  have h: "signature_hash (hsh K) R ?t =
      signature_hash (hsh K) R (sample_tx\<lparr>tx_to := Some (replicate 20 0xbb)\<rparr>)"
    by (rule signature_hash_unsigned) (simp add: tx_unsigned_def signed_tx_def)
  have c: "recover_sender K R ?t = Ok a \<longleftrightarrow> a = derive_address (hsh K) pub \<and>
      composite_verify K pub (signature_hash (hsh K) R (sample_tx\<lparr>tx_to := Some (replicate 20 0xbb)\<rparr>))
        (bound_hash K 1 pub) sig = Ok ()" for a
    using recover_with_key [OF s(3), of ?t sig R a] h by (simp add: signed_tx_def sample_tx_def)
  have "recover_sender K R ?t = Ok a \<Longrightarrow> a = derive_address (hsh K) pub" for a using c by simp
  note r = reject_same_address [OF recover_sender_panic_free this]
  have "attack_tx_tamper_recipient K R r = Ok () \<longleftrightarrow> \<not> accepted (recover_sender K R ?t)"
    using s(1,2) assms(2)
    by (simp add: attack_tx_tamper_recipient_def wallet_def Let_def r del: accepted_iff)
  with s(1) c show ?thesis by auto
qed

lemma attack_tx_tamper_value_iff:
  assumes "crates_laws K C" and "bsk_generate K (wallet_seed 31) = Ok (k, pub)"
  shows "\<exists>sig. sign_transaction K R r k sample_tx = Ok (signed_tx sample_tx pub sig) \<and>
    (attack_tx_tamper_value K R r = Ok () \<longleftrightarrow>
     composite_verify K pub (signature_hash (hsh K) R (sample_tx\<lparr>tx_value := 999999999\<rparr>))
       (bound_hash K 1 pub) sig \<noteq> Ok ())"
proof -
  obtain sig where s: "sign_transaction K R r k sample_tx = Ok (signed_tx sample_tx pub sig)"
      "recover_sender K R (signed_tx sample_tx pub sig) = Ok (derive_address (hsh K) pub)" "pk_valid K pub"
    by (rule signed_sample [OF assms])
  let ?t = "(signed_tx sample_tx pub sig)\<lparr>tx_value := 999999999\<rparr>"
  have h: "signature_hash (hsh K) R ?t = signature_hash (hsh K) R (sample_tx\<lparr>tx_value := 999999999\<rparr>)"
    by (rule signature_hash_unsigned) (simp add: tx_unsigned_def signed_tx_def)
  have c: "recover_sender K R ?t = Ok a \<longleftrightarrow> a = derive_address (hsh K) pub \<and>
      composite_verify K pub (signature_hash (hsh K) R (sample_tx\<lparr>tx_value := 999999999\<rparr>))
        (bound_hash K 1 pub) sig = Ok ()" for a
    using recover_with_key [OF s(3), of ?t sig R a] h by (simp add: signed_tx_def sample_tx_def)
  have "recover_sender K R ?t = Ok a \<Longrightarrow> a = derive_address (hsh K) pub" for a using c by simp
  note r = reject_same_address [OF recover_sender_panic_free this]
  have "attack_tx_tamper_value K R r = Ok () \<longleftrightarrow> \<not> accepted (recover_sender K R ?t)"
    using s(1,2) assms(2)
    by (simp add: attack_tx_tamper_value_def wallet_def Let_def r del: accepted_iff)
  with s(1) c show ?thesis by auto
qed

lemma attack_tx_swapped_pubkey_iff:
  assumes "crates_laws K C" and "bsk_generate K (wallet_seed 32) = Ok (ka, pa)"
    and "bsk_generate K (wallet_seed 33) = Ok (kb, pb)"
  shows "\<exists>sig. sign_transaction K R r ka sample_tx = Ok (signed_tx sample_tx pa sig) \<and>
    (attack_tx_swapped_pubkey K R r = Ok () \<longleftrightarrow>
     composite_verify K pb (signature_hash (hsh K) R sample_tx) (bound_hash K 1 pb) sig \<noteq> Ok ())"
proof -
  obtain sig where s: "sign_transaction K R r ka sample_tx = Ok (signed_tx sample_tx pa sig)"
    by (rule signed_sample [OF assms(1,2)])
  have v: "pk_valid K pb"
    using key_wf_pk_valid [OF assms(1) bsk_generate_wf [OF assms(1,3)]] bsk_generate_Ok(2) [OF assms(1,3)]
    by simp
  have t: "(signed_tx sample_tx pa sig)\<lparr>tx_pub_key := Some (bpk_to_bytes pb)\<rparr> = signed_tx sample_tx pb sig"
    by (simp add: signed_tx_def)
  have h: "signature_hash (hsh K) R (signed_tx sample_tx pb sig) = signature_hash (hsh K) R sample_tx"
    by (rule signature_hash_unsigned) simp
  have c: "recover_sender K R (signed_tx sample_tx pb sig) = Ok a \<longleftrightarrow> a = derive_address (hsh K) pb \<and>
      composite_verify K pb (signature_hash (hsh K) R sample_tx) (bound_hash K 1 pb) sig = Ok ()" for a
    using recover_with_key [OF v, of "signed_tx sample_tx pb sig" sig R a] h by (simp add: sample_tx_def)
  have "attack_tx_swapped_pubkey K R r = Ok () \<longleftrightarrow> \<not> accepted (recover_sender K R (signed_tx sample_tx pb sig))"
    using s assms(2,3) by (simp add: attack_tx_swapped_pubkey_def wallet_def t
        assert_err_iff [OF recover_sender_panic_free])
  with s c show ?thesis by auto
qed

section \<open>Malformed input\<close>

lemma attack_rlp_trailing_bytes_passes:
  assumes "rlp_laws R"
  shows "attack_rlp_trailing_bytes R = Ok ()"
proof -
  have f: "tx_fits R sample_tx"
    by (rule tx_small_fits [OF assms]) (simp add: tx_small_def tx_typed_def sample_tx_def default_to_def)
  have n: "tx_normal sample_tx = sample_tx"
    by (simp add: tx_normal_def sample_tx_def has_signature_def)
  have d: "tx_decode R (tx_encode R sample_tx @ [0xde, 0xad]) = Ok (sample_tx, [0xde, 0xad])"
    using tx_decode_encode [OF assms f, of "[0xde, 0xad]"] unfolding n .
  show ?thesis unfolding attack_rlp_trailing_bytes_def Let_def d
    by simp (simp add: sample_tx_def)
qed

lemma attack_rlp_oversized_to_passes:
  assumes "rlp_laws R"
  shows "attack_rlp_oversized_to R = Ok ()"
proof -
  note r = rlp_u64.round_trip [OF assms] rlp_u256.round_trip [OF assms] rlp_bytes.round_trip [OF assms]
  let ?tail = "r_u256_enc R 0 @ r_bytes_enc R []"
  let ?body = "r_u64_enc R 1 @ r_u64_enc R 0 @ r_u256_enc R 0 @ r_u256_enc R 0 @ r_u64_enc R 0
      @ r_bytes_enc R (replicate 21 0x11) @ ?tail"
  have f: "rlp_fits R (replicate 21 0x11)" "rlp_fits R []" by (simp_all add: rlp_fits_def)
  have "length ?body \<le> 3 * 9 + 3 * 33 + (9 + 21) + 9"
    using rlp_lawsD(13) [OF assms, of 1] rlp_lawsD(13) [OF assms, of 0] rlp_lawsD(14) [OF assms, of 0]
      rlp_lawsD(15) [OF assms f(1)] rlp_lawsD(15) [OF assms f(2)]
    by (simp add: rlp_lawsD(6-8) [OF assms])
  then have n: "length ?body < 2 ^ 63" by (rule le_less_trans) simp
  have "tx_decode_fields R ?body = Error UnexpectedLength"
    using r(3) [OF f(1), of ?tail] by (simp add: tx_decode_fields_def r(1,2) decode_to_def)
  moreover have "r_header_dec R (r_header_enc R True (length ?body) @ ?body) =
      Inr ((True, length ?body), ?body)"
    by (rule rlp_lawsD(11) [OF assms n]) simp
  ultimately have "tx_decode R (r_header_enc R True (length ?body) @ ?body) = Error UnexpectedLength"
    by (simp add: tx_decode_def Let_def)
  then show ?thesis
    by (simp add: attack_rlp_oversized_to_def Let_def assert_err_iff [OF tx_decode_panic_free])
qed

lemma split_join_spaces:
  assumes "\<forall>w\<in>set ws. w \<noteq> [] \<and> (\<forall>c\<in>set (lit w). \<not> is_whitespace c)"
  shows "split_whitespace (join_spaces ws) = map lit ws"
  using assms
proof (induction ws rule: join_spaces.induct)
  case (2 w)
  then show ?case by (simp add: split_whitespace_def split_on_none) (simp add: lit_def)
next
  case (3 w v vs)
  have "is_whitespace 32" by (simp add: is_whitespace_def)
  then have "split_on is_whitespace (join_spaces (w # v # vs)) =
      lit w # split_on is_whitespace (join_spaces (v # vs))"
    using 3 by (simp add: split_on_join)
  with 3 show ?case by (simp add: split_whitespace_def) (simp add: lit_def)
qed (simp add: split_whitespace_def)

lemma bip39_words:
  "length (split_whitespace (join_spaces (replicate 24 ''abandon''))) = 24"
  "length (split_whitespace (join_spaces (replicate 11 ''abandon'' @ [''about'']))) = 12"
proof -
  have "\<forall>c\<in>set (lit w). \<not> is_whitespace c" if "w \<in> {''abandon'', ''about''}" for w
    using that by (auto simp: lit_def is_whitespace_def)
  then show "length (split_whitespace (join_spaces (replicate 24 ''abandon''))) = 24"
    and "length (split_whitespace (join_spaces (replicate 11 ''abandon'' @ [''about'']))) = 12"
    by (subst split_join_spaces; auto)+
qed

lemma attack_bip39_phrase_iff:
  "attack_bip39_phrase M phrase = Ok () \<longleftrightarrow> \<not> validate_mnemonic M phrase"
  using validate_iff_seed [of M phrase "[]"]
  by (simp add: attack_bip39_phrase_def assert_err_iff [OF seed_from_mnemonic_panic_free])

lemma attack_bip39_wrong_word_count_passes: "attack_bip39_wrong_word_count M = Ok ()"
  by (simp only: attack_bip39_wrong_word_count_def Let_def attack_bip39_phrase_iff)
    (simp add: validate_mnemonic_def bip39_words size_consts)

lemma attack_bip39_bad_checksum_iff:
  "attack_bip39_bad_checksum M = Ok () \<longleftrightarrow> isl (m_parse M (join_spaces (replicate 24 ''abandon'')))"
  by (simp only: attack_bip39_bad_checksum_def Let_def attack_bip39_phrase_iff)
    (simp only: validate_mnemonic_def bip39_words size_consts Let_def, simp split: sum.split)

lemma attack_bip32_nonhardened_iff:
  "attack_bip32_nonhardened X = Ok () \<longleftrightarrow> accepted (derive_child_seed X (replicate 64 7) [0x8000002C])"
proof -
  have "\<not> accepted (derive_child_seed X s [w])" if "w < 0x80000000" for s w
    using check_hardened_first [of "[]" w 0 "[]"] that by (simp add: derive_child_seed_def)
  from this [of 0 "replicate 64 7"] this [of 44 "replicate 64 7"] show ?thesis
    by (simp add: attack_bip32_nonhardened_def assert_err_iff [OF derive_child_seed_panic_free]
        assert_ok_iff)
qed

lemma attack_short_seed_iff:
  "attack_short_seed K = Ok () \<longleftrightarrow> accepted (bsk_generate K (replicate 64 0))"
proof -
  have "bsk_generate K (replicate n 0) = Error (SeedError
      [Str ''seed must be at least 64 bytes for BlackChain key derivation''])" if "n < 64" for n
    using that by (simp add: bsk_generate_def)
  from this [of 32] this [of 63] show ?thesis
    by (simp add: attack_short_seed_def assert_err_def assert_ok_iff del: accepted_iff)
qed

lemma attack_kdf_domain_separation_iff:
  assumes "hash_laws H"
  shows "attack_kdf_domain_separation H = Ok () \<longleftrightarrow>
    hkdf_sha3_512 H None (shake256 H (replicate 16 0x33 @ [1]) 32) [] 32 \<noteq>
    hkdf_sha3_512 H None (shake256 H (replicate 16 0x33 @ [2]) 32) [] 32"
proof -
  obtain a b where
    "hkdf_sha3_512 H None (shake256 H (replicate 16 0x33 @ [1]) 32) [] 32 = Some a"
    "hkdf_sha3_512 H None (shake256 H (replicate 16 0x33 @ [2]) 32) [] 32 = Some b"
    using hash_lawsD(5) [OF assms, of 32] by fastforce
  then show ?thesis
    by (simp add: attack_kdf_domain_separation_def Let_def derive_mdecc_curve_seed_def
        CURVE_ID_P521_def CURVE_ID_ED448_def)
qed

lemma attack_zero_keys:
  assumes "p_vk_from_sec1_bytes (p5 K) (replicate 133 0) = Inl e"
  shows "attack_all_zero_pubkey K = Ok ()" and "attack_all_zero_p521_pubkey (p5 K) = Ok ()"
proof -
  have z: "bpk_p521 pk = replicate 133 0" if "bpk_to_bytes pk = replicate 2782 0" "pk_valid K pk" for pk
  proof -
    have "bpk_p521 pk = take 133 (drop 2592 (bpk_to_bytes pk))"
      using that(2) by (simp add: bpk_to_bytes_def pk_valid_def)
    then show ?thesis using that(1) by simp
  qed
  have p: "\<not> accepted (p521_pk_from_bytes (p5 K) (replicate 133 0))"
    using assms by (simp add: p521_pk_from_bytes_def)
  have "\<not> pk_valid K pk" if "bpk_to_bytes pk = replicate 2782 0" for pk
    using z [OF that] p by (auto simp: pk_valid_def)
  then have "\<not> accepted (bpk_from_bytes K (replicate 2782 0))"
    by (auto simp: bpk_from_bytes_iff)
  then show "attack_all_zero_pubkey K = Ok ()"
    by (simp add: attack_all_zero_pubkey_def size_consts Let_def assert_err_iff [OF bpk_from_bytes_panic_free])
  show "attack_all_zero_p521_pubkey (p5 K) = Ok ()"
    using p by (simp add: attack_all_zero_p521_pubkey_def size_consts
        assert_err_iff [OF p521_pk_from_bytes_panic_free])
qed

lemma attack_wrong_length_pubkey_passes: "attack_wrong_length_pubkey K = Ok ()"
  by (simp add: attack_wrong_length_pubkey_def size_consts Let_def bpk_from_bytes_def assert_err_def)

end
