(* ===== verification/Rlp_Std.thy ===== *)
theory Rlp_Std
  imports Rlp
begin

text \<open>
  The item codecs of RLP as the Ethereum specification has them: a string or list of at most 55
  bytes has its length in the first byte, a longer one has the length of its length there and then
  the length itself, a byte below 128 is its own encoding, and a number is the string of its digits
  to the base 256 without leading zeros.  The decoders refuse every other form.  They keep the laws
  that are assumed of \<^verbatim>\<open>alloy-rlp\<close>, which are therefore laws of this format, and the witnesses of
  the properties run on them.
\<close>

section \<open>Numbers without leading zeros\<close>

function be_min :: "nat \<Rightarrow> bytes" where
  "be_min n = (if n = 0 then [] else be_min (n div 256) @ [word_of_nat n])"
  by auto
termination by (relation "measure id") auto

declare be_min.simps [simp del]

lemma be_min_0 [simp]: "be_min 0 = []"
  by (simp add: be_min.simps)

lemma be_min_pos: "0 < n \<Longrightarrow> be_min n = be_min (n div 256) @ [word_of_nat n]"
  by (subst be_min.simps) simp

lemma be_nat_append_one: "be_nat (bs @ [b]) = unat b + 256 * be_nat bs"
  by (simp add: be_nat_def)

lemma unat_of_byte: "unat (word_of_nat n :: byte) = n mod 256"
  by (simp add: unsigned_of_nat take_bit_eq_mod)

lemma be_nat_be_min [simp]: "be_nat (be_min n) = n"
proof (induction n rule: be_min.induct)
  case (1 n)
  then show ?case
    by (cases "n = 0") (simp_all add: be_nat_def [of "[]"] be_min_pos be_nat_append_one unat_of_byte)
qed

lemma be_min_Nil_iff [simp]: "be_min n = [] \<longleftrightarrow> n = 0"
  by (cases "n = 0") (simp_all add: be_min_pos)

lemma be_min_hd: "0 < n \<Longrightarrow> hd (be_min n) \<noteq> 0"
proof (induction n rule: be_min.induct)
  case (1 n)
  show ?case
  proof (cases "n div 256 = 0")
    case True
    then have "n < 256" by (simp add: div_eq_0_iff)
    then have "unat (word_of_nat n :: byte) = n" by (simp add: unat_of_byte)
    then have "(word_of_nat n :: byte) \<noteq> 0" using 1(2) by (metis unsigned_0 less_numeral_extra(3))
    then show ?thesis using True 1(2) by (simp add: be_min_pos)
  next
    case False
    then show ?thesis using 1 by (simp add: be_min_pos [of n])
  qed
qed

lemma be_min_be_nat: "ds = [] \<or> hd ds \<noteq> 0 \<Longrightarrow> be_min (be_nat ds) = ds"
proof (induction ds rule: rev_induct)
  case Nil
  then show ?case by (simp add: be_nat_def)
next
  case (snoc d ds)
  have w: "(word_of_nat (unat d + 256 * m) :: byte) = d" for m
    by (rule word_unat_eq_iff [THEN iffD2]) (simp only: unat_of_byte, simp)
  have pos: "0 < unat d + 256 * be_nat ds"
  proof (cases ds)
    case Nil
    then show ?thesis using snoc.prems by (simp add: unat_gt_0)
  next
    case (Cons a as)
    then have "be_nat ds \<noteq> 0"
      using snoc.prems by (auto simp: be_nat_def le_nat_zero_iff)
    then show ?thesis by simp
  qed
  have "be_min (be_nat ds) = ds" using snoc by (cases ds) auto
  moreover have "(unat d + 256 * be_nat ds) div 256 = be_nat ds" by simp
  ultimately show ?case by (simp only: be_nat_append_one be_min_pos [OF pos] w)
qed

lemma be_min_length: "length (be_min n) \<le> k \<longleftrightarrow> n < 256 ^ k"
proof
  show "n < 256 ^ k" if "length (be_min n) \<le> k"
    using less_le_trans [OF be_nat_less [of "be_min n"] power_increasing [OF that, of "256 :: nat"]] by simp
next
  show "n < 256 ^ k \<Longrightarrow> length (be_min n) \<le> k"
  proof (induction k arbitrary: n)
    case (Suc k)
    then have "n div 256 < 256 ^ k" by (simp add: div_less_iff_less_mult mult.commute)
    then show ?case using Suc.IH [of "n div 256"] by (cases "n = 0") (simp_all add: be_min_pos)
  qed simp
qed

section \<open>Headers\<close>

definition rlp_base :: "bool \<Rightarrow> nat" where
  "rlp_base is_list = (if is_list then 192 else 128)"

definition rlp_header :: "bool \<Rightarrow> nat \<Rightarrow> bytes" where
  "rlp_header is_list n =
     (if n \<le> 55 then [word_of_nat (rlp_base is_list + n)]
      else word_of_nat (rlp_base is_list + 55 + length (be_min n)) # be_min n)"

definition rlp_length_of_length :: "nat \<Rightarrow> nat" where
  "rlp_length_of_length n = (if n \<le> 55 then 1 else 1 + length (be_min n))"

definition rlp_long :: "bool \<Rightarrow> nat \<Rightarrow> bytes \<Rightarrow> rlp_error + ((bool \<times> nat) \<times> bytes)" where
  "rlp_long is_list k t =
     (if length t < k then Inl InputTooShort
      else if take k t \<noteq> [] \<and> hd (take k t) = 0 then Inl (Rlp_Other ''leading zero'')
      else if be_nat (take k t) < 56 then Inl (Rlp_Other ''non-canonical size'')
      else Inr ((is_list, be_nat (take k t)), drop k t))"

definition rlp_first :: "byte \<Rightarrow> bytes \<Rightarrow> rlp_error + ((bool \<times> nat) \<times> bytes)" where
  "rlp_first p t =
     (let k = unat p in
      if k < 128 then Inr ((False, 1), p # t)
      else if k < 184 then
        if k = 129 \<and> t \<noteq> [] \<and> unat (hd t) < 128 then Inl (Rlp_Other ''non-canonical single byte'')
        else Inr ((False, k - 128), t)
      else if k < 192 then rlp_long False (k - 183) t
      else if k < 248 then Inr ((True, k - 192), t)
      else rlp_long True (k - 247) t)"

definition rlp_header_dec :: "bytes \<Rightarrow> rlp_error + ((bool \<times> nat) \<times> bytes)" where
  "rlp_header_dec b =
     (case b of
        [] \<Rightarrow> Inl InputTooShort
      | p # t \<Rightarrow> (case rlp_first p t of
          Inl e \<Rightarrow> Inl e
        | Inr ((is_list, n), r) \<Rightarrow>
            if length r < n then Inl InputTooShort else Inr ((is_list, n), r)))"

text \<open>A string of one byte below 128 has no header.\<close>

definition lone_byte :: "bytes \<Rightarrow> bool" where
  "lone_byte b \<longleftrightarrow> b \<noteq> [] \<and> unat (hd b) < 128"

lemma rlp_header_length: "length (rlp_header l n) = rlp_length_of_length n"
  by (simp add: rlp_header_def rlp_length_of_length_def)

lemma rlp_header_round:
  assumes "n < 2 ^ 64" "n \<le> length t" "l \<or> n \<noteq> 1 \<or> \<not> lone_byte t"
  shows "rlp_header_dec (rlp_header l n @ t) = Inr ((l, n), t)"
proof (cases "n \<le> 55")
  case True
  then have "unat (word_of_nat (rlp_base l + n) :: byte) = rlp_base l + n"
    by (simp only: unat_of_byte) (simp add: rlp_base_def)
  then show ?thesis
    using True assms(2,3) by (auto simp: rlp_header_dec_def rlp_header_def rlp_first_def Let_def rlp_base_def
        lone_byte_def)
next
  case False
  let ?k = "length (be_min n)"
  have "n < 256 ^ 8" using assms(1) by simp
  then have k: "?k \<le> 8" "0 < ?k" using False be_min_length [of n 8] by auto
  then have "unat (word_of_nat (rlp_base l + 55 + ?k) :: byte) = rlp_base l + 55 + ?k"
    by (simp only: unat_of_byte) (simp add: rlp_base_def)
  moreover have "rlp_long l ?k (be_min n @ t) = Inr ((l, n), t)"
    using False be_min_hd [of n] by (simp add: rlp_long_def)
  ultimately show ?thesis
    using False k assms(2)
    by (cases l) (simp_all add: rlp_header_dec_def rlp_header_def rlp_first_def Let_def rlp_base_def)
qed

lemma rlp_long_Inr:
  assumes "rlp_long l k t = Inr ((l', n), r)" "0 < k"
  shows "l' = l \<and> 55 < n \<and> length (be_min n) = k \<and> t = be_min n @ r"
proof -
  have n: "l' = l" "n = be_nat (take k t)" "r = drop k t" "k \<le> length t" "55 < n"
      "take k t = [] \<or> hd (take k t) \<noteq> 0"
    using assms(1) by (auto simp: rlp_long_def split: if_splits)
  then have "be_min n = take k t" using be_min_be_nat by blast
  then show ?thesis using n by simp
qed

lemma rlp_header_canonical:
  assumes "rlp_header_dec b = Inr ((l, n), t)"
  shows "n \<le> length t \<and> (\<not> l \<and> n = 1 \<and> t = b \<and> lone_byte b \<or>
    b = rlp_header l n @ t \<and> (l \<or> n \<noteq> 1 \<or> \<not> lone_byte t))"
proof -
  obtain p u where b: "b = p # u" using assms by (cases b) (auto simp: rlp_header_dec_def)
  have f: "rlp_first p u = Inr ((l, n), t)" "n \<le> length t"
    using assms by (auto simp: b rlp_header_dec_def split: sum.splits prod.splits if_splits)
  have p: "word_of_nat (unat p) = p" by simp
  have k: "unat p < 256" by simp
  consider "unat p < 128" | "128 \<le> unat p" "unat p < 184" | "184 \<le> unat p" "unat p < 192"
    | "192 \<le> unat p" "unat p < 248" | "248 \<le> unat p" by linarith
  then show ?thesis
  proof cases
    case 1
    then show ?thesis using f by (auto simp: rlp_first_def Let_def b lone_byte_def)
  next
    case 2
    then have "\<not> l" "n = unat p - 128" "t = u" "\<not> (unat p = 129 \<and> lone_byte u)"
      using f(1) by (auto simp: rlp_first_def Let_def lone_byte_def split: if_splits)
    moreover have "unat p = 128 + (unat p - 128)" using 2 by simp
    ultimately show ?thesis
      using f(2) 2 p by (auto simp: b rlp_header_def rlp_base_def)
  next
    case 3
    then have "rlp_long False (unat p - 183) u = Inr ((l, n), t)" using f(1) by (simp add: rlp_first_def Let_def)
    from rlp_long_Inr [OF this] have "\<not> l" "55 < n" "length (be_min n) = unat p - 183" "u = be_min n @ t"
      using 3 by auto
    moreover from this(3) have "183 + length (be_min n) = unat p" using 3 by simp
    ultimately show ?thesis using f(2) p by (simp add: b rlp_header_def rlp_base_def)
  next
    case 4
    then have "l" "n = unat p - 192" "t = u" using f(1) by (auto simp: rlp_first_def Let_def)
    moreover from this have "n \<le> 55" "192 + n = unat p" using 4 by simp_all
    ultimately show ?thesis using f(2) p by (simp add: b rlp_header_def rlp_base_def)
  next
    case 5
    then have "rlp_long True (unat p - 247) u = Inr ((l, n), t)" using f(1) by (simp add: rlp_first_def Let_def)
    from rlp_long_Inr [OF this] have "l" "55 < n" "length (be_min n) = unat p - 247" "u = be_min n @ t"
      using 5 by auto
    moreover from this(3) have "247 + length (be_min n) = unat p" using 5 by simp
    ultimately show ?thesis using f(2) p by (simp add: b rlp_header_def rlp_base_def)
  qed
qed

section \<open>Strings and numbers\<close>

definition rlp_str :: "bytes \<Rightarrow> bytes" where
  "rlp_str b = (if length b = 1 \<and> lone_byte b then b else rlp_header False (length b) @ b)"

definition rlp_str_len :: "bytes \<Rightarrow> nat" where
  "rlp_str_len b = (if length b = 1 \<and> lone_byte b then 1 else rlp_length_of_length (length b) + length b)"

definition rlp_str_dec :: "bytes \<Rightarrow> rlp_error + (bytes \<times> bytes)" where
  "rlp_str_dec b =
     (case rlp_header_dec b of
        Inl e \<Rightarrow> Inl e
      | Inr ((is_list, n), r) \<Rightarrow>
          if is_list then Inl (Rlp_Other ''unexpected list'') else Inr (take n r, drop n r))"

text \<open>A number of at most \<open>k\<close> bytes.\<close>

definition rlp_num_dec :: "nat \<Rightarrow> bytes \<Rightarrow> rlp_error + (nat \<times> bytes)" where
  "rlp_num_dec k b =
     (case rlp_str_dec b of
        Inl e \<Rightarrow> Inl e
      | Inr (ds, r) \<Rightarrow>
          if k < length ds then Inl (Rlp_Other ''overflow'')
          else if ds \<noteq> [] \<and> hd ds = 0 then Inl (Rlp_Other ''leading zero'')
          else Inr (be_nat ds, r))"

lemma rlp_str_length: "length (rlp_str b) = rlp_str_len b"
  by (simp add: rlp_str_def rlp_str_len_def rlp_header_length)

lemma rlp_str_not_empty: "rlp_str b \<noteq> []"
  by (auto simp: rlp_str_def rlp_header_def lone_byte_def)

lemma rlp_str_round:
  assumes "length b < 2 ^ 64"
  shows "rlp_str_dec (rlp_str b @ rest) = Inr (b, rest)"
proof (cases "length b = 1 \<and> lone_byte b")
  case True
  then obtain x where "b = [x]" "unat x < 128" by (cases b) (auto simp: lone_byte_def)
  then show ?thesis
    by (simp add: rlp_str_def rlp_str_dec_def rlp_header_dec_def rlp_first_def Let_def lone_byte_def)
next
  case False
  then have "length b \<noteq> 1 \<or> \<not> lone_byte (b @ rest)" by (cases b) (auto simp: lone_byte_def)
  then have "rlp_header_dec (rlp_header False (length b) @ b @ rest) = Inr ((False, length b), b @ rest)"
    using assms by (intro rlp_header_round) auto
  moreover have "rlp_str b = rlp_header False (length b) @ b"
    unfolding rlp_str_def using False by (rule if_not_P)
  ultimately show ?thesis by (simp add: rlp_str_dec_def)
qed

lemma rlp_str_canonical:
  assumes "rlp_str_dec x = Inr (b, rest)"
  shows "x = rlp_str b @ rest"
proof -
  obtain n r where h: "rlp_header_dec x = Inr ((False, n), r)" "b = take n r" "rest = drop n r"
    using assms by (auto simp: rlp_str_dec_def split: sum.splits prod.splits if_splits)
  note c = rlp_header_canonical [OF h(1)]
  have l: "length b = n" using c h(2) by simp
  from c consider "n = 1" "r = x" "lone_byte x" | "x = rlp_header False n @ r" "n \<noteq> 1 \<or> \<not> lone_byte r"
    by blast
  then show ?thesis
  proof cases
    case 1
    then have "lone_byte b" "b @ rest = x" using h(2,3) by (auto simp: lone_byte_def)
    then show ?thesis using l 1(1) by (simp add: rlp_str_def)
  next
    case 2
    then have "\<not> (length b = 1 \<and> lone_byte b)" using h(2) l by (auto simp: lone_byte_def)
    then have "rlp_str b = rlp_header False (length b) @ b" unfolding rlp_str_def by (rule if_not_P)
    then show ?thesis using 2(1) h(2,3) l by simp
  qed
qed

lemma rlp_num_round:
  assumes "n < 256 ^ k" "k \<le> 32"
  shows "rlp_num_dec k (rlp_str (be_min n) @ rest) = Inr (n, rest)"
proof -
  have l: "length (be_min n) \<le> k" using assms(1) be_min_length by blast
  then have "rlp_str_dec (rlp_str (be_min n) @ rest) = Inr (be_min n, rest)"
    using assms(2) by (intro rlp_str_round) simp
  then show ?thesis using l be_min_hd [of n] by (auto simp: rlp_num_dec_def)
qed

lemma rlp_num_canonical:
  assumes "rlp_num_dec k x = Inr (n, rest)"
  shows "x = rlp_str (be_min n) @ rest \<and> n < 256 ^ k"
proof -
  obtain ds where d: "rlp_str_dec x = Inr (ds, rest)" "length ds \<le> k" "ds = [] \<or> hd ds \<noteq> 0" "n = be_nat ds"
    using assms by (auto simp: rlp_num_dec_def split: sum.splits prod.splits if_splits)
  then show ?thesis
    using rlp_str_canonical [OF d(1)] be_min_be_nat [OF d(3)] be_min_length [of n k] by simp_all
qed

lemma rlp_str_len_bounds:
  "length b \<le> rlp_str_len b"
  "length b < 2 ^ 63 \<Longrightarrow> rlp_str_len b \<le> 9 + length b"
  "length b \<le> 55 \<Longrightarrow> rlp_str_len b \<le> 1 + length b"
  using be_min_length [of "length b" 8]
  by (auto simp: rlp_str_len_def rlp_length_of_length_def)

section \<open>The codecs of the fields\<close>

definition rlp_ref :: rlp_crate where
  "rlp_ref =
     \<lparr>r_u64_enc = (\<lambda>w. rlp_str (be_min (unat w))), r_u64_len = (\<lambda>w. rlp_str_len (be_min (unat w))),
      r_u64_dec = (\<lambda>b. case rlp_num_dec 8 b of Inl e \<Rightarrow> Inl e | Inr (n, r) \<Rightarrow> Inr (word_of_nat n, r)),
      r_u256_enc = (\<lambda>w. rlp_str (be_min (unat w))), r_u256_len = (\<lambda>w. rlp_str_len (be_min (unat w))),
      r_u256_dec = (\<lambda>b. case rlp_num_dec 32 b of Inl e \<Rightarrow> Inl e | Inr (n, r) \<Rightarrow> Inr (word_of_nat n, r)),
      r_bytes_enc = rlp_str, r_bytes_len = rlp_str_len, r_bytes_dec = rlp_str_dec,
      r_addr_enc = rlp_str, r_addr_len = rlp_str_len,
      r_slice_enc = rlp_str, r_slice_len = rlp_str_len,
      r_header_enc = rlp_header, r_header_dec = rlp_header_dec,
      r_length_of_length = rlp_length_of_length\<rparr>"

lemma word_item_laws:
  assumes "LENGTH('l::len) = 8 * k" "k \<le> 32"
    and dec: "\<And>b. dec b = (case rlp_num_dec k b of Inl e \<Rightarrow> Inl e | Inr (n, r) \<Rightarrow> Inr (word_of_nat n, r))"
  shows "item_laws (\<lambda>_. True) (\<lambda>w :: 'l word. rlp_str (be_min (unat w)))
    (\<lambda>w. rlp_str_len (be_min (unat w))) dec"
proof -
  have p: "(256 :: nat) ^ k = 2 ^ LENGTH('l)" by (simp add: assms(1) power_mult)
  have u: "unat w < 256 ^ k" for w :: "'l word" unfolding p by (rule unsigned_less)
  have n: "unat (word_of_nat n :: 'l word) = n" if "n < 256 ^ k" for n
    using that unfolding p by (simp add: unsigned_of_nat take_bit_nat_eq_self_iff)
  show ?thesis
    unfolding item_laws_def dec
    by (auto simp: rlp_num_round [OF u assms(2)] rlp_str_length rlp_str_not_empty n
        dest!: rlp_num_canonical split: sum.splits)
qed

lemma word_item_len:
  fixes w :: "'l::len word"
  assumes "LENGTH('l) = 8 * k" "k \<le> 32"
  shows "rlp_str_len (be_min (unat w)) \<le> 1 + k"
proof -
  have "unat w < 256 ^ k" using unsigned_less [of w] by (simp add: assms(1) power_mult)
  then have "length (be_min (unat w)) \<le> k" using be_min_length by blast
  then show ?thesis using rlp_str_len_bounds(3) [of "be_min (unat w)"] assms(2) by simp
qed

lemma rlp_ref_laws: "rlp_laws rlp_ref"
proof -
  have i64: "item_laws (\<lambda>_. True) (r_u64_enc rlp_ref) (r_u64_len rlp_ref) (r_u64_dec rlp_ref)"
    unfolding rlp_ref_def rlp_crate.simps by (rule word_item_laws [where k = 8]) simp_all
  have i256: "item_laws (\<lambda>_. True) (r_u256_enc rlp_ref) (r_u256_len rlp_ref) (r_u256_dec rlp_ref)"
    unfolding rlp_ref_def rlp_crate.simps by (rule word_item_laws [where k = 32]) simp_all
  have ib: "item_laws (rlp_fits rlp_ref) (r_bytes_enc rlp_ref) (r_bytes_len rlp_ref) (r_bytes_dec rlp_ref)"
    by (auto simp: item_laws_def rlp_ref_def rlp_fits_def rlp_str_round rlp_str_length rlp_str_not_empty
        dest: rlp_str_canonical)
  have h: "b = rlp_header True n @ rest" if "rlp_header_dec b = Inr ((True, n), rest)" for b n rest
    using rlp_header_canonical [OF that] by auto
  show ?thesis
    unfolding rlp_laws_def
    by (intro conjI i64 i256 ib)
      (use word_item_len [where 'l = 64 and k = 8] word_item_len [where 'l = 256 and k = 32] in
        \<open>auto simp: rlp_ref_def rlp_fits_def rlp_str_len_bounds rlp_header_length rlp_header_round
          rlp_length_of_length_def h\<close>)
qed

end
