(* ===== verification/Reference.thy ===== *)
theory Reference
  imports Fuzz Demo Self_Tests Attacks Rlp_Std
begin

text \<open>
  A concrete instance of every crate that is a parameter of the model, with the proof that it
  satisfies what is assumed of the crate.  The instances are toys (a signature is a checksum
  under the key byte, the Edwards group is the integers modulo 256), but for the RLP codecs, which
  are the real ones (\<open>Rlp_Std\<close>); the witnesses of the properties evaluate the theorems on them, so that no hypothesis is vacuous.
\<close>

section \<open>Fixed-width numbers\<close>

fun be_fix :: "nat \<Rightarrow> nat \<Rightarrow> bytes" where
  "be_fix 0 n = []"
| "be_fix (Suc k) n = be_fix k (n div 256) @ [word_of_nat n]"

lemma length_be_fix [simp]: "length (be_fix k n) = k"
  by (induction k arbitrary: n) simp_all

lemma be_nat_snoc: "be_nat (bs @ [b]) = unat b + 256 * be_nat bs"
  by (simp add: be_nat_def)

lemma unat_byte_of_nat [simp]: "unat (word_of_nat n :: byte) = n mod 256"
  by (simp add: unsigned_of_nat take_bit_eq_mod)

lemma be_nat_be_fix: "be_nat (be_fix k n) = n mod 256 ^ k"
proof (induction k arbitrary: n)
  case 0
  then show ?case by (simp add: be_nat_def)
next
  case (Suc k)
  have "n mod (256 * 256 ^ k) = 256 * (n div 256 mod 256 ^ k) + n mod 256"
    by (rule mod_mult2_eq)
  then show ?case using Suc by (simp add: be_nat_snoc)
qed

lemma be_fix_be_nat: "length bs = k \<Longrightarrow> be_fix k (be_nat bs) = bs"
proof (induction k arbitrary: bs)
  case 0
  then show ?case by simp
next
  case (Suc k)
  then obtain cs c where bs: "bs = cs @ [c]" by (metis length_Suc_conv_rev)
  have "(unat c + 256 * be_nat cs) div 256 = be_nat cs" by simp
  moreover have "(word_of_nat (unat c + 256 * be_nat cs) :: byte) = c"
    by (rule word_unat_eq_iff [THEN iffD2]) (simp only: unat_byte_of_nat, simp)
  ultimately show ?case using Suc by (simp add: bs be_nat_snoc)
qed

section \<open>ML-DSA\<close>

definition ml_dsa_ref :: "(byte, bytes, byte) ml_dsa" where
  "ml_dsa_ref =
     \<lparr>d_b32 = (\<lambda>b. if length b = 32 then Some b else None),
      d_from_seed = (\<lambda>b. b),
      d_to_seed = (\<lambda>k. take 32 (k @ replicate 32 0)),
      d_verifying_key = (\<lambda>k. sum_list k),
      d_encoded_vk = (\<lambda>b. if length b = 2592 then Some b else None),
      d_decode_vk = hd,
      d_encode_vk = (\<lambda>v. v # replicate 2591 0),
      d_try_sign = (\<lambda>k m. Inr (sum_list k + sum_list m)),
      d_encode_sig = (\<lambda>g. g # replicate 4626 0),
      d_decode_sig = (\<lambda>b. Inr (hd b)),
      d_verify_with_context = (\<lambda>v m ctx g. g = v + sum_list m)\<rparr>"

lemma ml_dsa_ref_laws: "ml_dsa_laws ml_dsa_ref"
  by (auto simp: ml_dsa_laws_def ml_dsa_ref_def min_def)

section \<open>P-521\<close>

definition p521_ref :: "(byte, bytes, byte \<times> bool, nat) p521" where
  "p521_ref =
     \<lparr>p_vk_from_sec1_bytes = (\<lambda>b. if length b = 133 \<and> hd b = 4 then Inr (b ! 1) else Inl ''encoding''),
      p_vk_uncompressed = (\<lambda>v. 4 # v # replicate 131 0),
      p_vk_of = (\<lambda>k. sum_list k),
      p_verify = (\<lambda>v m g. if fst g = v + sum_list m then Inr () else Inl ''mismatch''),
      p_sig_from_slice = (\<lambda>b. if length b = 132 \<and> take 65 (drop 1 b) = replicate 65 0
             \<and> b ! 66 \<in> {0, 1} \<and> drop 67 b = replicate 65 0
         then Inr (b ! 0, b ! 66 = 1) else Inl ''malformed''),
      p_sig_to_bytes = (\<lambda>g. fst g # replicate 65 0 @ (if snd g then 1 else 0) # replicate 65 0),
      p_normalize_s = (\<lambda>g. if snd g then Some (fst g, False) else None),
      p_sk_from_slice = (\<lambda>b. if length b = 66 \<and> be_nat b \<noteq> 0 then Inr b else Inl ''scalar''),
      p_sk_to_bytes = (\<lambda>k. k),
      p_sk_random = (\<lambda>r. replicate 65 0 @ [1]),
      p_sign = (\<lambda>r k m. (sum_list k + sum_list m, odd r))\<rparr>"

lemma p521_sig_expand:
  assumes "length b = 132" "take 65 (drop 1 b) = replicate 65 0" "drop 67 b = replicate 65 0"
  shows "b ! 0 # replicate 65 0 @ b ! 66 # replicate 65 0 = (b :: bytes)"
proof -
  have "b ! 0 # drop 1 b = b" using assms(1) by (cases b) auto
  moreover have "take 65 (drop 1 b) @ drop 65 (drop 1 b) = drop 1 b" by (rule append_take_drop_id)
  moreover have "drop 65 (drop 1 b) = b ! 66 # drop 67 b"
    using Cons_nth_drop_Suc [of 66 b] assms(1) by simp
  ultimately show ?thesis using assms(2,3) by metis
qed

lemma p521_ref_laws: "p521_laws p521_ref"
proof -
  have one: "be_nat (replicate 65 0 @ [1]) = 1"
    by (simp only: be_nat_replicate_zero_append) (simp add: be_nat_def)
  have sig0: "b ! 0 # replicate 65 0 @ 0 # replicate 65 0 = b"
    if "length b = 132" "take 65 (drop (Suc 0) b) = replicate 65 0" "drop 67 b = replicate 65 0" "b ! 66 = 0"
    for b :: bytes
    using p521_sig_expand [of b] that by simp
  have sig1: "b ! 0 # replicate 65 0 @ 1 # replicate 65 0 = b"
    if "length b = 132" "take 65 (drop (Suc 0) b) = replicate 65 0" "drop 67 b = replicate 65 0" "b ! 66 = 1"
    for b :: bytes
    using p521_sig_expand [of b] that by simp
  have nth: "(replicate 65 0 @ y # replicate 65 0) ! 65 = (y :: byte)" for y
    by (simp add: nth_append)
  show ?thesis
    unfolding p521_laws_def p521_ref_def
    by (intro conjI allI impI) (auto simp: one sig0 sig1 nth split: if_splits)
qed

text \<open>The negation of \<open>s\<close>.\<close>

definition negate_ref :: "byte \<times> bool \<Rightarrow> string + byte \<times> bool" where
  "negate_ref g = Inr (fst g, \<not> snd g)"

lemma negate_ref_laws: "negate_laws p521_ref negate_ref"
  by (auto simp: negate_laws_def negate_ref_def p521_ref_def)

section \<open>Ed448\<close>

definition gold_ref :: "(8 word, 6 word) goldilocks" where
  "gold_ref =
     \<lparr>g_decompress = (\<lambda>raw. if drop 1 raw = replicate 56 0 then Some (hd raw) else None),
      g_identity = 0, g_generator = 1, g_double = (\<lambda>p. p + p), g_add = (+), g_negate = uminus,
      g_scalar_mul = (\<lambda>p s. word_of_nat (unat s) * p), g_point_eq = (=),
      g_from_canonical_bytes = (\<lambda>b. if le_nat b < 64 then Some (word_of_nat (le_nat b)) else None),
      g_scalar_zero = 0, g_scalar_from_u32 = (\<lambda>w. word_of_nat (unat w)),
      g_scalar_times = (*), g_scalar_plus = (+)\<rparr>"

definition curve_ref :: "(8 word, 6 word, 8 word) curve" where
  "curve_ref = \<lparr>point = (\<lambda>p. p), scalar = unat, order = 64\<rparr>"

lemma nmul_word: "nmul n (p :: 8 word) = word_of_nat n * p"
  by (induction n) (simp_all add: algebra_simps)

lemma unat6_of_nat: "unat (word_of_nat n :: 6 word) = n mod 64"
  by (simp add: unsigned_of_nat take_bit_eq_mod)

lemma gold_ref_laws: "curve_laws gold_ref curve_ref"
proof -
  have l: "unat (s :: 6 word) < 64" for s using unsigned_less [of s] by simp
  have "(256 :: 8 word) = 0" by simp
  then have z: "256 * (p :: 8 word) = 0" for p by (metis mult_zero_left)
  have u: "unat (ucast w :: 6 word) = unat w mod 64" for w :: "32 word"
    by (simp add: unsigned_ucast_eq take_bit_eq_mod)
  show ?thesis
    by (auto simp: curve_laws_def scalar_laws_def point_laws_def gold_ref_def curve_ref_def
        nmul_word l u unat6_of_nat z unat_word_ariths)
qed

text \<open>The private key is a number of 57 bytes, and determines an odd group element.\<close>

definition ed448_ref_pub :: "456 word \<Rightarrow> 8 word" where
  "ed448_ref_pub k = 1 + 2 * ucast k"

definition ed448_ref_sign ::
  "signing_mode \<Rightarrow> 456 word \<Rightarrow> bytes \<Rightarrow> bytes \<Rightarrow> bytes" where
  "ed448_ref_sign mode k m ctx =
     (let A = ed448_ref_pub k; R = 1 # replicate 56 0; pk = A # replicate 56 0;
          c = le_nat (ed448_challenge hashes_ref mode ctx R pk m)
      in R @ word_of_nat ((1 + c * unat A) mod 64) # replicate 56 0)"

definition ed448_ref_verify ::
  "signing_mode \<Rightarrow> 8 word \<Rightarrow> bytes \<Rightarrow> bytes \<Rightarrow> bytes option \<Rightarrow> string + unit" where
  "ed448_ref_verify mode A m sig ctx =
     (case verify_via_goldilocks hashes_ref gold_ref
         \<lparr>epk_raw = A # replicate 56 0, epk_trusted_inner = (None :: unit option)\<rparr> m sig ctx mode of
        Inr u \<Rightarrow> Inr u | Inl e \<Rightarrow> Inl ''invalid'')"

definition ed448_ref :: "(456 word, 8 word) ed448_rust" where
  "ed448_ref =
     \<lparr>e_sk_from = (\<lambda>b. word_of_nat (be_nat b)),
      e_sk_as_bytes = (\<lambda>k. be_fix 57 (unat k)),
      e_sign = (\<lambda>k m ctx. let c = (case ctx of Some c \<Rightarrow> c | None \<Rightarrow> []) in
         if 255 < length c then Inl ''context'' else Inr (ed448_ref_sign Mode_Ed448 k m c)),
      e_sign_ph = (\<lambda>k m ctx. Inr (ed448_ref_sign Mode_Ed448Ph k m [])),
      e_pk_from = ed448_ref_pub,
      e_pk_as_byte = (\<lambda>A. A # replicate 56 0),
      e_verify = ed448_ref_verify Mode_Ed448,
      e_verify_ph = ed448_ref_verify Mode_Ed448Ph\<rparr>"

lemma le_nat_replicate_zero [simp]: "le_nat (replicate n 0) = 0"
  by (induction n) simp_all

lemma canonical_ref:
  assumes "4 * A \<noteq> (0 :: 8 word)"
  shows "canonical_point gold_ref curve_ref (A # replicate 56 0) A"
proof -
  have "unat A < 2 ^ 448 - 2 ^ 224 - 1" by (rule less_trans [OF unat_byte_less]) simp
  then show ?thesis
    using assms by (simp add: canonical_point_def gold_ref_def curve_ref_def nmul_word take_Cons')
qed

lemma ed448_ref_pub_order: "4 * ed448_ref_pub k \<noteq> 0"
proof
  assume z: "4 * ed448_ref_pub k = 0"
  have "32 * (4 * ed448_ref_pub k) = 128 + 256 * ucast k"
    by (simp add: ed448_ref_pub_def algebra_simps)
  also have "(256 :: 8 word) = 0" by simp
  finally show False using z by simp
qed

lemma word_of_nat_4_mod_64: "(word_of_nat (4 * (n mod 64)) :: 8 word) = word_of_nat (4 * n)"
proof (rule word_unat_eq_iff [THEN iffD2])
  have "4 * (n mod 64) mod 256 = 4 * n mod (256 :: nat)"
    using mult_mod_right [of 4 n 64] by simp
  then show "unat (word_of_nat (4 * (n mod 64)) :: 8 word) = unat (word_of_nat (4 * n) :: 8 word)"
    by (simp only: unat_byte_of_nat)
qed

lemma ed448_ref_sign_valid:
  assumes "length ctx \<le> 255"
  shows "rfc8032_valid hashes_ref gold_ref curve_ref mode ctx
    (ed448_ref_pub k # replicate 56 0) m (ed448_ref_sign mode k m ctx)"
proof -
  let ?A = "ed448_ref_pub k" and ?R = "1 # replicate 56 0 :: bytes"
  let ?c = "le_nat (ed448_challenge hashes_ref mode ctx ?R (?A # replicate 56 0) m)"
  let ?n = "1 + ?c * unat ?A"
  have sig: "ed448_ref_sign mode k m ctx = ?R @ word_of_nat (?n mod 64) # replicate 56 0"
    by (simp add: ed448_ref_sign_def Let_def)
  have S: "le_nat (drop 57 (ed448_ref_sign mode k m ctx)) = ?n mod 64"
  proof -
    have "?n mod 64 < 256" by (rule less_trans [of _ 64]) simp_all
    then show ?thesis unfolding sig by simp
  qed
  have R: "take 57 (ed448_ref_sign mode k m ctx) = ?R"
    unfolding sig by simp
  have "word_of_nat 4 * (word_of_nat (?n mod 64) * 1) = (word_of_nat (4 * (?n mod 64)) :: 8 word)"
    by simp
  also have "\<dots> = word_of_nat (4 * ?n)" by (rule word_of_nat_4_mod_64)
  also have "\<dots> = word_of_nat 4 * 1 + word_of_nat 4 * (word_of_nat ?c * ?A)"
    by (simp add: algebra_simps)
  finally have eq: "nmul 4 (nmul (?n mod 64) 1) = nmul 4 1 + nmul 4 (nmul ?c ?A)"
    by (simp only: nmul_word)
  have "canonical_point gold_ref curve_ref ?R 1" by (rule canonical_ref) simp
  moreover have "canonical_point gold_ref curve_ref (?A # replicate 56 0) ?A"
    by (rule canonical_ref [OF ed448_ref_pub_order])
  moreover have "length (ed448_ref_sign mode k m ctx) = 114" unfolding sig by simp
  moreover have "?n mod 64 < order curve_ref" by (simp add: curve_ref_def)
  moreover have "point curve_ref = (\<lambda>p. p)" "g_generator gold_ref = 1"
    by (simp_all add: curve_ref_def gold_ref_def)
  ultimately show ?thesis
    unfolding rfc8032_valid_def R S using assms eq by auto
qed

lemma ed448_ref_verify_valid:
  assumes "rfc8032_valid hashes_ref gold_ref curve_ref mode (case ctx of Some c \<Rightarrow> c | None \<Rightarrow> [])
    (A # replicate 56 0) m sig"
  shows "ed448_ref_verify mode A m sig ctx = Inr ()"
proof -
  have "verify_via_goldilocks hashes_ref gold_ref
      \<lparr>epk_raw = A # replicate 56 0, epk_trusted_inner = (None :: unit option)\<rparr> m sig ctx mode = Ok ()"
    using assms rfc8032_validD(1) [OF assms]
    by (simp add: verify_via_goldilocks_iff [OF gold_ref_laws])
  then show ?thesis by (simp add: ed448_ref_verify_def)
qed

lemma ed448_ref_laws: "ed448_rust_laws hashes_ref ed448_ref gold_ref curve_ref"
proof -
  have k: "word_of_nat (be_nat (be_fix 57 (unat k))) = k" for k :: "456 word"
  proof -
    have "unat k < 2 ^ LENGTH(456)" by (rule unsigned_less)
    then show ?thesis by (simp add: be_nat_be_fix)
  qed
  have b: "be_fix 57 (unat (word_of_nat (be_nat b) :: 456 word)) = b" if "length b = 57" for b
  proof -
    have "be_nat b < 2 ^ 456" using be_nat_less [of b] that by simp
    then have "unat (word_of_nat (be_nat b) :: 456 word) = be_nat b"
      by (simp add: unsigned_of_nat take_bit_nat_eq_self_iff)
    then show ?thesis using be_fix_be_nat [OF that] by simp
  qed
  have c: "\<exists>A. canonical_point gold_ref curve_ref (ed448_ref_pub k # replicate 56 0) A" for k
    using canonical_ref [OF ed448_ref_pub_order] by blast
  show ?thesis
    unfolding ed448_rust_laws_def ed448_ref_def
    by (intro conjI allI impI)
      (simp_all add: k b c Let_def not_less ed448_ref_sign_valid ed448_ref_verify_valid)
qed

section \<open>The crates together\<close>

definition crates_ref ::
  "(byte, bytes, byte, byte, bytes, byte \<times> bool, nat, 456 word, 8 word, 8 word, 6 word) crates"
where
  "crates_ref =
     \<lparr>hsh = hashes_ref, mld = ml_dsa_ref, p5 = p521_ref, edr = ed448_ref, gld = gold_ref\<rparr>"

lemma crates_ref_laws: "crates_laws crates_ref curve_ref"
  by (simp add: crates_laws_def crates_ref_def hashes_ref_laws ml_dsa_ref_laws p521_ref_laws
      gold_ref_laws ed448_ref_laws)

text \<open>Under these crates a seed of 64 bytes always gives keys.\<close>

lemma p521_ref_derives:
  assumes "length seed = 66"
  shows "\<exists>pk sk. p521_derive_keypair_from_seed p521_ref hashes_ref seed = Ok (pk, sk)"
proof -
  have d: "p521_digest hashes_ref seed c = checksum 64 (ascii ''blackchain-p521-derive-v1'' @ seed @ [c])" for c
    by (simp add: p521_digest_def hashes_ref_def)
  have v: "\<exists>k. p_sk_from_slice p521_ref (p521_scalar hashes_ref seed c) = Inr k" for c
    using p521_scalar_valid_iff [OF hashes_ref_laws p521_ref_laws] checksum_not_zero [of 64]
    by (simp add: d)
  have "p521_first_valid p521_ref hashes_ref seed p521_counters \<noteq> None"
    using v [of 0] set_p521_counters
    by (auto simp: p521_first_valid_def find_None_iff not_isl_iff)
  then show ?thesis
    using assms by (auto simp: p521_derive_keypair_from_seed_def size_consts
        p521_derive_loop_first [OF hashes_ref_laws] Let_def)
qed

lemma p521_ref_keys: "\<exists>pk sk. p521_keys crates_ref seed = Ok (pk, sk)"
  using p521_ref_derives [OF curve_seeds(2) [OF hashes_ref_laws, of seed]]
  by (simp add: p521_keys_def crates_ref_def)

lemma generate_ref:
  assumes "64 \<le> length seed"
  shows "\<exists>k. bsk_generate crates_ref seed = Ok (k, bsk_public k)"
  using p521_ref_keys [of seed] by (auto simp: bsk_generate_eq [OF crates_ref_laws assms])

definition seed_ref :: bytes where
  "seed_ref = replicate 64 7"

lemma seed_ref_key:
  obtains k where "bsk_generate crates_ref seed_ref = Ok (k, bsk_public k)" "key_wf crates_ref k"
  using generate_ref [of seed_ref] bsk_generate_wf [OF crates_ref_laws] that
  by (auto simp: seed_ref_def)

section \<open>Mnemonics and BIP-32\<close>

text \<open>
  The first of the 24 words holds the entropy, one letter per byte; the others are fixed.
  An extended key is the seed with the child numbers appended.
\<close>

definition bip39_ref :: "bytes bip39" where
  "bip39_ref =
     \<lparr>m_from_entropy = (\<lambda>b. if length b = 32 then Inr b else Inl ''entropy''),
      m_to_string = (\<lambda>mn. map (\<lambda>b. 256 + unat b) mn @ concat (replicate 23 [32, 97])),
      m_parse = (\<lambda>s. case split_whitespace s of [] \<Rightarrow> Inl ''words''
        | w # ws \<Rightarrow> if length ws = 23 then Inr (map (\<lambda>c. word_of_nat (c - 256)) w) else Inl ''words''),
      m_to_seed = (\<lambda>mn p. checksum 64 (mn @ utf8 p))\<rparr>"

definition bip32_ref :: "(bytes, 32 word) bip32" where
  "bip32_ref =
     \<lparr>x_new = (\<lambda>seed. if length seed = 64 then Inr seed else Inl ''length''),
      x_child_number = (\<lambda>i h. if i < 0x80000000 then Inr (if h then i OR 0x80000000 else i) else Inl ''range''),
      x_derive_child = (\<lambda>k i. Inr (k @ map (\<lambda>j. ucast (drop_bit (8 * j) i)) [0..<4])),
      x_private_key_bytes = checksum 32,
      x_chain_code = (\<lambda>k. checksum 32 (k @ [1]))\<rparr>"

lemma bip32_ref_laws: "bip32_laws bip32_ref"
  by (simp add: bip32_laws_def bip32_ref_def)

lemma split_ref_words:
  assumes "w \<noteq> []" "\<forall>c\<in>set w. \<not> is_whitespace c"
  shows "split_whitespace (w @ concat (replicate n [32, 97])) = w # replicate n [97]"
proof -
  have s: "is_whitespace 32" and a: "\<not> is_whitespace 97" by (simp_all add: is_whitespace_def)
  have "split_on is_whitespace (v @ concat (replicate n [32, 97])) = v # replicate n [97]"
    if "\<forall>c\<in>set v. \<not> is_whitespace c" for v
    using that
  proof (induction n arbitrary: v)
    case 0
    then show ?case by (simp add: split_on_none)
  next
    case (Suc n)
    have "split_on is_whitespace ([97] @ concat (replicate n [32, 97])) = [97] # replicate n [97]"
      by (rule Suc.IH) (simp add: a)
    then show ?case using Suc.prems s by (simp add: split_on_join)
  qed
  with assms show ?thesis by (simp add: split_whitespace_def)
qed

lemma bip39_ref_laws: "bip39_laws bip39_ref"
proof -
  have w: "split_whitespace (map (\<lambda>b. 256 + unat b) (mn :: bytes) @ concat (replicate 23 [32, 97])) =
      map (\<lambda>b. 256 + unat b) mn # replicate 23 [97]" if "length mn = 32" for mn
  proof (rule split_ref_words)
    show "map (\<lambda>b. 256 + unat b) mn \<noteq> []" using that by auto
    have "\<not> is_whitespace (256 + n)" if "n < 256" for n
      using that by (auto simp: is_whitespace_def)
    then have "\<not> is_whitespace (256 + unat b)" for b :: byte by simp
    then show "\<forall>c\<in>set (map (\<lambda>b. 256 + unat b) mn). \<not> is_whitespace c" by auto
  qed
  have e: "length (split_whitespace (m_to_string bip39_ref mn)) = 24"
    "m_parse bip39_ref (m_to_string bip39_ref mn) = Inr mn" if "length mn = 32" for mn
    unfolding bip39_ref_def bip39.simps w [OF that] by (simp_all add: comp_def)
  show ?thesis
    unfolding bip39_laws_def
  proof (intro conjI allI impI)
    fix b :: bytes assume b: "length b = 32"
    then show "\<exists>mn. m_from_entropy bip39_ref b = Inr mn" by (simp add: bip39_ref_def)
    fix mn assume "m_from_entropy bip39_ref b = Inr mn"
    with b have "mn = b" by (simp add: bip39_ref_def)
    with e [OF b] show "length (split_whitespace (m_to_string bip39_ref mn)) = 24"
      and "m_parse bip39_ref (m_to_string bip39_ref mn) = Inr mn" by simp_all
  qed (simp add: bip39_ref_def)
qed

section \<open>Transactions as text\<close>

text \<open>A printer and parser of transactions: the fields as numbers, strings after their length.\<close>

definition print_str :: "bytes \<Rightarrow> rstr" where
  "print_str b = length b # map unat b"

definition print_opt :: "('a \<Rightarrow> rstr) \<Rightarrow> 'a option \<Rightarrow> rstr" where
  "print_opt f x = (case x of None \<Rightarrow> [0] | Some a \<Rightarrow> 1 # f a)"

definition read_num :: "rstr \<Rightarrow> 'a::len word \<times> rstr" where
  "read_num s = (word_of_nat (hd s), tl s)"

definition read_str :: "rstr \<Rightarrow> bytes \<times> rstr" where
  "read_str s = (map word_of_nat (take (hd s) (tl s)), drop (hd s) (tl s))"

definition read_opt :: "(rstr \<Rightarrow> 'a \<times> rstr) \<Rightarrow> rstr \<Rightarrow> 'a option \<times> rstr" where
  "read_opt f s = (if hd s = 0 then (None, tl s) else let (a, r) = f (tl s) in (Some a, r))"

definition json_print :: "bc_tx \<Rightarrow> rstr" where
  "json_print t = [unat (tx_chain_id t)] @ [unat (tx_nonce t)]
     @ [unat (tx_max_priority_fee_per_gas t)] @ [unat (tx_max_fee_per_gas t)]
     @ [unat (tx_gas_limit t)] @ print_opt print_str (tx_to t) @ [unat (tx_value t)]
     @ print_str (tx_data t) @ print_opt (\<lambda>w. [unat w]) (tx_v t) @ print_opt (\<lambda>w. [unat w]) (tx_r t)
     @ print_opt (\<lambda>w. [unat w]) (tx_s t) @ print_opt print_str (tx_pqc_signature t)
     @ print_opt print_str (tx_pub_key t)"

definition json_parse :: "rstr \<Rightarrow> bc_tx" where
  "json_parse s =
     (let (a, s) = read_num s; (b, s) = read_num s; (c, s) = read_num s; (d, s) = read_num s;
          (e, s) = read_num s; (f, s) = read_opt read_str s; (g, s) = read_num s;
          (h, s) = read_str s; (v, s) = read_opt read_num s; (r, s) = read_opt read_num s;
          (q, s) = read_opt read_num s; (x, s) = read_opt read_str s; (y, s) = read_opt read_str s
      in \<lparr>tx_chain_id = a, tx_nonce = b, tx_max_priority_fee_per_gas = c,
          tx_max_fee_per_gas = d, tx_gas_limit = e, tx_to = f, tx_value = g, tx_data = h,
          tx_v = v, tx_r = r, tx_s = q, tx_pqc_signature = x, tx_pub_key = y\<rparr>)"

definition json_ref :: tx_json where
  "json_ref = \<lparr>j_from_str = (\<lambda>s. Inr (json_parse s)), j_to_string = (\<lambda>t. Inr (json_print t))\<rparr>"

definition json_tx :: bc_tx where
  "json_tx =
     \<lparr>tx_chain_id = 5, tx_nonce = 0, tx_max_priority_fee_per_gas = 1, tx_max_fee_per_gas = 2,
      tx_gas_limit = 21000, tx_to = None, tx_value = 0, tx_data = [1], tx_v = None, tx_r = None,
      tx_s = None, tx_pqc_signature = None, tx_pub_key = None\<rparr>"

lemma read_print:
  "read_num (unat (w :: 'a::len word) # s) = (w, s)"
  "read_str (print_str b @ s) = (b, s)"
  "read_opt read_str (print_opt print_str x @ s) = (x, s)"
  "read_opt read_num (print_opt (\<lambda>w. [unat w]) y @ s) = (y :: 'a word option, s)"
  by (auto simp: read_num_def read_str_def print_str_def read_opt_def print_opt_def comp_def
      split: option.split)

lemma json_parse_print: "json_parse (json_print t) = t"
proof -
  note e = read_print(3) [of _ "[]", simplified]
  show ?thesis by (simp add: json_parse_def json_print_def read_print e)
qed

lemma create_wallet_ref: "accepted (create_wallet crates_ref bip39_ref bip32_ref (\<lambda>n. Inr (replicate n 5)) pw)"
proof -
  let ?get = "\<lambda>n. Inr (replicate n 5) :: string + bytes"
  obtain phrase where p: "generate_mnemonic bip39_ref ?get = Ok phrase"
      "accepted (seed_from_mnemonic bip39_ref phrase pw)"
    using generate_mnemonic_seed [OF bip39_ref_laws, of ?get "replicate 32 5" pw] by auto
  obtain root where root: "seed_from_mnemonic bip39_ref phrase pw = Ok root" "length root = 64"
    using p(2) seed_from_mnemonic_size [OF bip39_ref_laws] by auto
  have path: "parse_hardened_path DEFAULT_ACCOUNT_PATH =
      Ok [0x8000002C, 0x8000003C, 0x80000000, 0x80000000, 0x80000000]"
    by (simp add: DEFAULT_ACCOUNT_PATH_account parse_account_path harden_def)
  obtain child where child: "derive_child_seed bip32_ref root
      [0x8000002C, 0x8000003C, 0x80000000, 0x80000000, 0x80000000] = Ok child"
    using root(2) by (simp add: derive_child_seed_def bip32_ref_def)
  then obtain key where "bsk_generate crates_ref child = Ok (key, bsk_public key)"
    using generate_ref [of child] derive_child_seed_size [OF bip32_ref_laws child] by auto
  then show ?thesis
    using p(1) root(1) path child by (simp add: create_wallet_def restore_wallet_def)
qed

end
