(* ===== verification/Tx_Props.thy ===== *)
theory Tx_Props
  imports Reference
begin

text \<open>
  The properties of transactions: what signing and recovering promise together, what exactly
  is accepted, that the accepted bytes are determined by what is signed, and the RLP codec's
  contract.  Each property with a hypothesis is followed by its instance on the crates of
  \<open>Reference\<close>.
\<close>

definition tx_ref :: bc_tx where
  "tx_ref =
     \<lparr>tx_chain_id = 1, tx_nonce = 42, tx_max_priority_fee_per_gas = 1500000000,
      tx_max_fee_per_gas = 30000000000, tx_gas_limit = 21000, tx_to = Some (replicate 20 0xaa),
      tx_value = 5, tx_data = [0xde, 0xad, 0xbe, 0xef], tx_v = None, tx_r = None, tx_s = None,
      tx_pqc_signature = None, tx_pub_key = None\<rparr>"

lemmas rlp_wire_simps =
  rlp_ref_def rlp_str_def rlp_str_len_def rlp_header_def rlp_base_def rlp_length_of_length_def lone_byte_def
  be_min_pos Let_def

definition tx_ref_signed :: bc_tx where
  "tx_ref_signed = tx_ref\<lparr>tx_v := Some 37, tx_r := Some 0, tx_s := Some 0,
     tx_pqc_signature := Some (replicate 100 0xaa), tx_pub_key := Some (replicate 50 0xbb)\<rparr>"

lemma tx_ref_fits: "tx_fits rlp_ref tx_ref" "tx_fits rlp_ref tx_ref_signed"
  by (rule tx_small_fits [OF rlp_ref_laws],
      simp add: tx_small_def tx_typed_def tx_ref_def tx_ref_signed_def default_to_def)+

text \<open>The 44 bytes of its encoding.\<close>

lemma tx_ref_wire:
  "tx_encode rlp_ref tx_ref =
    [0xeb, 0x01, 0x2a, 0x84, 0x59, 0x68, 0x2f, 0x00, 0x85, 0x06, 0xfc, 0x23, 0xac, 0x00, 0x82, 0x52, 0x08,
     0x94] @ replicate 20 0xaa @ [0x05, 0x84, 0xde, 0xad, 0xbe, 0xef]"
  by (simp add: rlp_wire_simps tx_encode_def tx_encode_fields_def rlp_payload_length_def tx_ref_def
      has_signature_def)

text \<open>A key and a signature under which the reference transaction was signed.\<close>

definition ref_run :: "bc_private_key \<Rightarrow> bytes \<Rightarrow> bool" where
  "ref_run key sig \<longleftrightarrow>
     key_wf crates_ref key \<and> length sig = 4873 \<and>
     sign_transaction crates_ref rlp_ref 0 key tx_ref = Ok (signed_tx tx_ref (bsk_public key) sig) \<and>
     recover_sender crates_ref rlp_ref (signed_tx tx_ref (bsk_public key) sig) =
       Ok (derive_address hashes_ref (bsk_public key)) \<and>
     tx_fits rlp_ref (signed_tx tx_ref (bsk_public key) sig) \<and>
     tx_normal (signed_tx tx_ref (bsk_public key) sig) = signed_tx tx_ref (bsk_public key) sig"

lemma ref_run_ex: "\<exists>key sig. ref_run key sig"
proof -
  obtain key where k: "key_wf crates_ref key" by (rule seed_ref_key)
  obtain sig where s: "sign_transaction crates_ref rlp_ref 0 key tx_ref =
      Ok (signed_tx tx_ref (bsk_public key) sig)" "length sig = 4873"
    "recover_sender crates_ref rlp_ref (signed_tx tx_ref (bsk_public key) sig) =
      Ok (derive_address (hsh crates_ref) (bsk_public key))"
    using signed_recovers [OF crates_ref_laws k, of rlp_ref 0 tx_ref] by blast
  have l: "length (bpk_to_bytes (bsk_public key)) = 2782"
    by (rule pk_valid_size [OF key_wf_pk_valid [OF crates_ref_laws k]])
  with s(2) have "tx_fits rlp_ref (signed_tx tx_ref (bsk_public key) sig)"
    by (intro tx_small_fits [OF rlp_ref_laws])
      (simp add: tx_small_def tx_typed_def tx_ref_def signed_tx_def default_to_def)
  moreover from l have "bpk_to_bytes (bsk_public key) \<noteq> []" by auto
  ultimately show ?thesis using k s unfolding ref_run_def
    by (intro exI [of _ key] exI [of _ sig])
      (simp add: crates_ref_def tx_normal_def has_signature_def default_to_def)
qed

lemma ref_runD:
  assumes "ref_run key sig"
  shows "key_wf crates_ref key" "length sig = 4873"
    and "sign_transaction crates_ref rlp_ref 0 key tx_ref = Ok (signed_tx tx_ref (bsk_public key) sig)"
    and "recover_sender crates_ref rlp_ref (signed_tx tx_ref (bsk_public key) sig) =
       Ok (derive_address hashes_ref (bsk_public key))"
    and "tx_fits rlp_ref (signed_tx tx_ref (bsk_public key) sig)"
    and "tx_normal (signed_tx tx_ref (bsk_public key) sig) = signed_tx tx_ref (bsk_public key) sig"
  using assms by (simp_all add: ref_run_def)

section \<open>Signing and recovering\<close>

text \<open>
  Signing a transaction with a well-formed key succeeds, and \<^verbatim>\<open>recover_sender\<close> on the
  signed transaction returns the address of the key that signed.
\<close>

theorem sign_then_recover:
  assumes "crates_laws K C" and "key_wf K key"
  shows "\<exists>tx'. sign_transaction K R r key tx = Ok tx' \<and>
    recover_sender K R tx' = Ok (derive_address (hsh K) (bsk_public key))"
proof -
  obtain sig where "sign_transaction K R r key tx = Ok (signed_tx tx (bsk_public key) sig)"
    and "recover_sender K R (signed_tx tx (bsk_public key) sig) =
      Ok (derive_address (hsh K) (bsk_public key))"
    using signed_recovers [OF assms] by blast
  then show ?thesis by blast
qed

theorem sign_then_recover_witness:
  "\<exists>key tx'. sign_transaction crates_ref rlp_ref 0 key tx_ref = Ok tx' \<and>
    recover_sender crates_ref rlp_ref tx' = Ok (derive_address hashes_ref (bsk_public key))"
proof -
  obtain key where "key_wf crates_ref key" by (rule seed_ref_key)
  then show ?thesis
    using sign_then_recover [OF crates_ref_laws, of key rlp_ref 0 tx_ref]
    by (auto simp: crates_ref_def)
qed

text \<open>
  C2. \<^verbatim>\<open>recover_sender\<close> returns an address exactly when the envelope has its mandated
  values, the embedded key is three valid sub-keys whose hash gives the address, the signature
  has 4627 + 132 + 114 bytes, ML-DSA-87 verifies the first part over the transaction hash, P-521
  the second, a low-S signature, over that hash with the entanglement hash and curve id 1, and
  the third part satisfies the RFC 8032 equation over the same with curve id 2.
\<close>

theorem recover_sender_exact:
  assumes "crates_laws K C"
  shows "recover_sender K R tx = Ok a \<longleftrightarrow>
    tx_v tx = Some (expected_v (tx_chain_id tx)) \<and> tx_r tx = Some 0 \<and> tx_s tx = Some 0 \<and>
    (\<exists>pk sig dg pv pg. tx_pub_key tx = Some (bpk_to_bytes pk) \<and> tx_pqc_signature tx = Some sig \<and>
       length (bpk_dilithium pk) = 2592 \<and> length (bpk_p521 pk) = 133 \<and> length (bpk_ed448 pk) = 57 \<and>
       length sig = 4873 \<and> a = derive_address (hsh K) pk \<and>
       d_decode_sig (mld K) (take 4627 sig) = Inr dg \<and>
       d_verify_with_context (mld K) (d_decode_vk (mld K) (bpk_dilithium pk))
         (signature_hash (hsh K) R tx) [] dg \<and>
       p_vk_from_sec1_bytes (p5 K) (bpk_p521 pk) = Inr pv \<and>
       p_sig_from_slice (p5 K) (take 132 (drop 4627 sig)) = Inr pg \<and>
       p_normalize_s (p5 K) pg = None \<and>
       p_verify (p5 K) pv (signature_hash (hsh K) R tx @ bound_hash K (tx_chain_id tx) pk @ [1]) pg =
         Inr () \<and>
       rfc8032_valid (hsh K) (gld K) C Mode_Ed448 [] (bpk_ed448 pk)
         (signature_hash (hsh K) R tx @ bound_hash K (tx_chain_id tx) pk @ [2]) (drop 4759 sig))"
proof -
  have v: "pk_valid K pk \<and> composite_verify K pk h b sig = Ok () \<longleftrightarrow>
      (\<exists>dg pv pg. sub_signatures_hold K C pk h b sig dg pv pg)" for pk h b sig
    by (rule composite_accepts_iff [OF assms])
  have "recover_sender K R tx = Ok a \<longleftrightarrow>
    tx_v tx = Some (expected_v (tx_chain_id tx)) \<and> tx_r tx = Some 0 \<and> tx_s tx = Some 0 \<and>
    (\<exists>pk sig dg pv pg. tx_pub_key tx = Some (bpk_to_bytes pk) \<and> tx_pqc_signature tx = Some sig \<and>
       a = derive_address (hsh K) pk \<and> sub_signatures_hold K C pk (signature_hash (hsh K) R tx)
         (bound_hash K (tx_chain_id tx) pk) sig dg pv pg)"
    unfolding recover_sender_iff using v by blast
  then show ?thesis by (auto simp: sub_signatures_hold_def)
qed

theorem recover_sender_exact_witness:
  "\<exists>tx sig pk. tx_pqc_signature tx = Some sig \<and> tx_pub_key tx = Some (bpk_to_bytes pk) \<and>
    accepted (recover_sender crates_ref rlp_ref tx) \<and> length sig = 4873 \<and>
    rfc8032_valid hashes_ref gold_ref curve_ref Mode_Ed448 [] (bpk_ed448 pk)
      (signature_hash hashes_ref rlp_ref tx @ bound_hash crates_ref (tx_chain_id tx) pk @ [2])
      (drop 4759 sig)"
proof -
  obtain key sig where "ref_run key sig" using ref_run_ex by blast
  note t = ref_runD(4) [OF this]
  have h: "hsh crates_ref = hashes_ref" "gld crates_ref = gold_ref" by (simp_all add: crates_ref_def)
  show ?thesis
    using t t [unfolded recover_sender_exact [OF crates_ref_laws]] unfolding h accepted_iff by blast
qed

text \<open>
  C6. The wire bytes of an accepted transaction are determined by what is signed, the signature
  and the key: two buffers that decode to transactions which \<^verbatim>\<open>recover_sender\<close> accepts
  and which agree on the unsigned fields, the signature and the key decode to the same
  transaction, and both start with the encoding of it.
\<close>

theorem accepted_wire_unique:
  assumes "rlp_laws R"
    and "tx_decode R buf = Ok (tx, rest)" "tx_decode R buf' = Ok (tx', rest')"
    and "recover_sender K R tx = Ok a" "recover_sender K R tx' = Ok a'"
    and "tx_unsigned tx = tx_unsigned tx'" "tx_pqc_signature tx = tx_pqc_signature tx'"
    and "tx_pub_key tx = tx_pub_key tx'"
  shows "tx = tx' \<and> buf = tx_encode R tx @ rest \<and> buf' = tx_encode R tx @ rest'"
proof -
  have k: "tx_pub_key tx \<noteq> None"
    and e: "tx_v tx = Some (expected_v (tx_chain_id tx))" "tx_r tx = Some 0" "tx_s tx = Some 0"
      "tx_v tx' = Some (expected_v (tx_chain_id tx'))" "tx_r tx' = Some 0" "tx_s tx' = Some 0"
    using assms(4,5) by (auto simp: recover_sender_iff)
  have "tx = tx'"
    using assms(6-8) e by (cases tx; cases tx') (auto simp: tx_unsigned_def)
  moreover have "buf = tx_encode R tx @ rest" "buf' = tx_encode R tx' @ rest'"
    using tx_decode_canonical(3) [OF assms(1,2)] tx_decode_canonical(3) [OF assms(1,3)] k
      assms(8) by auto
  ultimately show ?thesis by simp
qed

theorem accepted_wire_unique_witness:
  "\<exists>tx a buf. recover_sender crates_ref rlp_ref tx = Ok a \<and>
    tx_decode rlp_ref buf = Ok (tx, [1]) \<and> buf = tx_encode rlp_ref tx @ [1]"
proof -
  obtain key sig where r: "ref_run key sig" using ref_run_ex by blast
  note d = tx_decode_encode [OF rlp_ref_laws ref_runD(5) [OF r], of "[1]", unfolded ref_runD(6) [OF r]]
  note t = ref_runD(4) [OF r]
  show ?thesis
    using accepted_wire_unique [OF rlp_ref_laws d d t t refl refl refl] d t by blast
qed

text \<open>
  C7. The bytes that are hashed for signing determine the chain id, the nonce, the fees, the
  gas limit, the recipient, the value and the data, and nothing else: two transactions have the
  same pre-image exactly when they agree on everything but the signature fields.
\<close>

theorem signature_covers_fields:
  assumes "rlp_laws R" "tx_fits R tx" "tx_fits R tx'"
  shows "signature_preimage R tx = signature_preimage R tx' \<longleftrightarrow> tx_unsigned tx = tx_unsigned tx'"
  using signature_preimage_inj [OF assms] by (auto simp: signature_preimage_unsigned)

theorem signature_covers_fields_witness:
  "signature_preimage rlp_ref tx_ref \<noteq> signature_preimage rlp_ref (tx_ref\<lparr>tx_nonce := 43\<rparr>) \<and>
   signature_preimage rlp_ref tx_ref = signature_preimage rlp_ref tx_ref_signed"
proof -
  have f: "tx_fits rlp_ref (tx_ref\<lparr>tx_nonce := 43\<rparr>)"
    by (rule tx_small_fits [OF rlp_ref_laws]) (simp add: tx_small_def tx_typed_def tx_ref_def default_to_def)
  show ?thesis
    unfolding signature_covers_fields [OF rlp_ref_laws tx_ref_fits(1) f]
      signature_covers_fields [OF rlp_ref_laws tx_ref_fits]
    by (simp add: tx_unsigned_def tx_ref_def tx_ref_signed_def)
qed

text \<open>
  The envelope cannot be changed: when a transaction is accepted, its \<^verbatim>\<open>v\<close> is twice the
  chain id plus 35 without wrap-around and \<^verbatim>\<open>r\<close>, \<^verbatim>\<open>s\<close> are zero, and with any other
  values of the three it is rejected with the envelope error.
\<close>

theorem envelope_pinned:
  assumes "recover_sender K R tx = Ok a" and "(v, r, s) \<noteq> (tx_v tx, tx_r tx, tx_s tx)"
  shows "(\<exists>w. tx_v tx = Some w \<and> unat w = 2 * unat (tx_chain_id tx) + 35) \<and>
    tx_r tx = Some 0 \<and> tx_s tx = Some 0 \<and>
    recover_sender K R (tx\<lparr>tx_v := v, tx_r := r, tx_s := s\<rparr>) = Error (SignatureError
      [Str ''non-canonical transaction envelope: v/r/s must equal the mandated placeholders (v = chain_id*2+35, r = 0, s = 0)''])"
proof -
  have e: "tx_v tx = Some (expected_v (tx_chain_id tx))" "tx_r tx = Some 0" "tx_s tx = Some 0"
    using assms(1) by (simp_all add: recover_sender_iff)
  obtain sig pk where "tx_pqc_signature tx = Some sig" "tx_pub_key tx = Some pk"
    using assms(1) by (auto simp: recover_sender_iff)
  with e assms(2) show ?thesis
    using expected_v_value [of "tx_chain_id tx"] by (auto simp: recover_sender_def)
qed

theorem envelope_pinned_witness:
  "\<exists>tx e. accepted (recover_sender crates_ref rlp_ref tx) \<and>
    recover_sender crates_ref rlp_ref (tx\<lparr>tx_v := None, tx_r := Some 0, tx_s := Some 0\<rparr>) = Error e"
proof -
  obtain key sig where r: "ref_run key sig" using ref_run_ex by blast
  let ?tx = "signed_tx tx_ref (bsk_public key) sig"
  note t = ref_runD(4) [OF r]
  have "(None, Some 0, Some 0) \<noteq> (tx_v ?tx, tx_r ?tx, tx_s ?tx)" by simp
  from envelope_pinned [OF t this]
  have "\<exists>e. recover_sender crates_ref rlp_ref (?tx\<lparr>tx_v := None, tx_r := Some 0, tx_s := Some 0\<rparr>) = Error e"
    by blast
  with t show ?thesis unfolding accepted_iff by blast
qed

text \<open>
  Signing leaves every field but the five signature fields as it was, fills those five, and
  does not change the hash: a signed transaction has the hash of the unsigned one.
\<close>

theorem signing_preserves:
  assumes "sign_transaction K R r key tx = Ok tx'"
  shows "tx_unsigned tx' = tx_unsigned tx \<and>
    signature_hash H R' tx' = signature_hash H R' tx \<and>
    tx_v tx' = Some (expected_v (tx_chain_id tx)) \<and> tx_r tx' = Some 0 \<and> tx_s tx' = Some 0 \<and>
    tx_pub_key tx' = Some (bpk_to_bytes (bsk_public key)) \<and> tx_pqc_signature tx' \<noteq> None"
proof -
  obtain sig where t: "tx' = signed_tx tx (bsk_public key) sig"
    using sign_transaction_OkD [OF assms] by blast
  have "signature_hash H R' tx' = signature_hash H R' tx"
    by (rule signature_hash_unsigned) (simp add: t)
  then show ?thesis by (simp add: t)
qed

theorem signing_preserves_witness:
  "\<exists>key tx'. sign_transaction crates_ref rlp_ref 0 key tx_ref = Ok tx' \<and>
    signature_hash hashes_ref rlp_ref tx' = signature_hash hashes_ref rlp_ref tx_ref"
proof -
  obtain key sig where r: "ref_run key sig" using ref_run_ex by blast
  note t = ref_runD(3) [OF r]
  show ?thesis using t signing_preserves [OF t, of hashes_ref rlp_ref] by blast
qed

text \<open>
  C10. No input makes the receiving side panic: recovering the sender of any transaction,
  checking any bytes as key and signature against any hash, verifying any message signature,
  parsing any bytes as a composite key and decoding any buffer end with a value or an error,
  whatever the item codecs answer: \<^verbatim>\<open>split_at\<close> is only reached with a length that is there, and
  \<^verbatim>\<open>Address::from_slice\<close> only with 20 bytes.  Deriving an address slices a digest, which has 32
  bytes.
\<close>

theorem receiving_never_panics:
  "panic_free (recover_sender K R tx) \<and> panic_free (verify_signature K hash chain pkb sig) \<and>
   panic_free (verify_message K pk msg sig) \<and> panic_free (bpk_from_bytes K pkb) \<and>
   panic_free (tx_decode R buf) \<and>
   (hash_laws (hsh K) \<longrightarrow> derive_address_steps (hsh K) pk = (Ok (derive_address (hsh K) pk) :: (_, crypto_error) outcome))"
  by (simp add: recover_sender_panic_free verify_signature_panic_free verify_message_panic_free
      bpk_from_bytes_panic_free tx_decode_panic_free derive_address_returns)

theorem receiving_never_panics_witness:
  "panic_free (tx_decode rlp_ref [0xF8, 0xFF, 1]) \<and>
   derive_address_steps (hsh crates_ref) \<lparr>bpk_dilithium = [1], bpk_p521 = [], bpk_ed448 = []\<rparr> =
     (Ok (derive_address (hsh crates_ref) \<lparr>bpk_dilithium = [1], bpk_p521 = [], bpk_ed448 = []\<rparr>)
       :: (_, crypto_error) outcome)"
  using receiving_never_panics [of crates_ref rlp_ref tx_ref "[]" 0 "[]" "[]" "\<lparr>bpk_dilithium = [1], bpk_p521 = [], bpk_ed448 = []\<rparr>"
      "[]" "[0xF8, 0xFF, 1]"] crates_lawsD(1) [OF crates_ref_laws] by blast

section \<open>The encoding\<close>

text \<open>
  C11. Decoding what was encoded, with anything behind it, gives the transaction back and
  leaves what was behind it.  A transaction that is unsigned, or has all signature fields with a
  non-empty key, comes back as it was; the others come back in their normal form (missing
  signature fields as zero and empty, an empty key as no key).
\<close>

theorem rlp_round_trip:
  assumes "rlp_laws R" and "tx_fits R tx"
  shows "tx_decode R (tx_encode R tx @ rest) = Ok (tx_normal tx, rest) \<and>
    tx_wire (tx_normal tx) \<and> (tx_wire tx \<longleftrightarrow> tx_normal tx = tx)"
  using tx_decode_encode [OF assms] tx_normal_wire [of tx] tx_wire_normal [of tx] assms(2)
  by (auto simp: tx_fits_def)

theorem rlp_round_trip_witness:
  "tx_decode rlp_ref (tx_encode rlp_ref tx_ref_signed @ [1, 2]) = Ok (tx_ref_signed, [1, 2])"
proof -
  have "tx_normal tx_ref_signed = tx_ref_signed"
    by (simp add: tx_ref_signed_def tx_ref_def tx_normal_def has_signature_def default_to_def)
  then show ?thesis
    using rlp_round_trip [OF rlp_ref_laws tx_ref_fits(2), of "[1, 2]"] by simp
qed

text \<open>
  C12. The decoder accepts nothing but encodings: what it accepts is a list header, a payload of
  exactly the declared length and the rest it returns, and the payload is the encoding of the
  fields, except that a signed transaction without a public key may also end before that field.
  With a public key, or unsigned, the input is the encoding of the result.
\<close>

theorem rlp_decode_canonical:
  assumes "rlp_laws R" and "tx_decode R buf = Ok (tx, rest)"
  shows "tx_wire tx \<and>
    (\<exists>payload. buf = r_header_enc R True (length payload) @ payload @ rest \<and>
      (payload = tx_encode_fields R tx \<or> tx_complete tx \<and> tx_pub_key tx = None \<and>
        tx_encode_fields R tx = payload @ r_bytes_enc R [])) \<and>
    (tx_pub_key tx \<noteq> None \<or> tx_v tx = None \<longrightarrow> buf = tx_encode R tx @ rest)"
  using tx_decode_canonical [OF assms] by simp

theorem rlp_decode_canonical_witness:
  "tx_wire tx_ref \<and> (\<exists>payload. tx_encode rlp_ref tx_ref @ [9] =
     r_header_enc rlp_ref True (length payload) @ payload @ [9])"
proof -
  have "tx_normal tx_ref = tx_ref"
    by (simp add: tx_ref_def tx_normal_def has_signature_def)
  then have d: "tx_decode rlp_ref (tx_encode rlp_ref tx_ref @ [9]) = Ok (tx_ref, [9])"
    using tx_decode_encode [OF rlp_ref_laws tx_ref_fits(1), of "[9]"] by simp
  show ?thesis using rlp_decode_canonical [OF rlp_ref_laws d] by blast
qed

text \<open>
  \<^verbatim>\<open>length\<close> is the number of bytes that \<^verbatim>\<open>encode\<close> writes, and the payload length in
  the header is the number of bytes behind it, signed or not.
\<close>

theorem rlp_length_exact:
  assumes "rlp_laws R"
  shows "tx_length R tx = length (tx_encode R tx) \<and>
    rlp_payload_length R tx = length (tx_encode_fields R tx) \<and>
    (\<exists>header. tx_encode R tx = header @ tx_encode_fields R tx \<and>
      r_header_enc R True (length (tx_encode_fields R tx)) = header)"
  by (simp add: fields_length [OF assms] tx_encode_def tx_length_def Let_def rlp_lawsD [OF assms])

theorem rlp_length_exact_witness:
  "tx_length rlp_ref tx_ref = 44 \<and> length (tx_encode_fields rlp_ref tx_ref) = rlp_payload_length rlp_ref tx_ref"
  using rlp_length_exact [OF rlp_ref_laws, of tx_ref] by (simp add: tx_ref_wire)

text \<open>
  Bytes behind the list are not read: appending anything to an input that decodes changes
  nothing but the rest that is returned.
\<close>

theorem trailing_bytes_untouched:
  assumes "rlp_laws R" and "tx_decode R buf = Ok (tx, rest)" and "length buf < 2 ^ 63"
  shows "tx_decode R (buf @ extra) = Ok (tx, rest @ extra)"
proof -
  obtain n body where n: "r_header_dec R buf = Inr ((True, n), body)" "n \<le> length body"
      "rest = drop n body" "tx_decode_fields R (take n body) = Ok (tx, [])"
    using assms(2) by (auto simp: tx_decode_Ok_iff)
  have b: "buf = r_header_enc R True n @ body" by (rule rlp_lawsD(12) [OF assms(1) n(1)])
  then have "n < 2 ^ 63" using n(2) assms(3) by simp
  then have "r_header_dec R (buf @ extra) = Inr ((True, n), body @ extra)"
    using rlp_lawsD(11) [OF assms(1), of n "body @ extra"] n(2) b by simp
  with n show ?thesis by (simp add: tx_decode_Ok_iff)
qed

theorem trailing_bytes_untouched_witness:
  "tx_decode rlp_ref (tx_encode rlp_ref tx_ref @ [9, 9]) = Ok (tx_ref, [9, 9])"
proof -
  have "tx_normal tx_ref = tx_ref"
    by (simp add: tx_ref_def tx_normal_def has_signature_def)
  then have d: "tx_decode rlp_ref (tx_encode rlp_ref tx_ref) = Ok (tx_ref, [])"
    using tx_decode_encode [OF rlp_ref_laws tx_ref_fits(1), of "[]"] by simp
  have "length (tx_encode rlp_ref tx_ref) < 2 ^ 63" by (simp add: tx_ref_wire)
  then show ?thesis using trailing_bytes_untouched [OF rlp_ref_laws d, of "[9, 9]"] by simp
qed

text \<open>
  Extra bytes inside the declared payload of a signed transaction are an error: they are
  never skipped and never read as a field.
\<close>

theorem payload_junk_rejected:
  assumes "rlp_laws R" "tx_fits R tx" "has_signature tx" and "junk \<noteq> []"
    and "rlp_payload_length R tx + length junk < 2 ^ 63"
  shows "tx_decode R (r_header_enc R True (rlp_payload_length R tx + length junk)
      @ tx_encode_fields R tx @ junk @ rest) =
    Error (Rlp_Custom ''trailing bytes in transaction payload'')"
proof -
  let ?n = "rlp_payload_length R tx + length junk"
  have l: "length (tx_encode_fields R tx) = rlp_payload_length R tx"
    by (rule fields_length [OF assms(1)])
  have "r_header_dec R (r_header_enc R True ?n @ tx_encode_fields R tx @ junk @ rest) =
      Inr ((True, ?n), tx_encode_fields R tx @ junk @ rest)"
    by (rule rlp_lawsD(11) [OF assms(1,5)]) (simp add: l)
  then show ?thesis
    using decode_fields_round [OF assms(1,2), of junk] assms(3,4)
    by (simp add: tx_decode_def l [symmetric] Let_def)
qed

theorem payload_junk_rejected_witness:
  "\<exists>buf. tx_decode rlp_ref buf = Error (Rlp_Custom ''trailing bytes in transaction payload'')"
proof -
  have p: "rlp_payload_length rlp_ref tx_ref_signed + length [1 :: byte, 2] < 2 ^ 63"
    by (simp add: rlp_wire_simps rlp_payload_length_def tx_ref_def tx_ref_signed_def has_signature_def
        default_to_def)
  have h: "has_signature tx_ref_signed" by (simp add: has_signature_def tx_ref_signed_def)
  show ?thesis
    using payload_junk_rejected [OF rlp_ref_laws tx_ref_fits(2) h _ p] by blast
qed

section \<open>Binding\<close>

text \<open>
  The entanglement nonce is computed from bytes that determine the chain and the address,
  for addresses of 20 bytes, and the messages the two classical curves sign under one key are
  different, determine the transaction hash and the entanglement hash, and are different for the
  two curves whatever was hashed.
\<close>

theorem binding_inputs_injective:
  assumes "hash_laws H" and "length h = 32" "length h' = 32"
  shows "(nonce_preimage c (derive_address H pk) = nonce_preimage c' (derive_address H pk') \<longleftrightarrow>
      c = c' \<and> derive_address H pk = derive_address H pk') \<and>
    (curve_msg h (compute_h_combined H pk n) i = curve_msg h' (compute_h_combined H pk' n') j \<longleftrightarrow>
      h = h' \<and> compute_h_combined H pk n = compute_h_combined H pk' n' \<and> i = j) \<and>
    curve_msg h x CURVE_ID_P521 \<noteq> curve_msg h' y CURVE_ID_ED448"
proof -
  have l: "length (compute_h_combined H k m) = 32" for k m
    by (simp add: compute_h_combined_def hash_lawsD [OF assms(1)])
  show ?thesis
    using be_bytes_u64_inj [of c c'] curve_msg_inj [of h h'] assms(2,3) l
    by (auto simp: curve_msgs_differ nonce_preimage_def)
qed

theorem binding_inputs_injective_witness:
  "curve_msg (replicate 32 0) (replicate 32 1) CURVE_ID_P521 \<noteq>
   curve_msg (replicate 32 0) (replicate 32 1) CURVE_ID_ED448"
  using binding_inputs_injective [OF hashes_ref_laws, of "replicate 32 0" "replicate 32 0"] by simp

end
