(* ===== verification/Wallet_Props.thy ===== *)
theory Wallet_Props
  imports Reference
begin

text \<open>
  The properties of composite keys and of wallets: the byte form of public keys, what a seed
  determines, message signatures, derivation paths, and the functions of \<^verbatim>\<open>api.rs\<close> and
  \<^verbatim>\<open>wasm.rs\<close>.
\<close>

lemma crates_ref_simps: "hsh crates_ref = hashes_ref" "gld crates_ref = gold_ref"
  by (simp_all add: crates_ref_def)

section \<open>Composite keys\<close>

text \<open>
  C13. \<^verbatim>\<open>from_bytes\<close> accepts exactly the byte strings that \<^verbatim>\<open>to_bytes\<close> gives for keys with
  sub-keys of 2592, 133 and 57 bytes of which the second is a P-521 point and the third a
  canonical Ed448 point that is not of small order, and it returns that key.
\<close>

theorem public_key_bytes:
  assumes "crates_laws K C"
  shows "bpk_from_bytes K b = Ok pk \<longleftrightarrow>
    b = bpk_to_bytes pk \<and> length (bpk_dilithium pk) = 2592 \<and> length (bpk_p521 pk) = 133 \<and>
    length (bpk_ed448 pk) = 57 \<and> (\<exists>v. p_vk_from_sec1_bytes (p5 K) (bpk_p521 pk) = Inr v) \<and>
    (\<exists>A. canonical_point (gld K) C (bpk_ed448 pk) A)"
  using crates_lawsD [OF assms]
  by (auto simp: bpk_from_bytes_iff pk_valid_def dil_pk_from_bytes_iff p521_pk_from_bytes_def
      ed448_pk_from_bytes_iff)

theorem public_key_bytes_witness:
  "\<exists>pk. bpk_from_bytes crates_ref (bpk_to_bytes pk) = Ok pk \<and> length (bpk_to_bytes pk) = 2782"
proof -
  obtain k where k: "key_wf crates_ref k" by (rule seed_ref_key)
  let ?pk = "bsk_public k"
  have v: "pk_valid crates_ref ?pk" by (rule key_wf_pk_valid [OF crates_ref_laws k])
  then have "bpk_from_bytes crates_ref (bpk_to_bytes ?pk) = Ok ?pk" by (simp add: bpk_from_bytes_iff)
  from this [unfolded public_key_bytes [OF crates_ref_laws]]
  have "bpk_from_bytes crates_ref (bpk_to_bytes ?pk) = Ok ?pk"
    unfolding public_key_bytes [OF crates_ref_laws] .
  then show ?thesis using pk_valid_size [OF v] by blast
qed

text \<open>
  C14. Keys that are generated from a seed satisfy the key invariant: each secret sub-key
  belongs to the cached public one, the sizes are 32, 66 and 57 bytes, the seed is kept, and the
  public key survives its byte form.
\<close>

theorem generated_keys_wf:
  assumes "crates_laws K C" and "bsk_generate K seed = Ok (k, pub)"
  shows "key_wf K k \<and> pub = bsk_public k \<and> bsk_seed k = seed \<and> 64 \<le> length seed \<and>
    length (bsk_dilithium k) = 32 \<and> length (bsk_p521 k) = 66 \<and> length (bsk_ed448 k) = 57 \<and>
    length (bpk_to_bytes pub) = 2782 \<and> bpk_from_bytes K (bpk_to_bytes pub) = Ok pub"
proof -
  have w: "key_wf K k" by (rule bsk_generate_wf [OF assms])
  have v: "pk_valid K (bsk_public k)" by (rule key_wf_pk_valid [OF assms(1) w])
  obtain sk where "k = keys_of K seed sk" using bsk_generate_Ok(3) [OF assms] by blast
  then have "bsk_seed k = seed" by (simp add: keys_of_def)
  with w v bsk_generate_Ok(1,2) [OF assms] pk_valid_size [OF v] show ?thesis
    by (auto simp: bpk_from_bytes_iff key_wf_def dil_leg_pair_def p521_leg_pair_def)
qed

theorem generated_keys_wf_witness:
  "\<exists>k pub. bsk_generate crates_ref seed_ref = Ok (k, pub) \<and> length (bsk_p521 k) = 66"
proof -
  obtain k where g: "bsk_generate crates_ref seed_ref = Ok (k, bsk_public k)" by (rule seed_ref_key)
  with generated_keys_wf [OF crates_ref_laws g] show ?thesis by blast
qed

text \<open>
  A message signed with a well-formed key verifies: \<^verbatim>\<open>sign_message\<close> succeeds with
  4873 bytes, and \<^verbatim>\<open>verify_message\<close> of the public key returns true for them.
\<close>

theorem message_round_trip:
  assumes "crates_laws K C" and "key_wf K k"
  shows "\<exists>sig. sign_message K r k m = Ok sig \<and> length sig = 4873 \<and>
    verify_message K (bsk_public k) m sig = Ok True"
  using composite_sign_verify [OF assms]
  by (simp add: sign_message_def verify_message_def Let_def)

theorem message_round_trip_witness:
  "\<exists>k sig. sign_message crates_ref 1 k [1, 2, 3] = Ok sig \<and>
    verify_message crates_ref (bsk_public k) [1, 2, 3] sig = Ok True"
proof -
  obtain k where "key_wf crates_ref k" by (rule seed_ref_key)
  from message_round_trip [OF crates_ref_laws this] show ?thesis by blast
qed

text \<open>
  C15. \<^verbatim>\<open>verify_message\<close> never returns false.  For a parsed key it returns true exactly
  when the three sub-signatures hold, over the hash of the message and the entanglement hash of
  the key with the zero nonce, and an error otherwise; any other length is an error.
\<close>

theorem verify_message_exact:
  assumes "crates_laws K C"
  shows "verify_message K pk m sig \<noteq> Ok False \<and>
    (pk_valid K pk \<longrightarrow> (verify_message K pk m sig = Ok True \<longleftrightarrow>
      (\<exists>dg pv pg. sub_signatures_hold K C pk (keccak256 (hsh K) m)
         (compute_h_combined (hsh K) pk (replicate 16 0)) sig dg pv pg))) \<and>
    (length sig \<noteq> 4873 \<longrightarrow> verify_message K pk m sig = Error (SignatureError
       [Str ''composite signature has wrong length: '', Num (length sig),
        Str '' bytes (expected '', Num 4873, Str '')'']))"
proof (intro conjI impI)
  show "verify_message K pk m sig \<noteq> Ok False" by (simp add: verify_message_def Let_def)
next
  assume "pk_valid K pk"
  then show "verify_message K pk m sig = Ok True \<longleftrightarrow>
      (\<exists>dg pv pg. sub_signatures_hold K C pk (keccak256 (hsh K) m)
         (compute_h_combined (hsh K) pk (replicate 16 0)) sig dg pv pg)"
    using composite_accepts_iff [OF assms, of pk "keccak256 (hsh K) m"
        "compute_h_combined (hsh K) pk (replicate 16 0)" sig]
    by (simp add: verify_message_def Let_def)
next
  assume "length sig \<noteq> 4873"
  then show "verify_message K pk m sig = Error (SignatureError
       [Str ''composite signature has wrong length: '', Num (length sig),
        Str '' bytes (expected '', Num 4873, Str '')''])"
    by (simp add: verify_message_def Let_def composite_verify_wrong_size)
qed

theorem verify_message_exact_witness:
  "\<exists>pk. pk_valid crates_ref pk \<and> verify_message crates_ref pk [] [] = Error (SignatureError
     [Str ''composite signature has wrong length: '', Num 0, Str '' bytes (expected '', Num 4873, Str '')''])"
proof -
  obtain k where k: "key_wf crates_ref k" by (rule seed_ref_key)
  from verify_message_exact [OF crates_ref_laws, of "bsk_public k" "[]" "[]"]
    key_wf_pk_valid [OF crates_ref_laws k] show ?thesis by auto
qed

text \<open>
  C18. The layout of the seed: the first 32 bytes alone determine the ML-DSA-87 keys, the
  next 32 alone the P-521 and Ed448 keys, and bytes behind the 64th determine nothing.
\<close>

theorem seed_layout:
  assumes "crates_laws K C" and "bsk_generate K s = Ok (k, p)" and "bsk_generate K s' = Ok (k', p')"
  shows "(take 32 s = take 32 s' \<longrightarrow>
      bsk_dilithium k = bsk_dilithium k' \<and> bpk_dilithium p = bpk_dilithium p') \<and>
    (take 32 (drop 32 s) = take 32 (drop 32 s') \<longrightarrow>
      bsk_p521 k = bsk_p521 k' \<and> bsk_ed448 k = bsk_ed448 k' \<and>
      bpk_p521 p = bpk_p521 p' \<and> bpk_ed448 p = bpk_ed448 p')"
proof -
  obtain sk sk' where k: "k = keys_of K s sk" "p521_keys K s = Ok (p_vk_of (p5 K) sk, sk)"
      "k' = keys_of K s' sk'" "p521_keys K s' = Ok (p_vk_of (p5 K) sk', sk')"
    using bsk_generate_Ok(3) [OF assms(1,2)] bsk_generate_Ok(3) [OF assms(1,3)] by blast
  have p: "p = bsk_public k" "p' = bsk_public k'"
    using bsk_generate_Ok(2) [OF assms(1,2)] bsk_generate_Ok(2) [OF assms(1,3)] by auto
  have "sk = sk'" if "take 32 (drop 32 s) = take 32 (drop 32 s')"
    using k(2,4) that by (simp add: p521_keys_def p521_curve_seed_def)
  then show ?thesis
    by (auto simp: p k(1,3) keys_of_def ed448_curve_seed_def)
qed

theorem seed_layout_witness:
  "\<exists>k k' p p'. bsk_generate crates_ref (replicate 64 7) = Ok (k, p) \<and>
    bsk_generate crates_ref (replicate 32 8 @ replicate 32 7) = Ok (k', p') \<and>
    bsk_p521 k = bsk_p521 k'"
proof -
  obtain k k' where g: "bsk_generate crates_ref (replicate 64 7) = Ok (k, bsk_public k)"
      "bsk_generate crates_ref (replicate 32 8 @ replicate 32 7) = Ok (k', bsk_public k')"
    using generate_ref [of "replicate 64 7"] generate_ref [of "replicate 32 8 @ replicate 32 7"]
    by auto
  with seed_layout [OF crates_ref_laws g] show ?thesis by auto
qed

text \<open>Deriving the public key again from the kept seed gives the cached public key.\<close>

theorem derived_public_key_is_cached:
  assumes "crates_laws K C" and "bsk_generate K seed = Ok (k, pub)"
  shows "derive_public_key K k = Ok (bsk_public k)"
proof -
  obtain sk where "k = keys_of K seed sk" using bsk_generate_Ok(3) [OF assms] by blast
  then have "bsk_seed k = seed" by (simp add: keys_of_def)
  then show ?thesis
    using assms(2) bsk_generate_Ok(1,2) [OF assms] by (simp add: derive_public_key_eq [OF assms(1)])
qed

theorem derived_public_key_is_cached_witness:
  "\<exists>k. bsk_generate crates_ref seed_ref = Ok (k, bsk_public k) \<and>
    derive_public_key crates_ref k = Ok (bsk_public k)"
proof -
  obtain k where g: "bsk_generate crates_ref seed_ref = Ok (k, bsk_public k)" by (rule seed_ref_key)
  with derived_public_key_is_cached [OF crates_ref_laws g] show ?thesis by blast
qed

text \<open>
  Generation refuses a seed of fewer than 64 bytes; from a longer one it gives keys exactly
  when one of the 256 P-521 digests is not all zero, and otherwise panics.
\<close>

theorem generate_total:
  assumes "crates_laws K C"
  shows "(length seed < 64 \<longrightarrow> bsk_generate K seed = Error (SeedError
      [Str ''seed must be at least 64 bytes for BlackChain key derivation''])) \<and>
    (64 \<le> length seed \<longrightarrow>
      (if \<exists>c. \<exists>b\<in>set (p521_digest (hsh K) (p521_curve_seed (hsh K) seed) c). b \<noteq> 0
       then accepted (bsk_generate K seed) else \<not> panic_free (bsk_generate K seed)))"
proof (intro conjI impI)
  assume "length seed < 64"
  then show "bsk_generate K seed = Error (SeedError
      [Str ''seed must be at least 64 bytes for BlackChain key derivation''])"
    by (simp add: bsk_generate_def)
qed (rule bsk_generate_total [OF assms])

theorem generate_total_witness:
  "(\<exists>e. bsk_generate crates_ref (replicate 63 0) = Error e) \<and>
   accepted (bsk_generate crates_ref (replicate 64 0))"
proof -
  have d: "\<exists>b\<in>set (p521_digest (hsh crates_ref) s c). b \<noteq> 0" for s c
    using checksum_not_zero [of 64] by (simp add: p521_digest_def crates_ref_def hashes_ref_def)
  have "\<exists>c. \<exists>b\<in>set (p521_digest (hsh crates_ref) (p521_curve_seed (hsh crates_ref) (replicate 64 0)) c). b \<noteq> 0"
    using d by blast
  then show ?thesis
    using generate_total [OF crates_ref_laws, of "replicate 63 0"]
      generate_total [OF crates_ref_laws, of "replicate 64 0"] by simp
qed

section \<open>Derivation paths\<close>

text \<open>
  C19. The path parser inverts the printer: for any non-empty list of indices below \<open>2 ^ 31\<close>
  the printed path \<open>m/i'/j'/...\<close> parses to the hardened indices, and masking a hardened
  index, as the derivation does, gives the index back.
\<close>

theorem path_round_trip:
  assumes "ns \<noteq> []" and "\<forall>n\<in>set ns. n < 0x80000000"
  shows "parse_hardened_path (print_path ns) = Ok (map harden ns) \<and>
    map (\<lambda>w. w AND 0x7FFFFFFF) (map harden ns) = ns"
proof -
  have "map (\<lambda>w. w AND 0x7FFFFFFF) (map harden ns) = map id ns"
    unfolding map_map using assms(2) by (intro map_cong) (simp_all add: raw_harden)
  then show ?thesis using parse_print_path [OF assms] by simp
qed

theorem path_round_trip_witness:
  "parse_hardened_path (lit ''m/'' @ lit ''44'' @ [39] @ [47] @ lit ''7'' @ [39]) =
    Ok [0x8000002C, 0x80000007]"
  using path_round_trip [of "[44, 7]"]
  by (simp add: print_path_def lit_def show_nat.simps harden_def)

text \<open>
  Whatever string is parsed, the result is a non-empty list of hardened indices, so a
  parsed path never meets the derivation's refusal of normal indices.
\<close>

theorem parsed_paths_hardened:
  assumes "parse_hardened_path s = Ok ws"
  shows "ws \<noteq> [] \<and> (\<forall>w\<in>set ws. 0x80000000 \<le> w) \<and> check_hardened 0 ws = Ok () \<and>
    derive_child_seed X seed ws =
      and_then (of_result (\<lambda>e. Custom [Str ''BIP32 master key creation failed: '', Ext e]) (x_new X seed))
        (\<lambda>key. and_then (derive_children X key ws)
           (\<lambda>key. Ok (x_private_key_bytes X key @ x_chain_code X key)))"
proof -
  note h = parse_hardened_path_hardened [OF assms]
  then have "check_hardened 0 ws = Ok ()" by (simp add: check_hardened_iff)
  with h show ?thesis by (simp add: derive_child_seed_def)
qed

theorem parsed_paths_hardened_witness:
  "parse_hardened_path (account_path 3) = Ok [0x8000002C, 0x8000003C, 0x80000000, 0x80000000, 0x80000003] \<and>
   check_hardened 0 [0x8000002C, 0x8000003C, 0x80000000, 0x80000000, 0x80000003] = Ok ()"
proof -
  have p: "parse_hardened_path (account_path 3) =
      Ok [0x8000002C, 0x8000003C, 0x80000000, 0x80000000, 0x80000003]"
    by (simp add: parse_account_path harden_def)
  with parsed_paths_hardened [OF p] show ?thesis by blast
qed

text \<open>
  A path with an index that is not hardened is refused before any key is made, with the
  error that names the first such index and its position.
\<close>

theorem first_normal_index_reported:
  assumes "\<forall>w\<in>set ps. 0x80000000 \<le> w" and "w < 0x80000000"
  shows "derive_child_seed X seed (ps @ w # qs) = Error (not_hardened_error (length ps) w)"
  using check_hardened_first [OF assms, of 0 qs] by (simp add: derive_child_seed_def)

theorem first_normal_index_reported_witness:
  "derive_child_seed bip32_ref (replicate 64 0) [0x8000002C, 60, 0] = Error (not_hardened_error 1 60)"
  using first_normal_index_reported [of "[0x8000002C]" 60 bip32_ref "replicate 64 0" "[0]"] by simp

section \<open>Wallets\<close>

text \<open>
  The validator and the seed derivation accept the same phrases, for every passphrase;
  every accepted phrase has 24 words and its seed has 64 bytes.
\<close>

theorem validator_agrees:
  assumes "bip39_laws M"
  shows "(validate_mnemonic M phrase \<longleftrightarrow> accepted (seed_from_mnemonic M phrase password)) \<and>
    (validate_mnemonic M phrase \<longrightarrow> length (split_whitespace phrase) = 24) \<and>
    (\<forall>seed. seed_from_mnemonic M phrase password = Ok seed \<longrightarrow> length seed = 64)"
  using validate_iff_seed [of M phrase password] seed_from_mnemonic_size [OF assms]
  by (auto simp: validate_mnemonic_def Let_def size_consts split: if_splits)

theorem validator_agrees_witness:
  "\<not> validate_mnemonic bip39_ref (lit ''only three words'') \<and>
   \<not> accepted (seed_from_mnemonic bip39_ref (lit ''only three words'') [])"
proof -
  have "length (split_whitespace (lit ''only three words'')) = 3"
    by (simp add: split_whitespace_def lit_def is_whitespace_def)
  then have "\<not> validate_mnemonic bip39_ref (lit ''only three words'')"
    by (simp add: validate_mnemonic_def size_consts)
  with validator_agrees [OF bip39_ref_laws, of "lit ''only three words''" "[]"] show ?thesis by simp
qed

text \<open>
  C20. A wallet that was created can be restored: with 32 bytes of entropy, \<^verbatim>\<open>create_wallet\<close>
  makes a phrase that validates, and whatever it returns, restoring that phrase with the same
  passphrase gives the same key, which satisfies the key invariant.
\<close>

theorem created_wallet_restores:
  assumes "crates_laws K C" "bip39_laws M"
    and "getrandom 32 = Inr entropy" "length entropy = 32"
    and "create_wallet K M X getrandom passphrase = Ok (phrase, key)"
  shows "restore_wallet K M X phrase passphrase = Ok key \<and> validate_mnemonic M phrase \<and>
    length (split_whitespace phrase) = 24 \<and> key_wf K key"
proof -
  have r: "restore_wallet K M X phrase passphrase = Ok key"
    using assms(5) by (auto simp: create_wallet_def)
  then obtain seed root where s: "seed_from_mnemonic M phrase passphrase = Ok root"
      and g: "bsk_generate K seed = Ok (key, bsk_public key)"
    using bsk_generate_Ok(2) [OF assms(1)] by (fastforce simp: restore_wallet_def)
  have "validate_mnemonic M phrase" using s by (simp add: validate_iff_seed [of M phrase passphrase])
  with r s bsk_generate_wf [OF assms(1) g] show ?thesis
    by (auto simp: seed_from_mnemonic_def Let_def size_consts split: if_splits)
qed

theorem created_wallet_restores_witness:
  "\<exists>phrase key. create_wallet crates_ref bip39_ref bip32_ref (\<lambda>n. Inr (replicate n 5)) [] = Ok (phrase, key) \<and>
    restore_wallet crates_ref bip39_ref bip32_ref phrase [] = Ok key"
proof -
  let ?get = "\<lambda>n. Inr (replicate n 5) :: string + bytes"
  obtain phrase key where c: "create_wallet crates_ref bip39_ref bip32_ref ?get [] = Ok (phrase, key)"
    using create_wallet_ref [of "[]"] by auto
  show ?thesis
    using created_wallet_restores [OF crates_ref_laws bip39_ref_laws _ _ c, of "replicate 32 5"] c
    by auto
qed

text \<open>
  \<^verbatim>\<open>fromMnemonic\<close> is \<^verbatim>\<open>fromMnemonicAt\<close> with index 0, whether it succeeds or fails; for an
  index below \<open>2 ^ 31\<close> the path has that index hardened at its end, and from \<open>2 ^ 31\<close> on every
  phrase that is otherwise accepted is refused.
\<close>

theorem accounts_of_a_mnemonic:
  "wallet_from_mnemonic K M X phrase pass = wallet_from_mnemonic_at K M X phrase pass 0 \<and>
   parse_hardened_path (account_path index) =
     (if index < 0x80000000
      then Ok [0x8000002C, 0x8000003C, 0x80000000, 0x80000000, harden index]
      else Error (Custom [Str ''BIP32: index too large before hardening at position '', Num 4]))"
proof
  show "wallet_from_mnemonic K M X phrase pass = wallet_from_mnemonic_at K M X phrase pass 0"
    unfolding wallet_from_mnemonic_def wallet_from_mnemonic_at_def restore_wallet_def
      DEFAULT_ACCOUNT_PATH_account
    by (simp add: js_err_and_then and_then_assoc case_prod_unfold)
  show "parse_hardened_path (account_path index) =
     (if index < 0x80000000
      then Ok [0x8000002C, 0x8000003C, 0x80000000, 0x80000000, harden index]
      else Error (Custom [Str ''BIP32: index too large before hardening at position '', Num 4]))"
    by (simp add: parse_account_path account_index_too_large not_less)
qed

text \<open>
  What a wallet signs, JavaScript can verify: the signature of a wallet with a well-formed
  key verifies under the bytes the wallet exports as its public key; and for any bytes as key
  and signature \<^verbatim>\<open>verifyMessage\<close> returns a boolean or a parse error of the key, never a panic.
\<close>

theorem wallet_messages:
  assumes "crates_laws K C" and "key_wf K (bw_key w)"
  shows "(\<exists>sig. wallet_sign_message K r w m = Ok sig \<and>
      wasm_verify_message K m sig (wallet_public_key w) = Ok True) \<and>
    panic_free (wasm_verify_message K m' sig' pkb)"
proof
  obtain sig where s: "sign_message K r (bw_key w) m = Ok sig"
      "verify_message K (bsk_public (bw_key w)) m sig = Ok True"
    using composite_sign_verify [OF assms] by (fastforce simp: sign_message_def verify_message_def Let_def)
  have "bpk_from_bytes K (wallet_public_key w) = Ok (bsk_public (bw_key w))"
    using key_wf_pk_valid [OF assms] by (simp add: bpk_from_bytes_iff wallet_public_key_def)
  with s show "\<exists>sig. wallet_sign_message K r w m = Ok sig \<and>
      wasm_verify_message K m sig (wallet_public_key w) = Ok True"
    by (intro exI [of _ sig]) (simp add: wallet_sign_message_def wasm_verify_message_def js_err_def)
  have "panic_free (unwrap_or False (verify_message K pk m' sig') :: (bool, message) outcome)" for pk
    using verify_message_panic_free [of K pk m' sig'] by (auto elim!: not_panic_cases)
  then show "panic_free (wasm_verify_message K m' sig' pkb)"
    by (auto simp: wasm_verify_message_def js_err_def bpk_from_bytes_panic_free intro!: panic_free_and_then)
qed

theorem wallet_messages_witness:
  "\<exists>w sig. wallet_sign_message crates_ref 0 w [7] = Ok sig \<and>
    wasm_verify_message crates_ref [7] sig (wallet_public_key w) = Ok True"
proof -
  obtain k where k: "key_wf crates_ref k" by (rule seed_ref_key)
  then have "key_wf crates_ref (bw_key \<lparr>bw_key = k, bw_mnemonic = []\<rparr>)" by simp
  from wallet_messages [OF crates_ref_laws this] show ?thesis by blast
qed

text \<open>
  A transaction that a wallet signs from JSON recovers, from the JSON it returns, to the
  address the wallet shows, when reading the JSON of a transaction gives it back.
\<close>

theorem wallet_transactions:
  assumes "crates_laws K C" "key_wf K (bw_key w)"
    and "\<And>t. tx_typed t \<Longrightarrow> \<exists>s. j_to_string J t = Inr s \<and> j_from_str J s = Inr t"
    and "j_from_str J tx_str = Inr tx" "tx_typed tx"
  shows "\<exists>out. wallet_sign_transaction K R J r w tx_str = Ok out \<and>
    wasm_recover_sender K R J hex_encode out = Ok (wallet_address (hsh K) hex_encode w)"
proof -
  obtain sig where s: "sign_transaction K R r (bw_key w) tx = Ok (signed_tx tx (bsk_public (bw_key w)) sig)"
      "recover_sender K R (signed_tx tx (bsk_public (bw_key w)) sig) =
        Ok (derive_address (hsh K) (bsk_public (bw_key w)))"
    using signed_recovers [OF assms(1,2)] by blast
  obtain out where o: "j_to_string J (signed_tx tx (bsk_public (bw_key w)) sig) = Inr out"
      "j_from_str J out = Inr (signed_tx tx (bsk_public (bw_key w)) sig)"
    using assms(3) [of "signed_tx tx (bsk_public (bw_key w)) sig"] assms(5) by auto
  show ?thesis
    using s o assms(4)
    by (intro exI [of _ out]) (simp add: wallet_sign_transaction_def wasm_recover_sender_def
        js_err_def wallet_address_def addr_hex_def)
qed

theorem wallet_transactions_witness:
  "\<exists>w out. wallet_sign_transaction crates_ref rlp_ref json_ref 0 w (json_print json_tx) = Ok out \<and>
    wasm_recover_sender crates_ref rlp_ref json_ref (map unat) out =
      Ok (wallet_address (hsh crates_ref) (map unat) w)"
proof -
  obtain k where k: "key_wf crates_ref k" by (rule seed_ref_key)
  then have w: "key_wf crates_ref (bw_key \<lparr>bw_key = k, bw_mnemonic = []\<rparr>)" by simp
  have j: "\<And>t. tx_typed t \<Longrightarrow> \<exists>s. j_to_string json_ref t = Inr s \<and> j_from_str json_ref s = Inr t"
    "j_from_str json_ref (json_print json_tx) = Inr json_tx" "tx_typed json_tx"
    by (simp_all add: json_ref_def json_parse_print json_tx_def tx_typed_def)
  show ?thesis
    using wallet_transactions [OF crates_ref_laws w j] by blast
qed

end
