(* ===== verification/Backend_Props.thy ===== *)
theory Backend_Props
  imports Reference
begin

text \<open>
  The properties of the three signature backends and of the \<^verbatim>\<open>Scheme\<close> trait: the Ed448
  verifier against RFC 8032, its point and scalar arithmetic, the low-S rule and the derivation
  loop of P-521, the ML-DSA-87 wrapper, and what the trait's implementations share.
\<close>

section \<open>Ed448\<close>

text \<open>
  C22. For a public key that came from bytes, verification accepts exactly the signatures that
  satisfy the verification equation of RFC 8032 (with the prehash flag when the context is the
  sentinel, and otherwise with the context), over the whole challenge hash as an integer.
\<close>

theorem ed448_verifier_is_rfc8032:
  assumes "curve_laws G C"
    and "ed448_pk_from_bytes G b = (Ok pk :: ('epk ed448_public_key, crypto_error) outcome)"
  shows "ed448_verify_sig H (E :: ('esk, 'epk) ed448_rust) G pk msg sig opts = Ok () \<longleftrightarrow>
    rfc8032_valid H G C (mode_from_opts opts) (ed448_ctx opts) b msg sig"
proof -
  have "length b = 57" and pk: "pk = \<lparr>epk_raw = b, epk_trusted_inner = None\<rparr>"
    using assms(2) by (auto simp: ed448_pk_from_bytes_iff [OF assms(1) [unfolded curve_laws_def, THEN conjunct2]])
  then show ?thesis unfolding pk by (intro ed448_verify_untrusted [OF assms(1)])
qed

definition ed448_ref_key :: bytes where
  "ed448_ref_key = ed448_ref_pub 0 # replicate 56 0"

lemma ed448_ref_key_parsed:
  "ed448_pk_from_bytes gold_ref ed448_ref_key =
    Ok \<lparr>epk_raw = ed448_ref_key, epk_trusted_inner = None\<rparr>"
  using canonical_ref [OF ed448_ref_pub_order, of 0] gold_ref_laws
  by (auto simp: ed448_pk_from_bytes_iff [of gold_ref curve_ref] curve_laws_def ed448_ref_key_def)

theorem ed448_verifier_is_rfc8032_witness:
  "ed448_verify_sig hashes_ref ed448_ref gold_ref \<lparr>epk_raw = ed448_ref_key, epk_trusted_inner = None\<rparr>
     [1, 2] (ed448_ref_sign Mode_Ed448 0 [1, 2] []) None = Ok ()"
  unfolding ed448_verifier_is_rfc8032 [OF gold_ref_laws ed448_ref_key_parsed]
  by (simp add: ed448_ref_key_def ed448_ref_sign_valid)

text \<open>
  C23. The byte loop of \<^verbatim>\<open>decode_canonical_point\<close> is the comparison of the y-coordinate with
  the field prime \<open>2 ^ 448 - 2 ^ 224 - 1\<close>, and the function accepts exactly the encodings with
  clear unused bits and a reduced y-coordinate that are on the curve and not of small order.
\<close>

theorem canonical_decoding_exact:
  assumes "point_laws G C" and "length raw = 57"
  shows "(y_lt_p_loop raw (rev [0..<56]) \<longleftrightarrow> le_nat (take 56 raw) < 2 ^ 448 - 2 ^ 224 - 1) \<and>
    (decode_canonical_point G raw = Ok p \<longleftrightarrow>
      raw ! 56 AND 0x7f = 0 \<and> le_nat (take 56 raw) < 2 ^ 448 - 2 ^ 224 - 1 \<and>
      g_decompress G raw = Some p \<and> nmul 4 (point C p) \<noteq> 0)"
  using y_lt_p_loop_iff [OF assms(2)] decode_canonical_point_iff [OF assms]
  by (simp add: canonical_point_def)

theorem canonical_decoding_exact_witness:
  "decode_canonical_point gold_ref (64 # replicate 56 0) \<noteq> Ok 64 \<and>
   decode_canonical_point gold_ref (3 # replicate 56 0) = Ok 3"
proof -
  have p: "point_laws gold_ref curve_ref" using gold_ref_laws by (simp add: curve_laws_def)
  have l: "length (64 # replicate 56 0 :: bytes) = 57" "length (3 # replicate 56 0 :: bytes) = 57"
    by simp_all
  have "(4 :: 8 word) * 64 = 0" by simp
  then have "decode_canonical_point gold_ref (64 # replicate 56 0) \<noteq> Ok 64"
    unfolding canonical_decoding_exact [OF p l(1), THEN conjunct2]
    by (simp add: nmul_word curve_ref_def gold_ref_def)
  moreover have "decode_canonical_point gold_ref (3 # replicate 56 0) = Ok 3"
    unfolding canonical_decoding_exact [OF p l(2), THEN conjunct2]
    by (simp add: nmul_word curve_ref_def gold_ref_def take_Cons')
  ultimately show ?thesis by simp
qed

text \<open>
  The scalar loop reduces the challenge modulo the group order: the scalar it returns is
  the little-endian value of all its bytes, modulo the order, whatever their number.
\<close>

theorem challenge_reduction:
  assumes "scalar_laws G C"
  shows "scalar C (ed448_reduce G bs) = le_nat bs mod order C"
  by (rule ed448_reduce_value [OF assms])

theorem challenge_reduction_witness:
  "unat (ed448_reduce gold_ref [0x41, 1, 2]) = (0x41 + 256 * (1 + 256 * 2)) mod 64"
  using challenge_reduction [of gold_ref curve_ref "[0x41, 1, 2]"] gold_ref_laws
  by (simp add: curve_laws_def curve_ref_def)

text \<open>
  C24. Signing with a key from a seed succeeds for every context of at most 255 bytes, and the
  signature verifies under the key in memory as well as under the key read back from its bytes.
\<close>

theorem ed448_sign_verify:
  assumes "curve_laws G C" "ed448_rust_laws H (E :: ('esk, 'epk) ed448_rust) G C"
    and "ed448_new_key_from_seed E seed = (Ok (pk, sk) :: (_, crypto_error) outcome)"
    and "length (ed448_ctx opts) \<le> 255"
  shows "\<exists>sig pk'. ed448_sign_msg E sk msg opts = Ok sig \<and> length sig = 114 \<and>
    ed448_verify_sig H E G pk msg sig opts = Ok () \<and>
    ed448_pk_from_bytes G (ed448_pk_as_bytes pk) = Ok pk' \<and>
    ed448_verify_sig H E G pk' msg sig opts = Ok ()"
proof -
  have s: "length seed = 57"
    using assms(3) by (auto simp: ed448_new_key_from_seed_def ed448_from_seed_def size_consts split: if_splits)
  then have k: "pk = ed448_from_trusted_inner E (e_pk_from E (e_sk_from E seed))"
      "esk_inner sk = e_sk_from E seed"
    using assms(3) by (auto simp: ed448_new_key_from_seed_def ed448_from_seed_eq Let_def)
  let ?raw = "e_pk_as_byte E (e_pk_from E (e_sk_from E seed))"
  obtain sig where sig: "ed448_sign_msg E sk msg opts = Ok sig"
      "rfc8032_valid H G C (mode_from_opts opts) (ed448_ctx opts) ?raw msg sig"
      "ed448_verify_sig H E G pk msg sig opts = Ok ()"
    using ed448_sign_in_memory [OF assms(2,4), of pk sk msg] k by auto
  have p: "ed448_pk_from_bytes G (ed448_pk_as_bytes pk) =
      (Ok \<lparr>epk_raw = ?raw, epk_trusted_inner = None\<rparr> :: ('epk ed448_public_key, crypto_error) outcome)"
    using rfc8032_validD(4) [OF sig(2)] ed448_rust_lawsD(4) [OF assms(2)]
    by (auto simp: ed448_pk_from_bytes_iff [OF assms(1) [unfolded curve_laws_def, THEN conjunct2]]
        ed448_pk_as_bytes_def k ed448_from_trusted_inner_def)
  have "ed448_verify_sig H E G \<lparr>epk_raw = ?raw, epk_trusted_inner = None\<rparr> msg sig opts = Ok ()"
    using sig(2) ed448_verify_untrusted [OF assms(1) ed448_rust_lawsD(4) [OF assms(2)]] by blast
  with sig p rfc8032_validD(1) [OF sig(2)] show ?thesis by blast
qed

theorem ed448_sign_verify_witness:
  "\<exists>pk sk sig. ed448_new_key_from_seed ed448_ref (replicate 57 3) = (Ok (pk, sk) :: (_, crypto_error) outcome) \<and>
    ed448_sign_msg ed448_ref sk [9] (Some \<lparr>opts_context = lit ''ctx''\<rparr>) = Ok sig \<and>
    ed448_verify_sig hashes_ref ed448_ref gold_ref pk [9] sig (Some \<lparr>opts_context = lit ''ctx''\<rparr>) = Ok ()"
proof -
  let ?o = "Some \<lparr>opts_context = lit ''ctx''\<rparr>"
  obtain pk sk where k: "ed448_new_key_from_seed ed448_ref (replicate 57 3) = (Ok (pk, sk) :: (_, crypto_error) outcome)"
    by (simp add: ed448_new_key_from_seed_def ed448_from_seed_eq Let_def)
  have "length (ed448_ctx ?o) \<le> 255"
    by (simp add: ed448_ctx_def mode_context_opt_def mode_from_opts_def PREHASH_CONTEXT_def lit_def
        utf8_def utf8_char_def Let_def)
  from ed448_sign_verify [OF gold_ref_laws ed448_ref_laws k this] k show ?thesis by blast
qed

text \<open>
  Contexts: one of more than 255 bytes is refused by signing, and a parsed key rejects
  every signature with it; the context \<^verbatim>\<open>PREHASHED\<close> is not a context but selects Ed448ph
  with an empty one.
\<close>

theorem ed448_contexts:
  assumes "curve_laws G C" "ed448_rust_laws H E G C" and "255 < length (ed448_ctx opts)"
    and "length pk = 57"
  shows "(\<exists>e. ed448_sign_msg E k msg opts = Error e) \<and>
    (\<exists>e. ed448_verify_sig H E G \<lparr>epk_raw = pk, epk_trusted_inner = None\<rparr> msg sig opts = Error e) \<and>
    mode_from_opts (Some \<lparr>opts_context = PREHASH_CONTEXT\<rparr>) = Mode_Ed448Ph \<and>
    ed448_ctx (Some \<lparr>opts_context = PREHASH_CONTEXT\<rparr>) = []"
proof -
  let ?v = "ed448_verify_sig H E G \<lparr>epk_raw = pk, epk_trusted_inner = None\<rparr> msg sig opts"
  have "?v \<noteq> Ok ()"
    using ed448_verify_untrusted [OF assms(1,4)] rfc8032_validD(2) assms(3) by fastforce
  moreover have "panic_free ?v" by (rule ed448_verify_sig_panic_free)
  ultimately have "\<exists>e. ?v = Error e" by (cases ?v) (auto simp: panic_free_def split: failure.splits)
  then show ?thesis
    using ed448_sign_long_context [OF assms(2,3)]
    by (auto simp: mode_from_opts_def ed448_ctx_def mode_context_opt_def)
qed

theorem ed448_contexts_witness:
  "\<exists>e. ed448_sign_msg ed448_ref
     \<lparr>esk_inner = 0, esk_public = \<lparr>epk_raw = ed448_ref_key, epk_trusted_inner = None\<rparr>\<rparr> [1]
     (Some \<lparr>opts_context = replicate 256 97\<rparr>) = Error e"
proof -
  let ?o = "Some \<lparr>opts_context = replicate 256 97\<rparr>"
  have "utf8 (replicate n 97) = replicate n 97" for n
    by (induction n) (simp_all add: utf8_def utf8_char_def)
  moreover have "replicate 256 97 \<noteq> PREHASH_CONTEXT"
    by (rule notI, drule arg_cong [of _ _ length]) (simp add: PREHASH_CONTEXT_def lit_def)
  ultimately have "255 < length (ed448_ctx ?o)"
    by (simp add: ed448_ctx_def mode_context_opt_def mode_from_opts_def Let_def)
  from ed448_contexts [OF gold_ref_laws ed448_ref_laws this, of ed448_ref_key] show ?thesis
    by (simp add: ed448_ref_key_def)
qed

text \<open>
  Signatures are not malleable by adding the group order: with \<open>S\<close> replaced by an
  encoding of \<open>S\<close> plus any positive multiple of the order, an accepted signature is rejected.
\<close>

theorem ed448_scalar_malleability:
  assumes "curve_laws G C" and "length pk = 57"
    and "ed448_verify_sig H E G \<lparr>epk_raw = pk, epk_trusted_inner = None\<rparr> msg sig opts = Ok ()"
    and "le_nat s' = le_nat (drop 57 sig) + n * order C" "0 < n"
  shows "ed448_verify_sig H E G \<lparr>epk_raw = pk, epk_trusted_inner = None\<rparr> msg (take 57 sig @ s') opts \<noteq> Ok ()"
proof -
  have "length sig = 114"
    using assms(3) unfolding ed448_verify_untrusted [OF assms(1,2)] by (rule rfc8032_validD)
  then have d: "drop 57 (take 57 sig @ s') = s'" by simp
  have "order C \<le> le_nat s'" using assms(4,5) by (cases n) simp_all
  then have "\<not> rfc8032_valid H G C (mode_from_opts opts) (ed448_ctx opts) pk msg (take 57 sig @ s')"
    using rfc8032_validD(3) [of H G C _ _ pk msg "take 57 sig @ s'"]
    unfolding d by (meson leD)
  then show ?thesis unfolding ed448_verify_untrusted [OF assms(1,2)] .
qed

theorem ed448_scalar_malleability_witness:
  "\<exists>sig s'. ed448_verify_sig hashes_ref ed448_ref gold_ref
      \<lparr>epk_raw = ed448_ref_key, epk_trusted_inner = None\<rparr> [1] sig None = Ok () \<and>
    le_nat s' = le_nat (drop 57 sig) + 64 \<and>
    ed448_verify_sig hashes_ref ed448_ref gold_ref
      \<lparr>epk_raw = ed448_ref_key, epk_trusted_inner = None\<rparr> [1] (take 57 sig @ s') None \<noteq> Ok ()"
proof -
  let ?sig = "ed448_ref_sign Mode_Ed448 0 [1] []" and ?n = "le_nat (drop 57 (ed448_ref_sign Mode_Ed448 0 [1] []))"
  have l: "length ed448_ref_key = 57" by (simp add: ed448_ref_key_def)
  have r: "rfc8032_valid hashes_ref gold_ref curve_ref Mode_Ed448 [] ed448_ref_key [1] ?sig"
    unfolding ed448_ref_key_def by (rule ed448_ref_sign_valid) simp
  then have v: "ed448_verify_sig hashes_ref ed448_ref gold_ref
      \<lparr>epk_raw = ed448_ref_key, epk_trusted_inner = None\<rparr> [1] ?sig None = Ok ()"
    unfolding ed448_verify_untrusted [OF gold_ref_laws l] by simp
  have n: "?n < 64" using rfc8032_validD(3) [OF r] by (simp add: curve_ref_def)
  let ?s = "word_of_nat (?n + 64) # replicate 56 0 :: bytes"
  have "le_nat ?s = (?n + 64) mod 256" by (simp only: le_nat.simps le_nat_replicate_zero unat_byte_of_nat)
  with n have s: "le_nat ?s = ?n + 1 * order curve_ref" by (simp add: curve_ref_def)
  have "(0 :: nat) < 1" by simp
  from v s ed448_scalar_malleability [OF gold_ref_laws l v s this] show ?thesis
    by (intro exI [of _ ?sig] exI [of _ ?s]) (simp add: curve_ref_def)
qed

section \<open>P-521\<close>

text \<open>
  Signatures are emitted in low-S form: whatever randomness the signer drew, the 132 bytes
  decode to a signature that needs no normalisation, and they verify under the signer's key.
\<close>

lemma p521_signs_low_s:
  assumes "p521_laws P"
  shows "length (p521_sign_msg P r k m) = 132 \<and>
    (\<exists>g. p_sig_from_slice P (p521_sign_msg P r k m) = Inr g \<and> p_normalize_s P g = None) \<and>
    p521_verify_sig P (p_vk_of P k) m (p521_sign_msg P r k m) = Ok ()"
  using p521_sign_verify [OF assms, where r = r and k = k and m = m]
    p521_sign_msg_low_s [OF assms, where r = r and k = k and m = m]
    p521_lawsD(4) [OF assms] by fastforce

text \<open>
  The high-S twin of a signature is rejected, whether it satisfies the ECDSA equation or
  not, and its low-S twin is accepted exactly when it does: of the two encodings of one
  signature only one is ever valid.
\<close>

lemma p521_high_s_rejected:
  assumes "p521_laws P" and "p_sig_from_slice P sig = Inr g" and "p_normalize_s P g = Some g'"
  shows "p521_verify_sig P v m sig =
      Error (SignatureError [Str ''non-canonical high-S P-521 signature rejected'']) \<and>
    p_sig_to_bytes P g' \<noteq> sig \<and>
    (p521_verify_sig P v m (p_sig_to_bytes P g') = Ok () \<longleftrightarrow> p_verify P v m g = Inr ())"
proof -
  have n: "p_normalize_s P g' = None" "g' \<noteq> g"
    "p_verify P v m g' = Inr () \<longleftrightarrow> p_verify P v m g = Inr ()"
    using p521_lawsD(6-8) [OF assms(1,3)] by blast+
  have "p_sig_to_bytes P g' \<noteq> sig"
    using assms(2) n(2) p521_lawsD(4) [OF assms(1), of g'] by auto
  moreover have "p521_verify_sig P v m sig =
      Error (SignatureError [Str ''non-canonical high-S P-521 signature rejected''])"
    by (simp add: p521_verify_sig_def assms(2,3))
  ultimately show ?thesis
    using n p521_lawsD(4) [OF assms(1), of g'] by (simp add: p521_verify_sig_iff)
qed

text \<open>
  C25. Only low-S signatures pass: what \<^verbatim>\<open>sign_msg\<close> gives has 132 bytes, parses to a low-S
  signature and is accepted by the public key; any bytes are accepted exactly when they parse to a
  low-S signature that the crate accepts; a high-S signature is rejected with the error for it, and
  its normalised form, which has other bytes, is accepted exactly when the crate accepts the original.
\<close>

theorem p521_low_s_only:
  assumes "p521_laws P"
  shows "length (p521_sign_msg P r k m) = 132 \<and>
    (\<exists>g. p_sig_from_slice P (p521_sign_msg P r k m) = Inr g \<and> p_normalize_s P g = None) \<and>
    p521_verify_sig P (p_vk_of P k) m (p521_sign_msg P r k m) = Ok () \<and>
    (p521_verify_sig P v m' sig = Ok () \<longleftrightarrow>
      (\<exists>g. p_sig_from_slice P sig = Inr g \<and> p_normalize_s P g = None \<and> p_verify P v m' g = Inr ())) \<and>
    (p_sig_from_slice P sig = Inr g \<and> p_normalize_s P g = Some g' \<longrightarrow>
      p521_verify_sig P v m' sig =
        Error (SignatureError [Str ''non-canonical high-S P-521 signature rejected'']) \<and>
      p_sig_to_bytes P g' \<noteq> sig \<and>
      (p521_verify_sig P v m' (p_sig_to_bytes P g') = Ok () \<longleftrightarrow> p_verify P v m' g = Inr ()))"
  using p521_signs_low_s [OF assms, of r k m] p521_high_s_rejected [OF assms, of sig g g' v m']
    p521_verify_sig_iff [of P v m' sig] by blast

theorem p521_low_s_only_witness:
  "p521_verify_sig p521_ref 66 [5] (71 # replicate 65 0 @ 0 # replicate 65 0) = Ok () \<and>
   p521_verify_sig p521_ref 66 [5] (71 # replicate 65 0 @ 1 # replicate 65 0) =
     Error (SignatureError [Str ''non-canonical high-S P-521 signature rejected''])"
proof -
  have p: "p_sig_from_slice p521_ref (71 # replicate 65 0 @ 1 # replicate 65 0) = Inr (71, True)"
    "p_normalize_s p521_ref (71, True) = Some (71, False)"
    "p521_sign_msg p521_ref 1 (replicate 66 1) [5] = 71 # replicate 65 0 @ 0 # replicate 65 0"
    "p_vk_of p521_ref (replicate 66 1) = 66"
    by (simp_all add: p521_ref_def nth_append p521_sign_msg_def sum_list_replicate)
  show ?thesis
    using p521_low_s_only [OF p521_ref_laws, of 1 "replicate 66 1" "[5]" 66 "[5]"
        "71 # replicate 65 0 @ 1 # replicate 65 0" "(71, True)" "(71, False)"]
    unfolding p(3,4) using p(1,2) by blast
qed

text \<open>
  C26. Deriving a key from a 66-byte seed returns the key of the first counter, from 0 up, whose
  digest is not all zero, and it panics only if there is none among the 256; from a seed of any
  other length it panics.  The digest below two zero bytes is always below the group order, so
  no other scalar is ever skipped.
\<close>

theorem p521_derivation:
  assumes "p521_laws P" "hash_laws H"
  shows "(length seed = 66 \<longrightarrow>
      (case find (\<lambda>c. \<exists>b\<in>set (p521_digest H seed c). b \<noteq> 0) p521_counters of
         Some c \<Rightarrow> (\<exists>k. p_sk_from_slice P (replicate 2 0 @ p521_digest H seed c) = Inr k \<and>
           p521_derive_keypair_from_seed P H seed = (Ok (p_vk_of P k, k) :: (_, crypto_error) outcome))
       | None \<Rightarrow> \<not> panic_free (p521_derive_keypair_from_seed P H seed :: (_, crypto_error) outcome))) \<and>
    (length seed \<noteq> 66 \<longrightarrow> \<not> panic_free (p521_derive_keypair_from_seed P H seed :: (_, crypto_error) outcome)) \<and>
    p521_counters = map word_of_nat [0..<256]"
proof -
  have "p521_first_valid P H seed p521_counters =
      find (\<lambda>c. \<exists>b\<in>set (p521_digest H seed c). b \<noteq> 0) p521_counters"
    using p521_scalar_valid_iff [OF assms(2,1)] by (simp add: p521_first_valid_def not_isl_iff)
  then show ?thesis
    using p521_first_validD [of P H seed p521_counters]
    by (auto simp: p521_derive_keypair_from_seed_def size_consts p521_derive_loop_first [OF assms(2)]
        p521_counters_def p521_scalar_def Let_def split: option.splits)
qed

theorem p521_derivation_witness:
  "\<exists>k. p521_derive_keypair_from_seed p521_ref hashes_ref (replicate 66 9) =
     (Ok (p_vk_of p521_ref k, k) :: (_, crypto_error) outcome)"
proof -
  have d: "\<exists>b\<in>set (p521_digest hashes_ref s c). b \<noteq> 0" for s c
    using checksum_not_zero [of 64] by (simp add: p521_digest_def hashes_ref_def)
  have "find (\<lambda>c. \<exists>b\<in>set (p521_digest hashes_ref (replicate 66 9) c). b \<noteq> 0) p521_counters \<noteq> None"
    using d set_p521_counters by (auto simp: find_None_iff)
  then show ?thesis
    using p521_derivation [OF p521_ref_laws hashes_ref_laws, of "replicate 66 9"] by auto
qed

section \<open>ML-DSA-87\<close>

text \<open>
  A key expanded from a 32-byte seed keeps that seed as its byte form, its signatures have
  4627 bytes and verify under its public key and under the key read back from its bytes, and
  signing into a buffer writes the same signature at its front, leaves what is behind it, and
  panics on a buffer that is too small.
\<close>

theorem ml_dsa_sign_verify:
  assumes "ml_dsa_laws D" and "length xi = 32" and "dil_from_seed D xi = (Ok (pk, sk) :: (_, dil_error) outcome)"
  shows "dil_seed_bytes D sk = (Ok xi :: (_, dil_error) outcome) \<and>
    dil_pk_from_bytes D (dil_pk_to_vec D pk) = Ok pk \<and>
    (\<exists>sig. dil_sign_internal D sk m = (Ok sig :: (_, dil_error) outcome) \<and> length sig = 4627 \<and>
      dil_verify_internal D pk m sig = Ok () \<and>
      (4627 \<le> length buf \<longrightarrow> dil_sk_sign_to D sk m buf = (Ok (sig @ drop 4627 buf) :: (_, dil_error) outcome))) \<and>
    (length buf < 4627 \<longrightarrow> \<not> panic_free (dil_sk_sign_to D sk m buf :: (_, dil_error) outcome))"
proof -
  have k: "pk = d_verifying_key D (d_from_seed D xi)" "dsk_inner sk = d_from_seed D xi"
    using assms(3) unfolding dil_from_seed_eq [OF assms(1,2)] by auto
  obtain g where g: "d_try_sign D (dsk_inner sk) m = Inr g"
    using ml_dsa_lawsD(9) [OF assms(1)] by blast
  obtain sig where sig: "dil_sign_internal D sk m = (Ok sig :: (_, dil_error) outcome)" "length sig = 4627"
      "dil_verify_internal D pk m sig = Ok ()"
    using dil_sign_verify_inner [OF assms(1), of sk m] k by auto
  then have "sig = d_encode_sig D g" using g by (simp add: dil_sign_internal_def)
  with sig g k assms(2) show ?thesis
    by (simp add: dil_seed_bytes_Ok [OF assms(1)] dil_pk_from_bytes_iff [OF assms(1)] dil_pk_to_vec_def
        ml_dsa_lawsD [OF assms(1)] dil_sk_sign_to_def size_consts)
qed

theorem ml_dsa_sign_verify_witness:
  "\<exists>pk sk sig. dil_from_seed ml_dsa_ref (replicate 32 4) = (Ok (pk, sk) :: (_, dil_error) outcome) \<and>
    dil_sign_internal ml_dsa_ref sk [1] = (Ok sig :: (_, dil_error) outcome) \<and>
    dil_verify_internal ml_dsa_ref pk [1] sig = Ok ()"
proof -
  obtain pk sk where k: "dil_from_seed ml_dsa_ref (replicate 32 4) = (Ok (pk, sk) :: (_, dil_error) outcome)"
    by (simp add: dil_from_seed_eq [OF ml_dsa_ref_laws])
  from ml_dsa_sign_verify [OF ml_dsa_ref_laws _ k, of "[1]" "[]"] k show ?thesis by auto
qed

section \<open>The Scheme trait\<close>

text \<open>
  Through the trait, for each of the three schemes: keys that were derived from a seed,
  marshalled and read back sign without a context, and the public key that was read back
  verifies the signature.
\<close>

theorem schemes_reload:
  assumes "ml_dsa_laws D" "p521_laws P" "hash_laws H" "curve_laws G C" "ed448_rust_laws H E G C"
    and "\<not> has_context opts"
    and "S \<in> {dil_scheme D rng, p521_scheme P H, ed448_scheme H E G fill}"
    and "sch_derive_key S seed = Ok (pk, sk)"
  shows "\<exists>pb sb pk' sk' sig. pk_marshal pk = Ok pb \<and> length pb = sch_public_key_size S \<and>
    sk_marshal sk = Ok sb \<and> length sb = sch_private_key_size S \<and>
    sch_unmarshal_public S pb = Ok pk' \<and> sch_unmarshal_private S sb = Ok sk' \<and>
    sch_sign S r sk' m opts = Ok sig \<and> length sig = sch_signature_size S \<and>
    sch_verify S pk' m sig opts = Ok True"
proof -
  consider "S = dil_scheme_of (D, rng)" | "S = p521_scheme_of (P, H)"
    | "S = ed448_scheme_of (H, E, G, C, fill)"
    using assms(7) by (auto simp: dil_scheme_of_def p521_scheme_of_def)
  then show ?thesis
  proof cases
    case 1
    have ok: "dil_scheme_ok (D, rng)" using assms(1) by (simp add: dil_scheme_ok_def)
    show ?thesis
      using dil_contract.derived [OF ok] dil_contract.complete [OF ok] assms(6,8) unfolding 1 by blast
  next
    case 2
    have ok: "p521_scheme_ok (P, H)" using assms(2,3) by (simp add: p521_scheme_ok_def)
    show ?thesis
      using p521_contract.derived [OF ok] p521_contract.complete [OF ok] assms(6,8) unfolding 2 by blast
  next
    case 3
    have ok: "ed448_scheme_ok (H, E, G, C, fill)" using assms(4,5) by simp
    show ?thesis
      using ed448_contract.derived [OF ok] ed448_contract.complete [OF ok] assms(6,8)
      unfolding 3 by blast
  qed
qed

theorem schemes_reload_witness:
  "\<exists>pk sk pb pk' sig. sch_derive_key (p521_scheme p521_ref hashes_ref) (replicate 66 9) = Ok (pk, sk) \<and>
    pk_marshal pk = Ok pb \<and> sch_unmarshal_public (p521_scheme p521_ref hashes_ref) pb = Ok pk' \<and>
    sch_verify (p521_scheme p521_ref hashes_ref) pk' [8] sig None = Ok True"
proof -
  let ?S = "p521_scheme p521_ref hashes_ref"
  obtain v k where "p521_derive_keypair_from_seed p521_ref hashes_ref (replicate 66 9) =
      (Ok (v, k) :: (_, crypto_error) outcome)"
    using p521_ref_derives [of "replicate 66 9"] by auto
  then obtain pk sk where d: "sch_derive_key ?S (replicate 66 9) = Ok (pk, sk)"
    by (simp add: p521_scheme_def)
  have c: "\<not> has_context None" by (simp add: has_context_def)
  have s: "?S \<in> {dil_scheme ml_dsa_ref (\<lambda>r n. Inr (replicate n 0)), ?S,
      ed448_scheme hashes_ref ed448_ref gold_ref (\<lambda>r n. replicate n 0)}" by simp
  from schemes_reload [OF ml_dsa_ref_laws p521_ref_laws hashes_ref_laws gold_ref_laws ed448_ref_laws
      c s d, where m = "[8]" and r = 0] d show ?thesis by blast
qed

text \<open>
  C27. Through the trait, for each of the three schemes, verification always answers with a
  boolean for a public key that can be marshalled at all; it is false for a signature of any
  other size, and for a scheme without contexts whenever a context is given, where signing
  panics.
\<close>

theorem schemes_verify_total:
  assumes "ml_dsa_laws D" "p521_laws P" "hash_laws H" "curve_laws G C" "ed448_rust_laws H E G C"
    and "S \<in> {dil_scheme D rng, p521_scheme P H, ed448_scheme H E G fill}"
    and "panic_free (pk_marshal pk)"
  shows "(\<exists>b. sch_verify S pk m sig opts = Ok b) \<and>
    (length sig \<noteq> sch_signature_size S \<longrightarrow> sch_verify S pk m sig opts = Ok False) \<and>
    (has_context opts \<and> \<not> sch_supports_context S \<longrightarrow>
      sch_verify S pk m sig opts = Ok False \<and> \<not> panic_free (sch_sign S r sk m opts))"
proof -
  consider "S = dil_scheme_of (D, rng)" | "S = p521_scheme_of (P, H)"
    | "S = ed448_scheme_of (H, E, G, C, fill)"
    using assms(6) by (auto simp: dil_scheme_of_def p521_scheme_of_def)
  then show ?thesis
  proof cases
    case 1
    have ok: "dil_scheme_ok (D, rng)" using assms(1) by (simp add: dil_scheme_ok_def)
    show ?thesis
      using dil_contract.verify_total [OF ok assms(7)] dil_contract.resized_rejected [OF ok assms(7)]
        dil_contract.no_context [OF ok] unfolding 1 by blast
  next
    case 2
    have ok: "p521_scheme_ok (P, H)" using assms(2,3) by (simp add: p521_scheme_ok_def)
    show ?thesis
      using p521_contract.verify_total [OF ok assms(7)] p521_contract.resized_rejected [OF ok assms(7)]
        p521_contract.no_context [OF ok] unfolding 2 by blast
  next
    case 3
    have ok: "ed448_scheme_ok (H, E, G, C, fill)" using assms(4,5) by simp
    show ?thesis
      using ed448_contract.verify_total [OF ok assms(7)] ed448_contract.resized_rejected [OF ok assms(7)]
        ed448_contract.no_context [OF ok] unfolding 3 by blast
  qed
qed

theorem schemes_verify_total_witness:
  "sch_verify (p521_scheme p521_ref hashes_ref) \<lparr>pk_scheme = P_521, pk_marshal = Ok [1, 2]\<rparr> [] [] None = Ok False"
proof -
  let ?S = "p521_scheme p521_ref hashes_ref" and ?pk = "\<lparr>pk_scheme = P_521, pk_marshal = Ok [1, 2]\<rparr>"
  have p: "panic_free (pk_marshal ?pk)" by simp
  have s: "?S \<in> {dil_scheme ml_dsa_ref (\<lambda>r n. Inr (replicate n 0)), ?S,
      ed448_scheme hashes_ref ed448_ref gold_ref (\<lambda>r n. replicate n 0)}" by simp
  from schemes_verify_total [OF ml_dsa_ref_laws p521_ref_laws hashes_ref_laws gold_ref_laws
      ed448_ref_laws s p, where m = "[]" and sig = "[]" and opts = None] show ?thesis
    by (simp add: p521_scheme_def size_consts)
qed

end
