(* ===== verification/Sessions.thy ===== *)
theory Sessions
  imports Attacks
begin

text \<open>
  Runs of the library: owners generate keys and sign transactions and messages with them, and
  nodes accept what arrives, which anyone may have written.  The events of a run are logged.  An
  ideal log is one where only what an owner signed before is accepted as his; a run keeps to it
  until the crates accept a forgery, in the step where they do (\<open>broken\<close>).
\<close>

section \<open>The steps\<close>

datatype lib_event =
    Made_Key bc_public_key
  | Signed_Tx bc_public_key bc_tx
  | Signed_Message bc_public_key bytes
  | Accepted_Tx bytes bc_tx
  | Accepted_Message bc_public_key bytes bytes

text \<open>The latest event is the first one.\<close>

record lib_state =
  st_keys :: "bc_private_key list"
  st_log :: "lib_event list"

definition lib_init :: lib_state where
  "lib_init = \<lparr>st_keys = [], st_log = []\<rparr>"

definition logged :: "lib_event \<Rightarrow> lib_state \<Rightarrow> lib_state" where
  "logged e s = s\<lparr>st_log := e # st_log s\<rparr>"

text \<open>
  The buffers of a transaction that is signed or received have the size of a real memory
  (\<open>tx_small\<close>).
\<close>

inductive lib_step ::
  "('dv, 'ds, 'dg, 'v, 's, 'g, 'r, 'es, 'ep, 'pt, 'sc) crates \<Rightarrow> rlp_crate \<Rightarrow> lib_state \<Rightarrow> lib_state \<Rightarrow> bool"
  for K :: "('dv, 'ds, 'dg, 'v, 's, 'g, 'r, 'es, 'ep, 'pt, 'sc) crates" and R :: rlp_crate
where
  make_key: "bsk_generate K seed = Ok (k, pk) \<Longrightarrow>
    lib_step K R s (logged (Made_Key pk) (s\<lparr>st_keys := k # st_keys s\<rparr>))"
| sign_tx: "k \<in> set (st_keys s) \<Longrightarrow> tx_small tx \<Longrightarrow> sign_transaction K R r k tx = Ok tx' \<Longrightarrow>
    lib_step K R s (logged (Signed_Tx (bsk_public k) tx) s)"
| sign_msg: "k \<in> set (st_keys s) \<Longrightarrow> sign_message K r k m = Ok sig \<Longrightarrow>
    lib_step K R s (logged (Signed_Message (bsk_public k) m) s)"
| receive_tx: "tx_decode R buf = Ok (tx, rest) \<Longrightarrow> tx_small tx \<Longrightarrow> recover_sender K R tx = Ok a \<Longrightarrow>
    lib_step K R s (logged (Accepted_Tx a tx) s)"
| receive_msg: "bpk_from_bytes K pkb = Ok pk \<Longrightarrow> verify_message K pk m sig = Ok True \<Longrightarrow>
    lib_step K R s (logged (Accepted_Message pk m sig) s)"

inductive_cases lib_stepE: "lib_step K R s s'"

section \<open>The ideal log\<close>

text \<open>
  Keys are made and used freely; a transaction is accepted for the address of a key only if that
  key signed one with the same fields before, and a message only if the key signed it before.
\<close>

inductive ideal_step :: "hashes \<Rightarrow> lib_event list \<Rightarrow> lib_event list \<Rightarrow> bool" for H where
  ideal_key: "ideal_step H l (Made_Key pk # l)"
| ideal_sign_tx: "Made_Key pk \<in> set l \<Longrightarrow> ideal_step H l (Signed_Tx pk tx # l)"
| ideal_sign_msg: "Made_Key pk \<in> set l \<Longrightarrow> ideal_step H l (Signed_Message pk m # l)"
| ideal_accept_tx: "(\<And>pk. Made_Key pk \<in> set l \<Longrightarrow> derive_address H pk = a \<Longrightarrow>
      \<exists>tx'. Signed_Tx pk tx' \<in> set l \<and> tx_unsigned tx' = tx_unsigned tx) \<Longrightarrow>
    ideal_step H l (Accepted_Tx a tx # l)"
| ideal_accept_msg: "(Made_Key pk \<in> set l \<Longrightarrow> Signed_Message pk m \<in> set l) \<Longrightarrow>
    ideal_step H l (Accepted_Message pk m sig # l)"

text \<open>The same as a predicate on the log, which can be evaluated.\<close>

fun event_authorised :: "hashes \<Rightarrow> lib_event list \<Rightarrow> lib_event \<Rightarrow> bool" where
  "event_authorised H l (Accepted_Tx a tx) \<longleftrightarrow>
     (\<forall>e\<in>set l. case e of
        Made_Key pk \<Rightarrow> derive_address H pk = a \<longrightarrow>
          (\<exists>e'\<in>set l. case e' of
             Signed_Tx pk' tx' \<Rightarrow> pk' = pk \<and> tx_unsigned tx' = tx_unsigned tx
           | _ \<Rightarrow> False)
      | _ \<Rightarrow> True)"
| "event_authorised H l (Accepted_Message pk m sig) \<longleftrightarrow>
     (Made_Key pk \<in> set l \<longrightarrow> Signed_Message pk m \<in> set l)"
| "event_authorised H l (Signed_Tx pk tx) \<longleftrightarrow> Made_Key pk \<in> set l"
| "event_authorised H l (Signed_Message pk m) \<longleftrightarrow> Made_Key pk \<in> set l"
| "event_authorised H l (Made_Key pk) \<longleftrightarrow> True"

primrec authorised :: "hashes \<Rightarrow> lib_event list \<Rightarrow> bool" where
  "authorised H [] \<longleftrightarrow> True"
| "authorised H (e # l) \<longleftrightarrow> event_authorised H l e \<and> authorised H l"

lemma event_authorised_tx:
  "event_authorised H l (Accepted_Tx a tx) \<longleftrightarrow>
    (\<forall>pk. Made_Key pk \<in> set l \<longrightarrow> derive_address H pk = a \<longrightarrow>
      (\<exists>tx'. Signed_Tx pk tx' \<in> set l \<and> tx_unsigned tx' = tx_unsigned tx))"
proof -
  have s: "(\<exists>e'\<in>set l. case e' of Signed_Tx pk' tx' \<Rightarrow> pk' = pk \<and> tx_unsigned tx' = u | _ \<Rightarrow> False) \<longleftrightarrow>
      (\<exists>tx'. Signed_Tx pk tx' \<in> set l \<and> tx_unsigned tx' = u)" (is "?l \<longleftrightarrow> ?r") for pk u
  proof
    assume ?l
    then obtain e' where "e' \<in> set l" "case e' of Signed_Tx pk' tx' \<Rightarrow> pk' = pk \<and> tx_unsigned tx' = u | _ \<Rightarrow> False"
      by blast
    then show ?r by (cases e' rule: lib_event.exhaust) auto
  next
    assume ?r
    then obtain tx' where "Signed_Tx pk tx' \<in> set l" "tx_unsigned tx' = u" by blast
    then show ?l by (intro bexI [of _ "Signed_Tx pk tx'"]) simp_all
  qed
  have m: "(\<forall>e\<in>set l. case e of Made_Key pk \<Rightarrow> Q pk | _ \<Rightarrow> True) \<longleftrightarrow> (\<forall>pk. Made_Key pk \<in> set l \<longrightarrow> Q pk)"
    (is "?l \<longleftrightarrow> ?r") for Q
  proof
    assume ?l
    then show ?r by (auto dest: bspec)
  next
    assume r: ?r
    show ?l
    proof
      fix e assume "e \<in> set l"
      with r show "case e of Made_Key pk \<Rightarrow> Q pk | _ \<Rightarrow> True" by (cases e rule: lib_event.exhaust) auto
    qed
  qed
  show ?thesis unfolding event_authorised.simps(1) s m ..
qed

lemma ideal_step_iff: "ideal_step H l l' \<longleftrightarrow> (\<exists>e. l' = e # l \<and> event_authorised H l e)"
proof
  assume "ideal_step H l l'"
  then show "\<exists>e. l' = e # l \<and> event_authorised H l e"
  proof cases
    case (ideal_accept_tx a tx)
    then show ?thesis by (auto simp: event_authorised_tx simp del: event_authorised.simps(1))
  qed simp_all
next
  assume "\<exists>e. l' = e # l \<and> event_authorised H l e"
  then obtain e where l: "l' = e # l" "event_authorised H l e" by blast
  then show "ideal_step H l l'"
    by (cases e) (auto simp: event_authorised_tx simp del: event_authorised.simps(1) intro: ideal_step.intros)
qed

lemma ideal_run_iff: "(ideal_step H)\<^sup>*\<^sup>* [] l \<longleftrightarrow> authorised H l"
proof
  assume "(ideal_step H)\<^sup>*\<^sup>* [] l"
  then show "authorised H l"
    by (induction rule: rtranclp_induct) (auto simp: ideal_step_iff)
next
  show "authorised H l \<Longrightarrow> (ideal_step H)\<^sup>*\<^sup>* [] l"
    by (induction l) (auto simp: ideal_step_iff intro: rtranclp.rtrancl_into_rtrancl)
qed

section \<open>What a forgery takes\<close>

text \<open>
  The texts a key signed, each with the entanglement hash it was bound to: the pre-images of
  transactions and the messages.
\<close>

fun signed_text ::
  "('dv, 'ds, 'dg, 'v, 's, 'g, 'r, 'es, 'ep, 'pt, 'sc) crates \<Rightarrow> rlp_crate \<Rightarrow> bc_public_key \<Rightarrow> lib_event
     \<Rightarrow> (bytes \<times> bytes) set" where
  "signed_text K R pk (Signed_Tx pk' tx) =
     (if pk' = pk then {(signature_preimage R tx, bound_hash K (tx_chain_id tx) pk)} else {})"
| "signed_text K R pk (Signed_Message pk' m) = (if pk' = pk then {(m, message_hash K pk)} else {})"
| "signed_text K R pk _ = {}"

definition signed_texts ::
  "('dv, 'ds, 'dg, 'v, 's, 'g, 'r, 'es, 'ep, 'pt, 'sc) crates \<Rightarrow> rlp_crate \<Rightarrow> bc_public_key
     \<Rightarrow> lib_event list \<Rightarrow> (bytes \<times> bytes) set" where
  "signed_texts K R pk l = \<Union> (signed_text K R pk ` set l)"

text \<open>
  A composite signature forged for the text \<open>x\<close> and the entanglement hash \<open>b\<close>, where \<open>Q\<close> was
  signed: a Keccak collision with a signed text; or forged P-521 and Ed448 signatures, together
  with a forged ML-DSA-87 signature unless \<open>x\<close> itself was signed for another purpose.
\<close>

definition composite_forged ::
  "('dv, 'ds, 'dg, 'v, 's, 'g, 'r, 'es, 'ep, 'pt, 'sc) crates \<Rightarrow> bc_public_key \<Rightarrow> (bytes \<times> bytes) set
     \<Rightarrow> bytes \<Rightarrow> bytes \<Rightarrow> bytes \<Rightarrow> bool" where
  "composite_forged K pk Q x b sig \<longleftrightarrow>
     (\<exists>q\<in>Q. fst q \<noteq> x \<and> keccak256 (hsh K) (fst q) = keccak256 (hsh K) x) \<or>
     (let h = keccak256 (hsh K) x;
          signed = (\<lambda>c. (\<lambda>q. curve_msg (keccak256 (hsh K) (fst q)) (snd q) c) ` Q) in
      dil_leg_verify (mld K) (bpk_dilithium pk) h (take 4627 sig) = Ok () \<and>
      (x \<in> fst ` Q \<or> h \<notin> (\<lambda>q. keccak256 (hsh K) (fst q)) ` Q) \<and>
      curve_msg h b CURVE_ID_P521 \<notin> signed CURVE_ID_P521 \<and>
      p521_leg_verify (p5 K) (bpk_p521 pk) (curve_msg h b CURVE_ID_P521) (take 132 (drop 4627 sig)) = Ok () \<and>
      curve_msg h b CURVE_ID_ED448 \<notin> signed CURVE_ID_ED448 \<and>
      ed448_verify_with (hsh K) (edr K) (gld K) (bpk_ed448 pk) (curve_msg h b CURVE_ID_ED448)
        (drop 4759 sig) = Ok ())"

lemma signed_texts_iff:
  "(x, b) \<in> signed_texts K R pk l \<longleftrightarrow>
    (\<exists>tx. Signed_Tx pk tx \<in> set l \<and> x = signature_preimage R tx \<and> b = bound_hash K (tx_chain_id tx) pk) \<or>
    Signed_Message pk x \<in> set l \<and> b = message_hash K pk"
  (is "?l \<longleftrightarrow> ?r")
proof
  assume ?l
  then obtain e where "e \<in> set l" "(x, b) \<in> signed_text K R pk e" by (auto simp: signed_texts_def)
  then show ?r by (cases e rule: lib_event.exhaust) (auto split: if_splits)
next
  have i: "e \<in> set l \<Longrightarrow> (x, b) \<in> signed_text K R pk e \<Longrightarrow> ?l" for e by (auto simp: signed_texts_def)
  have "?l" if "Signed_Tx pk tx \<in> set l" "x = signature_preimage R tx" "b = bound_hash K (tx_chain_id tx) pk" for tx
    using i [OF that(1)] that(2,3) by simp
  moreover have "?l" if "Signed_Message pk x \<in> set l" "b = message_hash K pk"
    using i [OF that(1)] that(2) by simp
  moreover assume ?r
  ultimately show ?l by blast
qed

lemma signed_texts_size:
  assumes "hash_laws (hsh K)" "q \<in> signed_texts K R pk l"
  shows "length (snd q) = 32"
  using assms(2) signed_texts_iff [of "fst q" "snd q" K R pk l]
  by (auto simp: bound_hash_def message_hash_def compute_h_combined_def hash_lawsD [OF assms(1)])

lemma composite_forged_intro:
  assumes "hash_laws (hsh K)" "composite_verify K pk (keccak256 (hsh K) x) b sig = Ok ()"
    and "(x, b) \<notin> Q" "length b = 32" "\<And>q. q \<in> Q \<Longrightarrow> length (snd q) = 32"
  shows "composite_forged K pk Q x b sig"
proof (cases "\<exists>q\<in>Q. fst q \<noteq> x \<and> keccak256 (hsh K) (fst q) = keccak256 (hsh K) x")
  case False
  then have n: "\<And>q. q \<in> Q \<Longrightarrow> keccak256 (hsh K) (fst q) = keccak256 (hsh K) x \<Longrightarrow> fst q = x" by blast
  have "curve_msg (keccak256 (hsh K) x) b c \<noteq> curve_msg (keccak256 (hsh K) (fst q)) (snd q) c"
    if "q \<in> Q" for q c
  proof
    assume "curve_msg (keccak256 (hsh K) x) b c = curve_msg (keccak256 (hsh K) (fst q)) (snd q) c"
    then have "keccak256 (hsh K) (fst q) = keccak256 (hsh K) x" "snd q = b"
      using curve_msg_inj [of "keccak256 (hsh K) x" "keccak256 (hsh K) (fst q)" b "snd q" c c]
        assms(4,5) that by (simp_all add: hash_lawsD [OF assms(1)])
    then show False using n [OF that] assms(3) that by (cases q) auto
  qed
  moreover have "x \<in> fst ` Q \<or> keccak256 (hsh K) x \<notin> (\<lambda>q. keccak256 (hsh K) (fst q)) ` Q"
    using n by force
  ultimately show ?thesis
    using assms(2) by (auto simp: composite_forged_def composite_verify_iff Let_def)
qed (simp add: composite_forged_def)

text \<open>
  The event \<open>e\<close> breaks the ideal after the log \<open>l\<close>: a transaction comes with another key that has
  the address of an owner; or an owner signed a text for the one purpose whose entanglement hash
  is also that of the other; or the composite signature is forged.
\<close>

fun broken ::
  "('dv, 'ds, 'dg, 'v, 's, 'g, 'r, 'es, 'ep, 'pt, 'sc) crates \<Rightarrow> rlp_crate \<Rightarrow> lib_event list \<Rightarrow> lib_event
     \<Rightarrow> bool" where
  "broken K R l (Accepted_Tx a tx) \<longleftrightarrow>
     (\<exists>pk. Made_Key pk \<in> set l \<and> derive_address (hsh K) pk = a \<and>
        (let x = signature_preimage R tx; b = bound_hash K (tx_chain_id tx) pk in
         (\<exists>pk'. pk' \<noteq> pk \<and> pk_valid K pk' \<and> derive_address (hsh K) pk' = a \<and>
            tx_pub_key tx = Some (bpk_to_bytes pk')) \<or>
         Signed_Message pk x \<in> set l \<and> b = message_hash K pk \<or>
         (\<exists>sig. tx_pqc_signature tx = Some sig \<and> composite_forged K pk (signed_texts K R pk l) x b sig)))"
| "broken K R l (Accepted_Message pk m sig) \<longleftrightarrow>
     Made_Key pk \<in> set l \<and>
     ((\<exists>tx. Signed_Tx pk tx \<in> set l \<and> m = signature_preimage R tx \<and>
         bound_hash K (tx_chain_id tx) pk = message_hash K pk) \<or>
      composite_forged K pk (signed_texts K R pk l) m (message_hash K pk) sig)"
| "broken K R l _ \<longleftrightarrow> False"

section \<open>The invariant of a run\<close>

definition lib_inv ::
  "('dv, 'ds, 'dg, 'v, 's, 'g, 'r, 'es, 'ep, 'pt, 'sc) crates \<Rightarrow> lib_state \<Rightarrow> bool" where
  "lib_inv K s \<longleftrightarrow>
     (\<forall>k\<in>set (st_keys s). key_wf K k \<and> Made_Key (bsk_public k) \<in> set (st_log s)) \<and>
     (\<forall>pk tx. Signed_Tx pk tx \<in> set (st_log s) \<longrightarrow> tx_small tx) \<and>
     (\<forall>a tx. Accepted_Tx a tx \<in> set (st_log s) \<longrightarrow> tx_small tx \<and> length a = 20)"

lemma logged_simps [simp]:
  "st_log (logged e s) = e # st_log s" "st_keys (logged e s) = st_keys s"
  by (simp_all add: logged_def)

lemma lib_inv_init: "lib_inv K lib_init"
  by (simp add: lib_inv_def lib_init_def)

lemma lib_inv_step:
  assumes L: "crates_laws K C" "rlp_laws R" and "lib_inv K s" "lib_step K R s s'"
  shows "lib_inv K s'"
  using assms(4,3)
proof cases
  case (make_key seed k pk)
  then show ?thesis
    using bsk_generate_wf [OF L(1) make_key(2)] bsk_generate_Ok(2) [OF L(1) make_key(2)] assms(3)
    by (auto simp: lib_inv_def)
next
  case (receive_tx buf tx rest a)
  have "length a = 20"
    using receive_tx(4) derive_address_size [OF crates_lawsD(1) [OF L(1)]] by (auto simp: recover_sender_iff)
  then show ?thesis using assms(3) receive_tx(1,3) by (auto simp: lib_inv_def)
qed (auto simp: lib_inv_def)

lemma lib_inv_reachable:
  assumes "crates_laws K C" "rlp_laws R" "(lib_step K R)\<^sup>*\<^sup>* lib_init s"
  shows "lib_inv K s"
  using assms(3) by (induction rule: rtranclp_induct) (auto intro: lib_inv_init lib_inv_step [OF assms(1,2)])

section \<open>A run keeps to the ideal until it is broken\<close>

lemma accepted_tx_cases:
  assumes L: "crates_laws K C" "rlp_laws R" and "lib_inv K s" "tx_small tx"
    and "recover_sender K R tx = Ok a"
  shows "event_authorised (hsh K) (st_log s) (Accepted_Tx a tx) \<or> broken K R (st_log s) (Accepted_Tx a tx)"
proof (rule disjCI)
  assume nb: "\<not> broken K R (st_log s) (Accepted_Tx a tx)"
  show "event_authorised (hsh K) (st_log s) (Accepted_Tx a tx)"
    unfolding event_authorised_tx
  proof (intro allI impI)
    fix pk assume pk: "Made_Key pk \<in> set (st_log s)" "derive_address (hsh K) pk = a"
    let ?x = "signature_preimage R tx" and ?b = "bound_hash K (tx_chain_id tx) pk"
    obtain pk' sig where r: "tx_pub_key tx = Some (bpk_to_bytes pk')" "tx_pqc_signature tx = Some sig"
        "pk_valid K pk'" "a = derive_address (hsh K) pk'"
        "composite_verify K pk' (keccak256 (hsh K) ?x) (bound_hash K (tx_chain_id tx) pk') sig = Ok ()"
      using assms(5) by (auto simp: recover_sender_iff signature_hash_def)
    have no: "\<not> composite_forged K pk (signed_texts K R pk (st_log s)) ?x ?b sig"
      and same: "pk' = pk" and bind: "\<not> (Signed_Message pk ?x \<in> set (st_log s) \<and> ?b = message_hash K pk)"
      using nb pk r by (auto simp: Let_def)
    have "(?x, ?b) \<in> signed_texts K R pk (st_log s)"
    proof (rule ccontr)
      assume "(?x, ?b) \<notin> signed_texts K R pk (st_log s)"
      then show False
        using no composite_forged_intro [OF crates_lawsD(1) [OF L(1)] r(5) [unfolded same]]
          signed_texts_size [OF crates_lawsD(1) [OF L(1)]]
        by (simp add: bound_hash_def compute_h_combined_def hash_lawsD [OF crates_lawsD(1) [OF L(1)]])
    qed
    then obtain tx' where t: "Signed_Tx pk tx' \<in> set (st_log s)" "?x = signature_preimage R tx'"
      using bind by (auto simp: signed_texts_iff)
    then have "tx_small tx'" using assms(3) by (auto simp: lib_inv_def)
    then show "\<exists>tx'. Signed_Tx pk tx' \<in> set (st_log s) \<and> tx_unsigned tx' = tx_unsigned tx"
      using t signature_preimage_inj [OF L(2) tx_small_fits [OF L(2)] tx_small_fits [OF L(2) assms(4)]]
      by metis
  qed
qed

lemma accepted_message_cases:
  assumes "crates_laws K C" and "verify_message K pk m sig = Ok True"
  shows "event_authorised (hsh K) l (Accepted_Message pk m sig) \<or> broken K R l (Accepted_Message pk m sig)"
proof (rule disjCI)
  assume nb: "\<not> broken K R l (Accepted_Message pk m sig)"
  show "event_authorised (hsh K) l (Accepted_Message pk m sig)"
    unfolding event_authorised.simps
  proof
    assume pk: "Made_Key pk \<in> set l"
    have v: "composite_verify K pk (keccak256 (hsh K) m) (message_hash K pk) sig = Ok ()"
      using assms(2) by (simp add: verify_message_iff)
    have "(m, message_hash K pk) \<in> signed_texts K R pk l"
    proof (rule ccontr)
      assume "(m, message_hash K pk) \<notin> signed_texts K R pk l"
      then show False
        using nb pk composite_forged_intro [OF crates_lawsD(1) [OF assms(1)] v]
          signed_texts_size [OF crates_lawsD(1) [OF assms(1)]]
        by (simp add: message_hash_def compute_h_combined_def hash_lawsD [OF crates_lawsD(1) [OF assms(1)]])
    qed
    then show "Signed_Message pk m \<in> set l" using nb pk by (auto simp: signed_texts_iff)
  qed
qed

lemma step_simulates:
  assumes L: "crates_laws K C" "rlp_laws R" and "lib_inv K s" "lib_step K R s s'"
  shows "\<exists>e. st_log s' = e # st_log s \<and>
    (event_authorised (hsh K) (st_log s) e \<or> broken K R (st_log s) e)"
  using assms(4)
proof cases
  case (receive_tx buf tx rest a)
  then show ?thesis
    using accepted_tx_cases [OF L assms(3) receive_tx(3,4)]
    by (simp del: event_authorised.simps(1) broken.simps(1))
next
  case (receive_msg pkb pk m sig)
  then show ?thesis
    using accepted_message_cases [OF L(1) receive_msg(3), of "st_log s" R]
    by (simp del: event_authorised.simps broken.simps)
qed (use assms(3) in \<open>auto simp: lib_inv_def\<close>)

text \<open>A log that was never broken is an ideal one.\<close>

primrec never_broken ::
  "('dv, 'ds, 'dg, 'v, 's, 'g, 'r, 'es, 'ep, 'pt, 'sc) crates \<Rightarrow> rlp_crate \<Rightarrow> lib_event list \<Rightarrow> bool" where
  "never_broken K R [] \<longleftrightarrow> True"
| "never_broken K R (e # l) \<longleftrightarrow> \<not> broken K R l e \<and> never_broken K R l"

lemma run_simulates:
  assumes "crates_laws K C" "rlp_laws R" "(lib_step K R)\<^sup>*\<^sup>* lib_init s"
  shows "never_broken K R (st_log s) \<Longrightarrow> authorised (hsh K) (st_log s)"
  using assms(3)
proof (induction rule: rtranclp_induct)
  case base
  then show ?case by (simp add: lib_init_def)
next
  case (step s s')
  obtain e where e: "st_log s' = e # st_log s"
      "event_authorised (hsh K) (st_log s) e \<or> broken K R (st_log s) e"
    using step_simulates [OF assms(1,2) lib_inv_reachable [OF assms(1,2) step(1)] step(2)] by blast
  with step(3,4) show ?case by auto
qed

section \<open>Honest signatures are accepted\<close>

text \<open>
  The receiver has no state: what is accepted once can be accepted in every state, so nothing in
  the library stops a transaction from being received twice (that is what its nonce is for).
\<close>

lemma signed_on_wire:
  assumes "crates_laws K C" "rlp_laws R" "key_wf K k" "tx_small tx"
  shows "\<exists>sig. sign_transaction K R r k tx = Ok (signed_tx tx (bsk_public k) sig) \<and>
    tx_small (signed_tx tx (bsk_public k) sig) \<and>
    (\<forall>rest. tx_decode R (tx_encode R (signed_tx tx (bsk_public k) sig) @ rest) =
      Ok (signed_tx tx (bsk_public k) sig, rest)) \<and>
    recover_sender K R (signed_tx tx (bsk_public k) sig) = Ok (derive_address (hsh K) (bsk_public k))"
proof -
  obtain sig where s: "sign_transaction K R r k tx = Ok (signed_tx tx (bsk_public k) sig)"
      "length sig = 4873" "recover_sender K R (signed_tx tx (bsk_public k) sig) =
        Ok (derive_address (hsh K) (bsk_public k))"
    using signed_recovers [OF assms(1,3)] by blast
  let ?t = "signed_tx tx (bsk_public k) sig"
  have l: "length (bpk_to_bytes (bsk_public k)) = 2782"
    by (rule pk_valid_size [OF key_wf_pk_valid [OF assms(1,3)]])
  have n: "tx_normal ?t = ?t"
    using l by (auto simp: tx_normal_def signed_tx_def has_signature_def default_to_def)
  have m: "tx_small ?t"
    using assms(4) s(2) l by (simp add: tx_small_def default_to_def) (simp add: signed_tx_def)
  then have "tx_decode R (tx_encode R ?t @ rest) = Ok (?t, rest)" for rest
    using tx_decode_encode [OF assms(2) tx_small_fits [OF assms(2)], of ?t rest] n by simp
  with s m show ?thesis by blast
qed

lemma honest_tx_accepted:
  assumes "crates_laws K C" "rlp_laws R" "lib_inv K s" "k \<in> set (st_keys s)" "tx_small tx"
  shows "\<exists>tx'. sign_transaction K R r k tx = Ok tx' \<and> tx_unsigned tx' = tx_unsigned tx \<and>
    lib_step K R s (logged (Signed_Tx (bsk_public k) tx) s) \<and>
    (\<forall>s'. lib_step K R s' (logged (Accepted_Tx (derive_address (hsh K) (bsk_public k)) tx') s'))"
proof -
  have w: "key_wf K k" using assms(3,4) by (simp add: lib_inv_def)
  obtain sig where s: "sign_transaction K R r k tx = Ok (signed_tx tx (bsk_public k) sig)"
      "tx_small (signed_tx tx (bsk_public k) sig)"
      "\<forall>rest. tx_decode R (tx_encode R (signed_tx tx (bsk_public k) sig) @ rest) =
        Ok (signed_tx tx (bsk_public k) sig, rest)"
      "recover_sender K R (signed_tx tx (bsk_public k) sig) = Ok (derive_address (hsh K) (bsk_public k))"
    using signed_on_wire [OF assms(1,2) w assms(5)] by blast
  then show ?thesis
    using sign_tx [OF assms(4,5) s(1)] receive_tx [OF s(3) [rule_format] s(2,4)]
    by (intro exI [of _ "signed_tx tx (bsk_public k) sig"]) simp
qed

lemma honest_message_accepted:
  assumes "crates_laws K C" "lib_inv K s" "k \<in> set (st_keys s)"
  shows "\<exists>sig. sign_message K r k m = Ok sig \<and>
    lib_step K R s (logged (Signed_Message (bsk_public k) m) s) \<and>
    (\<forall>s'. lib_step K R s' (logged (Accepted_Message (bsk_public k) m sig) s'))"
proof -
  have w: "key_wf K k" using assms(2,3) by (simp add: lib_inv_def)
  obtain sig where s: "sign_message K r k m = Ok sig" "verify_message K (bsk_public k) m sig = Ok True"
    using composite_sign_verify [OF assms(1) w, of r "keccak256 (hsh K) m" "message_hash K (bsk_public k)"]
    by (auto simp: sign_message_def Let_def message_hash_def [symmetric] verify_message_iff)
  have "bpk_from_bytes K (bpk_to_bytes (bsk_public k)) = Ok (bsk_public k)"
    using key_wf_pk_valid [OF assms(1) w] by (simp add: bpk_from_bytes_iff)
  from receive_msg [OF this s(2)] sign_msg [OF assms(3) s(1)] s(1) show ?thesis by blast
qed

end
