(* ===== verification/Flow_Props.thy ===== *)
theory Flow_Props
  imports Tx_Props Sessions
begin

text \<open>
  Properties of several components together: what an accepted forgery would take, what the parts
  of a signature do and do not bind, the whole way of a transaction over the wire, the sizes of
  all values, and what a wallet needs to come into being.
\<close>

section \<open>Transactions end to end\<close>

text \<open>The text of a classical signature is new when its hash, or else its binding hash, is.\<close>

lemma curve_msg_fresh:
  assumes "h' \<notin> h ` S" "\<And>m. m \<in> MS \<Longrightarrow> k m = h' \<Longrightarrow> b' \<noteq> mh"
    and "length h' = 32" "length b' = 32" "length mh = 32"
    and "\<And>tx. length (h tx) = 32" "\<And>tx. length (b tx) = 32" "\<And>m. length (k m) = 32"
  shows "curve_msg h' b' c \<notin> (\<lambda>tx. curve_msg (h tx) (b tx) c) ` S \<union> (\<lambda>m. curve_msg (k m) mh c) ` MS"
proof
  assume "curve_msg h' b' c \<in> (\<lambda>tx. curve_msg (h tx) (b tx) c) ` S \<union> (\<lambda>m. curve_msg (k m) mh c) ` MS"
  then consider tx where "tx \<in> S" "curve_msg h' b' c = curve_msg (h tx) (b tx) c"
    | m where "m \<in> MS" "curve_msg h' b' c = curve_msg (k m) mh c" by auto
  then show False using assms(1,2) by cases (auto simp: curve_msg_inj assms(3-8))
qed

text \<open>
  C4. Unforgeability, reduced: let the owner of a key have signed the transactions \<open>S\<close> and the
  messages \<open>MS\<close>.  A transaction outside \<open>S\<close> that is accepted for the address of the key either
  carries another composite key, which has the same address and under which its signature
  verifies; or its pre-image has the Keccak hash of another text that was signed; or it was signed
  as a message and its entanglement hash is the one of messages; or its signature holds a forgery
  of the P-521 and of the Ed448 signature, for texts that the owner signed with neither, and the
  ML-DSA-87 signature is forged as well, unless the owner was made to sign the pre-image of the
  transaction as a message.
\<close>

theorem forgery_needs_all_parts:
  fixes MS :: "bytes set"
  assumes "crates_laws K C" "rlp_laws R" "tx_fits R tx'" "\<forall>tx\<in>S. tx_fits R tx" "pk_valid K pk"
    and "recover_sender K R tx' = Ok (derive_address (hsh K) pk)"
    and "\<forall>tx\<in>S. tx_unsigned tx' \<noteq> tx_unsigned tx"
  defines "h \<equiv> signature_hash (hsh K) R" and "b \<equiv> (\<lambda>tx. bound_hash K (tx_chain_id tx) pk)"
  defines "curve \<equiv> (\<lambda>c. (\<lambda>tx. curve_msg (h tx) (b tx) c) ` S \<union>
      (\<lambda>m. curve_msg (keccak256 (hsh K) m) (message_hash K pk) c) ` MS)"
  shows "(\<exists>pk' sig. tx_pub_key tx' = Some (bpk_to_bytes pk') \<and> tx_pqc_signature tx' = Some sig \<and>
      pk_valid K pk' \<and> bpk_to_bytes pk' \<noteq> bpk_to_bytes pk \<and>
      derive_address (hsh K) pk' = derive_address (hsh K) pk \<and>
      composite_verify K pk' (h tx') (bound_hash K (tx_chain_id tx') pk') sig = Ok ()) \<or>
    (\<exists>x\<in>signature_preimage R ` S \<union> MS. x \<noteq> signature_preimage R tx' \<and> keccak256 (hsh K) x = h tx') \<or>
    signature_preimage R tx' \<in> MS \<and> b tx' = message_hash K pk \<or>
    (\<exists>sig. tx_pub_key tx' = Some (bpk_to_bytes pk) \<and> tx_pqc_signature tx' = Some sig \<and>
      dil_leg_verify (mld K) (bpk_dilithium pk) (h tx') (take 4627 sig) = Ok () \<and>
      (signature_preimage R tx' \<in> MS \<or> h tx' \<notin> h ` S \<union> keccak256 (hsh K) ` MS) \<and>
      curve_msg (h tx') (b tx') CURVE_ID_P521 \<notin> curve CURVE_ID_P521 \<and>
      p521_leg_verify (p5 K) (bpk_p521 pk) (curve_msg (h tx') (b tx') CURVE_ID_P521)
        (take 132 (drop 4627 sig)) = Ok () \<and>
      curve_msg (h tx') (b tx') CURVE_ID_ED448 \<notin> curve CURVE_ID_ED448 \<and>
      ed448_verify_with (hsh K) (edr K) (gld K) (bpk_ed448 pk)
        (curve_msg (h tx') (b tx') CURVE_ID_ED448) (drop 4759 sig) = Ok ())"
    (is "?key \<or> ?hash \<or> ?bind \<or> ?forge")
proof -
  note H = crates_lawsD(1) [OF assms(1)]
  obtain pk' sig where r: "tx_pqc_signature tx' = Some sig" "pk_valid K pk'"
      "tx_pub_key tx' = Some (bpk_to_bytes pk')" "derive_address (hsh K) pk' = derive_address (hsh K) pk"
      "composite_verify K pk' (h tx') (bound_hash K (tx_chain_id tx') pk') sig = Ok ()"
    using assms(6) unfolding recover_sender_iff h_def by metis
  have l: "length (h tx) = 32" "length (b tx) = 32" "length (message_hash K pk) = 32"
      "length (keccak256 (hsh K) m) = 32" for tx m
    by (simp_all add: h_def b_def signature_hash_def bound_hash_def message_hash_def
        compute_h_combined_def hash_lawsD [OF H])
  have pre: "signature_preimage R tx \<noteq> signature_preimage R tx'" if "tx \<in> S" for tx
    using signature_preimage_inj [OF assms(2,3), of tx] assms(4,7) that by metis
  have hk: "h tx = keccak256 (hsh K) (signature_preimage R tx)" for tx
    by (simp add: h_def signature_hash_def)
  have "?forge" if "\<not> ?key" "\<not> ?hash" "\<not> ?bind"
  proof -
    have k: "pk' = pk" using bpk_to_bytes_inj [OF r(2) assms(5)] that(1) r by blast
    have no: "x = signature_preimage R tx'"
      if "x \<in> signature_preimage R ` S \<union> MS" "keccak256 (hsh K) x = h tx'" for x
      using \<open>\<not> ?hash\<close> that by blast
    have s: "h tx' \<notin> h ` S"
    proof
      assume "h tx' \<in> h ` S"
      then obtain tx where "tx \<in> S" "h tx = h tx'" by force
      then show False using no [of "signature_preimage R tx"] pre hk by auto
    qed
    have m: "signature_preimage R tx' \<in> MS \<or> h tx' \<notin> keccak256 (hsh K) ` MS"
      using no by force
    have bind: "b tx' \<noteq> message_hash K pk" if "m \<in> MS" "keccak256 (hsh K) m = h tx'" for m
      using no [of m] that \<open>\<not> ?bind\<close> by auto
    have c: "curve_msg (h tx') (b tx') c \<notin> curve c" for c
      unfolding curve_def by (rule curve_msg_fresh) (use s bind l in auto)
    show ?thesis
      using r(1,3,5) s m c by (auto simp: k composite_verify_iff b_def)
  qed
  then show ?thesis by blast
qed

theorem forgery_needs_all_parts_witness:
  "\<exists>pk tx. pk_valid crates_ref pk \<and> tx_unsigned tx \<noteq> tx_unsigned (tx_ref\<lparr>tx_nonce := 43\<rparr>) \<and>
    recover_sender crates_ref rlp_ref tx = Ok (derive_address (hsh crates_ref) pk) \<and>
    ((\<exists>pk'. tx_pub_key tx = Some (bpk_to_bytes pk') \<and> bpk_to_bytes pk' \<noteq> bpk_to_bytes pk \<and>
        derive_address (hsh crates_ref) pk' = derive_address (hsh crates_ref) pk) \<or>
     (\<exists>x\<in>signature_preimage rlp_ref ` {tx_ref\<lparr>tx_nonce := 43\<rparr>} \<union> {[1, 2, 3]}.
        keccak256 (hsh crates_ref) x = signature_hash (hsh crates_ref) rlp_ref tx) \<or>
     (signature_preimage rlp_ref tx = [1, 2, 3] \<and>
        bound_hash crates_ref (tx_chain_id tx) pk = message_hash crates_ref pk) \<or>
     (\<exists>sig. tx_pub_key tx = Some (bpk_to_bytes pk) \<and> tx_pqc_signature tx = Some sig))"
proof -
  obtain key sig where "ref_run key sig" using ref_run_ex by blast
  note t = ref_runD [OF this]
  have f: "\<forall>tx\<in>{tx_ref\<lparr>tx_nonce := 43\<rparr>}. tx_fits rlp_ref tx"
    by (simp add: tx_small_fits [OF rlp_ref_laws] tx_small_def tx_typed_def tx_ref_def default_to_def)
  have p: "pk_valid crates_ref (bsk_public key)" by (rule key_wf_pk_valid [OF crates_ref_laws t(1)])
  have a: "recover_sender crates_ref rlp_ref (signed_tx tx_ref (bsk_public key) sig) =
      Ok (derive_address (hsh crates_ref) (bsk_public key))"
    using t(4) by (simp add: crates_ref_def)
  have u: "\<forall>tx\<in>{tx_ref\<lparr>tx_nonce := 43\<rparr>}.
      tx_unsigned (signed_tx tx_ref (bsk_public key) sig) \<noteq> tx_unsigned tx"
    by (simp add: tx_unsigned_def tx_ref_def signed_tx_def)
  note forgery_needs_all_parts [OF crates_ref_laws rlp_ref_laws t(5) f p a u, where MS = "{[1, 2, 3]}"]
  with p a u show ?thesis by blast
qed

text \<open>
  C8. The ML-DSA-87 part of a signature does not know whether it belongs to a message or to a
  transaction: once the owner signed the pre-image of a transaction as a message, that part of the
  signature serves the transaction, and any P-521 and Ed448 signatures for the transaction
  complete it.  The message signature as it is serves the transaction exactly when its classical
  parts do, for texts with another entanglement hash.
\<close>

theorem message_signature_serves_transaction:
  assumes "crates_laws K C" "key_wf K key"
    and "sign_message K r key (signature_preimage R tx) = Ok sig"
  defines "pk \<equiv> bsk_public key" and "h \<equiv> signature_hash (hsh K) R tx"
  defines "b \<equiv> bound_hash K (tx_chain_id tx) pk"
  defines "classical \<equiv> (\<lambda>p e.
      p521_leg_verify (p5 K) (bpk_p521 pk) (curve_msg h b CURVE_ID_P521) p = Ok () \<and>
      ed448_verify_with (hsh K) (edr K) (gld K) (bpk_ed448 pk) (curve_msg h b CURVE_ID_ED448) e = Ok ())"
  shows "length sig = 4873 \<and>
    (\<forall>p e. length p = 132 \<longrightarrow> length e = 114 \<longrightarrow>
      (recover_sender K R (signed_tx tx pk (take 4627 sig @ p @ e)) = Ok (derive_address (hsh K) pk) \<longleftrightarrow>
       classical p e)) \<and>
    (recover_sender K R (signed_tx tx pk sig) = Ok (derive_address (hsh K) pk) \<longleftrightarrow>
      classical (take 132 (drop 4627 sig)) (drop 4759 sig))"
proof -
  have v: "pk_valid K pk" unfolding pk_def by (rule key_wf_pk_valid [OF assms(1,2)])
  have hk: "keccak256 (hsh K) (signature_preimage R tx) = h" by (simp add: h_def signature_hash_def)
  obtain d p e where s: "sig = d @ p @ e" and l: "length d = 4627" "length p = 132" "length e = 114"
      and d: "dil_leg_verify (mld K) (bpk_dilithium pk) h d = Ok ()"
    using signed_message_parts [OF assms(1,2), of r "signature_preimage R tx"] assms(3)
    unfolding hk pk_def by (metis sum.inject(2))
  have "recover_sender K R (signed_tx tx pk x) = Ok (derive_address (hsh K) pk) \<longleftrightarrow>
      composite_verify K pk h b x = Ok ()" for x
  proof -
    have u: "signature_hash (hsh K) R (signed_tx tx pk x) = h"
      unfolding h_def by (rule signature_hash_unsigned) simp
    have c: "tx_chain_id (signed_tx tx pk x) = tx_chain_id tx" by (simp add: signed_tx_def)
    show ?thesis
      using recover_with_key [OF v, of "signed_tx tx pk x" x R "derive_address (hsh K) pk"] u c
      by (simp add: b_def)
  qed
  then show ?thesis
    using l d by (simp add: s composite_parts classical_def)
qed

theorem message_signature_serves_transaction_witness:
  "\<exists>key msig tsig. sign_message crates_ref 0 key (signature_preimage rlp_ref tx_ref) = Ok msig \<and>
    sign_transaction crates_ref rlp_ref 1 key tx_ref = Ok (signed_tx tx_ref (bsk_public key) tsig) \<and>
    recover_sender crates_ref rlp_ref (signed_tx tx_ref (bsk_public key) (take 4627 msig @ drop 4627 tsig)) =
      Ok (derive_address (hsh crates_ref) (bsk_public key))"
proof -
  obtain key where k: "key_wf crates_ref key" by (rule seed_ref_key)
  obtain msig where m: "sign_message crates_ref 0 key (signature_preimage rlp_ref tx_ref) = Ok msig"
    by (rule signed_message_parts [OF crates_ref_laws k])
  obtain tsig where t: "sign_transaction crates_ref rlp_ref 1 key tx_ref =
        Ok (signed_tx tx_ref (bsk_public key) tsig)" "length tsig = 4873"
      "recover_sender crates_ref rlp_ref (signed_tx tx_ref (bsk_public key) tsig) =
        Ok (derive_address (hsh crates_ref) (bsk_public key))"
    using signed_recovers [OF crates_ref_laws k, of rlp_ref 1 tx_ref] by blast
  let ?p = "take 132 (drop 4627 tsig)" and ?e = "drop 4759 tsig"
  have v: "pk_valid crates_ref (bsk_public key)" by (rule key_wf_pk_valid [OF crates_ref_laws k])
  have h: "signature_hash (hsh crates_ref) rlp_ref (signed_tx tx_ref (bsk_public key) tsig) =
      signature_hash (hsh crates_ref) rlp_ref tx_ref"
    by (rule signature_hash_unsigned) simp
  have c: "tx_chain_id (signed_tx tx_ref (bsk_public key) tsig) = tx_chain_id tx_ref"
    by (simp add: signed_tx_def)
  have a: "composite_verify crates_ref (bsk_public key) (signature_hash (hsh crates_ref) rlp_ref tx_ref)
      (bound_hash crates_ref (tx_chain_id tx_ref) (bsk_public key)) tsig = Ok ()"
    using t(3) recover_with_key [OF v, of "signed_tx tx_ref (bsk_public key) tsig" tsig rlp_ref] h c
    by simp
  have s: "?p @ ?e = drop 4627 tsig" using append_take_drop_id [of 132 "drop 4627 tsig"] by simp
  have l: "length ?p = 132" "length ?e = 114" using t(2) by simp_all
  have "recover_sender crates_ref rlp_ref (signed_tx tx_ref (bsk_public key) (take 4627 msig @ ?p @ ?e)) =
      Ok (derive_address (hsh crates_ref) (bsk_public key))"
    using message_signature_serves_transaction [OF crates_ref_laws k m] l a
    by (simp add: composite_verify_iff)
  then have "recover_sender crates_ref rlp_ref
      (signed_tx tx_ref (bsk_public key) (take 4627 msig @ drop 4627 tsig)) =
      Ok (derive_address (hsh crates_ref) (bsk_public key))"
    unfolding s .
  with m t(1) show ?thesis by blast
qed

text \<open>
  C9. Parts can be spliced where they are not bound: whoever holds a composite key of his own
  takes the ML-DSA-87 part of a foreign signature of a message (or of a transaction) and completes
  it with his own classical signatures to one that verifies under the mixed key, which has the
  foreign ML-DSA-87 key in it and is accepted by the parser.
\<close>

theorem ml_dsa_part_transplants:
  assumes "crates_laws K C" "key_wf K ka" "key_wf K kb"
  defines "f \<equiv> franken_key (bsk_public ka) (bsk_public kb)"
  assumes "sign_message K q1 ka m = Ok sa"
    and "composite_sign K q2 kb (keccak256 (hsh K) m) (message_hash K f) = Ok sb"
    and "sign_transaction K R q3 ka tx = Ok (signed_tx tx (bsk_public ka) ta)"
    and "composite_sign K q4 kb (signature_hash (hsh K) R tx) (bound_hash K (tx_chain_id tx) f) = Ok tb"
  shows "bpk_from_bytes K (bpk_to_bytes f) = Ok f \<and>
    verify_message K f m (take 4627 sa @ drop 4627 sb) = Ok True \<and>
    recover_sender K R (signed_tx tx f (take 4627 ta @ drop 4627 tb)) = Ok (derive_address (hsh K) f)"
proof -
  note v = key_wf_pk_valid [OF assms(1,2)] key_wf_pk_valid [OF assms(1,3)]
  have vf: "pk_valid K f" unfolding f_def by (rule franken_key_valid [OF v])
  have mix: "composite_verify K f h b (take 4627 x @ drop 4627 y) = Ok ()"
    if "composite_verify K (bsk_public ka) h b' x = Ok ()" "composite_verify K (bsk_public kb) h b y = Ok ()"
    for h b b' x y
    using that by (simp add: composite_verify_iff f_def)
  have made: "composite_verify K (bsk_public k) h b sig = Ok ()"
    if "key_wf K k" "composite_sign K r k h b = Ok sig" for k r h b sig
    using composite_sign_verify [OF assms(1) that(1), of r h b] that(2) by auto
  have "composite_verify K (bsk_public ka) (keccak256 (hsh K) m) (message_hash K (bsk_public ka)) sa = Ok ()"
    using made [OF assms(2)] assms(5) by (simp add: sign_message_def message_hash_def Let_def)
  from mix [OF this made [OF assms(3,6)]]
  have "verify_message K f m (take 4627 sa @ drop 4627 sb) = Ok True" by (simp add: verify_message_iff)
  moreover have t: "signature_hash (hsh K) R (signed_tx tx pk x) = signature_hash (hsh K) R tx"
      "tx_chain_id (signed_tx tx pk x) = tx_chain_id tx" for pk x
    by (rule signature_hash_unsigned; simp) (simp add: signed_tx_def)
  have "recover_sender K R (signed_tx tx (bsk_public ka) ta) = Ok (derive_address (hsh K) (bsk_public ka))"
    using signed_recovers [OF assms(1,2), of R q3 tx] assms(7)
    by (auto simp: signed_tx_def dest: arg_cong [where f = tx_pqc_signature])
  then have "composite_verify K (bsk_public ka) (signature_hash (hsh K) R tx)
      (bound_hash K (tx_chain_id tx) (bsk_public ka)) ta = Ok ()"
    using recover_with_key [OF v(1), of "signed_tx tx (bsk_public ka) ta" ta R] t by simp
  from mix [OF this made [OF assms(3,8)]]
  have "recover_sender K R (signed_tx tx f (take 4627 ta @ drop 4627 tb)) = Ok (derive_address (hsh K) f)"
    using recover_with_key [OF vf, of "signed_tx tx f (take 4627 ta @ drop 4627 tb)"
        "take 4627 ta @ drop 4627 tb" R] t by simp
  ultimately show ?thesis using vf by (simp add: bpk_from_bytes_iff)
qed

theorem ml_dsa_part_transplants_witness:
  "\<exists>f sig. bpk_from_bytes crates_ref (bpk_to_bytes f) = Ok f \<and>
    verify_message crates_ref f [1, 2, 3] sig = Ok True"
proof -
  obtain k where k: "key_wf crates_ref k" by (rule seed_ref_key)
  let ?f = "franken_key (bsk_public k) (bsk_public k)"
  obtain sa where a: "sign_message crates_ref 0 k [1, 2, 3] = Ok sa"
    by (rule signed_message_parts [OF crates_ref_laws k])
  obtain sb where b: "composite_sign crates_ref 1 k (keccak256 (hsh crates_ref) [1, 2, 3])
      (message_hash crates_ref ?f) = Ok sb"
    using composite_sign_verify [OF crates_ref_laws k] by blast
  obtain ta where t: "sign_transaction crates_ref rlp_ref 2 k tx_ref = Ok (signed_tx tx_ref (bsk_public k) ta)"
    using signed_recovers [OF crates_ref_laws k] by blast
  obtain tb where u: "composite_sign crates_ref 3 k (signature_hash (hsh crates_ref) rlp_ref tx_ref)
      (bound_hash crates_ref (tx_chain_id tx_ref) ?f) = Ok tb"
    using composite_sign_verify [OF crates_ref_laws k] by blast
  from ml_dsa_part_transplants [OF crates_ref_laws k k a b t u] show ?thesis by blast
qed

text \<open>
  C1. A transaction goes over the wire whole: signed with a well-formed key, encoded, put in a
  buffer with anything behind it and decoded, it is the signed transaction again, and its sender
  is the address of the key; the bytes behind it are left.
\<close>

theorem wire_transfer:
  assumes "crates_laws K C" "rlp_laws R" "key_wf K key" "tx_small tx"
  shows "\<exists>tx' tx''. sign_transaction K R r key tx = Ok tx' \<and>
    tx_decode R (tx_encode R tx' @ rest) = Ok (tx'', rest) \<and> tx'' = tx' \<and>
    tx_unsigned tx'' = tx_unsigned tx \<and>
    recover_sender K R tx'' = Ok (derive_address (hsh K) (bsk_public key))"
proof -
  obtain sig where s: "sign_transaction K R r key tx = Ok (signed_tx tx (bsk_public key) sig)"
      "\<forall>rest. tx_decode R (tx_encode R (signed_tx tx (bsk_public key) sig) @ rest) =
        Ok (signed_tx tx (bsk_public key) sig, rest)"
      "recover_sender K R (signed_tx tx (bsk_public key) sig) = Ok (derive_address (hsh K) (bsk_public key))"
    using signed_on_wire [OF assms] by blast
  then show ?thesis by simp
qed

theorem wire_transfer_witness:
  "\<exists>key tx'. sign_transaction crates_ref rlp_ref 0 key tx_ref = Ok tx' \<and>
    tx_decode rlp_ref (tx_encode rlp_ref tx' @ [1, 2, 3]) = Ok (tx', [1, 2, 3]) \<and>
    recover_sender crates_ref rlp_ref tx' = Ok (derive_address (hsh crates_ref) (bsk_public key))"
proof -
  obtain key where k: "key_wf crates_ref key" by (rule seed_ref_key)
  have "tx_small tx_ref" by (simp add: tx_small_def tx_typed_def tx_ref_def default_to_def)
  from wire_transfer [OF crates_ref_laws rlp_ref_laws k this] show ?thesis by blast
qed

text \<open>
  C30. Values have the sizes of their types: hashes 32 bytes, addresses 20, the entanglement
  nonce 16, the curve seeds the number of bytes asked for, a recovered sender 20 bytes, a decoded
  recipient 20 bytes, a generated key its 32, 66 and 57 bytes.
\<close>

theorem sizes_of_types:
  assumes "crates_laws K C" "rlp_laws R"
  shows "length (signature_hash (hsh K) R tx) = 32 \<and>
    length (compute_entanglement_nonce (hsh K) c a) = 16 \<and>
    length (compute_h_combined (hsh K) pk n) = 32 \<and> length (derive_address (hsh K) pk) = 20 \<and>
    (\<forall>a. recover_sender K R tx = Ok a \<longrightarrow> length a = 20) \<and>
    (\<forall>t rest. tx_decode R buf = Ok (t, rest) \<longrightarrow> tx_typed t \<and> length rest < length buf) \<and>
    (\<forall>k p. bsk_generate K seed = Ok (k, p) \<longrightarrow> length (bsk_dilithium k) = 32 \<and>
      length (bsk_p521 k) = 66 \<and> length (bsk_ed448 k) = 57 \<and> length (bpk_to_bytes p) = 2782) \<and>
    (\<forall>sig key. key_wf K key \<longrightarrow> sign_message K r key m = Ok sig \<longrightarrow> length sig = 4873)"
proof (intro conjI allI impI, goal_cases)
  note H = crates_lawsD(1) [OF assms(1)]
  { case 1 show ?case by (simp add: signature_hash_def hash_lawsD [OF H]) }
  { case 2 show ?case by (simp add: compute_entanglement_nonce_def hash_lawsD [OF H]) }
  { case 3 show ?case by (simp add: compute_h_combined_def hash_lawsD [OF H]) }
  { case 4 show ?case by (rule derive_address_size [OF H]) }
  { case (5 a) then show ?case by (auto simp: recover_sender_iff derive_address_size [OF H]) }
  { case (6 t rest) then show ?case
      using tx_decode_canonical(1) [OF assms(2)] by (auto simp: tx_wire_def) }
  { case (7 t rest)
    then obtain payload where "buf = r_header_enc R True (length payload) @ payload @ rest"
      using tx_decode_canonical(2) [OF assms(2)] by blast
    then show ?case using rlp_lawsD(9,10) [OF assms(2)] by simp }
  { case (8 k p) then show ?case
      using bsk_generate_wf [OF assms(1)] by (auto simp: key_wf_def dil_leg_pair_def) }
  { case (9 k p) then show ?case
      using bsk_generate_wf [OF assms(1)] by (auto simp: key_wf_def p521_leg_pair_def) }
  { case (10 k p) then show ?case
      using bsk_generate_wf [OF assms(1)] by (auto simp: key_wf_def) }
  { case (11 k p) then show ?case
      using pk_valid_size [OF key_wf_pk_valid [OF assms(1) bsk_generate_wf [OF assms(1)]]]
        bsk_generate_Ok(2) [OF assms(1)] by blast }
  { case (12 sig key) then show ?case
      using composite_sign_verify [OF assms(1) 12(1), of r "keccak256 (hsh K) m"
          "compute_h_combined (hsh K) (bsk_public key) (replicate 16 0)"]
      by (auto simp: sign_message_def Let_def) }
qed

theorem sizes_of_types_witness:
  "\<exists>k p. bsk_generate crates_ref seed_ref = Ok (k, p) \<and> length (bsk_p521 k) = 66 \<and>
    length (signature_hash (hsh crates_ref) rlp_ref tx_ref) = 32"
proof -
  obtain k where g: "bsk_generate crates_ref seed_ref = Ok (k, bsk_public k)" by (rule seed_ref_key)
  with sizes_of_types [OF crates_ref_laws rlp_ref_laws, where seed = seed_ref and tx = tx_ref]
  show ?thesis by blast
qed

section \<open>Coming into being\<close>

text \<open>
  C21. A wallet comes into being, and the demo runs to its successful end: when the operating
  system hands out 32 bytes of entropy, the BIP-32 derivation of the default account succeeds
  and one of the 256 P-521 digests of the account's seed is not zero, \<^verbatim>\<open>create_wallet\<close> returns
  the phrase and a well-formed key, and \<^verbatim>\<open>demo\<close> ends with exit code 0 after it verified its
  message and recovered the wallet's address from its transaction.
\<close>

theorem wallet_and_demo_complete:
  assumes "crates_laws K C" "bip39_laws M" "bip32_laws X"
    and "getrandom 32 = Inr entropy" "length entropy = 32" "m_from_entropy M entropy = Inr mn"
    and "derive_child_seed X (m_to_seed M mn (lit ''my_secure_passphrase''))
      [0x8000002C, 0x8000003C, 0x80000000, 0x80000000, 0x80000000] = Ok child"
    and "\<exists>c. \<exists>b\<in>set (p521_digest (hsh K) (p521_curve_seed (hsh K) child) c). b \<noteq> 0"
  shows "\<exists>key rep. create_wallet K M X getrandom (lit ''my_secure_passphrase'') =
      Ok (m_to_string M mn, key) \<and> key_wf K key \<and>
    demo_main K M X R getrandom r1 r2 = Ok rep \<and> dr_exit_code rep = 0 \<and> dr_is_valid rep \<and>
    dr_mnemonic rep = m_to_string M mn \<and> dr_recovered rep = derive_address (hsh K) (bsk_public key)"
proof -
  let ?pw = "lit ''my_secure_passphrase''"
  have g: "generate_mnemonic M getrandom = Ok (m_to_string M mn)"
    by (simp add: generate_mnemonic_def size_consts assms(4,6))
  have s: "seed_from_mnemonic M (m_to_string M mn) ?pw = Ok (m_to_seed M mn ?pw)"
    using bip39_lawsD(2,3) [OF assms(2,5,6)] by (simp add: seed_from_mnemonic_def size_consts Let_def)
  have p: "parse_hardened_path DEFAULT_ACCOUNT_PATH =
      Ok [0x8000002C, 0x8000003C, 0x80000000, 0x80000000, 0x80000000]"
    by (simp add: DEFAULT_ACCOUNT_PATH_account parse_account_path harden_def)
  have l: "64 \<le> length child" using derive_child_seed_size [OF assms(3,7)] by simp
  have "accepted (bsk_generate K child)"
    using bsk_generate_total [OF assms(1) l] assms(8) by simp
  then obtain key where k: "bsk_generate K child = Ok (key, bsk_public key)"
    using bsk_generate_Ok(2) [OF assms(1)] by auto
  have w: "key_wf K key" by (rule bsk_generate_wf [OF assms(1) k])
  have c: "create_wallet K M X getrandom ?pw = Ok (m_to_string M mn, key)"
    by (simp add: create_wallet_def restore_wallet_def g s p assms(7) k)
  from demo_main_Ok [OF assms(1) c w, of R r1 r2] c w show ?thesis by metis
qed

theorem wallet_and_demo_complete_witness:
  "\<exists>rep. demo_main crates_ref bip39_ref bip32_ref rlp_ref (\<lambda>n. Inr (replicate n 5)) 0 0 = Ok rep \<and>
    dr_exit_code rep = 0"
proof -
  let ?root = "m_to_seed bip39_ref (replicate 32 5) (lit ''my_secure_passphrase'')"
  have e: "m_from_entropy bip39_ref (replicate 32 5) = Inr (replicate 32 5)"
    by (simp add: bip39_ref_def)
  have "length ?root = 64" by (rule bip39_lawsD(4) [OF bip39_ref_laws])
  then obtain child where child: "derive_child_seed bip32_ref ?root
      [0x8000002C, 0x8000003C, 0x80000000, 0x80000000, 0x80000000] = Ok child"
    by (simp add: derive_child_seed_def bip32_ref_def)
  have d: "\<exists>c. \<exists>b\<in>set (p521_digest (hsh crates_ref) (p521_curve_seed (hsh crates_ref) child) c). b \<noteq> 0"
    using checksum_not_zero [of 64] by (simp add: p521_digest_def crates_ref_def hashes_ref_def)
  show ?thesis
    using wallet_and_demo_complete [OF crates_ref_laws bip39_ref_laws bip32_ref_laws _ _ e child d,
        of "\<lambda>n. Inr (replicate n 5)" rlp_ref 0 0] by auto
qed

end
