(* ===== verification/Hex_Text.thy ===== *)
theory Hex_Text
  imports Rust_Str
begin

text \<open>
  Hexadecimal text.  The \<^verbatim>\<open>hex\<close> crate is a parameter where the code calls it; here is what its
  documentation promises of \<^verbatim>\<open>decode\<close> (two digits per byte, either case, an error for anything
  else) and of \<^verbatim>\<open>encode\<close> (two lower-case digits per byte), as reference definitions with their
  round trip.  The known-answer vectors of the unit tests are decoded by it.
\<close>

definition hex_digit :: "nat \<Rightarrow> nat option" where
  "hex_digit c =
     (if 48 \<le> c \<and> c \<le> 57 then Some (c - 48)
      else if 97 \<le> c \<and> c \<le> 102 then Some (c - 87)
      else if 65 \<le> c \<and> c \<le> 70 then Some (c - 55)
      else None)"

fun hex_bytes :: "rstr \<Rightarrow> bytes option" where
  "hex_bytes [] = Some []"
| "hex_bytes [c] = None"
| "hex_bytes (c # d # s) =
     (case (hex_digit c, hex_digit d, hex_bytes s) of
        (Some x, Some y, Some bs) \<Rightarrow> Some (word_of_nat (16 * x + y) # bs)
      | _ \<Rightarrow> None)"

definition hex_laws :: "(rstr \<Rightarrow> string + bytes) \<Rightarrow> bool" where
  "hex_laws hex_decode \<longleftrightarrow>
     (\<forall>s. case hex_bytes s of Some b \<Rightarrow> hex_decode s = Inr b | None \<Rightarrow> isl (hex_decode s))"

lemma hex_laws_iff: "hex_laws hex_decode \<Longrightarrow> hex_decode s = Inr b \<longleftrightarrow> hex_bytes s = Some b"
  unfolding hex_laws_def by (cases "hex_bytes s") (fastforce dest: spec [of _ s])+

lemma hex_lawsD: "hex_laws hex_decode \<Longrightarrow> hex_bytes s = Some b \<Longrightarrow> hex_decode s = Inr b"
  unfolding hex_laws_def by (metis option.simps(5))

definition hex_digit_text :: "nat \<Rightarrow> nat" where
  "hex_digit_text x = (if x < 10 then 48 + x else 87 + x)"

definition hex_text :: "bytes \<Rightarrow> rstr" where
  "hex_text bs = concat (map (\<lambda>b. [hex_digit_text (unat b div 16), hex_digit_text (unat b mod 16)]) bs)"

lemma hex_digit_round: "x < 16 \<Longrightarrow> hex_digit (hex_digit_text x) = Some x"
  by (auto simp: hex_digit_def hex_digit_text_def)

lemma hex_bytes_text: "hex_bytes (hex_text bs) = Some bs"
proof (induction bs)
  case Nil
  then show ?case by (simp add: hex_text_def)
next
  case (Cons b bs)
  have "unat b div 16 < 16" using unat_byte_less [of b] by linarith
  moreover have "16 * (unat b div 16) + unat b mod 16 = unat b" by simp
  ultimately show ?case using Cons by (simp add: hex_text_def hex_digit_round)
qed

lemma hex_text_length: "length (hex_text bs) = 2 * length bs"
  by (induction bs) (simp_all add: hex_text_def)

lemma hex_bytes_length: "hex_bytes s = Some b \<Longrightarrow> length s = 2 * length b"
  by (induction s arbitrary: b rule: hex_bytes.induct) (auto split: option.splits)

text \<open>A literal of lower-case digits decodes; its digits are checked as characters.\<close>

definition is_lower_hex :: "char \<Rightarrow> bool" where
  "is_lower_hex c \<longleftrightarrow> c \<in> set ''0123456789abcdef''"

lemma is_lower_hex_digit: "is_lower_hex c \<Longrightarrow> hex_digit (of_char c) \<noteq> None"
  by (auto simp: is_lower_hex_def hex_digit_def)

lemma hex_bytes_lit:
  assumes "list_all is_lower_hex s" and "even (length s)"
  shows "\<exists>b. hex_bytes (lit s) = Some b \<and> length b = length s div 2"
  using assms
proof (induction "lit s" arbitrary: s rule: hex_bytes.induct)
  case 1
  then show ?case by (simp add: lit_def)
next
  case (2 c)
  then show ?case by (auto simp: lit_def)
next
  case (3 c d t)
  then obtain x y u where s: "s = x # y # u" "c = of_char x" "d = of_char y" "t = lit u"
    by (auto simp: lit_def)
  obtain a b where "hex_digit c = Some a" "hex_digit d = Some b"
    using 3(3) is_lower_hex_digit [of x] is_lower_hex_digit [of y] s by auto
  moreover obtain r where "hex_bytes t = Some r" "length r = length u div 2"
    using 3(1) [of u] 3(3,4) s by auto
  moreover have "lit s = c # d # t" by (simp add: s lit_def)
  ultimately show ?case by (simp add: s(1))
qed

text \<open>An instance of the crate.\<close>

definition hex_ref :: "rstr \<Rightarrow> string + bytes" where
  "hex_ref s = (case hex_bytes s of Some b \<Rightarrow> Inr b | None \<Rightarrow> Inl ''invalid hex'')"

lemma hex_ref_laws: "hex_laws hex_ref"
  by (simp add: hex_laws_def hex_ref_def split: option.split)

end
