(* ===== verification/Std_Impls.thy ===== *)
theory Std_Impls
  imports Signing Hex_Text
begin

text \<open>
  The implementations of the standard library's traits: \<^verbatim>\<open>Debug\<close>, \<^verbatim>\<open>Clone\<close>, \<^verbatim>\<open>TryFrom\<close>, and
  what \<^verbatim>\<open>Zeroize\<close> and \<^verbatim>\<open>Drop\<close> leave of a key.  A \<^verbatim>\<open>Debug\<close> implementation is the text that
  \<^verbatim>\<open>{:?}\<close> prints, through the builders of \<^verbatim>\<open>std::fmt\<close>; \<^verbatim>\<open>hex::encode\<close> is a parameter.
\<close>

section \<open>The builders of std::fmt\<close>

text \<open>
  The \<^verbatim>\<open>Debug\<close> text of a \<^verbatim>\<open>String\<close> of hexadecimal digits: between quotes, with nothing to escape.
\<close>

definition debug_str :: "rstr \<Rightarrow> rstr" where
  "debug_str s = [34] @ s @ [34]"

fun joined :: "rstr \<Rightarrow> rstr list \<Rightarrow> rstr" where
  "joined sep [] = []"
| "joined sep [x] = x"
| "joined sep (x # y # xs) = x @ sep @ joined sep (y # xs)"

definition debug_tuple :: "string \<Rightarrow> rstr list \<Rightarrow> rstr" where
  "debug_tuple name fs = lit name @ lit ''('' @ joined (lit '', '') fs @ lit '')''"

text \<open>\<^verbatim>\<open>debug_struct(name).field(..).finish_non_exhaustive()\<close>.\<close>

definition debug_struct_open :: "string \<Rightarrow> (string \<times> rstr) list \<Rightarrow> rstr" where
  "debug_struct_open name fs =
     (if fs = [] then lit name @ lit '' { .. }''
      else lit name @ lit '' { '' @
        joined (lit '', '') (map (\<lambda>(n, v). lit n @ lit '': '' @ v) fs) @ lit '', .. }'')"

section \<open>Debug\<close>

definition dil_pk_debug ::
  "(bytes \<Rightarrow> rstr) \<Rightarrow> ('vk, 'sk, 'sig) ml_dsa \<Rightarrow> 'vk \<Rightarrow> (rstr, 'e) outcome" where
  "dil_pk_debug hex_encode D v =
     and_then (slice_to 8 (d_encode_vk D v))
       (\<lambda>b. Ok (debug_tuple ''MlDsa87PublicKey'' [debug_str (hex_encode b)]))"

definition dil_sk_debug ::
  "(bytes \<Rightarrow> rstr) \<Rightarrow> ('vk, 'sk, 'sig) ml_dsa \<Rightarrow> ('vk, 'sk) dil_private_key \<Rightarrow> (rstr, 'e) outcome"
where
  "dil_sk_debug hex_encode D k =
     and_then (dil_pk_debug hex_encode D (dsk_public k))
       (\<lambda>t. Ok (debug_struct_open ''MlDsa87PrivateKey'' [(''public'', t)]))"

definition p521_pk_debug ::
  "(bytes \<Rightarrow> rstr) \<Rightarrow> ('vk, 'sk, 'sig, 'r) p521 \<Rightarrow> 'vk \<Rightarrow> rstr" where
  "p521_pk_debug hex_encode P v =
     debug_tuple ''P521PublicKey'' [debug_str (hex_encode (p521_pk_as_bytes P v))]"

definition p521_sk_debug ::
  "(bytes \<Rightarrow> rstr) \<Rightarrow> ('vk, 'sk, 'sig, 'r) p521 \<Rightarrow> 'sk \<Rightarrow> rstr" where
  "p521_sk_debug hex_encode P k =
     debug_struct_open ''P521PrivateKey''
       [(''public'', p521_pk_debug hex_encode P (p521_public_key_typed P k))]"

definition ed448_pk_debug :: "(bytes \<Rightarrow> rstr) \<Rightarrow> 'epk ed448_public_key \<Rightarrow> rstr" where
  "ed448_pk_debug hex_encode pk = debug_tuple ''Ed448PublicKey'' [debug_str (hex_encode (epk_raw pk))]"

definition ed448_sk_debug :: "(bytes \<Rightarrow> rstr) \<Rightarrow> ('esk, 'epk) ed448_private_key \<Rightarrow> rstr" where
  "ed448_sk_debug hex_encode k =
     debug_struct_open ''Ed448PrivateKey'' [(''public'', ed448_pk_debug hex_encode (esk_public k))]"

definition bpk_debug :: "(bytes \<Rightarrow> rstr) \<Rightarrow> bc_public_key \<Rightarrow> (rstr, 'e) outcome" where
  "bpk_debug hex_encode pk =
     and_then (slice_to 8 (bpk_dilithium pk))
   (\<lambda>d. and_then (slice_to 8 (bpk_p521 pk))
   (\<lambda>p. and_then (slice_to 8 (bpk_ed448 pk))
   (\<lambda>e. Ok (debug_struct_open ''BlackChainPublicKey''
      [(''dilithium'', debug_str (hex_encode d)), (''p521'', debug_str (hex_encode p)),
       (''ed448'', debug_str (hex_encode e))]))))"

definition bsk_debug :: "bc_private_key \<Rightarrow> rstr" where
  "bsk_debug k = debug_struct_open ''BlackChainPrivateKey'' []"

section \<open>TryFrom, Clone and accessors\<close>

definition p521_pk_try_from ::
  "('vk, 'sk, 'sig, 'r) p521 \<Rightarrow> bytes \<Rightarrow> ('vk, crypto_error) outcome" where
  "p521_pk_try_from P b = p521_pk_from_bytes P b"

definition p521_sk_try_from ::
  "('vk, 'sk, 'sig, 'r) p521 \<Rightarrow> bytes \<Rightarrow> ('sk, crypto_error) outcome" where
  "p521_sk_try_from P b = p521_sk_from_bytes P b"

definition ed448_pk_try_from ::
  "('pt, 'sc) goldilocks \<Rightarrow> bytes \<Rightarrow> ('epk ed448_public_key, crypto_error) outcome" where
  "ed448_pk_try_from G b = ed448_pk_from_bytes G b"

definition dil_unmarshal_binary_public_key_typed ::
  "('vk, 'sk, 'sig) ml_dsa \<Rightarrow> bytes \<Rightarrow> ('vk, dil_error) outcome" where
  "dil_unmarshal_binary_public_key_typed D buf = dil_pk_from_bytes D buf"

definition dil_pk_clone :: "'vk \<Rightarrow> 'vk" where
  "dil_pk_clone v = v"

definition p521_pk_clone :: "'vk \<Rightarrow> 'vk" where
  "p521_pk_clone v = v"

definition ed448_public_key_ref :: "('esk, 'epk) ed448_private_key \<Rightarrow> 'epk ed448_public_key" where
  "ed448_public_key_ref k = esk_public k"

section \<open>Zeroize and drop of the composite keys\<close>

text \<open>
  The derived \<^verbatim>\<open>Zeroize\<close> goes through the fields; a \<^verbatim>\<open>Vec\<close> is overwritten with zeros and left
  empty.  \<^verbatim>\<open>ZeroizeOnDrop\<close> does the same when a private key is dropped.
\<close>

definition bpk_zeroize :: "bc_public_key \<Rightarrow> bc_public_key" where
  "bpk_zeroize pk = pk\<lparr>bpk_dilithium := [], bpk_p521 := [], bpk_ed448 := []\<rparr>"

definition bsk_zeroize :: "bc_private_key \<Rightarrow> bc_private_key" where
  "bsk_zeroize k =
     k\<lparr>bsk_dilithium := [], bsk_p521 := [], bsk_ed448 := [], bsk_seed := [],
       bsk_public := bpk_zeroize (bsk_public k)\<rparr>"

text \<open>
  The derived \<^verbatim>\<open>Deserialize\<close> of the public key takes three byte vectors of any length as they are.
\<close>

definition bpk_deserialize :: "bytes \<Rightarrow> bytes \<Rightarrow> bytes \<Rightarrow> bc_public_key" where
  "bpk_deserialize d p e = \<lparr>bpk_dilithium = d, bpk_p521 = p, bpk_ed448 = e\<rparr>"

section \<open>What Debug tells\<close>

text \<open>The documented behaviour of \<^verbatim>\<open>hex::encode\<close>: two lower-case digits per byte.\<close>

definition hex_encode_laws :: "(bytes \<Rightarrow> rstr) \<Rightarrow> bool" where
  "hex_encode_laws hex_encode \<longleftrightarrow> (\<forall>b. hex_encode b = hex_text b)"

lemma hex_text_inj: "hex_text a = hex_text b \<longleftrightarrow> a = b"
  by (metis hex_bytes_text option.inject)

lemmas debug_texts =
  debug_str_def debug_tuple_def debug_struct_open_def hex_encode_laws_def hex_text_inj

lemma dil_debug_Ok:
  assumes "ml_dsa_laws D"
  shows "dil_pk_debug hex_encode D v = Ok (debug_tuple ''MlDsa87PublicKey''
      [debug_str (hex_encode (take 8 (d_encode_vk D v)))])"
  by (simp add: dil_pk_debug_def slice_to_def slice_def ml_dsa_lawsD [OF assms])

text \<open>The text of a private key is that of its public key: equal exactly when that is.\<close>

lemma private_debug_iff:
  assumes "ml_dsa_laws D" "hex_encode_laws hex_encode"
  shows "dil_sk_debug hex_encode D kd = (dil_sk_debug hex_encode D kd' :: (rstr, 'e) outcome) \<longleftrightarrow>
      take 8 (d_encode_vk D (dsk_public kd)) = take 8 (d_encode_vk D (dsk_public kd'))"
    and "p521_sk_debug hex_encode P kp = p521_sk_debug hex_encode P kp' \<longleftrightarrow>
      p521_pk_as_bytes P (p_vk_of P kp) = p521_pk_as_bytes P (p_vk_of P kp')"
    and "ed448_sk_debug hex_encode ke = ed448_sk_debug hex_encode ke' \<longleftrightarrow>
      epk_raw (esk_public ke) = epk_raw (esk_public ke')"
  using assms(2)
  by (simp_all add: dil_sk_debug_def dil_debug_Ok [OF assms(1)] p521_sk_debug_def p521_pk_debug_def
      p521_public_key_typed_def ed448_sk_debug_def ed448_pk_debug_def debug_texts)

text \<open>
  The text of a composite public key shows the first eight bytes of each sub-key; a sub-key with
  less than eight makes it panic.
\<close>

lemma bpk_debug_Ok:
  assumes "8 \<le> length (bpk_dilithium pk)" "8 \<le> length (bpk_p521 pk)" "8 \<le> length (bpk_ed448 pk)"
  shows "bpk_debug hex_encode pk = Ok (debug_struct_open ''BlackChainPublicKey''
      [(''dilithium'', debug_str (hex_encode (take 8 (bpk_dilithium pk)))),
       (''p521'', debug_str (hex_encode (take 8 (bpk_p521 pk)))),
       (''ed448'', debug_str (hex_encode (take 8 (bpk_ed448 pk))))])"
  using assms by (simp add: bpk_debug_def slice_to_def slice_def)

lemma bpk_debug_panics:
  "panic_free (bpk_debug hex_encode pk :: (rstr, 'e) outcome) \<longleftrightarrow>
    8 \<le> length (bpk_dilithium pk) \<and> 8 \<le> length (bpk_p521 pk) \<and> 8 \<le> length (bpk_ed448 pk)"
  by (auto simp: bpk_debug_def slice_to_def slice_def split: if_splits)

lemma bpk_debug_eq_iff:
  assumes "hex_encode_laws hex_encode" "pk_valid K pk" "pk_valid K pk'"
  shows "bpk_debug hex_encode pk = (bpk_debug hex_encode pk' :: (rstr, 'e) outcome) \<longleftrightarrow>
    take 8 (bpk_dilithium pk) = take 8 (bpk_dilithium pk') \<and> take 8 (bpk_p521 pk) = take 8 (bpk_p521 pk') \<and>
    take 8 (bpk_ed448 pk) = take 8 (bpk_ed448 pk')"
proof -
  have l: "8 \<le> length (bpk_dilithium k)" "8 \<le> length (bpk_p521 k)" "8 \<le> length (bpk_ed448 k)"
    "length (take 8 (bpk_dilithium k)) = 8" "length (take 8 (bpk_p521 k)) = 8"
    if "k \<in> {pk, pk'}" for k
    using assms(2,3) that by (auto simp: pk_valid_def)
  have e: "debug_str (hex_text a) @ x = debug_str (hex_text b) @ y \<longleftrightarrow> a = b \<and> x = y"
    if "length a = length b" for a b x y
    using that by (simp add: debug_str_def append_eq_append_conv hex_text_length hex_text_inj)
  have h: "hex_encode = hex_text" using assms(1) by (simp add: hex_encode_laws_def fun_eq_iff)
  show ?thesis
    using l by (simp add: bpk_debug_Ok h debug_struct_open_def e)
      (simp add: debug_str_def hex_text_inj)
qed

section \<open>Copies and what is left of a key\<close>

lemma dil_clone_same:
  assumes "ml_dsa_laws D" and "dil_sk_from_bytes D b = Ok k"
  shows "dil_sk_clone D k = (Ok k :: (_, 'e) outcome)"
  using assms(2)
  by (auto simp: dil_sk_clone_def dil_sk_from_bytes_iff [OF assms(1)] dil_seed_bytes_Ok [OF assms(1)]
      ml_dsa_lawsD [OF assms(1)] split: if_splits)

lemma p521_clone_same:
  assumes "p521_laws P" and "p_sk_from_slice P b = Inr k"
  shows "p521_sk_clone P k = (Ok k :: (_, 'e) outcome)"
  using p521_lawsD(11) [OF assms] by (simp add: p521_sk_clone_def)

lemma ed448_clone_same:
  assumes "ed448_rust_laws H E G C"
  shows "ed448_sk_clone E k = (Ok k :: (_, 'e) outcome)"
  using ed448_rust_lawsD(1,3) [OF assms, of "esk_inner k"] by (simp add: ed448_sk_clone_def size_consts)

text \<open>
  A wiped P-521 key is the key of the scalar one, which everyone knows; it still signs.  What is
  left of a dropped Ed448 key signs with the zero seed.
\<close>

definition scalar_one :: bytes where
  "scalar_one = (replicate 66 0)[65 := 1]"

lemma scalar_one_value: "length scalar_one = 66" "be_nat scalar_one = 1"
  by (simp_all add: scalar_one_def be_nat_def) code_simp

lemma p521_zeroized:
  assumes "p521_laws P"
  shows "\<exists>one. p_sk_from_slice P scalar_one = Inr one \<and> p_sk_to_bytes P one = scalar_one \<and>
    (\<forall>k. p521_zeroize P k = one)"
proof -
  obtain one where o: "p_sk_from_slice P scalar_one = Inr one"
    using p521_lawsD(15) [OF assms, of scalar_one] scalar_one_value by auto
  moreover have "p521_zeroize P k = one" for k
    using o by (simp add: p521_zeroize_def scalar_one_def)
  ultimately show ?thesis
    using p521_lawsD(14) [OF assms scalar_one_value(1)] by blast
qed

lemma ed448_dropped_signs:
  "ed448_sign_msg E (ed448_drop E k) m opts = ed448_sign_msg E (ed448_drop E k') m opts"
  by (simp add: ed448_sign_msg_def ed448_drop_def Let_def split: signing_mode.split)

text \<open>A wiped composite key signs nothing, and deriving its public key again panics.\<close>

lemma wiped_signs_nothing:
  assumes "crates_laws K C"
  shows "\<exists>e. sign_message K r (bsk_zeroize k) m = Error e"
    and "\<exists>e. sign_transaction K R r (bsk_zeroize k) tx = Error e"
    and "\<not> panic_free (derive_public_key K (bsk_zeroize k))"
  by (simp_all add: sign_message_def Let_def composite_sign_def dil_leg_sign_def
      dil_sk_from_bytes_iff [OF crates_lawsD(2) [OF assms]] sign_transaction_eq derive_public_key_def slice_to_def slice_def bsk_zeroize_def
      size_consts)

section \<open>Keys that were deserialised\<close>

text \<open>
  A public key that came in as three vectors was not validated.  The verifier parses the sub-keys
  again, so it accepts only under sub-keys the backends parse: the two with a fixed size are the
  ones of a valid key, and so is the P-521 key when it has the uncompressed form.
\<close>

lemma deserialized_key:
  assumes "crates_laws K C" "verify_message K (bpk_deserialize d p e) m sig = Ok True"
  shows "length d = 2592 \<and> length e = 57 \<and> accepted (p521_pk_from_bytes (p5 K) p) \<and>
    (length p = 133 \<longrightarrow> bpk_from_bytes K (d @ p @ e) = Ok (bpk_deserialize d p e))"
proof -
  note L = crates_lawsD [OF assms(1)]
  have v: "dil_leg_verify (mld K) d (keccak256 (hsh K) m) (take 4627 sig) = Ok ()"
      "\<exists>x. p521_leg_verify (p5 K) p x (take 132 (drop 4627 sig)) = Ok ()"
      "\<exists>x. ed448_verify_with (hsh K) (edr K) (gld K) e x (drop 4759 sig) = Ok ()"
    using assms(2) by (auto simp: verify_message_def Let_def composite_verify_iff bpk_deserialize_def)
  have a: "length d = 2592" "accepted (dil_pk_from_bytes (mld K) d)"
    using v(1) by (auto simp: dil_leg_verify_def dil_pk_from_bytes_iff [OF L(2)] split: if_splits)
  have b: "accepted (p521_pk_from_bytes (p5 K) p)"
    using v(2) by (auto simp: p521_leg_verify_def)
  have c: "length e = 57" "accepted (ed448_pk_from_bytes (gld K) e :: ('ep ed448_public_key, crypto_error) outcome)"
    using v(3) unfolding ed448_verify_with_iff [OF L(5)]
    by (auto simp: ed448_pk_from_bytes_iff [OF L(6)] dest: rfc8032_validD)
  show ?thesis
    using a b c by (auto simp: bpk_from_bytes_iff pk_valid_def bpk_to_bytes_def bpk_deserialize_def)
qed

end
