(* ===== verification/Typed_Schemes.thy ===== *)
theory Typed_Schemes
  imports Ed448_Verify P521 MlDsa
begin

text \<open>
  The trait \<^verbatim>\<open>TypedScheme\<close>: the statically typed front of a scheme, next to the object-safe
  trait \<^verbatim>\<open>Scheme\<close>.  The locale says how the two fit together: erasing the types of the keys of the
  typed front gives what the object-safe one returns, and both sign and verify alike.  The three
  backends are instances, so that the typed front keeps the contract of the trait as well; where
  the two differ (contexts that the typed verifier ignores) is stated behind the instances.
\<close>

section \<open>The trait\<close>

record ('pk, 'sk, 'r) typed_scheme =
  ty_generate_key :: "'r \<Rightarrow> ('pk \<times> 'sk, crypto_error) outcome"
  ty_derive_key :: "bytes \<Rightarrow> ('pk \<times> 'sk, crypto_error) outcome"
  ty_sign :: "'r \<Rightarrow> 'sk \<Rightarrow> bytes \<Rightarrow> signature_opts option \<Rightarrow> (bytes, crypto_error) outcome"
  ty_verify :: "'pk \<Rightarrow> bytes \<Rightarrow> bytes \<Rightarrow> signature_opts option \<Rightarrow> (bool, crypto_error) outcome"
  ty_unmarshal_public :: "bytes \<Rightarrow> ('pk, crypto_error) outcome"
  ty_unmarshal_private :: "bytes \<Rightarrow> ('sk, crypto_error) outcome"

definition dil_typed ::
  "('vk, 'sk, 'sig) ml_dsa \<times> ('r \<Rightarrow> nat \<Rightarrow> string + bytes)
     \<Rightarrow> ('vk, ('vk, 'sk) dil_private_key, 'r) typed_scheme" where
  "dil_typed c =
     (let D = fst c; getrandom = snd c in
      \<lparr>ty_generate_key = (\<lambda>r. dil_generate_key_typed D (getrandom r DIL_SEED_SIZE)),
       ty_derive_key = dil_derive_key_typed D,
       ty_sign = (\<lambda>r. dil_sign_typed D),
       ty_verify = dil_verify_typed D,
       ty_unmarshal_public = dil_unmarshal_public_key_typed D,
       ty_unmarshal_private = dil_unmarshal_private_key_typed D\<rparr>)"

definition p521_typed ::
  "('vk, 'sk, 'sig, 'r) p521 \<times> hashes \<Rightarrow> ('vk, 'sk, 'r) typed_scheme" where
  "p521_typed c =
     (let P = fst c; H = snd c in
      \<lparr>ty_generate_key = p521_generate_key_typed P,
       ty_derive_key = p521_derive_key_typed P H,
       ty_sign = p521_sign_typed P,
       ty_verify = p521_verify_typed P,
       ty_unmarshal_public = p521_unmarshal_public_key_typed P,
       ty_unmarshal_private = p521_unmarshal_private_key_typed P\<rparr>)"

fun ed448_typed ::
  "('esk, 'epk, 'pt, 'sc, 'g::ab_group_add, 'r) ed448_env
     \<Rightarrow> ('epk ed448_public_key, ('esk, 'epk) ed448_private_key, 'r) typed_scheme" where
  "ed448_typed (H, E, G, C, os_rng) =
      \<lparr>ty_generate_key = ed448_generate_key_typed E os_rng,
       ty_derive_key = ed448_derive_key_typed E,
       ty_sign = (\<lambda>r. ed448_sign_typed E),
       ty_verify = ed448_verify_typed H E G,
       ty_unmarshal_public = ed448_unmarshal_public_key_typed G,
       ty_unmarshal_private = ed448_unmarshal_private_key_typed E\<rparr>"

section \<open>How the two fronts fit together\<close>

text \<open>Two results that are equal, but for the text of a panic.\<close>

definition same_outcome :: "('a, 'e) outcome \<Rightarrow> ('a, 'e) outcome \<Rightarrow> bool" where
  "same_outcome x y \<longleftrightarrow> x = y \<or> \<not> panic_free x \<and> \<not> panic_free y"

definition erase_keys ::
  "('pk \<Rightarrow> dyn_public_key) \<Rightarrow> ('sk \<Rightarrow> dyn_private_key) \<Rightarrow> ('pk \<times> 'sk, crypto_error) outcome
     \<Rightarrow> (dyn_public_key \<times> dyn_private_key, crypto_error) outcome" where
  "erase_keys pub priv x = and_then x (\<lambda>(pk, sk). Ok (pub pk, priv sk))"

locale typed_front = scheme_contract ok S
  for ok :: "'c \<Rightarrow> bool" and S :: "'c \<Rightarrow> 'r scheme" +
  fixes T :: "'c \<Rightarrow> ('pk, 'sk, 'r) typed_scheme"
    and pub :: "'c \<Rightarrow> 'pk \<Rightarrow> dyn_public_key"
    and priv :: "'c \<Rightarrow> 'sk \<Rightarrow> dyn_private_key"
  assumes generated: "ok c \<Longrightarrow>
      sch_generate_key (S c) r = erase_keys (pub c) (priv c) (ty_generate_key (T c) r)"
    and derived_typed: "ok c \<Longrightarrow>
      same_outcome (sch_derive_key (S c) seed) (erase_keys (pub c) (priv c) (ty_derive_key (T c) seed))"
    and unmarshal_public: "ok c \<Longrightarrow>
      sch_unmarshal_public (S c) b = and_then (ty_unmarshal_public (T c) b) (\<lambda>pk. Ok (pub c pk))"
    and unmarshal_private: "ok c \<Longrightarrow>
      sch_unmarshal_private (S c) b = and_then (ty_unmarshal_private (T c) b) (\<lambda>sk. Ok (priv c sk))"
    and made_keys: "ok c \<Longrightarrow> ty_derive_key (T c) seed = Ok (pk, sk) \<or> ty_generate_key (T c) r = Ok (pk, sk) \<Longrightarrow>
      \<exists>b. ty_unmarshal_private (T c) b = Ok sk"
    and signed_alike: "ok c \<Longrightarrow> ty_unmarshal_private (T c) b = Ok sk \<Longrightarrow>
      sch_sign (S c) r (priv c sk) m opts = ty_sign (T c) r sk m opts"
    and verified_alike: "ok c \<Longrightarrow> ty_unmarshal_public (T c) b = Ok pk \<Longrightarrow>
      sch_supports_context (S c) \<or> \<not> has_context opts \<Longrightarrow>
      sch_verify (S c) (pub c pk) m sig opts = ty_verify (T c) pk m sig opts"
    and marshals: "ok c \<Longrightarrow> panic_free (pk_marshal (pub c pk))"
begin

lemma derive_agree:
  "ok c \<Longrightarrow> ty_derive_key (T c) seed = Ok (pk, sk) \<Longrightarrow> sch_derive_key (S c) seed = Ok (pub c pk, priv c sk)"
  using derived_typed [of c seed] by (simp add: same_outcome_def erase_keys_def)

text \<open>The typed front panics on a seed of another size as well.\<close>

lemma typed_seed_size:
  assumes "ok c" "length seed \<noteq> sch_seed_size (S c)"
  shows "\<not> panic_free (ty_derive_key (T c) seed)"
  using derived_typed [OF assms(1), of seed] seed_size [OF assms]
  by (auto simp: same_outcome_def erase_keys_def panic_free_def split: sum.splits failure.splits)

text \<open>
  What the typed front signs, the object-safe one verifies, and the typed one does once the key
  went through its byte form.
\<close>

lemma typed_complete:
  assumes "ok c" "ty_derive_key (T c) seed = Ok (pk, sk)" "\<not> has_context opts"
  shows "\<exists>sig pb pk'. ty_sign (T c) r sk m opts = Ok sig \<and> length sig = sch_signature_size (S c) \<and>
    sch_verify (S c) (pub c pk) m sig opts = Ok True \<and>
    pk_marshal (pub c pk) = Ok pb \<and> ty_unmarshal_public (T c) pb = Ok pk' \<and> pub c pk' = pub c pk \<and>
    ty_verify (T c) pk' m sig opts = Ok True"
proof -
  note d = derive_agree [OF assms(1,2)]
  obtain b where b: "ty_unmarshal_private (T c) b = Ok sk" using made_keys [OF assms(1)] assms(2) by blast
  obtain sig where s: "sch_sign (S c) r (priv c sk) m opts = Ok sig"
      "length sig = sch_signature_size (S c)" "sch_verify (S c) (pub c pk) m sig opts = Ok True"
    using complete [OF assms(1) d assms(3), of r m] by blast
  obtain pb where p: "pk_marshal (pub c pk) = Ok pb" "sch_unmarshal_public (S c) pb = Ok (pub c pk)"
    using derived [OF assms(1) d] by blast
  then obtain pk' where k: "ty_unmarshal_public (T c) pb = Ok pk'" "pub c pk' = pub c pk"
    by (auto simp: unmarshal_public [OF assms(1)])
  show ?thesis
    using s p k signed_alike [OF assms(1) b, of r m opts] verified_alike [OF assms(1) k(1), of opts m sig]
      assms(3) by auto
qed

lemma typed_verify_total:
  assumes "ok c" "ty_unmarshal_public (T c) b = Ok pk" "sch_supports_context (S c) \<or> \<not> has_context opts"
  shows "\<exists>v. ty_verify (T c) pk m sig opts = Ok v"
    and "ty_verify (T c) pk m sig opts = Ok True \<Longrightarrow> length sig = sch_signature_size (S c)"
  using verify_total [OF assms(1) marshals [OF assms(1)], of pk m sig opts]
    verify_size [OF assms(1), of "pub c pk" m sig opts] verified_alike [OF assms, of m sig] by auto

end

section \<open>The three backends\<close>

lemma map_err_erase:
  "map_err f (and_then x (\<lambda>k. Ok (g k))) = and_then (map_err f x) (\<lambda>k. Ok (g k))"
proof (cases x)
  case (Inl e)
  then show ?thesis by (cases e) simp_all
qed simp

lemma same_outcome_refl [simp]: "same_outcome x x"
  by (simp add: same_outcome_def)

text \<open>ML-DSA-87.\<close>

lemma dil_made_key:
  assumes "ml_dsa_laws D" and "dil_from_seed D b = (Ok (pk, sk) :: (_, 'e) outcome)"
  shows "dil_unmarshal_private_key_typed D b = Ok sk"
  using assms(2) by (auto simp: dil_from_seed_def dil_unmarshal_private_key_typed_def
      dil_sk_from_bytes_iff [OF assms(1)] split: if_splits)

lemma dil_signed_alike:
  assumes "ml_dsa_laws D" and "dil_unmarshal_private_key_typed D b = Ok sk"
  shows "dil_dyn_sign D (dil_dyn_sk D sk) m opts = dil_sign_typed D sk m opts"
  using assms(2)
  by (auto simp: dil_dyn_sign_def dil_sign_typed_def dil_dyn_sk_def dil_unmarshal_private_key_typed_def
      dil_seed_bytes_Ok [OF assms(1)] dil_sk_from_bytes_iff [OF assms(1)] ml_dsa_lawsD [OF assms(1)]
      split: if_splits)

lemma dil_verified_alike:
  assumes "ml_dsa_laws D"
  shows "dil_dyn_verify D (dil_dyn_pk D v) m sig opts =
    (if has_context opts then Ok False else dil_verify_typed D v m sig opts)"
  by (simp add: dil_dyn_verify_def dil_verify_typed_def dil_dyn_pk_def dil_pk_to_vec_def
      dil_pk_try_from_def dil_pk_from_bytes_iff [OF assms] ml_dsa_lawsD [OF assms])

definition dil_pub_of ::
  "('vk, 'sk, 'sig) ml_dsa \<times> ('r \<Rightarrow> nat \<Rightarrow> string + bytes) \<Rightarrow> 'vk \<Rightarrow> dyn_public_key" where
  "dil_pub_of c = dil_dyn_pk (fst c)"

definition dil_priv_of ::
  "('vk, 'sk, 'sig) ml_dsa \<times> ('r \<Rightarrow> nat \<Rightarrow> string + bytes) \<Rightarrow> ('vk, 'sk) dil_private_key
     \<Rightarrow> dyn_private_key" where
  "dil_priv_of c = dil_dyn_sk (fst c)"

lemmas dil_front_defs = dil_scheme_defs dil_typed_def dil_pub_of_def dil_priv_of_def erase_keys_def

interpretation dil_front: typed_front dil_scheme_ok dil_scheme_of dil_typed dil_pub_of dil_priv_of
proof unfold_locales
  fix c :: "('vk, 'sk, 'sig) ml_dsa \<times> ('r \<Rightarrow> nat \<Rightarrow> string + bytes)"
    and seed b m sig :: bytes and pk sk opts and r :: 'r
  assume "dil_scheme_ok c"
  then have L: "ml_dsa_laws (fst c)" by (simp add: dil_scheme_ok_def)
  show "sch_generate_key (dil_scheme_of c) r =
      erase_keys (dil_pub_of c) (dil_priv_of c) (ty_generate_key (dil_typed c) r)"
    by (simp add: dil_front_defs Let_def dil_generate_key_typed_def)
  show "same_outcome (sch_derive_key (dil_scheme_of c) seed)
      (erase_keys (dil_pub_of c) (dil_priv_of c) (ty_derive_key (dil_typed c) seed))"
    by (cases "length seed = 32")
      (simp_all add: dil_front_defs Let_def dil_dyn_derive_key_def dil_derive_key_typed_def size_consts
        same_outcome_def copy_from_slice_def)
  show "sch_unmarshal_public (dil_scheme_of c) b =
      and_then (ty_unmarshal_public (dil_typed c) b) (\<lambda>pk. Ok (dil_pub_of c pk))"
    by (simp add: dil_front_defs Let_def dil_unmarshal_public_key_typed_def map_err_erase)
  show "sch_unmarshal_private (dil_scheme_of c) b =
      and_then (ty_unmarshal_private (dil_typed c) b) (\<lambda>sk. Ok (dil_priv_of c sk))"
    by (simp add: dil_front_defs Let_def dil_unmarshal_private_key_typed_def map_err_erase)
  show "ty_derive_key (dil_typed c) seed = Ok (pk, sk) \<or> ty_generate_key (dil_typed c) r = Ok (pk, sk) \<Longrightarrow>
      \<exists>b. ty_unmarshal_private (dil_typed c) b = Ok sk"
    by (auto simp: dil_typed_def Let_def dil_derive_key_typed_def dil_new_key_from_seed_def
        dil_generate_key_typed_def dil_generate_key_def split: if_splits dest: dil_made_key [OF L])
  show "ty_unmarshal_private (dil_typed c) b = Ok sk \<Longrightarrow>
      sch_sign (dil_scheme_of c) r (dil_priv_of c sk) m opts = ty_sign (dil_typed c) r sk m opts"
    using dil_signed_alike [OF L] by (simp add: dil_front_defs Let_def)
  show "sch_supports_context (dil_scheme_of c) \<or> \<not> has_context opts \<Longrightarrow>
      sch_verify (dil_scheme_of c) (dil_pub_of c pk) m sig opts = ty_verify (dil_typed c) pk m sig opts"
    by (simp add: dil_front_defs Let_def dil_verified_alike [OF L])
  show "panic_free (pk_marshal (dil_pub_of c pk))" by (simp add: dil_pub_of_def dil_dyn_pk_def)
qed

text \<open>P-521.\<close>

lemma p521_made_key:
  assumes "p521_laws P" "hash_laws H"
  shows "p521_derive_keypair_from_seed P H seed = (Ok (pk, sk) :: (_, 'e) outcome) \<Longrightarrow>
      p521_unmarshal_private_key_typed P (p_sk_to_bytes P sk) = Ok sk"
    and "p521_generate_key P r = Ok (pk, sk) \<Longrightarrow>
      p521_unmarshal_private_key_typed P (p_sk_to_bytes P sk) = Ok sk"
  using p521_derive_size [OF assms] p521_lawsD(13) [OF assms(1)]
  by (auto simp: p521_unmarshal_private_key_typed_def p521_sk_from_bytes_def p521_generate_key_def Let_def)

lemma p521_signed_alike:
  assumes "p521_laws P" and "p521_unmarshal_private_key_typed P b = Ok sk"
  shows "p521_dyn_sign P r (p521_dyn_sk P sk) m opts = p521_sign_typed P r sk m opts"
proof -
  have "p_sk_from_slice P b = Inr sk"
    using assms(2) by (auto simp: p521_unmarshal_private_key_typed_def p521_sk_from_bytes_def)
  then show ?thesis
    using p521_lawsD(11) [OF assms(1)]
    by (simp add: p521_dyn_sign_def p521_sign_typed_def p521_dyn_sk_def p521_sk_as_bytes_def
        p521_sk_from_bytes_def)
qed

lemma p521_verified_alike:
  assumes "p521_laws P"
  shows "p521_dyn_verify P (p521_dyn_pk P v) m sig opts =
    (if has_context opts then Ok False else p521_verify_typed P v m sig opts)"
  by (simp add: p521_dyn_verify_def p521_verify_typed_def p521_dyn_pk_def p521_pk_as_bytes_def
      p521_pk_from_bytes_def p521_lawsD(2) [OF assms])

definition p521_pub_of :: "('vk, 'sk, 'sig, 'r) p521 \<times> hashes \<Rightarrow> 'vk \<Rightarrow> dyn_public_key" where
  "p521_pub_of c = p521_dyn_pk (fst c)"

definition p521_priv_of :: "('vk, 'sk, 'sig, 'r) p521 \<times> hashes \<Rightarrow> 'sk \<Rightarrow> dyn_private_key" where
  "p521_priv_of c = p521_dyn_sk (fst c)"

lemmas p521_front_defs =
  p521_scheme_defs p521_typed_def p521_pub_of_def p521_priv_of_def erase_keys_def

interpretation p521_front: typed_front p521_scheme_ok p521_scheme_of p521_typed p521_pub_of p521_priv_of
proof unfold_locales
  fix c :: "('vk, 'sk, 'sig, 'r) p521 \<times> hashes"
    and seed b m sig :: bytes and pk sk opts and r :: 'r
  assume "p521_scheme_ok c"
  then have L: "p521_laws (fst c)" "hash_laws (snd c)" by (simp_all add: p521_scheme_ok_def)
  show "sch_generate_key (p521_scheme_of c) r =
      erase_keys (p521_pub_of c) (p521_priv_of c) (ty_generate_key (p521_typed c) r)"
    by (simp add: p521_front_defs Let_def p521_generate_key_typed_def)
  show "same_outcome (sch_derive_key (p521_scheme_of c) seed)
      (erase_keys (p521_pub_of c) (p521_priv_of c) (ty_derive_key (p521_typed c) seed))"
    by (simp add: p521_front_defs Let_def p521_derive_key_typed_def)
  show "sch_unmarshal_public (p521_scheme_of c) b =
      and_then (ty_unmarshal_public (p521_typed c) b) (\<lambda>pk. Ok (p521_pub_of c pk))"
    by (simp add: p521_front_defs Let_def p521_unmarshal_public_key_typed_def)
  show "sch_unmarshal_private (p521_scheme_of c) b =
      and_then (ty_unmarshal_private (p521_typed c) b) (\<lambda>sk. Ok (p521_priv_of c sk))"
    by (simp add: p521_front_defs Let_def p521_unmarshal_private_key_typed_def)
  show "ty_derive_key (p521_typed c) seed = Ok (pk, sk) \<or> ty_generate_key (p521_typed c) r = Ok (pk, sk) \<Longrightarrow>
      \<exists>b. ty_unmarshal_private (p521_typed c) b = Ok sk"
    by (auto simp: p521_typed_def Let_def p521_derive_key_typed_def p521_generate_key_typed_def
        dest: p521_made_key [OF L])
  show "ty_unmarshal_private (p521_typed c) b = Ok sk \<Longrightarrow>
      sch_sign (p521_scheme_of c) r (p521_priv_of c sk) m opts = ty_sign (p521_typed c) r sk m opts"
    using p521_signed_alike [OF L(1)] by (simp add: p521_front_defs Let_def)
  show "sch_supports_context (p521_scheme_of c) \<or> \<not> has_context opts \<Longrightarrow>
      sch_verify (p521_scheme_of c) (p521_pub_of c pk) m sig opts = ty_verify (p521_typed c) pk m sig opts"
    by (simp add: p521_front_defs Let_def p521_verified_alike [OF L(1)])
  show "panic_free (pk_marshal (p521_pub_of c pk))" by (simp add: p521_pub_of_def p521_dyn_pk_def)
qed

text \<open>
  Ed448.  A key that came from bytes is verified by the same function on both sides; for a key that
  was made in the process the typed verifier is the one of \<^verbatim>\<open>ed448-rust\<close>, of which only what
  honest signatures need is known.
\<close>

lemma ed448_made_key:
  assumes "ed448_from_seed E b = (Ok (pk, sk) :: (_, 'e) outcome)"
  shows "\<exists>b. ed448_unmarshal_private_key_typed E b = Ok sk"
proof -
  have l: "length b = 57" using assms by (auto simp: ed448_from_seed_def size_consts split: if_splits)
  then have "ed448_sk_from_bytes E b = Ok (pk, sk)"
    using assms by (auto simp: ed448_sk_from_bytes_def size_consts ed448_from_seed_eq Let_def)
  then show ?thesis by (auto simp: ed448_unmarshal_private_key_typed_def)
qed

lemma ed448_signed_alike:
  assumes "ed448_rust_laws H E G C" and "ed448_unmarshal_private_key_typed E b = Ok sk"
  shows "ed448_dyn_sign E (ed448_dyn_sk E sk) m opts = ed448_sign_typed E sk m opts"
proof -
  obtain pk where "length b = 57" and s: "ed448_sk_from_bytes E b = Ok (pk, sk)"
    using assms(2) by (auto simp: ed448_unmarshal_private_key_typed_def ed448_sk_from_bytes_iff)
  moreover have "ed448_sk_as_bytes E sk = (Ok b :: (bytes, crypto_error) outcome)"
    using s ed448_rust_lawsD(2) [OF assms(1)]
    by (auto simp: ed448_sk_as_bytes_def ed448_sk_from_bytes_iff size_consts)
  ultimately show ?thesis
    by (simp add: ed448_dyn_sign_def ed448_sign_typed_def ed448_dyn_sk_def ed448_sk_try_from_def)
qed

lemma ed448_verified_alike:
  assumes "ed448_unmarshal_public_key_typed G b = Ok pk"
  shows "ed448_dyn_verify H E G (ed448_dyn_pk pk) m sig opts = ed448_verify_typed H E G pk m sig opts"
proof -
  have "ed448_pk_from_bytes G b = Ok pk" using assms by (simp add: ed448_unmarshal_public_key_typed_def)
  moreover from this have "epk_raw pk = b"
    by (auto simp: ed448_pk_from_bytes_def size_consts split: if_splits)
  ultimately show ?thesis by (simp add: ed448_dyn_verify_def ed448_verify_typed_def ed448_dyn_pk_def)
qed

fun ed448_priv_of ::
  "('esk, 'epk, 'pt, 'sc, 'g::ab_group_add, 'r) ed448_env \<Rightarrow> ('esk, 'epk) ed448_private_key
     \<Rightarrow> dyn_private_key" where
  "ed448_priv_of (H, E, G, C, os_rng) = ed448_dyn_sk E"

definition ed448_pub_of ::
  "('esk, 'epk, 'pt, 'sc, 'g::ab_group_add, 'r) ed448_env \<Rightarrow> 'epk ed448_public_key \<Rightarrow> dyn_public_key"
where
  "ed448_pub_of c = ed448_dyn_pk"

interpretation ed448_front:
  typed_front ed448_scheme_ok ed448_scheme_of ed448_typed ed448_pub_of ed448_priv_of
proof unfold_locales
  fix c :: "('esk, 'epk, 'pt, 'sc, 'g::ab_group_add, 'r) ed448_env"
    and seed b m sig :: bytes and pk sk opts and r :: 'r
  obtain H E G C rng where c: "c = (H, E, G, C, rng)" by (cases c)
  assume "ed448_scheme_ok c"
  then have L: "ed448_rust_laws H E G C" by (simp add: c)
  note S = c ed448_scheme_def ed448_pub_of_def erase_keys_def
  show "sch_generate_key (ed448_scheme_of c) r =
      erase_keys (ed448_pub_of c) (ed448_priv_of c) (ty_generate_key (ed448_typed c) r)"
    by (simp add: S ed448_generate_key_typed_def)
  show "same_outcome (sch_derive_key (ed448_scheme_of c) seed)
      (erase_keys (ed448_pub_of c) (ed448_priv_of c) (ty_derive_key (ed448_typed c) seed))"
    by (cases "length seed = 57")
      (simp_all add: S ed448_dyn_derive_key_def ed448_derive_key_typed_def ed448_new_key_from_seed_def
        ed448_from_seed_def size_consts same_outcome_def)
  show "sch_unmarshal_public (ed448_scheme_of c) b =
      and_then (ty_unmarshal_public (ed448_typed c) b) (\<lambda>pk. Ok (ed448_pub_of c pk))"
    by (simp add: S ed448_unmarshal_public_key_typed_def)
  show "sch_unmarshal_private (ed448_scheme_of c) b =
      and_then (ty_unmarshal_private (ed448_typed c) b) (\<lambda>sk. Ok (ed448_priv_of c sk))"
    by (cases "ed448_sk_from_bytes E b") (auto simp: S ed448_unmarshal_private_key_typed_def)
  show "ty_derive_key (ed448_typed c) seed = Ok (pk, sk) \<or> ty_generate_key (ed448_typed c) r = Ok (pk, sk) \<Longrightarrow>
      \<exists>b. ty_unmarshal_private (ed448_typed c) b = Ok sk"
    by (auto simp: c ed448_derive_key_typed_def ed448_new_key_from_seed_def ed448_generate_key_typed_def
        ed448_generate_key_def ed448_generate_key_with_rng_def intro: ed448_made_key)
  show "ty_unmarshal_private (ed448_typed c) b = Ok sk \<Longrightarrow>
      sch_sign (ed448_scheme_of c) r (ed448_priv_of c sk) m opts = ty_sign (ed448_typed c) r sk m opts"
    using ed448_signed_alike [OF L] by (simp add: S)
  show "ty_unmarshal_public (ed448_typed c) b = Ok pk \<Longrightarrow>
      sch_verify (ed448_scheme_of c) (ed448_pub_of c pk) m sig opts = ty_verify (ed448_typed c) pk m sig opts"
    using ed448_verified_alike by (simp add: S)
  show "panic_free (pk_marshal (ed448_pub_of c pk))" by (simp add: ed448_pub_of_def ed448_dyn_pk_def)
qed

end
