(* ===== verification/Key_Equality.thy ===== *)
theory Key_Equality
  imports Typed_Schemes Std_Impls
begin

text \<open>
  The two equalities of the keys of the backends: \<^verbatim>\<open>PartialEq\<close> and \<^verbatim>\<open>Eq\<close> on keys of one type, and
  the method \<^verbatim>\<open>equal\<close> of the trait objects, which takes a key of any backend.  The locale \<open>rust_eq\<close>
  is what \<^verbatim>\<open>impl Eq\<close> asserts, an equality that is total and an equivalence; the locale \<open>key_type\<close>
  says how both equalities, copies and the byte form of a key type belong together, and gives
  \<open>rust_eq\<close>; \<open>faithful_key\<close> is a key type whose byte form determines the key.  All six key types
  are instances.  Equality of the public keys of Ed448 is coarser than identity: a key that was
  made in the process is equal to the one that was parsed from its bytes, although the two are
  verified by different implementations.
\<close>

section \<open>The interfaces\<close>

locale rust_eq =
  fixes ok :: "'c \<Rightarrow> bool"
    and wf :: "'c \<Rightarrow> 'k \<Rightarrow> bool"
    and key_eq :: "'c \<Rightarrow> 'k \<Rightarrow> 'k \<Rightarrow> (bool, crypto_error) outcome"
  assumes eq_total: "ok c \<Longrightarrow> wf c k \<Longrightarrow> wf c k' \<Longrightarrow> \<exists>b. key_eq c k k' = Ok b"
    and eq_refl: "ok c \<Longrightarrow> wf c k \<Longrightarrow> key_eq c k k = Ok True"
    and eq_sym: "ok c \<Longrightarrow> wf c k \<Longrightarrow> wf c k' \<Longrightarrow> key_eq c k k' = key_eq c k' k"
    and eq_trans: "ok c \<Longrightarrow> wf c k \<Longrightarrow> wf c k' \<Longrightarrow> wf c k'' \<Longrightarrow>
      key_eq c k k' = Ok True \<Longrightarrow> key_eq c k' k'' = Ok True \<Longrightarrow> key_eq c k k'' = Ok True"

text \<open>
  \<open>wf c k\<close> holds of the keys a program can have, \<open>erase\<close> makes the trait object of a key, and
  \<open>marshal\<close> is \<^verbatim>\<open>marshal_binary\<close> of a trait object, of this backend or of another one.
\<close>

locale key_type =
  fixes ok :: "'c \<Rightarrow> bool"
    and wf :: "'c \<Rightarrow> 'k \<Rightarrow> bool"
    and to_bytes :: "'c \<Rightarrow> 'k \<Rightarrow> bytes"
    and key_eq :: "'c \<Rightarrow> 'k \<Rightarrow> 'k \<Rightarrow> (bool, crypto_error) outcome"
    and key_equal :: "'c \<Rightarrow> 'k \<Rightarrow> 'd \<Rightarrow> (bool, crypto_error) outcome"
    and key_clone :: "'c \<Rightarrow> 'k \<Rightarrow> ('k, crypto_error) outcome"
    and erase :: "'c \<Rightarrow> 'k \<Rightarrow> 'd"
    and marshal :: "'d \<Rightarrow> (bytes, crypto_error) outcome"
    and key_size :: nat
  assumes bytes_size: "ok c \<Longrightarrow> wf c k \<Longrightarrow> length (to_bytes c k) = key_size"
    and erased: "ok c \<Longrightarrow> wf c k \<Longrightarrow> marshal (erase c k) = Ok (to_bytes c k)"
    and eq_bytes: "ok c \<Longrightarrow> wf c k \<Longrightarrow> wf c k' \<Longrightarrow>
      key_eq c k k' = Ok (to_bytes c k = to_bytes c k')"
    and equal_bytes: "ok c \<Longrightarrow> wf c k \<Longrightarrow> panic_free (marshal d) \<Longrightarrow>
      key_equal c k d = Ok (marshal d = Ok (to_bytes c k))"
    and cloned: "ok c \<Longrightarrow> wf c k \<Longrightarrow>
      \<exists>k'. key_clone c k = Ok k' \<and> wf c k' \<and> to_bytes c k' = to_bytes c k"
begin

lemma equal_agrees:
  assumes "ok c" "wf c k" "wf c k'"
  shows "key_equal c k (erase c k') = key_eq c k k'"
  using equal_bytes [OF assms(1,2), of "erase c k'"] erased [OF assms(1,3)] eq_bytes [OF assms]
  by (auto simp: eq_commute)

lemma equal_unmarshalable: "ok c \<Longrightarrow> wf c k \<Longrightarrow> marshal d = Error e \<Longrightarrow> key_equal c k d = Ok False"
  using equal_bytes [of c k d] by simp

lemma equal_foreign:
  assumes "ok c" "wf c k" "marshal d = Ok b" "length b \<noteq> key_size"
  shows "key_equal c k d = Ok False"
  using equal_bytes [OF assms(1,2), of d] bytes_size [OF assms(1,2)] assms(3,4) by auto

lemma equal_keys_alike:
  assumes "ok c" "wf c k" "wf c k'" "key_eq c k k' = Ok True" "panic_free (marshal d)"
  shows "key_equal c k d = key_equal c k' d"
  using assms(4) eq_bytes [OF assms(1-3)] equal_bytes [OF assms(1,2,5)] equal_bytes [OF assms(1,3,5)]
  by simp

lemma clone_equal:
  assumes "ok c" "wf c k" "key_clone c k = Ok k'"
  shows "key_eq c k k' = Ok True" "key_equal c k (erase c k') = Ok True"
proof -
  have w: "wf c k'" "to_bytes c k' = to_bytes c k" using cloned [OF assms(1,2)] assms(3) by auto
  then show "key_eq c k k' = Ok True" using eq_bytes [OF assms(1,2)] by simp
  then show "key_equal c k (erase c k') = Ok True" using equal_agrees [OF assms(1,2) w(1)] by simp
qed

end

sublocale key_type \<subseteq> rust_eq ok wf key_eq
proof unfold_locales
  fix c k k' k''
  assume "ok c" "wf c k"
  note e = eq_bytes [OF this]
  show "key_eq c k k = Ok True" using \<open>wf c k\<close> by (simp add: e)
  assume w: "wf c k'"
  show "\<exists>b. key_eq c k k' = Ok b" by (simp add: e [OF w])
  show "key_eq c k k' = key_eq c k' k"
    using e [OF w] eq_bytes [OF \<open>ok c\<close> w \<open>wf c k\<close>] by (simp add: eq_commute)
  assume "wf c k''" "key_eq c k k' = Ok True" "key_eq c k' k'' = Ok True"
  then show "key_eq c k k'' = Ok True"
    using e [OF w] e [of k''] eq_bytes [OF \<open>ok c\<close> w] by simp
qed

locale faithful_key =
  key_type ok wf to_bytes key_eq key_equal key_clone erase marshal key_size
  for ok :: "'c \<Rightarrow> bool"
    and wf :: "'c \<Rightarrow> 'k \<Rightarrow> bool"
    and to_bytes :: "'c \<Rightarrow> 'k \<Rightarrow> bytes"
    and key_eq :: "'c \<Rightarrow> 'k \<Rightarrow> 'k \<Rightarrow> (bool, crypto_error) outcome"
    and key_equal :: "'c \<Rightarrow> 'k \<Rightarrow> 'd \<Rightarrow> (bool, crypto_error) outcome"
    and key_clone :: "'c \<Rightarrow> 'k \<Rightarrow> ('k, crypto_error) outcome"
    and erase :: "'c \<Rightarrow> 'k \<Rightarrow> 'd"
    and marshal :: "'d \<Rightarrow> (bytes, crypto_error) outcome"
    and key_size :: nat +
  fixes unmarshal :: "'c \<Rightarrow> bytes \<Rightarrow> ('k, crypto_error) outcome"
  assumes reparsed: "ok c \<Longrightarrow> wf c k \<Longrightarrow> unmarshal c (to_bytes c k) = Ok k"
begin

lemma bytes_inj:
  assumes "ok c" "wf c k" "wf c k'" "to_bytes c k = to_bytes c k'"
  shows "k = k'"
proof -
  have "Ok k = unmarshal c (to_bytes c k')" using reparsed [OF assms(1,2)] unfolding assms(4) by (rule sym)
  also have "\<dots> = Ok k'" by (rule reparsed [OF assms(1,3)])
  finally show ?thesis by (rule sum.inject(2) [THEN iffD1])
qed

lemma eq_same:
  assumes "ok c" "wf c k" "wf c k'"
  shows "key_eq c k k' = Ok (k = k')"
  unfolding eq_bytes [OF assms] using bytes_inj [OF assms] by blast

lemma equal_same: "ok c \<Longrightarrow> wf c k \<Longrightarrow> wf c k' \<Longrightarrow> key_equal c k (erase c k') = Ok (k = k')"
  by (simp add: equal_agrees eq_same)

lemma clone_same: "ok c \<Longrightarrow> wf c k \<Longrightarrow> key_clone c k = Ok k"
  by (metis cloned bytes_inj)

end

section \<open>The six key types\<close>

text \<open>The keys that are what their byte form parses to: all that a program makes or reads.\<close>

definition own_bytes ::
  "('c \<Rightarrow> 'k \<Rightarrow> bytes) \<Rightarrow> ('c \<Rightarrow> bytes \<Rightarrow> ('k, crypto_error) outcome) \<Rightarrow> 'c \<Rightarrow> 'k \<Rightarrow> bool" where
  "own_bytes to_bytes unmarshal c k \<longleftrightarrow> unmarshal c (to_bytes c k) = Ok k"

text \<open>
  \<open>unwrap_or\<close> of a comparison that cannot fail but by the other key's \<^verbatim>\<open>marshal_binary\<close>.
\<close>

lemma unwrap_or_compare:
  assumes "panic_free x"
  shows "unwrap_or False (and_then x (\<lambda>b. Ok (f b))) = Ok (\<exists>b. x = Ok b \<and> f b)"
  using assms by (auto elim!: not_panic_cases)

text \<open>ML-DSA-87.\<close>

interpretation dil_pub: faithful_key ml_dsa_laws "\<lambda>_ _. True" d_encode_vk
  "\<lambda>D v w. Ok (dil_pk_eq v w)" dil_pk_equal "\<lambda>D v. Ok (dil_pk_clone v)" dil_dyn_pk pk_marshal 2592
  dil_unmarshal_public_key_typed
proof unfold_locales
  fix D :: "('vk, 'sk, 'sig) ml_dsa" and v w :: 'vk and d :: dyn_public_key
  assume L: "ml_dsa_laws D"
  note l = ml_dsa_lawsD [OF L]
  show "length (d_encode_vk D v) = 2592" by (rule l)
  show "pk_marshal (dil_dyn_pk D v) = Ok (d_encode_vk D v)"
    by (simp add: dil_dyn_pk_def dil_pk_to_vec_def)
  have "v = w \<longleftrightarrow> d_encode_vk D v = d_encode_vk D w" using l(6) by metis
  then show "Ok (dil_pk_eq v w) = Ok (d_encode_vk D v = d_encode_vk D w)" by (simp add: dil_pk_eq_def)
  show "panic_free (pk_marshal d) \<Longrightarrow> dil_pk_equal D v d = Ok (pk_marshal d = Ok (d_encode_vk D v))"
    by (auto simp: dil_pk_equal_def unwrap_or_compare size_consts ct_eq_def l)
  show "\<exists>k'. Ok (dil_pk_clone v) = Ok k' \<and> True \<and> d_encode_vk D k' = d_encode_vk D v"
    by (simp add: dil_pk_clone_def)
  show "dil_unmarshal_public_key_typed D (d_encode_vk D v) = Ok v"
    by (simp add: dil_unmarshal_public_key_typed_def dil_pk_from_bytes_iff [OF L] l)
qed

interpretation dil_priv: faithful_key ml_dsa_laws
  "own_bytes (\<lambda>D k. d_to_seed D (dsk_inner k)) dil_unmarshal_private_key_typed"
  "\<lambda>D k. d_to_seed D (dsk_inner k)" dil_sk_eq dil_sk_equal dil_sk_clone dil_dyn_sk sk_marshal 32
  dil_unmarshal_private_key_typed
proof unfold_locales
  fix D :: "('vk, 'sk, 'sig) ml_dsa" and k k' :: "('vk, 'sk) dil_private_key" and d :: dyn_private_key
  assume L: "ml_dsa_laws D"
    and w: "own_bytes (\<lambda>D k. d_to_seed D (dsk_inner k)) dil_unmarshal_private_key_typed D k"
  note l = ml_dsa_lawsD [OF L]
  note s = dil_seed_bytes_Ok [OF L]
  show "length (d_to_seed D (dsk_inner k)) = 32" by (rule l)
  show "sk_marshal (dil_dyn_sk D k) = Ok (d_to_seed D (dsk_inner k))" by (simp add: dil_dyn_sk_def s)
  show "dil_sk_eq D k k' = Ok (d_to_seed D (dsk_inner k) = d_to_seed D (dsk_inner k'))"
    by (simp add: dil_sk_eq_def s ct_eq_def)
  show "panic_free (sk_marshal d) \<Longrightarrow> dil_sk_equal D k d = Ok (sk_marshal d = Ok (d_to_seed D (dsk_inner k)))"
    by (erule not_panic_cases) (auto simp: dil_sk_equal_def s size_consts ct_eq_def l)
  show r: "dil_unmarshal_private_key_typed D (d_to_seed D (dsk_inner k)) = Ok k"
    using w by (simp add: own_bytes_def)
  then have "dil_sk_from_bytes D (d_to_seed D (dsk_inner k)) = Ok k"
    by (simp add: dil_unmarshal_private_key_typed_def)
  then show "\<exists>k'. dil_sk_clone D k = Ok k' \<and>
      own_bytes (\<lambda>D k. d_to_seed D (dsk_inner k)) dil_unmarshal_private_key_typed D k' \<and>
      d_to_seed D (dsk_inner k') = d_to_seed D (dsk_inner k)"
    using w by (simp add: dil_clone_same [OF L])
qed

text \<open>P-521.\<close>

interpretation p521_pub: faithful_key p521_laws "\<lambda>_ _. True" p521_pk_as_bytes
  "\<lambda>P v w. Ok (p521_pk_eq P v w)" p521_pk_equal "\<lambda>P v. Ok (p521_pk_clone v)" p521_dyn_pk pk_marshal 133
  p521_unmarshal_public_key_typed
proof unfold_locales
  fix P :: "('vk, 'sk, 'sig, 'r) p521" and v w :: 'vk and d :: dyn_public_key
  assume L: "p521_laws P"
  note l = p521_lawsD [OF L]
  show "length (p521_pk_as_bytes P v) = 133" by (simp add: p521_pk_as_bytes_def l)
  show "pk_marshal (p521_dyn_pk P v) = Ok (p521_pk_as_bytes P v)" by (simp add: p521_dyn_pk_def)
  show "Ok (p521_pk_eq P v w) = Ok (p521_pk_as_bytes P v = p521_pk_as_bytes P w)"
    by (simp add: p521_pk_eq_def ct_eq_def)
  show "panic_free (pk_marshal d) \<Longrightarrow> p521_pk_equal P v d = Ok (pk_marshal d = Ok (p521_pk_as_bytes P v))"
    by (auto simp: p521_pk_equal_def unwrap_or_compare ct_eq_def)
  show "\<exists>k'. Ok (p521_pk_clone v) = Ok k' \<and> True \<and> p521_pk_as_bytes P k' = p521_pk_as_bytes P v"
    by (simp add: p521_pk_clone_def)
  show "p521_unmarshal_public_key_typed P (p521_pk_as_bytes P v) = Ok v"
    by (simp add: p521_unmarshal_public_key_typed_def p521_pk_from_bytes_def p521_pk_as_bytes_def l)
qed

interpretation p521_priv: faithful_key p521_laws
  "own_bytes p521_sk_as_bytes p521_unmarshal_private_key_typed" p521_sk_as_bytes
  "\<lambda>P k k'. Ok (p521_sk_eq P k k')" p521_sk_equal p521_sk_clone p521_dyn_sk sk_marshal 66
  p521_unmarshal_private_key_typed
proof unfold_locales
  fix P :: "('vk, 'sk, 'sig, 'r) p521" and k k' :: 'sk and d :: dyn_private_key
  assume L: "p521_laws P" and w: "own_bytes p521_sk_as_bytes p521_unmarshal_private_key_typed P k"
  show r: "p521_unmarshal_private_key_typed P (p521_sk_as_bytes P k) = Ok k"
    using w by (simp add: own_bytes_def)
  then have s: "p_sk_from_slice P (p_sk_to_bytes P k) = Inr k"
    by (simp add: p521_unmarshal_private_key_typed_def p521_sk_from_bytes_def p521_sk_as_bytes_def)
  show "length (p521_sk_as_bytes P k) = 66" using p521_lawsD(10) [OF L s] by (simp add: p521_sk_as_bytes_def)
  show "sk_marshal (p521_dyn_sk P k) = Ok (p521_sk_as_bytes P k)" by (simp add: p521_dyn_sk_def)
  show "Ok (p521_sk_eq P k k') = Ok (p521_sk_as_bytes P k = p521_sk_as_bytes P k')"
    by (simp add: p521_sk_eq_def ct_eq_def)
  show "panic_free (sk_marshal d) \<Longrightarrow> p521_sk_equal P k d = Ok (sk_marshal d = Ok (p521_sk_as_bytes P k))"
    by (auto simp: p521_sk_equal_def unwrap_or_compare ct_eq_def)
  show "\<exists>k'. p521_sk_clone P k = Ok k' \<and>
      own_bytes p521_sk_as_bytes p521_unmarshal_private_key_typed P k' \<and> p521_sk_as_bytes P k' = p521_sk_as_bytes P k"
    using w by (simp add: p521_clone_same [OF L s])
qed

text \<open>
  Ed448.  All public keys of 57 bytes are compared by these bytes; the ones that were parsed are
  determined by them.
\<close>

lemma ed448_pk_equal_iff:
  assumes "length (epk_raw v) = 57" "panic_free (pk_marshal d)"
  shows "ed448_pk_equal v d = Ok (pk_marshal d = Ok (epk_raw v))"
  using assms by (auto simp: ed448_pk_equal_def unwrap_or_compare size_consts ct_eq_def)

interpretation ed448_pub: key_type "\<lambda>_ :: ('pt, 'sc) goldilocks. True" "\<lambda>_ v. length (epk_raw v) = 57"
  "\<lambda>_. epk_raw" "\<lambda>_ v w. Ok (ed448_pk_eq v w)" "\<lambda>_. ed448_pk_equal" "\<lambda>_. Ok" "\<lambda>_. ed448_dyn_pk"
  pk_marshal 57
  by unfold_locales (auto simp: ed448_dyn_pk_def ed448_pk_eq_def ct_eq_def ed448_pk_equal_iff)

interpretation ed448_parsed_pub: faithful_key "\<lambda>_ :: ('pt, 'sc) goldilocks. True"
  "own_bytes (\<lambda>_. epk_raw) ed448_unmarshal_public_key_typed"
  "\<lambda>_. epk_raw" "\<lambda>_ v w. Ok (ed448_pk_eq v w)" "\<lambda>_. ed448_pk_equal" "\<lambda>_. Ok" "\<lambda>_. ed448_dyn_pk"
  pk_marshal 57 ed448_unmarshal_public_key_typed
proof unfold_locales
  fix G :: "('pt, 'sc) goldilocks" and v w :: "'epk ed448_public_key" and d :: dyn_public_key
  assume o: "own_bytes (\<lambda>_. epk_raw) ed448_unmarshal_public_key_typed G v"
  then show "ed448_unmarshal_public_key_typed G (epk_raw v) = Ok v" by (simp add: own_bytes_def)
  then show l: "length (epk_raw v) = 57"
    by (auto simp: ed448_unmarshal_public_key_typed_def ed448_pk_from_bytes_def size_consts split: if_splits)
  show "pk_marshal (ed448_dyn_pk v) = Ok (epk_raw v)" by (simp add: ed448_dyn_pk_def)
  show "Ok (ed448_pk_eq v w) = Ok (epk_raw v = epk_raw w)" by (simp add: ed448_pk_eq_def ct_eq_def)
  show "panic_free (pk_marshal d) \<Longrightarrow> ed448_pk_equal v d = Ok (pk_marshal d = Ok (epk_raw v))"
    by (rule ed448_pk_equal_iff [OF l])
  show "\<exists>k'. Ok v = Ok k' \<and> own_bytes (\<lambda>_. epk_raw) ed448_unmarshal_public_key_typed G k' \<and>
      epk_raw k' = epk_raw v"
    using o by simp
qed

definition ed_rust :: "hashes \<times> ('esk, 'epk) ed448_rust \<times> ('pt, 'sc) goldilocks \<times> ('pt, 'sc, 'g) curve
     \<Rightarrow> ('esk, 'epk) ed448_rust" where
  "ed_rust c = fst (snd c)"

definition ed448_sk_bytes_of where
  "ed448_sk_bytes_of c k = e_sk_as_bytes (ed_rust c) (esk_inner k)"

definition ed448_sk_parse_of where
  "ed448_sk_parse_of c = ed448_unmarshal_private_key_typed (ed_rust c)"

interpretation ed448_priv: faithful_key ed448_laws "own_bytes ed448_sk_bytes_of ed448_sk_parse_of"
  ed448_sk_bytes_of "\<lambda>c k k'. Ok (ed448_sk_eq (ed_rust c) k k')" "\<lambda>c. ed448_sk_equal (ed_rust c)"
  "\<lambda>c. ed448_sk_clone (ed_rust c)" "\<lambda>c. ed448_dyn_sk (ed_rust c)" sk_marshal 57 ed448_sk_parse_of
proof unfold_locales
  fix c :: "hashes \<times> ('esk, 'epk) ed448_rust \<times> ('pt, 'sc) goldilocks \<times> ('pt, 'sc, 'g::ab_group_add) curve"
    and k k' :: "('esk, 'epk) ed448_private_key" and d :: dyn_private_key
  obtain H E G C where c: "c = (H, E, G, C)" by (cases c)
  assume "ed448_laws c" and w: "own_bytes ed448_sk_bytes_of ed448_sk_parse_of c k"
  then have L: "ed448_rust_laws H E G C" by (simp add: c)
  have e: "ed_rust c = E" by (simp add: c ed_rust_def)
  have b: "ed448_sk_bytes_of c k = e_sk_as_bytes E (esk_inner k)" for k :: "('esk, 'epk) ed448_private_key"
    by (simp add: ed448_sk_bytes_of_def e)
  have a: "ed448_sk_as_bytes E k = Ok (ed448_sk_bytes_of c k)"
    by (simp add: ed448_sk_as_bytes_def ed448_rust_lawsD [OF L] size_consts b)
  show l: "length (ed448_sk_bytes_of c k) = 57" by (simp add: b ed448_rust_lawsD [OF L])
  show "sk_marshal (ed448_dyn_sk (ed_rust c) k) = Ok (ed448_sk_bytes_of c k)"
    by (simp add: ed448_dyn_sk_def e a)
  show "Ok (ed448_sk_eq (ed_rust c) k k') = Ok (ed448_sk_bytes_of c k = ed448_sk_bytes_of c k')"
    by (simp add: ed448_sk_eq_def ct_eq_def e b)
  show "panic_free (sk_marshal d) \<Longrightarrow>
      ed448_sk_equal (ed_rust c) k d = Ok (sk_marshal d = Ok (ed448_sk_bytes_of c k))"
    using l unfolding b
    by (elim not_panic_cases) (auto simp: ed448_sk_equal_def size_consts ct_eq_def e ed448_sk_as_bytes_def)
  show "ed448_sk_parse_of c (ed448_sk_bytes_of c k) = Ok k" using w by (simp add: own_bytes_def)
  show "\<exists>k'. ed448_sk_clone (ed_rust c) k = Ok k' \<and> own_bytes ed448_sk_bytes_of ed448_sk_parse_of c k' \<and>
      ed448_sk_bytes_of c k' = ed448_sk_bytes_of c k"
    using w by (simp add: e ed448_clone_same [OF L])
qed

text \<open>The keys a program can have are the parsed ones, and those are determined by their bytes.\<close>

lemma dil_parsed_own:
  assumes "ml_dsa_laws D" and "dil_unmarshal_private_key_typed D b = Ok k"
  shows "own_bytes (\<lambda>D k. d_to_seed D (dsk_inner k)) dil_unmarshal_private_key_typed D k"
    and "d_to_seed D (dsk_inner k) = b"
  using assms(2) by (auto simp: own_bytes_def dil_unmarshal_private_key_typed_def
      dil_sk_from_bytes_iff [OF assms(1)] ml_dsa_lawsD [OF assms(1)] split: if_splits)

lemma p521_parsed_own:
  assumes "p521_laws P" and "p521_unmarshal_private_key_typed P b = Ok k"
  shows "own_bytes p521_sk_as_bytes p521_unmarshal_private_key_typed P k"
  using assms(2) by (auto simp: own_bytes_def p521_unmarshal_private_key_typed_def p521_sk_from_bytes_def
      p521_sk_as_bytes_def dest: p521_lawsD(11) [OF assms(1)])

lemma ed448_parsed_own:
  assumes "ed448_laws (H, E, G, C)" and "ed448_unmarshal_private_key_typed E b = Ok k"
  shows "own_bytes ed448_sk_bytes_of ed448_sk_parse_of (H, E, G, C) k"
    and "ed448_sk_bytes_of (H, E, G, C) k = b"
proof -
  have L: "ed448_rust_laws H E G C" using assms(1) by simp
  show b: "ed448_sk_bytes_of (H, E, G, C) k = b"
    using assms(2) by (auto simp: ed448_sk_bytes_of_def ed_rust_def ed448_unmarshal_private_key_typed_def
        ed448_sk_from_bytes_iff ed448_rust_lawsD(2) [OF L])
  show "own_bytes ed448_sk_bytes_of ed448_sk_parse_of (H, E, G, C) k"
    using assms(2) by (simp add: own_bytes_def b) (simp add: ed448_sk_parse_of_def ed_rust_def)
qed

end
