(* ===== verification/System_Props.thy ===== *)
theory System_Props
  imports Tx_Props Sessions Std_Impls Typed_Schemes Key_Equality
begin

text \<open>
  Properties of the library in use: runs of owners and nodes against the ideal log, the typed
  front of the schemes next to the object-safe one, what keys show and leave behind, and public
  keys that were deserialised without the parser.
\<close>

section \<open>Runs\<close>

lemma authorised_suffix: "authorised H (xs @ e # l) \<Longrightarrow> event_authorised H l e"
  by (induction xs) simp_all

text \<open>
  C3. A run of the library is a run of the ideal one, as long as the crates accept no forgery: in
  every reachable state whose log was never broken, a transaction accepted for the address of a
  key that had been made was signed with that key before it was accepted, with the same fields, and
  the same holds of accepted messages.  The keys are well-formed at any time.
\<close>

theorem sessions_refine_ideal:
  assumes "crates_laws K C" "rlp_laws R" "(lib_step K R)\<^sup>*\<^sup>* lib_init s" "never_broken K R (st_log s)"
  shows "(ideal_step (hsh K))\<^sup>*\<^sup>* [] (st_log s) \<and> (\<forall>k\<in>set (st_keys s). key_wf K k) \<and>
    (\<forall>later a tx earlier pk. st_log s = later @ Accepted_Tx a tx # earlier \<longrightarrow>
      Made_Key pk \<in> set earlier \<longrightarrow> derive_address (hsh K) pk = a \<longrightarrow>
      (\<exists>tx'. Signed_Tx pk tx' \<in> set earlier \<and> tx_unsigned tx' = tx_unsigned tx)) \<and>
    (\<forall>later pk m sig earlier. st_log s = later @ Accepted_Message pk m sig # earlier \<longrightarrow>
      Made_Key pk \<in> set earlier \<longrightarrow> Signed_Message pk m \<in> set earlier)"
proof -
  note a = run_simulates [OF assms]
  have "event_authorised (hsh K) earlier e" if "st_log s = later @ e # earlier" for later e earlier
    using a authorised_suffix unfolding that by blast
  then show ?thesis
    using a lib_inv_reachable [OF assms(1-3)] event_authorised_tx [of "hsh K"]
    unfolding ideal_run_iff lib_inv_def by (metis (no_types, lifting) event_authorised.simps(2))
qed

text \<open>An honest acceptance breaks nothing, whatever the crates are.\<close>

lemma honest_not_broken:
  assumes "pk_valid K pk"
  shows "\<not> broken K R [Signed_Tx pk tx, Made_Key pk] (Accepted_Tx a (signed_tx tx pk sig))"
proof -
  have p: "signature_preimage R (signed_tx tx pk sig) = signature_preimage R tx"
    by (simp add: signature_preimage_unsigned)
  have "pk' = pk" if "pk_valid K pk'" "bpk_to_bytes pk' = bpk_to_bytes pk" for pk'
    using bpk_to_bytes_inj [OF that(1) assms that(2)] .
  then have k: "\<not> (\<exists>pk'. pk' \<noteq> pk \<and> pk_valid K pk' \<and> derive_address (hsh K) pk' = a \<and>
      tx_pub_key (signed_tx tx pk sig) = Some (bpk_to_bytes pk'))"
    by (auto simp: signed_tx_def)
  have "signed_texts K R pk [Signed_Tx pk tx, Made_Key pk] =
      {(signature_preimage R tx, bound_hash K (tx_chain_id tx) pk)}"
    by (simp add: signed_texts_def)
  then have "\<not> composite_forged K pk (signed_texts K R pk [Signed_Tx pk tx, Made_Key pk])
      (signature_preimage R tx) (bound_hash K (tx_chain_id tx) pk) x" for x
    by (simp add: composite_forged_def Let_def)
  with k show ?thesis unfolding broken.simps Let_def by (simp add: p)
qed

lemma ref_session:
  "\<exists>s k tx'. (lib_step crates_ref rlp_ref)\<^sup>*\<^sup>* lib_init s \<and> k \<in> set (st_keys s) \<and>
    st_log s = [Accepted_Tx (derive_address (hsh crates_ref) (bsk_public k)) tx',
       Signed_Tx (bsk_public k) tx_ref, Made_Key (bsk_public k)] \<and>
    never_broken crates_ref rlp_ref (st_log s)"
proof -
  obtain k where g: "bsk_generate crates_ref seed_ref = Ok (k, bsk_public k)" "key_wf crates_ref k"
    by (rule seed_ref_key)
  let ?pk = "bsk_public k"
  let ?s1 = "logged (Made_Key ?pk) (lib_init\<lparr>st_keys := k # st_keys lib_init\<rparr>)"
  have small: "tx_small tx_ref" by (simp add: tx_small_def tx_typed_def tx_ref_def default_to_def)
  obtain sig where s: "sign_transaction crates_ref rlp_ref 0 k tx_ref = Ok (signed_tx tx_ref ?pk sig)"
      "tx_small (signed_tx tx_ref ?pk sig)"
      "\<forall>rest. tx_decode rlp_ref (tx_encode rlp_ref (signed_tx tx_ref ?pk sig) @ rest) =
        Ok (signed_tx tx_ref ?pk sig, rest)"
      "recover_sender crates_ref rlp_ref (signed_tx tx_ref ?pk sig) =
        Ok (derive_address (hsh crates_ref) ?pk)"
    using signed_on_wire [OF crates_ref_laws rlp_ref_laws g(2) small] by blast
  let ?s2 = "logged (Signed_Tx ?pk tx_ref) ?s1"
  let ?s3 = "logged (Accepted_Tx (derive_address (hsh crates_ref) ?pk) (signed_tx tx_ref ?pk sig)) ?s2"
  have "lib_step crates_ref rlp_ref lib_init ?s1" by (rule make_key [OF g(1)])
  moreover have "lib_step crates_ref rlp_ref ?s1 ?s2" by (rule sign_tx [OF _ small s(1)]) simp
  moreover have "lib_step crates_ref rlp_ref ?s2 ?s3" by (rule receive_tx [OF s(3) [rule_format] s(2,4)])
  ultimately have "(lib_step crates_ref rlp_ref)\<^sup>*\<^sup>* lib_init ?s3"
    by (meson converse_rtranclp_into_rtranclp rtranclp.rtrancl_refl)
  moreover have "st_log ?s3 = [Accepted_Tx (derive_address (hsh crates_ref) ?pk) (signed_tx tx_ref ?pk sig),
      Signed_Tx ?pk tx_ref, Made_Key ?pk]"
    by (simp add: lib_init_def)
  moreover have "never_broken crates_ref rlp_ref [Accepted_Tx (derive_address (hsh crates_ref) ?pk)
      (signed_tx tx_ref ?pk sig), Signed_Tx ?pk tx_ref, Made_Key ?pk]"
    using honest_not_broken [OF key_wf_pk_valid [OF crates_ref_laws g(2)]] by simp
  moreover have "k \<in> set (st_keys ?s3)" by simp
  ultimately show ?thesis by metis
qed

theorem sessions_refine_ideal_witness:
  "\<exists>s k tx'. (lib_step crates_ref rlp_ref)\<^sup>*\<^sup>* lib_init s \<and> k \<in> set (st_keys s) \<and>
    hd (st_log s) = Accepted_Tx (derive_address (hsh crates_ref) (bsk_public k)) tx' \<and>
    (ideal_step (hsh crates_ref))\<^sup>*\<^sup>* [] (st_log s)"
proof -
  obtain k tx' s where s: "(lib_step crates_ref rlp_ref)\<^sup>*\<^sup>* lib_init s" "k \<in> set (st_keys s)"
      "st_log s = [Accepted_Tx (derive_address (hsh crates_ref) (bsk_public k)) tx',
         Signed_Tx (bsk_public k) tx_ref, Made_Key (bsk_public k)]"
      "never_broken crates_ref rlp_ref (st_log s)"
    using ref_session by blast
  then have "hd (st_log s) = Accepted_Tx (derive_address (hsh crates_ref) (bsk_public k)) tx'" by simp
  then show ?thesis
    using sessions_refine_ideal [OF crates_ref_laws rlp_ref_laws s(1,4)] s(1,2) by blast
qed

text \<open>
  C5. Honest signatures are accepted: in every reachable state an owner can sign any transaction
  and any message with a key of his; from then on, in any state, the transaction is accepted for
  his address from its encoding, with the fields he signed, and the message for his key.  (So it
  is accepted as often as it is received: the library keeps no record of nonces.)
\<close>

theorem honest_signatures_accepted:
  assumes "crates_laws K C" "rlp_laws R" "(lib_step K R)\<^sup>*\<^sup>* lib_init s" "k \<in> set (st_keys s)"
    and "tx_small tx"
  shows "(\<exists>tx'. sign_transaction K R r k tx = Ok tx' \<and> tx_unsigned tx' = tx_unsigned tx \<and>
      lib_step K R s (logged (Signed_Tx (bsk_public k) tx) s) \<and>
      (\<forall>s'. lib_step K R s' (logged (Accepted_Tx (derive_address (hsh K) (bsk_public k)) tx') s'))) \<and>
    (\<exists>sig. sign_message K r k m = Ok sig \<and> lib_step K R s (logged (Signed_Message (bsk_public k) m) s) \<and>
      (\<forall>s'. lib_step K R s' (logged (Accepted_Message (bsk_public k) m sig) s')))"
  using honest_tx_accepted [OF assms(1,2) _ assms(4,5)] honest_message_accepted [OF assms(1) _ assms(4)]
    lib_inv_reachable [OF assms(1-3)] by blast

theorem honest_signatures_accepted_witness:
  "\<exists>s k tx'. (lib_step crates_ref rlp_ref)\<^sup>*\<^sup>* lib_init s \<and>
    sign_transaction crates_ref rlp_ref 3 k tx_ref = Ok tx' \<and>
    lib_step crates_ref rlp_ref s
      (logged (Accepted_Tx (derive_address (hsh crates_ref) (bsk_public k)) tx') s)"
proof -
  have "tx_small tx_ref" by (simp add: tx_small_def tx_typed_def tx_ref_def default_to_def)
  moreover obtain k s where "(lib_step crates_ref rlp_ref)\<^sup>*\<^sup>* lib_init s" "k \<in> set (st_keys s)"
    using ref_session by blast
  ultimately show ?thesis
    using honest_signatures_accepted [OF crates_ref_laws rlp_ref_laws] by blast
qed

section \<open>The typed front of the schemes\<close>

text \<open>
  C28. The typed front and the object-safe one agree: with a key that came from bytes all three
  backends sign alike, texts of panics included, and verify alike.  Where they differ, they do so
  on contexts only: the object-safe verifiers of ML-DSA-87 and P-521 reject a non-empty context,
  the typed ones ignore it.
\<close>

theorem typed_and_dyn_agree:
  assumes "crates_laws K C" "dil_unmarshal_private_key_typed (mld K) bd = Ok kd"
    "p521_unmarshal_private_key_typed (p5 K) bp = Ok kp" "ed448_unmarshal_private_key_typed (edr K) be = Ok ke"
    and "dil_unmarshal_public_key_typed (mld K) vd = Ok pd"
    "p521_unmarshal_public_key_typed (p5 K) vp = Ok pp" "ed448_unmarshal_public_key_typed (gld K) ve = Ok pe"
  shows "sch_sign (dil_scheme (mld K) rng) r (dil_dyn_sk (mld K) kd) m opts = dil_sign_typed (mld K) kd m opts \<and>
    sch_sign (p521_scheme (p5 K) (hsh K)) q (p521_dyn_sk (p5 K) kp) m opts = p521_sign_typed (p5 K) q kp m opts \<and>
    sch_sign (ed448_scheme (hsh K) (edr K) (gld K) os_rng) r' (ed448_dyn_sk (edr K) ke) m opts =
      ed448_sign_typed (edr K) ke m opts \<and>
    sch_verify (ed448_scheme (hsh K) (edr K) (gld K) os_rng) (ed448_dyn_pk pe) m sig opts =
      ed448_verify_typed (hsh K) (edr K) (gld K) pe m sig opts \<and>
    (\<not> has_context opts \<longrightarrow>
      sch_verify (dil_scheme (mld K) rng) (dil_dyn_pk (mld K) pd) m sig opts = dil_verify_typed (mld K) pd m sig opts \<and>
      sch_verify (p521_scheme (p5 K) (hsh K)) (p521_dyn_pk (p5 K) pp) m sig opts =
        p521_verify_typed (p5 K) pp m sig opts) \<and>
    (has_context opts \<longrightarrow>
      sch_verify (dil_scheme (mld K) rng) (dil_dyn_pk (mld K) pd) m sig opts = Ok False \<and>
      dil_verify_typed (mld K) pd m sig opts = (dil_verify_typed (mld K) pd m sig None :: (_, crypto_error) outcome) \<and>
      sch_verify (p521_scheme (p5 K) (hsh K)) (p521_dyn_pk (p5 K) pp) m sig opts = Ok False \<and>
      p521_verify_typed (p5 K) pp m sig opts = (p521_verify_typed (p5 K) pp m sig None :: (_, crypto_error) outcome))"
proof -
  note L = crates_lawsD [OF assms(1)]
  have d: "dil_scheme_ok (mld K, rng)" by (simp add: dil_scheme_ok_def L)
  have p: "p521_scheme_ok (p5 K, hsh K)" by (simp add: p521_scheme_ok_def L)
  have e: "ed448_scheme_ok (hsh K, edr K, gld K, C, os_rng)" by (simp add: L)
  have "sch_sign (dil_scheme (mld K) rng) r (dil_dyn_sk (mld K) kd) m opts = dil_sign_typed (mld K) kd m opts"
    using dil_front.signed_alike [OF d, of bd kd r m opts] assms(2) by (simp add: dil_front_defs Let_def)
  moreover have "sch_sign (p521_scheme (p5 K) (hsh K)) q (p521_dyn_sk (p5 K) kp) m opts =
      p521_sign_typed (p5 K) q kp m opts"
    using p521_front.signed_alike [OF p, of bp kp q m opts] assms(3) by (simp add: p521_front_defs Let_def)
  moreover have "sch_sign (ed448_scheme (hsh K) (edr K) (gld K) os_rng) r' (ed448_dyn_sk (edr K) ke) m opts =
      ed448_sign_typed (edr K) ke m opts"
    using ed448_front.signed_alike [OF e, of be ke r' m opts] assms(4) by simp
  moreover have "sch_verify (ed448_scheme (hsh K) (edr K) (gld K) os_rng) (ed448_dyn_pk pe) m sig opts =
      ed448_verify_typed (hsh K) (edr K) (gld K) pe m sig opts"
    using ed448_front.verified_alike [OF e, of ve pe opts m sig] assms(7)
    by (simp add: ed448_pub_of_def ed448_scheme_def)
  moreover have "sch_verify (dil_scheme (mld K) rng) (dil_dyn_pk (mld K) pd) m sig opts =
      dil_verify_typed (mld K) pd m sig opts" if "\<not> has_context opts"
    using dil_front.verified_alike [OF d, of vd pd opts m sig] assms(5) that by (simp add: dil_front_defs Let_def)
  moreover have "sch_verify (p521_scheme (p5 K) (hsh K)) (p521_dyn_pk (p5 K) pp) m sig opts =
      p521_verify_typed (p5 K) pp m sig opts" if "\<not> has_context opts"
    using p521_front.verified_alike [OF p, of vp pp opts m sig] assms(6) that
    by (simp add: p521_front_defs Let_def)
  moreover have "sch_verify (dil_scheme (mld K) rng) (dil_dyn_pk (mld K) pd) m sig opts = Ok False"
    if "has_context opts"
    using dil_contract.no_context [OF d, of opts] that by (simp add: dil_scheme_defs)
  moreover have "sch_verify (p521_scheme (p5 K) (hsh K)) (p521_dyn_pk (p5 K) pp) m sig opts = Ok False"
    if "has_context opts"
    using p521_contract.no_context [OF p, of opts] that by (simp add: p521_scheme_defs)
  moreover have "dil_verify_typed (mld K) pd m sig opts = (dil_verify_typed (mld K) pd m sig None :: (_, crypto_error) outcome)"
    "p521_verify_typed (p5 K) pp m sig opts = (p521_verify_typed (p5 K) pp m sig None :: (_, crypto_error) outcome)"
    by (simp_all add: dil_verify_typed_def p521_verify_typed_def)
  ultimately show ?thesis by (intro conjI impI)
qed

text \<open>The sub-keys of a well-formed key, as the typed front reads them.\<close>

lemma ref_typed_keys:
  "\<exists>bd kd bp kp be ke vd pd vp pp ve pe. dil_unmarshal_private_key_typed (mld crates_ref) bd = Ok kd \<and>
    p521_unmarshal_private_key_typed (p5 crates_ref) bp = Ok kp \<and>
    ed448_unmarshal_private_key_typed (edr crates_ref) be = Ok ke \<and>
    dil_unmarshal_public_key_typed (mld crates_ref) vd = Ok pd \<and>
    p521_unmarshal_public_key_typed (p5 crates_ref) vp = Ok pp \<and>
    ed448_unmarshal_public_key_typed (gld crates_ref) ve = Ok (pe :: 8 word ed448_public_key)"
proof -
  note L = crates_lawsD [OF crates_ref_laws]
  obtain k where k: "key_wf crates_ref k" by (rule seed_ref_key)
  have v: "pk_valid crates_ref (bsk_public k)" by (rule key_wf_pk_valid [OF crates_ref_laws k])
  have "\<exists>kd. dil_unmarshal_private_key_typed (mld crates_ref) (bsk_dilithium k) = Ok kd"
    using k by (auto simp: key_wf_def dil_leg_pair_def dil_unmarshal_private_key_typed_def
        dil_sk_from_bytes_iff [OF L(2)])
  moreover have "\<exists>kp. p521_unmarshal_private_key_typed (p5 crates_ref) (bsk_p521 k) = Ok kp"
    using k by (auto simp: key_wf_def p521_leg_pair_def p521_unmarshal_private_key_typed_def
        p521_sk_from_bytes_def)
  moreover have "\<exists>ke. ed448_unmarshal_private_key_typed (edr crates_ref) (bsk_ed448 k) = Ok ke"
    using k by (auto simp: key_wf_def ed448_unmarshal_private_key_typed_def ed448_sk_from_bytes_iff)
  moreover have "\<exists>pd. dil_unmarshal_public_key_typed (mld crates_ref) (bpk_dilithium (bsk_public k)) = Ok pd"
    "\<exists>pp. p521_unmarshal_public_key_typed (p5 crates_ref) (bpk_p521 (bsk_public k)) = Ok pp"
    "\<exists>pe :: 8 word ed448_public_key.
      ed448_unmarshal_public_key_typed (gld crates_ref) (bpk_ed448 (bsk_public k)) = Ok pe"
    using v by (auto simp: pk_valid_def dil_unmarshal_public_key_typed_def p521_unmarshal_public_key_typed_def
        ed448_unmarshal_public_key_typed_def)
  ultimately show ?thesis by blast
qed

theorem typed_and_dyn_agree_witness:
  "\<exists>bd kd vd pd. dil_unmarshal_private_key_typed ml_dsa_ref bd = Ok kd \<and>
    dil_unmarshal_public_key_typed ml_dsa_ref vd = Ok pd \<and>
    sch_sign (dil_scheme ml_dsa_ref (\<lambda>r n. Inr (replicate n 0))) () (dil_dyn_sk ml_dsa_ref kd) [1, 2] None =
      dil_sign_typed ml_dsa_ref kd [1, 2] None \<and>
    sch_verify (dil_scheme ml_dsa_ref (\<lambda>(r :: unit) n. Inr (replicate n 0))) (dil_dyn_pk ml_dsa_ref pd) [1] []
      (Some \<lparr>opts_context = [65]\<rparr>) = Ok False"
proof -
  obtain bd kd bp kp be ke vd pd vp pp ve and pe :: "8 word ed448_public_key" where
    k: "dil_unmarshal_private_key_typed (mld crates_ref) bd = Ok kd"
      "p521_unmarshal_private_key_typed (p5 crates_ref) bp = Ok kp"
      "ed448_unmarshal_private_key_typed (edr crates_ref) be = Ok ke"
      "dil_unmarshal_public_key_typed (mld crates_ref) vd = Ok pd"
      "p521_unmarshal_public_key_typed (p5 crates_ref) vp = Ok pp"
      "ed448_unmarshal_public_key_typed (gld crates_ref) ve = Ok pe"
    using ref_typed_keys by blast
  have m: "mld crates_ref = ml_dsa_ref" by (simp add: crates_ref_def)
  have c: "has_context (Some \<lparr>opts_context = [65]\<rparr>)" by (simp add: has_context_def)
  let ?rng = "\<lambda>(r :: unit) n. Inr (replicate n 0)"
  note t = typed_and_dyn_agree [OF crates_ref_laws k, unfolded m, where rng = ?rng]
  have "sch_sign (dil_scheme ml_dsa_ref ?rng) () (dil_dyn_sk ml_dsa_ref kd) [1, 2] None =
      dil_sign_typed ml_dsa_ref kd [1, 2] None"
    by (rule t [THEN conjunct1])
  moreover have "sch_verify (dil_scheme ml_dsa_ref ?rng) (dil_dyn_pk ml_dsa_ref pd) [1] []
      (Some \<lparr>opts_context = [65]\<rparr>) = Ok False"
    by (rule t [THEN conjunct2, THEN conjunct2, THEN conjunct2, THEN conjunct2, THEN conjunct2,
        THEN mp, OF c, THEN conjunct1])
  ultimately show ?thesis using k(1,4) unfolding m by blast
qed

section \<open>Equality of keys\<close>

lemma ed448_made_public:
  assumes "crates_laws K C" "ed448_unmarshal_private_key_typed (edr K) b = Ok k"
  shows "length (epk_raw (esk_public k)) = 57"
    and "\<exists>v. ed448_pk_from_bytes (gld K) (epk_raw (esk_public k)) = Ok v \<and> ed448_pk_eq (esk_public k) v \<and>
      v \<noteq> esk_public k"
proof -
  note L = crates_lawsD [OF assms(1)]
  obtain inner where k: "esk_public k = ed448_from_trusted_inner (edr K) (e_pk_from (edr K) inner)"
    using assms(2) by (auto simp: ed448_unmarshal_private_key_typed_def ed448_sk_from_bytes_iff)
  then show "length (epk_raw (esk_public k)) = 57"
    by (simp add: ed448_from_trusted_inner_def ed448_rust_lawsD [OF L(7)] Let_def)
  have r: "epk_raw (esk_public k) = e_pk_as_byte (edr K) (e_pk_from (edr K) inner)"
    "epk_trusted_inner (esk_public k) \<noteq> None"
    by (simp_all add: k ed448_from_trusted_inner_def Let_def)
  obtain A where "canonical_point (gld K) C (epk_raw (esk_public k)) A"
    using ed448_rust_lawsD(5) [OF L(7), of inner] by (auto simp: r)
  then show "\<exists>v. ed448_pk_from_bytes (gld K) (epk_raw (esk_public k)) = Ok v \<and> ed448_pk_eq (esk_public k) v \<and>
      v \<noteq> esk_public k"
    using r by (auto simp: ed448_pk_from_bytes_iff [OF L(6)] ed448_pk_eq_def ct_eq_def ed448_rust_lawsD [OF L(7)]
        dest: arg_cong [of _ _ epk_trusted_inner])
qed

text \<open>
  C29. The two equalities of keys mean what their documentation says.  The method \<^verbatim>\<open>equal\<close> answers
  for any key that marshals without a panic, with true exactly when that gives the bytes of the key
  itself, so keys of different backends are never equal.  On keys of one backend \<^verbatim>\<open>==\<close> is identity
  (for private keys and for public keys of ML-DSA-87 and P-521), it agrees with \<^verbatim>\<open>equal\<close>, and a copy
  of a key is that key.  Only for public keys of Ed448 it is coarser: it compares the raw
  bytes, so a key made in the process equals the parsed one, which is another value that is verified
  by another implementation.
\<close>

theorem key_equality:
  assumes "crates_laws K C" "panic_free (pk_marshal other)" "panic_free (sk_marshal other_sk)"
    and "dil_unmarshal_private_key_typed (mld K) bd = Ok kd" "dil_unmarshal_private_key_typed (mld K) bd' = Ok kd'"
    and "p521_unmarshal_private_key_typed (p5 K) bp = Ok kp" "p521_unmarshal_private_key_typed (p5 K) bp' = Ok kp'"
    and "ed448_unmarshal_private_key_typed (edr K) be = Ok ke" "ed448_unmarshal_private_key_typed (edr K) be' = Ok ke'"
    and "length (epk_raw ve) = 57" "length (epk_raw ve') = 57"
  shows "(dil_pk_equal (mld K) vd other = Ok (pk_marshal other = Ok (d_encode_vk (mld K) vd)) \<and>
      p521_pk_equal (p5 K) vp other = Ok (pk_marshal other = Ok (p521_pk_as_bytes (p5 K) vp)) \<and>
      ed448_pk_equal ve other = Ok (pk_marshal other = Ok (epk_raw ve)) \<and>
      dil_sk_equal (mld K) kd other_sk = Ok (sk_marshal other_sk = Ok bd) \<and>
      p521_sk_equal (p5 K) kp other_sk = Ok (sk_marshal other_sk = Ok (p521_sk_as_bytes (p5 K) kp)) \<and>
      ed448_sk_equal (edr K) ke other_sk = Ok (sk_marshal other_sk = Ok be)) \<and>
    ((dil_pk_eq vd vd' \<longleftrightarrow> vd = vd') \<and> (p521_pk_eq (p5 K) vp vp' \<longleftrightarrow> vp = vp') \<and>
      dil_sk_eq (mld K) kd kd' = (Ok (kd = kd') :: (_, crypto_error) outcome) \<and>
      (p521_sk_eq (p5 K) kp kp' \<longleftrightarrow> kp = kp') \<and> (ed448_sk_eq (edr K) ke ke' \<longleftrightarrow> ke = ke') \<and>
      (ed448_pk_eq ve ve' \<longleftrightarrow> epk_raw ve = epk_raw ve')) \<and>
    (dil_pk_equal (mld K) vd (dil_dyn_pk (mld K) vd') = Ok (dil_pk_eq vd vd') \<and>
      p521_pk_equal (p5 K) vp (p521_dyn_pk (p5 K) vp') = Ok (p521_pk_eq (p5 K) vp vp') \<and>
      ed448_pk_equal ve (ed448_dyn_pk ve') = Ok (ed448_pk_eq ve ve') \<and>
      dil_sk_equal (mld K) kd (dil_dyn_sk (mld K) kd') = dil_sk_eq (mld K) kd kd' \<and>
      p521_sk_equal (p5 K) kp (p521_dyn_sk (p5 K) kp') = Ok (p521_sk_eq (p5 K) kp kp') \<and>
      ed448_sk_equal (edr K) ke (ed448_dyn_sk (edr K) ke') = Ok (ed448_sk_eq (edr K) ke ke')) \<and>
    (dil_pk_equal (mld K) vd (p521_dyn_pk (p5 K) vp) = Ok False \<and>
      dil_pk_equal (mld K) vd (ed448_dyn_pk ve) = Ok False \<and>
      p521_pk_equal (p5 K) vp (ed448_dyn_pk ve) = Ok False \<and>
      dil_sk_equal (mld K) kd (p521_dyn_sk (p5 K) kp) = Ok False \<and>
      dil_sk_equal (mld K) kd (ed448_dyn_sk (edr K) ke) = Ok False \<and>
      p521_sk_equal (p5 K) kp (ed448_dyn_sk (edr K) ke) = Ok False) \<and>
    (dil_sk_clone (mld K) kd = (Ok kd :: (_, crypto_error) outcome) \<and>
      p521_sk_clone (p5 K) kp = (Ok kp :: (_, crypto_error) outcome) \<and>
      ed448_sk_clone (edr K) ke = (Ok ke :: (_, crypto_error) outcome)) \<and>
    (\<exists>v. ed448_pk_from_bytes (gld K) (epk_raw (esk_public ke)) = Ok v \<and> ed448_pk_eq (esk_public ke) v \<and>
      v \<noteq> esk_public ke)"
proof -
  note L = crates_lawsD [OF assms(1)]
  let ?c = "(hsh K, edr K, gld K, C)"
  note d = dil_parsed_own [OF L(2) assms(4)] and d' = dil_parsed_own [OF L(2) assms(5)]
  note p = p521_parsed_own [OF L(3) assms(6)] and p' = p521_parsed_own [OF L(3) assms(7)]
  note e = ed448_parsed_own [OF L(4) assms(8)] and e' = ed448_parsed_own [OF L(4) assms(9)]
  note D = dil_priv.eq_same [OF L(2)] and Q = p521_priv.eq_same [OF L(3)]
  note E = ed448_priv.equal_bytes ed448_priv.eq_same ed448_priv.equal_agrees ed448_priv.clone_same ed448_priv.erased
  note E = E [of ?c, OF L(4), unfolded ed_rust_def fst_conv snd_conv]
  have sizes: "length (d_encode_vk (mld K) vd) = 2592" "length (p521_pk_as_bytes (p5 K) vp) = 133"
    "length bd = 32" "length (p521_sk_as_bytes (p5 K) kp) = 66" "length be = 57"
    using dil_pub.bytes_size [OF L(2)] p521_pub.bytes_size [OF L(3)] dil_priv.bytes_size [OF L(2) d(1)]
      p521_priv.bytes_size [OF L(3) p] ed448_priv.bytes_size [OF L(4) e(1)] by (simp_all add: d e)
  note foreign = dil_pub.equal_foreign [OF L(2) TrueI] p521_pub.equal_foreign [OF L(3) TrueI]
    dil_priv.equal_foreign [OF L(2) d(1)] p521_priv.equal_foreign [OF L(3) p]
  note erased = p521_pub.erased [OF L(3) TrueI, of vp] ed448_pub.erased [OF TrueI assms(10)]
    p521_priv.erased [OF L(3) p] E(5) [OF e(1), unfolded e(2)]
  show ?thesis
    by (intro conjI dil_pub.equal_bytes [OF L(2) TrueI assms(2)] p521_pub.equal_bytes [OF L(3) TrueI assms(2)]
        ed448_pub.equal_bytes [OF TrueI assms(10,2)] dil_priv.equal_bytes [OF L(2) d(1) assms(3), unfolded d(2)]
        p521_priv.equal_bytes [OF L(3) p assms(3)] E(1) [OF e(1) assms(3), unfolded e(2)]
        dil_pk_eq_def p521_pub.eq_same [OF L(3) TrueI TrueI, simplified] D [OF d(1) d'(1)] Q [OF p p', simplified]
        E(2) [OF e(1) e'(1), simplified] ed448_pub.eq_bytes [OF TrueI assms(10,11), simplified]
        dil_pub.equal_agrees [OF L(2) TrueI TrueI] p521_pub.equal_agrees [OF L(3) TrueI TrueI]
        ed448_pub.equal_agrees [OF TrueI assms(10,11)] dil_priv.equal_agrees [OF L(2) d(1) d'(1)]
        p521_priv.equal_agrees [OF L(3) p p'] E(3) [OF e(1) e'(1)]
        foreign(1) [OF erased(1)] foreign(1) [OF erased(2)] foreign(2) [OF erased(2)]
        foreign(3) [OF erased(3)] foreign(3) [OF erased(4)] foreign(4) [OF erased(4)]
        dil_priv.clone_same [OF L(2) d(1)] p521_priv.clone_same [OF L(3) p] E(4) [OF e(1)]
        ed448_made_public(2) [OF assms(1,8)])
      (simp_all add: sizes assms(10))
qed

theorem key_equality_witness:
  "\<exists>bd kd bp kp be ke. dil_unmarshal_private_key_typed (mld crates_ref) bd = Ok kd \<and>
    p521_unmarshal_private_key_typed (p5 crates_ref) bp = Ok kp \<and>
    ed448_unmarshal_private_key_typed (edr crates_ref) be = Ok ke \<and>
    dil_sk_equal (mld crates_ref) kd (dil_dyn_sk (mld crates_ref) kd) = Ok True \<and>
    dil_sk_equal (mld crates_ref) kd (p521_dyn_sk (p5 crates_ref) kp) = Ok False \<and>
    p521_sk_equal (p5 crates_ref) kp (ed448_dyn_sk (edr crates_ref) ke) = Ok False \<and>
    (\<exists>v. ed448_pk_from_bytes (gld crates_ref) (epk_raw (esk_public ke)) = Ok v \<and>
      ed448_pk_eq (esk_public ke) v \<and> v \<noteq> esk_public ke)"
proof -
  obtain bd kd bp kp be ke vd pd vp pp ve and pe :: "8 word ed448_public_key" where k:
      "dil_unmarshal_private_key_typed (mld crates_ref) bd = Ok kd"
      "p521_unmarshal_private_key_typed (p5 crates_ref) bp = Ok kp"
      "ed448_unmarshal_private_key_typed (edr crates_ref) be = Ok ke"
      "dil_unmarshal_public_key_typed (mld crates_ref) vd = Ok pd"
      "p521_unmarshal_public_key_typed (p5 crates_ref) vp = Ok pp"
      "ed448_unmarshal_public_key_typed (gld crates_ref) ve = Ok pe"
    using ref_typed_keys by blast
  have f: "panic_free (pk_marshal \<lparr>pk_scheme = Ed448, pk_marshal = Ok []\<rparr>)"
    "panic_free (sk_marshal \<lparr>sk_scheme = Ed448, sk_marshal = Ok [], sk_public_bytes = []\<rparr>)" by simp_all
  note l = ed448_made_public(1) [OF crates_ref_laws k(3)]
  have "dil_sk_equal (mld crates_ref) kd (dil_dyn_sk (mld crates_ref) kd) = Ok True \<and>
    dil_sk_equal (mld crates_ref) kd (p521_dyn_sk (p5 crates_ref) kp) = Ok False \<and>
    p521_sk_equal (p5 crates_ref) kp (ed448_dyn_sk (edr crates_ref) ke) = Ok False \<and>
    (\<exists>v. ed448_pk_from_bytes (gld crates_ref) (epk_raw (esk_public ke)) = Ok v \<and>
      ed448_pk_eq (esk_public ke) v \<and> v \<noteq> esk_public ke)"
    using key_equality [where vd = pd and vd' = pd and vp = pp and vp' = pp,
      OF crates_ref_laws f k(1,1,2,2,3,3) l l] by (elim conjE) simp
  with k(1-3) show ?thesis by metis
qed

section \<open>What keys show and leave behind\<close>

text \<open>
  C17. Nothing secret is printed or left behind.  The \<^verbatim>\<open>Debug\<close> text of a private key depends on
  its public key only (for ML-DSA-87 on the first eight bytes of it): two private keys have the
  same text exactly when these are equal.  A wiped composite key has no bytes left; it signs neither
  messages nor transactions (an error, not a panic), and deriving its public key again panics.  A
  wiped P-521 key is the key of the scalar one, whatever it was before, and still signs, verifiably
  under the public key of that scalar; a dropped Ed448 key signs the same as any other one.
\<close>

theorem keys_leave_no_secret:
  assumes "crates_laws K C" "hex_encode_laws hex_encode"
  shows "(dil_sk_debug hex_encode (mld K) kd = (dil_sk_debug hex_encode (mld K) kd' :: (rstr, crypto_error) outcome) \<longleftrightarrow>
      take 8 (d_encode_vk (mld K) (dsk_public kd)) = take 8 (d_encode_vk (mld K) (dsk_public kd'))) \<and>
    (p521_sk_debug hex_encode (p5 K) kp = p521_sk_debug hex_encode (p5 K) kp' \<longleftrightarrow>
      p521_pk_as_bytes (p5 K) (p_vk_of (p5 K) kp) = p521_pk_as_bytes (p5 K) (p_vk_of (p5 K) kp')) \<and>
    (ed448_sk_debug hex_encode ke = ed448_sk_debug hex_encode ke' \<longleftrightarrow>
      epk_raw (esk_public ke) = epk_raw (esk_public ke')) \<and>
    bsk_debug k = bsk_debug k' \<and> bsk_zeroize k = bsk_zeroize k' \<and>
    (\<exists>e. sign_message K r (bsk_zeroize k) m = Error e) \<and>
    (\<exists>e. sign_transaction K R r (bsk_zeroize k) tx = Error e) \<and>
    \<not> panic_free (derive_public_key K (bsk_zeroize k)) \<and>
    p521_zeroize (p5 K) kp = p521_zeroize (p5 K) kp' \<and>
    p_sk_to_bytes (p5 K) (p521_zeroize (p5 K) kp) = scalar_one \<and>
    p521_verify_sig (p5 K) (p_vk_of (p5 K) (p521_zeroize (p5 K) kp)) m
      (p521_sign_msg (p5 K) r (p521_zeroize (p5 K) kp) m) = Ok () \<and>
    ed448_sign_msg (edr K) (ed448_drop (edr K) ke) m opts = ed448_sign_msg (edr K) (ed448_drop (edr K) ke') m opts"
proof -
  note L = crates_lawsD [OF assms(1)]
  obtain one where o: "p_sk_to_bytes (p5 K) one = scalar_one" "\<And>k. p521_zeroize (p5 K) k = one"
    using p521_zeroized [OF L(3)] by blast
  have "bsk_zeroize k = bsk_zeroize k'"
    by (cases k; cases "bsk_public k"; cases k'; cases "bsk_public k'") (simp add: bsk_zeroize_def bpk_zeroize_def)
  moreover have "bsk_debug k = bsk_debug k'" by (simp add: bsk_debug_def)
  ultimately show ?thesis
    unfolding o
    by (intro conjI private_debug_iff [OF L(2) assms(2)] wiped_signs_nothing [OF assms(1)]
        p521_sign_verify(2) [OF L(3)] ed448_dropped_signs o refl)
qed

theorem keys_leave_no_secret_witness:
  "p_sk_to_bytes p521_ref (p521_zeroize p521_ref (replicate 66 9)) = scalar_one \<and>
   p521_sk_debug hex_text p521_ref (replicate 66 9) = p521_sk_debug hex_text p521_ref (replicate 66 9)"
proof -
  have h: "hex_encode_laws hex_text" by (simp add: hex_encode_laws_def)
  have "p5 crates_ref = p521_ref" by (simp add: crates_ref_def)
  then show ?thesis
    using keys_leave_no_secret [OF crates_ref_laws h, where kp = "replicate 66 9" and kp' = "replicate 66 9"]
    by simp
qed

section \<open>Public keys that were not parsed\<close>

text \<open>
  C16. A public key that came in by the derived \<^verbatim>\<open>Deserialize\<close> is not validated.  Verifying a
  message with it never panics, and accepts only under sub-keys that the backends parse, with an
  uncompressed P-521 key only under a key that \<^verbatim>\<open>from_bytes\<close> accepts.  Printing it with \<^verbatim>\<open>Debug\<close>
  panics exactly when one of the vectors has less than eight bytes.
\<close>

theorem deserialized_public_keys:
  assumes "crates_laws K C"
  shows "panic_free (verify_message K (bpk_deserialize d p e) m sig) \<and>
    (verify_message K (bpk_deserialize d p e) m sig = Ok True \<longrightarrow>
      length d = 2592 \<and> length e = 57 \<and> accepted (p521_pk_from_bytes (p5 K) p) \<and>
      (length p = 133 \<longrightarrow> bpk_from_bytes K (d @ p @ e) = Ok (bpk_deserialize d p e))) \<and>
    (panic_free (bpk_debug hex_encode (bpk_deserialize d p e) :: (rstr, crypto_error) outcome) \<longleftrightarrow>
      8 \<le> length d \<and> 8 \<le> length p \<and> 8 \<le> length e)"
proof -
  have "panic_free (bpk_debug hex_encode (bpk_deserialize d p e) :: (rstr, crypto_error) outcome) \<longleftrightarrow>
      8 \<le> length d \<and> 8 \<le> length p \<and> 8 \<le> length e"
    by (simp add: bpk_debug_panics bpk_deserialize_def)
  then show ?thesis
    using verify_message_panic_free deserialized_key [OF assms] by blast
qed

theorem deserialized_public_keys_witness:
  "\<not> panic_free (bpk_debug hex_text (bpk_deserialize [] [1, 2] [3]) :: (rstr, crypto_error) outcome)"
  using deserialized_public_keys [OF crates_ref_laws, where d = "[]" and p = "[1, 2]" and e = "[3]"
      and hex_encode = hex_text] by simp

end
