(* ===== verification/Program_Props.thy ===== *)
theory Program_Props
  imports Tx_Props
begin

text \<open>
  Properties of the programs around the library: the demos, the fuzz targets and the attack
  tests.  The first say that they do with the library what they claim; where a program asserts
  more than the library can promise, the property says to which event of the crates its failure
  comes down.
\<close>

section \<open>The demos\<close>

text \<open>
  C31. The low-level demo is the composite scheme spelled out: from the seed the library would
  use it makes the same composite key and the same address, its signature is the library's
  composite signature over the same transaction hash, only with another binding hash, and its
  own verification of the received bytes succeeds with the address and hash it started from.
\<close>

theorem low_level_demo_is_composite:
  assumes "crates_laws K C" and "ll_seed M X getrandom = Ok (phrase, seed)"
    and "bsk_generate K seed = Ok (k, pub)"
  shows "\<exists>rep sig. ll_main K M X R getrandom r = Ok rep \<and>
    composite_sign K r k (signature_hash (hsh K) R ll_tx) (ll_bound_hash (hsh K) pub) = Ok sig \<and>
    lr_composite_signature rep = sig \<and> length sig = 4873 \<and>
    lr_composite_pk rep = bpk_to_bytes pub \<and> bpk_from_bytes K (lr_composite_pk rep) = Ok pub \<and>
    lr_address rep = derive_address (hsh K) pub \<and> lr_verify_address rep = lr_address rep \<and>
    lr_h_combined rep = ll_bound_hash (hsh K) pub \<and> lr_verify_h_combined rep = lr_h_combined rep"
proof -
  have w: "key_wf K k" by (rule bsk_generate_wf [OF assms(1,3)])
  have v: "pk_valid K pub"
    using key_wf_pk_valid [OF assms(1) w] bsk_generate_Ok(2) [OF assms(1,3)] by simp
  obtain sig where s: "composite_sign K r k (signature_hash (hsh K) R ll_tx) (ll_bound_hash (hsh K) pub) = Ok sig"
      "ll_main K M X R getrandom r = Ok
        \<lparr>lr_mnemonic = phrase, lr_child_seed = seed, lr_composite_pk = bpk_to_bytes pub,
         lr_address = derive_address (hsh K) pub, lr_tx_hash = signature_hash (hsh K) R ll_tx,
         lr_h_combined = ll_bound_hash (hsh K) pub, lr_composite_signature = sig,
         lr_verify_address = derive_address (hsh K) pub,
         lr_verify_h_combined = ll_bound_hash (hsh K) pub\<rparr>"
    using ll_main_Ok [OF assms] by blast
  have "length sig = 4873"
    using composite_sign_verify [OF assms(1) w] s(1) by (metis sum.inject(2))
  with s v show ?thesis by (simp add: bpk_from_bytes_iff)
qed

lemma ll_seed_ref:
  obtains phrase seed where
    "ll_seed bip39_ref bip32_ref (\<lambda>n. Inr (replicate n 5)) = Ok (phrase, seed)" "64 \<le> length seed"
proof -
  have e: "m_from_entropy bip39_ref (replicate 32 5) = Inr (replicate 32 5)"
    by (simp add: bip39_ref_def)
  let ?mn = "m_to_string bip39_ref (replicate 32 5)" and ?root = "m_to_seed bip39_ref (replicate 32 5) LL_PASSPHRASE"
  have s: "seed_from_mnemonic bip39_ref ?mn LL_PASSPHRASE = Ok ?root"
    using bip39_lawsD(2,3) [OF bip39_ref_laws _ e] by (simp add: seed_from_mnemonic_def size_consts Let_def)
  have p: "parse_hardened_path LL_PATH =
      Ok [0x8000002C, 0x8000003C, 0x80000000, 0x80000000, 0x80000000]"
    using DEFAULT_ACCOUNT_PATH_account
    by (simp add: LL_PATH_def DEFAULT_ACCOUNT_PATH_def parse_account_path harden_def)
  have "length ?root = 64" by (rule bip39_lawsD(4) [OF bip39_ref_laws])
  then obtain child where child: "derive_child_seed bip32_ref ?root
      [0x8000002C, 0x8000003C, 0x80000000, 0x80000000, 0x80000000] = Ok child"
    by (simp add: derive_child_seed_def bip32_ref_def)
  show thesis
    by (rule that [of ?mn child])
      (use e s p child derive_child_seed_size [OF bip32_ref_laws child] in
        \<open>simp_all add: ll_seed_def generate_mnemonic_def size_consts\<close>)
qed

theorem low_level_demo_is_composite_witness:
  "\<exists>rep pub. ll_main crates_ref bip39_ref bip32_ref rlp_ref (\<lambda>n. Inr (replicate n 5)) 0 = Ok rep \<and>
    lr_composite_pk rep = bpk_to_bytes pub \<and> lr_verify_address rep = derive_address (hsh crates_ref) pub"
proof -
  obtain phrase seed where s: "ll_seed bip39_ref bip32_ref (\<lambda>n. Inr (replicate n 5)) = Ok (phrase, seed)"
      "64 \<le> length seed"
    by (rule ll_seed_ref)
  obtain k where g: "bsk_generate crates_ref seed = Ok (k, bsk_public k)"
    using generate_ref [OF s(2)] by blast
  from low_level_demo_is_composite [OF crates_ref_laws s(1) g] show ?thesis by metis
qed

text \<open>
  C32. The low-level demo binds its signature to the key without the chain id, so the library
  rejects a transaction that carries it, or two different SHAKE256 inputs collide, or the P-521
  and Ed448 parts verify for messages different from the ones that were signed.
\<close>

theorem low_level_demo_not_interchangeable:
  assumes "crates_laws K C" and "key_wf K k"
    and "composite_sign K r k (signature_hash (hsh K) R ll_tx) (ll_bound_hash (hsh K) (bsk_public k)) = Ok sig"
  defines "h \<equiv> signature_hash (hsh K) R ll_tx" and "b \<equiv> bound_hash K 1 (bsk_public k)"
    and "b' \<equiv> ll_bound_hash (hsh K) (bsk_public k)"
    and "n \<equiv> nonce_preimage 1 (derive_address (hsh K) (bsk_public k))"
    and "n' \<equiv> ll_nonce_preimage (derive_address (hsh K) (bsk_public k))"
  shows "(\<exists>e. recover_sender K R (signed_tx ll_tx (bsk_public k) sig) = Error e) \<or>
    (n \<noteq> n' \<and> shake256 (hsh K) n 16 = shake256 (hsh K) n' 16) \<or>
    (bpk_to_bytes (bsk_public k) @ shake256 (hsh K) n 16 \<noteq> bpk_to_bytes (bsk_public k) @ shake256 (hsh K) n' 16 \<and>
     shake256 (hsh K) (bpk_to_bytes (bsk_public k) @ shake256 (hsh K) n 16) 32 =
     shake256 (hsh K) (bpk_to_bytes (bsk_public k) @ shake256 (hsh K) n' 16) 32) \<or>
    (curve_msg h b CURVE_ID_P521 \<noteq> curve_msg h b' CURVE_ID_P521 \<and>
     p521_leg_verify (p5 K) (bpk_p521 (bsk_public k)) (curve_msg h b CURVE_ID_P521)
       (take 132 (drop 4627 sig)) = Ok () \<and>
     curve_msg h b CURVE_ID_ED448 \<noteq> curve_msg h b' CURVE_ID_ED448 \<and>
     ed448_verify_with (hsh K) (edr K) (gld K) (bpk_ed448 (bsk_public k))
       (curve_msg h b CURVE_ID_ED448) (drop 4759 sig) = Ok ())"
proof -
  note H = crates_lawsD(1) [OF assms(1)]
  let ?t = "signed_tx ll_tx (bsk_public k) sig"
  have v: "pk_valid K (bsk_public k)" by (rule key_wf_pk_valid [OF assms(1,2)])
  have c: "tx_chain_id ll_tx = 1" by (simp add: ll_tx_def)
  have s: "signature_hash (hsh K) R ?t = h"
    unfolding h_def by (rule signature_hash_unsigned) simp
  have r: "recover_sender K R ?t = Ok a \<longleftrightarrow> a = derive_address (hsh K) (bsk_public k) \<and>
      composite_verify K (bsk_public k) h b sig = Ok ()" for a
    using recover_with_key [OF v, of ?t sig R a] s c by (simp add: b_def)
  have n: "n \<noteq> n'" using ll_nonce_preimage_differs [OF H] by (metis n_def n'_def)
  have l: "length h = 32" "length b = 32" "length b' = 32"
    by (simp_all add: h_def b_def b'_def signature_hash_def bound_hash_def ll_bound_hash_def
        compute_h_combined_def hash_lawsD [OF H])
  consider (err) e where "recover_sender K R ?t = Error e" | (ok) "composite_verify K (bsk_public k) h b sig = Ok ()"
    using recover_sender_panic_free [of K R ?t] r by (auto elim!: not_panic_cases)
  then show ?thesis
  proof cases
    case err
    then show ?thesis by blast
  next
    case ok
    show ?thesis
    proof (cases "b = b'")
      case True
      then show ?thesis
        using bound_hash_collision [of K 1 "bsk_public k"] n by (auto simp: b_def b'_def n_def n'_def)
    next
      case False
      then show ?thesis using ok curve_msg_inj [OF refl, of b b'] l by (auto simp: composite_verify_iff)
    qed
  qed
qed

theorem low_level_demo_not_interchangeable_witness:
  "\<exists>k sig. key_wf crates_ref k \<and>
    composite_sign crates_ref 0 k (signature_hash (hsh crates_ref) rlp_ref ll_tx)
      (ll_bound_hash (hsh crates_ref) (bsk_public k)) = Ok sig \<and>
    ((\<exists>e. recover_sender crates_ref rlp_ref (signed_tx ll_tx (bsk_public k) sig) = Error e) \<or>
     (\<exists>n n' l. n \<noteq> n' \<and> shake256 (hsh crates_ref) n l = shake256 (hsh crates_ref) n' l) \<or>
     (\<exists>m. p521_leg_verify (p5 crates_ref) (bpk_p521 (bsk_public k)) m (take 132 (drop 4627 sig)) = Ok ()))"
proof -
  obtain k where k: "key_wf crates_ref k" by (rule seed_ref_key)
  obtain sig where s: "composite_sign crates_ref 0 k (signature_hash (hsh crates_ref) rlp_ref ll_tx)
      (ll_bound_hash (hsh crates_ref) (bsk_public k)) = Ok sig"
    using composite_sign_verify [OF crates_ref_laws k] by blast
  from low_level_demo_not_interchangeable [OF crates_ref_laws k s] k s show ?thesis by blast
qed

section \<open>The fuzz targets\<close>

definition fuzz_sign_ref :: fuzz_sign_input where
  "fuzz_sign_ref =
     \<lparr>fs_seed = seed_ref, fs_chain_id = 1, fs_nonce = 2, fs_gas_limit = 3, fs_value_lo = 4,
      fs_value_hi = 5, fs_max_priority_fee = 6, fs_max_fee = 7, fs_has_to = False,
      fs_to_bytes = replicate 20 0, fs_data = [8]\<rparr>"

text \<open>
  C33. The oracles of four fuzz targets hold for every input: decoding (of up to \<open>2 ^ 60\<close>
  bytes), parsing a public key and the mnemonic target never panic, and signing followed by
  recovery panics only where key generation does.
\<close>

theorem fuzz_oracles_hold:
  assumes "crates_laws K C" "rlp_laws R" "bip39_laws M"
    and "length data < 2 ^ 60" "length (fs_seed i) = 64"
  shows "fuzz_tx_decode K R data = Ok () \<and> fuzz_pubkey_parse K data' = Ok () \<and>
    fuzz_mnemonic_seed (hsh K) M X j = Ok () \<and>
    (fuzz_tx_sign_recover K R r i = Ok () \<longleftrightarrow> panic_free (bsk_generate K (fs_seed i)))"
proof (intro conjI)
  note H = crates_lawsD(1) [OF assms(1)]
  show "fuzz_tx_decode K R data = Ok ()" by (rule fuzz_tx_decode_ok [OF H assms(2,4)])
  show "fuzz_pubkey_parse K data' = Ok ()" by (rule fuzz_pubkey_parse_ok)
  show "fuzz_mnemonic_seed (hsh K) M X j = Ok ()" by (rule fuzz_mnemonic_seed_ok [OF H assms(3)])
  show "fuzz_tx_sign_recover K R r i = Ok () \<longleftrightarrow> panic_free (bsk_generate K (fs_seed i))"
    unfolding fuzz_sign_never_fails [OF assms(1,5)]
    by (simp add: panic_free_def split: sum.split failure.split)
qed

theorem fuzz_oracles_hold_witness:
  "fuzz_tx_decode crates_ref rlp_ref [0xc0, 1, 2] = Ok () \<and>
   fuzz_tx_sign_recover crates_ref rlp_ref 0 fuzz_sign_ref = Ok ()"
proof -
  obtain k where g: "bsk_generate crates_ref seed_ref = Ok (k, bsk_public k)" by (rule seed_ref_key)
  have l: "length [0xc0, 1, 2 :: byte] < 2 ^ 60" "length (fs_seed fuzz_sign_ref) = 64"
    and s: "fs_seed fuzz_sign_ref = seed_ref"
    by (simp_all add: fuzz_sign_ref_def seed_ref_def)
  show ?thesis
    using fuzz_oracles_hold [OF crates_ref_laws rlp_ref_laws bip39_ref_laws l,
        where X = bip32_ref and r = 0 and data' = "[]"] g unfolding s by simp
qed

text \<open>
  The oracle of the signature-hash target is the collision resistance of Keccak-256 and
  nothing else: the target passes exactly when the two different pre-images it hashes, of the
  transaction and of the one on the next chain, have different hashes.
\<close>

theorem fuzz_hash_oracle:
  assumes "crates_laws K C" "rlp_laws R" "length (fh_to_bytes i) = 20" "length (fh_data i) < 2 ^ 60"
  shows "signature_preimage R (fuzz_build_tx i False) \<noteq>
      signature_preimage R ((fuzz_build_tx i False)\<lparr>tx_chain_id := fh_chain_id i + 1\<rparr>) \<and>
    (fuzz_signature_hash K R i = Ok () \<longleftrightarrow>
      keccak256 (hsh K) (signature_preimage R (fuzz_build_tx i False)) \<noteq>
      keccak256 (hsh K) (signature_preimage R
        ((fuzz_build_tx i False)\<lparr>tx_chain_id := fh_chain_id i + 1\<rparr>)))"
  using fuzz_chain_preimage [OF assms(2-4)] fuzz_signature_hash_iff [OF crates_lawsD(1) [OF assms(1)]]
  by blast

definition fuzz_hash_ref :: fuzz_hash_input where
  "fuzz_hash_ref =
     \<lparr>fh_chain_id = 0, fh_nonce = 0, fh_gas_limit = 0, fh_max_priority_fee_lo = 0,
      fh_max_priority_fee_hi = 0, fh_max_fee_lo = 0, fh_max_fee_hi = 0, fh_value_lo = 0,
      fh_value_hi = 0, fh_has_to = True, fh_to_bytes = replicate 20 0, fh_data = [],
      fh_has_sig = True, fh_v_val = 1, fh_pqc_sig_len = 3, fh_pub_key_len = 3\<rparr>"

theorem fuzz_hash_oracle_witness:
  "signature_preimage rlp_ref (fuzz_build_tx fuzz_hash_ref False) \<noteq>
   signature_preimage rlp_ref ((fuzz_build_tx fuzz_hash_ref False)\<lparr>tx_chain_id := 1\<rparr>)"
  using fuzz_hash_oracle [OF crates_ref_laws rlp_ref_laws, of fuzz_hash_ref]
  by (simp add: fuzz_hash_ref_def)

text \<open>
  C34. The oracle of the composite-verifier target does not hold: the target panics exactly on
  an input that verifies as the signature of its transaction under the fixed key, and the
  signature that this key makes of it, which has 4873 bytes, is such an input.
\<close>

theorem fuzz_composite_oracle_fails:
  assumes "crates_laws K C" and "bsk_generate K FIXED_SEED = Ok (k, pub)"
  shows "(panic_free (fuzz_composite_sig_verify K R r data) \<longleftrightarrow>
      \<not> accepted (recover_sender K R ((fuzz_victim_tx data)\<lparr>tx_pub_key := Some (bpk_to_bytes pub)\<rparr>))) \<and>
    (\<exists>sig. sign_transaction K R r k (fuzz_victim_tx []) = Ok (signed_tx (fuzz_victim_tx []) pub sig) \<and>
      length sig = 4873 \<and> \<not> panic_free (fuzz_composite_sig_verify K R r sig))"
proof
  note f = fuzz_composite_verify_iff(2) [OF assms]
  show "panic_free (fuzz_composite_sig_verify K R r data) \<longleftrightarrow>
      \<not> accepted (recover_sender K R ((fuzz_victim_tx data)\<lparr>tx_pub_key := Some (bpk_to_bytes pub)\<rparr>))"
    by (rule f)
  have w: "key_wf K k" by (rule bsk_generate_wf [OF assms])
  have p: "pub = bsk_public k" by (rule bsk_generate_Ok(2) [OF assms])
  obtain sig where s: "sign_transaction K R r k (fuzz_victim_tx []) = Ok (signed_tx (fuzz_victim_tx []) pub sig)"
      "length sig = 4873" "recover_sender K R (signed_tx (fuzz_victim_tx []) pub sig) =
        Ok (derive_address (hsh K) pub)"
    using signed_recovers [OF assms(1) w] unfolding p by blast
  have "signed_tx (fuzz_victim_tx []) pub sig = (fuzz_victim_tx sig)\<lparr>tx_pub_key := Some (bpk_to_bytes pub)\<rparr>"
    by (simp add: signed_tx_def fuzz_victim_tx_def expected_v_def)
  with s have "\<not> panic_free (fuzz_composite_sig_verify K R r sig)"
    unfolding f by simp
  with s show "\<exists>sig. sign_transaction K R r k (fuzz_victim_tx []) = Ok (signed_tx (fuzz_victim_tx []) pub sig) \<and>
      length sig = 4873 \<and> \<not> panic_free (fuzz_composite_sig_verify K R r sig)"
    by blast
qed

theorem fuzz_composite_oracle_fails_witness:
  "\<exists>sig. length sig = 4873 \<and> \<not> panic_free (fuzz_composite_sig_verify crates_ref rlp_ref 0 sig)"
proof -
  have "64 \<le> length FIXED_SEED" by (simp add: FIXED_SEED_def)
  then obtain k where g: "bsk_generate crates_ref FIXED_SEED = Ok (k, bsk_public k)"
    using generate_ref by blast
  from fuzz_composite_oracle_fails [OF crates_ref_laws g] show ?thesis by blast
qed

section \<open>The attack tests\<close>

text \<open>
  C35. The four malleability attacks fail for every implementation of the crates that keeps its
  laws: the high-S twin of a P-521 signature is rejected on its own, inside the signature of a
  message and inside a transaction, and an Ed448 signature whose scalar has its top bits set is
  rejected, when the group order is at most \<open>2 ^ 446\<close>.
\<close>

theorem malleability_attacks_fail:
  assumes "crates_laws K C" "negate_laws (p5 K) negate" "order C \<le> 2 ^ 446"
    and "\<And>tag. accepted (bsk_generate K (wallet_seed tag))"
  shows "attack_p521_high_s_twin (p5 K) negate r1 r2 = Ok () \<and>
    attack_composite_malleation K negate r = Ok () \<and>
    attack_transaction_malleation K R negate r = Ok () \<and> attack_ed448_noncanonical_s K r = Ok ()"
proof -
  have g: "\<exists>k pub. bsk_generate K (wallet_seed tag) = Ok (k, pub)" for tag using assms(4) by auto
  show ?thesis
    using attack_p521_high_s_twin_passes [OF crates_lawsD(3) [OF assms(1)] assms(2)]
      attack_composite_malleation_passes [OF assms(1,2)]
      attack_transaction_malleation_passes [OF assms(1,2)]
      attack_ed448_noncanonical_s_passes [OF assms(1,3)] g by metis
qed

lemma wallet_ref: "accepted (bsk_generate crates_ref (wallet_seed tag))"
  using generate_ref [of "wallet_seed tag"] by (auto simp: wallet_seed_def)

theorem malleability_attacks_fail_witness:
  "attack_composite_malleation crates_ref negate_ref 0 = Ok () \<and>
   attack_ed448_noncanonical_s crates_ref 1 = Ok ()"
proof -
  have n: "negate_laws (p5 crates_ref) negate_ref" by (simp add: crates_ref_def negate_ref_laws)
  have o: "order curve_ref \<le> 2 ^ 446" by (simp add: curve_ref_def)
  show ?thesis
    using malleability_attacks_fail [OF crates_ref_laws n o wallet_ref, where r = 0]
      malleability_attacks_fail [OF crates_ref_laws n o wallet_ref, where r = 1] by blast
qed

text \<open>
  C36. The splicing and tampering attacks fail unless one algorithm accepts what it did not
  sign: the foreign Ed448 part or the foreign ML-DSA-87 part under the other key, all three parts
  for the changed recipient, for the changed value or under the other composite key, and for the
  key mixed of two the classical parts of a signature by neither, or two addresses are equal.
\<close>

theorem splicing_attacks_reduce:
  assumes "crates_laws K C" and "\<And>tag. bsk_generate K (wallet_seed tag) = Ok (k tag, pk tag)"
  defines "m1 \<equiv> keccak256 (hsh K) (ascii ''splice probe'')"
    and "m2 \<equiv> keccak256 (hsh K) (ascii ''mldsa binding probe'')"
    and "m3 \<equiv> ascii ''franken probe''" and "f \<equiv> franken_key (pk 20) (pk 21)"
  shows "(\<exists>d p e. sign_message K rb (k 11) (ascii ''splice probe'') = Ok (d @ p @ e) \<and>
      length d = 4627 \<and> length p = 132 \<and> length e = 114 \<and>
      (attack_splice_ed448_subsig K ra rb = Ok () \<longleftrightarrow>
       ed448_verify_with (hsh K) (edr K) (gld K) (bpk_ed448 (pk 10))
         (curve_msg m1 (message_hash K (pk 10)) CURVE_ID_ED448) e \<noteq> Ok ())) \<and>
    (\<exists>d p e. sign_message K rb (k 13) (ascii ''mldsa binding probe'') = Ok (d @ p @ e) \<and>
      length d = 4627 \<and> length p = 132 \<and> length e = 114 \<and>
      (attack_splice_mldsa_subsig K ra rb = Ok () \<longleftrightarrow>
       dil_leg_verify (mld K) (bpk_dilithium (pk 12)) m2 d \<noteq> Ok ())) \<and>
    (\<exists>sig. sign_transaction K R r (k 30) sample_tx = Ok (signed_tx sample_tx (pk 30) sig) \<and>
      (attack_tx_tamper_recipient K R r = Ok () \<longleftrightarrow>
       composite_verify K (pk 30)
         (signature_hash (hsh K) R (sample_tx\<lparr>tx_to := Some (replicate 20 0xbb)\<rparr>))
         (bound_hash K 1 (pk 30)) sig \<noteq> Ok ())) \<and>
    (\<exists>sig. sign_transaction K R r (k 31) sample_tx = Ok (signed_tx sample_tx (pk 31) sig) \<and>
      (attack_tx_tamper_value K R r = Ok () \<longleftrightarrow>
       composite_verify K (pk 31) (signature_hash (hsh K) R (sample_tx\<lparr>tx_value := 999999999\<rparr>))
         (bound_hash K 1 (pk 31)) sig \<noteq> Ok ())) \<and>
    (\<exists>sig. sign_transaction K R r (k 32) sample_tx = Ok (signed_tx sample_tx (pk 32) sig) \<and>
      (attack_tx_swapped_pubkey K R r = Ok () \<longleftrightarrow>
       composite_verify K (pk 33) (signature_hash (hsh K) R sample_tx) (bound_hash K 1 (pk 33)) sig \<noteq> Ok ())) \<and>
    (\<exists>d p e. sign_message K r (k 20) m3 = Ok (d @ p @ e) \<and>
      length d = 4627 \<and> length p = 132 \<and> length e = 114 \<and>
      (attack_frankenstein_pubkey K r = Ok () \<longleftrightarrow>
       derive_address (hsh K) f \<noteq> derive_address (hsh K) (pk 20) \<and>
       derive_address (hsh K) f \<noteq> derive_address (hsh K) (pk 21) \<and>
       \<not> (p521_leg_verify (p5 K) (bpk_p521 (pk 21))
            (curve_msg (keccak256 (hsh K) m3) (message_hash K f) CURVE_ID_P521) p = Ok () \<and>
          ed448_verify_with (hsh K) (edr K) (gld K) (bpk_ed448 (pk 21))
            (curve_msg (keccak256 (hsh K) m3) (message_hash K f) CURVE_ID_ED448) e = Ok ())))"
  unfolding m1_def m2_def m3_def f_def
  by (intro conjI attack_splice_ed448_iff [OF assms(1,2,2)] attack_splice_mldsa_iff [OF assms(1,2,2)]
      attack_tx_tamper_recipient_iff [OF assms(1,2)] attack_tx_tamper_value_iff [OF assms(1,2)]
      attack_tx_swapped_pubkey_iff [OF assms(1,2,2)] attack_frankenstein_iff [OF assms(1,2,2)])

theorem splicing_attacks_reduce_witness:
  "\<exists>k pk sig. sign_transaction crates_ref rlp_ref 0 k sample_tx = Ok (signed_tx sample_tx pk sig) \<and>
    (attack_tx_tamper_value crates_ref rlp_ref 0 = Ok () \<longleftrightarrow>
     composite_verify crates_ref pk (signature_hash (hsh crates_ref) rlp_ref (sample_tx\<lparr>tx_value := 999999999\<rparr>))
       (bound_hash crates_ref 1 pk) sig \<noteq> Ok ())"
proof -
  let ?k = "\<lambda>tag. fst (projr (bsk_generate crates_ref (wallet_seed tag)))"
  let ?p = "\<lambda>tag. snd (projr (bsk_generate crates_ref (wallet_seed tag)))"
  have g: "bsk_generate crates_ref (wallet_seed tag) = Ok (?k tag, ?p tag)" for tag
    using wallet_ref [of tag] by auto
  from splicing_attacks_reduce [OF crates_ref_laws g] show ?thesis by blast
qed

text \<open>
  C37. Malformed input is rejected: the tests of trailing bytes, an oversized recipient, a
  phrase of twelve words and public keys of the wrong length pass, the test of a bad checksum
  passes exactly when the bip39 crate rejects the phrase, those of normal indices and short seeds
  when the hardened index and the long seed are accepted, that of the curve ids when the two
  derived keys differ, and those of all-zero keys when zero bytes are no P-521 point.
\<close>

theorem malformed_input_attacks:
  assumes "crates_laws K C" "rlp_laws R"
  shows "attack_rlp_trailing_bytes R = Ok () \<and> attack_rlp_oversized_to R = Ok () \<and>
    attack_bip39_wrong_word_count M = Ok () \<and> attack_wrong_length_pubkey K = Ok () \<and>
    (attack_bip39_bad_checksum M = Ok () \<longleftrightarrow> isl (m_parse M (join_spaces (replicate 24 ''abandon'')))) \<and>
    (attack_bip32_nonhardened X = Ok () \<longleftrightarrow> accepted (derive_child_seed X (replicate 64 7) [0x8000002C])) \<and>
    (attack_short_seed K = Ok () \<longleftrightarrow> accepted (bsk_generate K (replicate 64 0))) \<and>
    (attack_kdf_domain_separation (hsh K) = Ok () \<longleftrightarrow>
      hkdf_sha3_512 (hsh K) None (shake256 (hsh K) (replicate 16 0x33 @ [1]) 32) [] 32 \<noteq>
      hkdf_sha3_512 (hsh K) None (shake256 (hsh K) (replicate 16 0x33 @ [2]) 32) [] 32) \<and>
    (isl (p_vk_from_sec1_bytes (p5 K) (replicate 133 0)) \<longrightarrow>
      attack_all_zero_pubkey K = Ok () \<and> attack_all_zero_p521_pubkey (p5 K) = Ok ())"
proof (intro conjI impI)
  show "attack_rlp_trailing_bytes R = Ok ()" by (rule attack_rlp_trailing_bytes_passes [OF assms(2)])
  show "attack_rlp_oversized_to R = Ok ()" by (rule attack_rlp_oversized_to_passes [OF assms(2)])
  assume "isl (p_vk_from_sec1_bytes (p5 K) (replicate 133 0))"
  then obtain e where e: "p_vk_from_sec1_bytes (p5 K) (replicate 133 0) = Inl e" by (auto simp: isl_def)
  show "attack_all_zero_pubkey K = Ok ()" "attack_all_zero_p521_pubkey (p5 K) = Ok ()"
    by (rule attack_zero_keys [OF e])+
qed (rule attack_bip39_wrong_word_count_passes attack_wrong_length_pubkey_passes
    attack_bip39_bad_checksum_iff attack_bip32_nonhardened_iff attack_short_seed_iff
    attack_kdf_domain_separation_iff [OF crates_lawsD(1) [OF assms(1)]])+

theorem malformed_input_attacks_witness:
  "attack_all_zero_pubkey crates_ref = Ok () \<and> attack_short_seed crates_ref = Ok () \<and>
   attack_rlp_oversized_to rlp_ref = Ok ()"
proof -
  have z: "isl (p_vk_from_sec1_bytes (p5 crates_ref) (replicate 133 0))"
    by (simp add: crates_ref_def p521_ref_def hd_replicate)
  have a: "accepted (bsk_generate crates_ref (replicate 64 0))"
    using generate_ref [of "replicate 64 0"] by auto
  show ?thesis
    using malformed_input_attacks [OF crates_ref_laws rlp_ref_laws, of bip39_ref bip32_ref] z a by blast
qed

section \<open>The self-tests\<close>

text \<open>
  C38. The self-tests of the two backends: on any randomness the ML-DSA-87 program reports
  success for everything it checks but the tampered signature, for which it reports what the
  verifier says; the ten Ed448 keys all survive their byte form and verify; and the Ed448 program
  panics exactly when the signature with its first byte flipped is accepted.
\<close>

theorem self_tests_report:
  assumes "ml_dsa_laws D" "ed448_laws (H, E, G, C)"
    and "\<And>r. length (os_rng r 57) = 57" "\<And>r. \<exists>e. getrandom r 32 = Inr e \<and> length e = 32"
  shows "(\<exists>rep. test_dilithium D getrandom r1 r2 r3 = Ok rep \<and> dt_pk_match rep \<and> dt_verified rep \<and>
      dt_deterministic rep \<and> dt_dyn_verified rep \<and> dt_sig_len rep = 4627) \<and>
    test_verify_roundtrip H E G os_rng rs = Ok (replicate (length rs) (True, True)) \<and>
    (\<exists>b sig. ed448_sign_msg E (ed448_key_of E (os_rng q1 57)) ED448_TEST_MESSAGE None = Ok (b # sig) \<and>
      (panic_free (test_ed448 H E G os_rng q1 q2 q3 q4 q5) \<longleftrightarrow>
       \<not> accepted (ed448_verify_sig H E G (esk_public (ed448_key_of E (os_rng q1 57)))
          ED448_TEST_MESSAGE ((b XOR 0xFF) # sig) None)))"
proof (intro conjI)
  obtain e1 e2 where e: "getrandom r1 32 = Inr e1" "length e1 = 32"
      "getrandom r2 32 = Inr e2" "length e2 = 32"
    using assms(4) by blast
  from test_dilithium_Ok [where getrandom = getrandom and ?r1.0 = r1 and ?r2.0 = r2 and ?r3.0 = r3,
      OF assms(1) e]
  show "\<exists>rep. test_dilithium D getrandom r1 r2 r3 = Ok rep \<and> dt_pk_match rep \<and> dt_verified rep \<and>
      dt_deterministic rep \<and> dt_dyn_verified rep \<and> dt_sig_len rep = 4627" by auto
  show "test_verify_roundtrip H E G os_rng rs = Ok (replicate (length rs) (True, True))"
    by (rule test_verify_roundtrip_Ok [OF assms(2)]) (simp add: assms(3))
  show "\<exists>b sig. ed448_sign_msg E (ed448_key_of E (os_rng q1 57)) ED448_TEST_MESSAGE None = Ok (b # sig) \<and>
      (panic_free (test_ed448 H E G os_rng q1 q2 q3 q4 q5) \<longleftrightarrow>
       \<not> accepted (ed448_verify_sig H E G (esk_public (ed448_key_of E (os_rng q1 57)))
          ED448_TEST_MESSAGE ((b XOR 0xFF) # sig) None))"
    using test_ed448_run [where os_rng = os_rng and ?r1.0 = q1 and ?r2.0 = q2 and ?r3.0 = q3
        and ?r4.0 = q4 and ?r5.0 = q5, OF assms(2,3)] by fastforce
qed

theorem self_tests_report_witness:
  "test_verify_roundtrip hashes_ref ed448_ref gold_ref (\<lambda>r n. replicate n 9) [1 :: nat, 2] =
    Ok [(True, True), (True, True)]"
proof -
  have e: "ed448_laws (hashes_ref, ed448_ref, gold_ref, curve_ref)"
    using gold_ref_laws ed448_ref_laws by simp
  have l: "length (replicate 57 (9 :: byte)) = 57" "\<exists>e. Inr (replicate 32 9) = Inr e \<and> length e = 32"
    for r :: nat by simp_all
  have two: "replicate (length [1 :: nat, 2]) (True, True) = [(True, True), (True, True)]" by simp
  note run = self_tests_report [where os_rng = "\<lambda>r n. replicate n 9" and getrandom = "\<lambda>r n. Inr (replicate n 9)"
      and rs = "[1 :: nat, 2]" and ?r1.0 = "0 :: nat" and ?r2.0 = "0 :: nat", OF ml_dsa_ref_laws e l]
  show ?thesis by (rule run [THEN conjunct2, THEN conjunct1, unfolded two])
qed

end
