(* ===== verification/Unit_Tests.thy ===== *)
theory Unit_Tests
  imports Attacks
begin

text \<open>
  The unit tests inside \<^verbatim>\<open>src/api.rs\<close>, \<^verbatim>\<open>src/crypto.rs\<close>, \<^verbatim>\<open>src/transaction/rlp.rs\<close> and
  \<^verbatim>\<open>src/transaction/signing.rs\<close>, as functions that return or panic.  \<open>getrandom q\<close> is what the
  operating system hands out in the draw \<open>q\<close>, and the \<open>r\<close> are the draws of the signatures.  The
  lemmas show that the tests of what the library promises pass for every implementation of the
  crates that keeps its laws, and what the other tests ask of the crates.
\<close>

section \<open>Creating a wallet\<close>

definition test_create_wallet_basic_shape where
  "test_create_wallet_basic_shape K M X getrandom q =
     and_then (unwrapped (create_wallet K M X (getrandom q) (lit ''my_passphrase'')))
   (\<lambda>(mnemonic, key). and_then (holds (length (split_whitespace mnemonic) = 24))
   (\<lambda>_. and_then (holds (bsk_dilithium key \<noteq> []))
   (\<lambda>_. and_then (holds (bsk_p521 key \<noteq> []))
   (\<lambda>_. holds (bsk_ed448 key \<noteq> [])))))"

definition test_create_wallet_empty_passphrase where
  "test_create_wallet_empty_passphrase K M X getrandom q =
     (let result = create_wallet K M X (getrandom q) [] in
      and_then (assert_ok result [Str ''assertion failed''])
   (\<lambda>_. and_then (unwrapped result)
   (\<lambda>(mnemonic, _). holds (length (split_whitespace mnemonic) = 24))))"

definition test_create_wallet_unicode_passphrase where
  "test_create_wallet_unicode_passphrase K M X getrandom q =
     assert_ok (create_wallet K M X (getrandom q)
       [0x43F, 0x430, 0x440, 0x43E, 0x43B, 0x44C, 0x2D, 0x5BC6, 0x7801, 0x2D, 0x1F510])
       [Str ''assertion failed'']"

definition test_create_wallet_very_long_passphrase where
  "test_create_wallet_very_long_passphrase K M X getrandom q =
     (let long_pass = concat (replicate 4096 (lit ''a'')) in
      assert_ok (create_wallet K M X (getrandom q) long_pass) [Str ''assertion failed''])"

definition is_ascii_lowercase :: "nat \<Rightarrow> bool" where
  "is_ascii_lowercase c \<longleftrightarrow> 97 \<le> c \<and> c \<le> 122"

fun all_words_lowercase :: "rstr list \<Rightarrow> (unit, 'e) outcome" where
  "all_words_lowercase [] = Ok ()"
| "all_words_lowercase (word # rest) =
     and_then (holds (word \<noteq> []))
   (\<lambda>_. and_then (holds (list_all is_ascii_lowercase word))
   (\<lambda>_. all_words_lowercase rest))"

definition test_create_wallet_words_shape where
  "test_create_wallet_words_shape K M X getrandom q =
     and_then (unwrapped (create_wallet K M X (getrandom q) (lit ''check-format'')))
   (\<lambda>(mnemonic, _). all_words_lowercase (split_whitespace mnemonic))"

definition test_create_wallet_randomness where
  "test_create_wallet_randomness K M X getrandom q1 q2 =
     and_then (unwrapped (create_wallet K M X (getrandom q1) (lit ''same-passphrase'')))
   (\<lambda>(m1, _). and_then (unwrapped (create_wallet K M X (getrandom q2) (lit ''same-passphrase'')))
   (\<lambda>(m2, _). assert_that (m1 \<noteq> m2) [Str ''mnemonics should be freshly randomly generated each call'']))"

definition test_create_wallet_different_passphrase where
  "test_create_wallet_different_passphrase K M X getrandom q1 q2 =
     and_then (unwrapped (create_wallet K M X (getrandom q1) (lit ''passphrase-a'')))
   (\<lambda>(_, key_a). and_then (unwrapped (create_wallet K M X (getrandom q2) (lit ''passphrase-b'')))
   (\<lambda>(_, key_b). and_then (holds (bsk_dilithium key_a \<noteq> bsk_dilithium key_b))
   (\<lambda>_. and_then (holds (bsk_p521 key_a \<noteq> bsk_p521 key_b))
   (\<lambda>_. holds (bsk_ed448 key_a \<noteq> bsk_ed448 key_b)))))"

text \<open>The loop over the 25 wallets, with the mnemonics that were seen.\<close>

fun unique_mnemonics where
  "unique_mnemonics K M X getrandom seen [] = Ok ()"
| "unique_mnemonics K M X getrandom seen (q # qs) =
     and_then (unwrapped (create_wallet K M X (getrandom q) []))
   (\<lambda>(mnemonic, _). and_then (assert_that (mnemonic \<notin> set seen)
       [Str (''duplicate mnemonic generated '' @ [CHR 0xE2, CHR 0x80, CHR 0x94] @ '' RNG may be broken'')])
   (\<lambda>_. unique_mnemonics K M X getrandom (mnemonic # seen) qs))"

definition test_create_wallet_no_duplicates where
  "test_create_wallet_no_duplicates K M X getrandom draw =
     unique_mnemonics K M X getrandom [] (map draw [0 :: nat..<25])"

section \<open>Messages\<close>

definition test_sign_verify_message_roundtrip where
  "test_sign_verify_message_roundtrip K M X getrandom q r =
     and_then (unwrapped (create_wallet K M X (getrandom q) []))
   (\<lambda>(_, key). let message = ascii ''Hello, post-quantum hybrid world!'' in
     and_then (unwrapped (api_sign_message K r message key))
   (\<lambda>signature. and_then (holds (4627 + 114 < length signature))
   (\<lambda>_. and_then (unwrapped (api_verify_message K message signature (bsk_public key)))
   (\<lambda>is_valid. and_then (holds is_valid)
   (\<lambda>_. let mutated_message = ascii ''Hello, post-quantum hybrid world?'' in
     and_then (assert_err (api_verify_message K mutated_message signature (bsk_public key))
       [Str ''assertion failed''])
   (\<lambda>_. and_then (xor_at 10 0xff signature)
   (\<lambda>mutated_signature.
     assert_err (api_verify_message K message mutated_signature (bsk_public key))
       [Str ''assertion failed''])))))))"

text \<open>Three tests sign a message and expect that it verifies; they differ in the message.\<close>

definition signs_and_verifies where
  "signs_and_verifies K M X getrandom q r message text =
     and_then (unwrapped (create_wallet K M X (getrandom q) []))
   (\<lambda>(_, key). and_then (unwrapped (api_sign_message K r message key))
   (\<lambda>signature. and_then (unwrapped (api_verify_message K message signature (bsk_public key)))
   (\<lambda>is_valid. assert_that is_valid text)))"

definition test_sign_verify_empty_message where
  "test_sign_verify_empty_message K M X getrandom q r =
     signs_and_verifies K M X getrandom q r []
       [Str ''empty messages must still be signable and verifiable'']"

definition test_sign_verify_large_message where
  "test_sign_verify_large_message K M X getrandom q r =
     signs_and_verifies K M X getrandom q r (replicate (5 * 1024 * 1024) 0xAB)
       [Str ''assertion failed'']"

definition test_sign_verify_message_with_null_bytes where
  "test_sign_verify_message_with_null_bytes K M X getrandom q r =
     signs_and_verifies K M X getrandom q r
       (ascii ''before'' @ 0 # ascii ''middle'' @ 0 # ascii ''after'') [Str ''assertion failed'']"

definition test_sign_deterministic_or_nondeterministic where
  "test_sign_deterministic_or_nondeterministic K M X getrandom q r1 r2 =
     and_then (unwrapped (create_wallet K M X (getrandom q) []))
   (\<lambda>(_, key). let message = ascii ''determinism probe'' in
     and_then (unwrapped (api_sign_message K r1 message key))
   (\<lambda>sig1. and_then (unwrapped (api_sign_message K r2 message key))
   (\<lambda>sig2. and_then (unwrapped (api_verify_message K message sig1 (bsk_public key)))
   (\<lambda>ok1. and_then (holds ok1)
   (\<lambda>_. and_then (unwrapped (api_verify_message K message sig2 (bsk_public key)))
   (\<lambda>ok2. holds ok2))))))"

definition test_verify_message_wrong_key_fails where
  "test_verify_message_wrong_key_fails K M X getrandom q1 q2 r =
     and_then (unwrapped (create_wallet K M X (getrandom q1) []))
   (\<lambda>(_, key_a). and_then (unwrapped (create_wallet K M X (getrandom q2) []))
   (\<lambda>(_, key_b). let message = ascii ''cross-key verification must fail'' in
     and_then (unwrapped (api_sign_message K r message key_a))
   (\<lambda>signature. match_result (api_verify_message K message signature (bsk_public key_b))
     (\<lambda>ok. holds (\<not> ok)) (\<lambda>_. Ok ()))))"

definition test_verify_message_truncated_signature_fails where
  "test_verify_message_truncated_signature_fails K M X getrandom q r =
     and_then (unwrapped (create_wallet K M X (getrandom q) []))
   (\<lambda>(_, key). let message = ascii ''truncation probe'' in
     and_then (unwrapped (api_sign_message K r message key))
   (\<lambda>signature. and_then (slice_to (length signature div 2) signature)
   (\<lambda>truncated. assert_err (api_verify_message K message truncated (bsk_public key))
     [Str ''assertion failed''])))"

definition test_verify_message_empty_signature_fails where
  "test_verify_message_empty_signature_fails K M X getrandom q =
     and_then (unwrapped (create_wallet K M X (getrandom q) []))
   (\<lambda>(_, key). let message = ascii ''empty sig probe'' in
     assert_err (api_verify_message K message [] (bsk_public key)) [Str ''assertion failed''])"

definition test_verify_message_garbage_signature_fails where
  "test_verify_message_garbage_signature_fails K M X getrandom q =
     and_then (unwrapped (create_wallet K M X (getrandom q) []))
   (\<lambda>(_, key). let message = ascii ''garbage sig probe''; garbage = replicate 4800 0x42 in
     assert_err (api_verify_message K message garbage (bsk_public key)) [Str ''assertion failed''])"

definition test_verify_message_appended_bytes_fails where
  "test_verify_message_appended_bytes_fails K M X getrandom q r =
     and_then (unwrapped (create_wallet K M X (getrandom q) []))
   (\<lambda>(_, key). let message = ascii ''trailing bytes probe'' in
     and_then (unwrapped (api_sign_message K r message key))
   (\<lambda>signature. let signature = signature @ replicate 16 0xFF in
     assert_err (api_verify_message K message signature (bsk_public key)) [Str ''assertion failed'']))"

text \<open>The loop over the offsets at which a byte is flipped.\<close>

fun mutations_detected where
  "mutations_detected K pub message signature [] = Ok ()"
| "mutations_detected K pub message signature (offset # rest) =
     and_then (xor_at offset 0xFF signature)
   (\<lambda>mutated. and_then (assert_err (api_verify_message K message mutated pub)
       [Str ''mutation at offset '', Num offset, Str '' was not detected''])
   (\<lambda>_. mutations_detected K pub message signature rest))"

definition test_mutating_each_signature_component where
  "test_mutating_each_signature_component K M X getrandom q r =
     and_then (unwrapped (create_wallet K M X (getrandom q) []))
   (\<lambda>(_, key). let message = ascii ''component isolation probe'' in
     and_then (unwrapped (api_sign_message K r message key))
   (\<lambda>signature. mutations_detected K (bsk_public key) message signature
     [0, length signature div 3, (2 * length signature) div 3, length signature - 1]))"

section \<open>Transactions\<close>

definition build_test_tx :: "64 word \<Rightarrow> 128 word \<Rightarrow> bc_tx" where
  "build_test_tx nonce val =
     \<lparr>tx_chain_id = 1, tx_nonce = nonce, tx_max_priority_fee_per_gas = 1500000000,
      tx_max_fee_per_gas = 30000000000, tx_gas_limit = 21000, tx_to = Some (replicate 20 0xaa),
      tx_value = ucast val, tx_data = [1, 2, 3, 4], tx_v = None, tx_r = None, tx_s = None,
      tx_pqc_signature = None, tx_pub_key = None\<rparr>"

definition test_sign_and_verify_transaction_roundtrip where
  "test_sign_and_verify_transaction_roundtrip K M X R getrandom q r =
     and_then (unwrapped (create_wallet K M X (getrandom q) []))
   (\<lambda>(_, key). let tx = build_test_tx 0 1000000000000000000 in
     and_then (unwrapped (api_sign_transaction K R r tx key))
   (\<lambda>tx. and_then (unwrapped (api_verify_transaction K R tx))
   (\<lambda>recovered. holds (recovered = derive_address (hsh K) (bsk_public key)))))"

definition test_verify_unsigned_transaction_fails where
  "test_verify_unsigned_transaction_fails K R =
     (let tx = build_test_tx 0 0 in
      assert_err (api_verify_transaction K R tx) [Str ''assertion failed''])"

definition test_verify_tampered_transaction_fails where
  "test_verify_tampered_transaction_fails K M X R getrandom q r =
     and_then (unwrapped (create_wallet K M X (getrandom q) []))
   (\<lambda>(_, key). let signer = derive_address (hsh K) (bsk_public key); tx = build_test_tx 1 500 in
     and_then (unwrapped (api_sign_transaction K R r tx key))
   (\<lambda>tx. match_result (api_verify_transaction K R (tx\<lparr>tx_value := 999999\<rparr>))
     (\<lambda>result. holds (result \<noteq> signer)) (\<lambda>_. Ok ())))"

definition test_resigned_transaction where
  "test_resigned_transaction K M X R getrandom q r1 r2 =
     and_then (unwrapped (create_wallet K M X (getrandom q) []))
   (\<lambda>(_, key). let tx = build_test_tx 2 1 in
     and_then (unwrapped (api_sign_transaction K R r1 tx key))
   (\<lambda>tx. and_then (unwrapped (api_verify_transaction K R tx))
   (\<lambda>addr1. and_then (unwrapped (api_sign_transaction K R r2 tx key))
   (\<lambda>tx. and_then (unwrapped (api_verify_transaction K R tx))
   (\<lambda>addr2. holds (addr1 = addr2))))))"

section \<open>Golden values of the derivation\<close>

definition golden_seed :: bytes where
  "golden_seed = map (\<lambda>i. word_of_nat i * 7 + 1) [0..<64]"

definition golden_derivation_is_stable where
  "golden_derivation_is_stable K hex_encode =
     and_then (unwrapped (bsk_generate K golden_seed))
   (\<lambda>(priv_key, pub_key). and_then (unwrapped (bsk_generate K golden_seed))
   (\<lambda>(priv2, pub2). and_then (holds (bpk_to_bytes pub_key = bpk_to_bytes pub2))
   (\<lambda>_. and_then (holds (bsk_dilithium priv_key = bsk_dilithium priv2))
   (\<lambda>_. and_then (holds (bsk_p521 priv_key = bsk_p521 priv2))
   (\<lambda>_. and_then (holds (bsk_ed448 priv_key = bsk_ed448 priv2))
   (\<lambda>_. let addr = hex_encode (derive_address (hsh K) pub_key);
            ed448 = hex_encode (bpk_ed448 pub_key) in
     and_then (slice_to 16 (bpk_p521 pub_key))
   (\<lambda>p521_head. and_then (slice_to 16 (bpk_dilithium pub_key))
   (\<lambda>dil_head. and_then (assert_that (addr = lit ''627a606813a11b0ad7c0a1f87e077bd1f83ba976'')
       [Str ''address derivation changed''])
   (\<lambda>_. and_then (assert_that (ed448 = lit (''2533b99ba7648d2b4d586a6f872da504b9cc46909b0223da93a9316a95b42c44''
         @ ''54dba369669e874aacc06976f4c9ad5d9b8212a77c84c3e780''))
       [Str ''Ed448 sub-key derivation changed''])
   (\<lambda>_. and_then (assert_that (hex_encode p521_head = lit ''0400e2f88402fede86349efc0385b2d2'')
       [Str ''P-521 sub-key derivation changed''])
   (\<lambda>_. assert_that (hex_encode dil_head = lit ''e3d83ad7a5d3463bc535f46168547e06'')
       [Str ''ML-DSA-87 sub-key derivation changed''])))))))))))"

section \<open>The codec\<close>

definition sample_unsigned :: bc_tx where
  "sample_unsigned =
     \<lparr>tx_chain_id = 1, tx_nonce = 7, tx_max_priority_fee_per_gas = 1, tx_max_fee_per_gas = 2,
      tx_gas_limit = 21000, tx_to = Some (replicate 20 0xab), tx_value = 1000, tx_data = [1, 2, 3],
      tx_v = None, tx_r = None, tx_s = None, tx_pqc_signature = None, tx_pub_key = None\<rparr>"

definition encode_decode_roundtrip_unsigned where
  "encode_decode_roundtrip_unsigned R =
     (let tx = sample_unsigned; out = tx_encode R tx in
      and_then (unwrapped (tx_decode R out))
    (\<lambda>(decoded, slice). and_then (holds (decoded = tx))
    (\<lambda>_. assert_that (slice = []) [Str ''decode must consume exactly the list payload''])))"

definition encode_decode_roundtrip_signed where
  "encode_decode_roundtrip_signed R =
     (let tx = sample_unsigned\<lparr>tx_v := Some 37, tx_r := Some 0, tx_s := Some 0,
            tx_pqc_signature := Some (replicate 100 0xAA), tx_pub_key := Some (replicate 50 0xBB)\<rparr>;
          out = tx_encode R tx in
      and_then (unwrapped (tx_decode R out))
    (\<lambda>(decoded, slice). and_then (holds (decoded = tx)) (\<lambda>_. holds (slice = []))))"

definition trailing_bytes_are_not_consumed where
  "trailing_bytes_are_not_consumed R =
     (let tx = sample_unsigned; out = tx_encode R tx @ [0x01, 0x02] in
      and_then (unwrapped (tx_decode R out))
    (\<lambda>(decoded, slice). and_then (assert_that (tx_v decoded = None \<and> tx_pqc_signature decoded = None)
        [Str ''trailing bytes must not be decoded into signature fields''])
    (\<lambda>_. assert_that (slice = [0x01, 0x02]) [Str ''trailing bytes must be left untouched''])))"

section \<open>Signing and recovering\<close>

definition signing_seed :: bytes where
  "signing_seed = map (\<lambda>i. word_of_nat (i * 7 + 13)) [0..<64]"

definition roundtrip_tx :: bc_tx where
  "roundtrip_tx =
     \<lparr>tx_chain_id = 1, tx_nonce = 10, tx_max_priority_fee_per_gas = 1500000000,
      tx_max_fee_per_gas = 30000000000, tx_gas_limit = 21000, tx_to = Some (replicate 20 0xaa),
      tx_value = 100000000000000000, tx_data = [1, 2, 3, 4], tx_v = None, tx_r = None, tx_s = None,
      tx_pqc_signature = None, tx_pub_key = None\<rparr>"

definition test_composite_sign_and_recover_roundtrip where
  "test_composite_sign_and_recover_roundtrip K R r =
     and_then (unwrapped (bsk_generate K signing_seed))
   (\<lambda>(priv_key, pub_key). let address = derive_address (hsh K) pub_key in
     and_then (expect [Str ''Failed to sign transaction''] (sign_transaction K R r priv_key roundtrip_tx))
   (\<lambda>tx. and_then (holds (tx_pqc_signature tx \<noteq> None))
   (\<lambda>_. and_then (holds (tx_pub_key tx \<noteq> None))
   (\<lambda>_. and_then (holds (tx_v tx \<noteq> None))
   (\<lambda>_. and_then (holds (tx_r tx \<noteq> None))
   (\<lambda>_. and_then (holds (tx_s tx \<noteq> None))
   (\<lambda>_. and_then (expect [Str ''Failed to recover sender''] (recover_sender K R tx))
   (\<lambda>recovered. holds (recovered = address)))))))))"

definition envelope_tx :: bc_tx where
  "envelope_tx =
     \<lparr>tx_chain_id = 1, tx_nonce = 3, tx_max_priority_fee_per_gas = 1, tx_max_fee_per_gas = 2,
      tx_gas_limit = 21000, tx_to = Some (replicate 20 0xaa), tx_value = 5, tx_data = [9, 9, 9],
      tx_v = None, tx_r = None, tx_s = None, tx_pqc_signature = None, tx_pub_key = None\<rparr>"

definition mutated_vrs_envelope_is_rejected where
  "mutated_vrs_envelope_is_rejected K R r =
     and_then (unwrapped (bsk_generate K signing_seed))
   (\<lambda>(priv_key, _). and_then (unwrapped (sign_transaction K R r priv_key envelope_tx))
   (\<lambda>signed. and_then (assert_ok (recover_sender K R signed) [Str ''assertion failed''])
   (\<lambda>_. and_then (assert_err (recover_sender K R (signed\<lparr>tx_v := Some 9999\<rparr>))
       [Str ''mutated v must be rejected''])
   (\<lambda>_. and_then (assert_err (recover_sender K R (signed\<lparr>tx_r := Some 1\<rparr>))
       [Str ''mutated r must be rejected''])
   (\<lambda>_. assert_err (recover_sender K R (signed\<lparr>tx_s := Some 1\<rparr>))
       [Str ''mutated s must be rejected''])))))"

section \<open>What the tests need\<close>

lemma created_wallet:
  assumes "crates_laws K C" and "create_wallet K M X getrandom pw = Ok (phrase, key)"
  shows "key_wf K key" and "length (split_whitespace phrase) = 24"
proof -
  have r: "restore_wallet K M X phrase pw = Ok key" using assms(2) by (auto simp: create_wallet_def)
  then obtain seed where "bsk_generate K seed = Ok (key, bsk_public key)"
    using bsk_generate_Ok(2) [OF assms(1)] by (fastforce simp: restore_wallet_def)
  then show "key_wf K key" by (rule bsk_generate_wf [OF assms(1)])
  show "length (split_whitespace phrase) = 24"
    using r by (auto simp: restore_wallet_def seed_from_mnemonic_def Let_def size_consts split: if_splits)
qed

lemma key_wf_lengths:
  "key_wf K k \<Longrightarrow> length (bsk_dilithium k) = 32 \<and> length (bsk_p521 k) = 66 \<and> length (bsk_ed448 k) = 57"
  by (simp add: key_wf_def dil_leg_pair_def p521_leg_pair_def)

lemma signed_message_verifies:
  assumes "crates_laws K C" and "key_wf K k"
  obtains sig where "sign_message K r k m = Ok sig" "length sig = 4873"
    "verify_message K (bsk_public k) m sig = Ok True"
  by (rule signed_message_parts [OF assms, of r m]) (simp add: verify_message_iff composite_parts that)

lemma wrong_length_rejected: "length sig \<noteq> 4873 \<Longrightarrow> \<not> accepted (verify_message K pk m sig)"
  by (simp add: verify_message_iff composite_verify_iff)

lemma assert_err_verify:
  "assert_err (verify_message K pk m sig) t = Ok () \<longleftrightarrow> \<not> accepted (verify_message K pk m sig)"
  by (simp add: assert_err_iff [OF verify_message_panic_free] del: accepted_iff)

lemmas api_defs = api_sign_message_def api_verify_message_def api_sign_transaction_def
  api_verify_transaction_def Let_def

section \<open>The tests of wallets and messages\<close>

lemma wallet_shape_tests:
  assumes "crates_laws K C" and "\<And>pw. \<exists>m k. create_wallet K M X (getrandom q) pw = Ok (m, k)"
  shows "test_create_wallet_basic_shape K M X getrandom q = Ok ()"
    and "test_create_wallet_empty_passphrase K M X getrandom q = Ok ()"
    and "test_create_wallet_unicode_passphrase K M X getrandom q = Ok ()"
    and "test_create_wallet_very_long_passphrase K M X getrandom q = Ok ()"
proof -
  obtain m k where w: "create_wallet K M X (getrandom q) (lit ''my_passphrase'') = Ok (m, k)"
    using assms(2) by blast
  note created_wallet [OF assms(1) w] key_wf_lengths
  then show "test_create_wallet_basic_shape K M X getrandom q = Ok ()"
    by (fastforce simp: test_create_wallet_basic_shape_def w)
  obtain m k where w: "create_wallet K M X (getrandom q) [] = Ok (m, k)" using assms(2) by blast
  show "test_create_wallet_empty_passphrase K M X getrandom q = Ok ()"
    using created_wallet [OF assms(1) w] by (simp add: test_create_wallet_empty_passphrase_def w Let_def)
  show "test_create_wallet_unicode_passphrase K M X getrandom q = Ok ()"
    unfolding test_create_wallet_unicode_passphrase_def assert_ok_iff using assms(2) by auto
  show "test_create_wallet_very_long_passphrase K M X getrandom q = Ok ()"
    unfolding test_create_wallet_very_long_passphrase_def assert_ok_iff Let_def using assms(2) by auto
qed

lemma signs_and_verifies_Ok:
  assumes "crates_laws K C" and "create_wallet K M X (getrandom q) [] = Ok (m, k)"
  shows "signs_and_verifies K M X getrandom q r msg t = Ok ()"
  by (rule signed_message_verifies [OF assms(1) created_wallet(1) [OF assms], of r msg])
    (simp add: signs_and_verifies_def assms(2) api_defs)

lemma message_tests:
  assumes "crates_laws K C" and w: "create_wallet K M X (getrandom q) [] = Ok (m, k)"
  shows "test_sign_verify_empty_message K M X getrandom q r = Ok ()"
    and "test_sign_verify_large_message K M X getrandom q r = Ok ()"
    and "test_sign_verify_message_with_null_bytes K M X getrandom q r = Ok ()"
    and "test_sign_deterministic_or_nondeterministic K M X getrandom q r1 r2 = Ok ()"
    and "test_verify_message_truncated_signature_fails K M X getrandom q r = Ok ()"
    and "test_verify_message_empty_signature_fails K M X getrandom q = Ok ()"
    and "test_verify_message_garbage_signature_fails K M X getrandom q = Ok ()"
    and "test_verify_message_appended_bytes_fails K M X getrandom q r = Ok ()"
proof -
  note v = signed_message_verifies [OF assms(1) created_wallet(1) [OF assms]]
  note no = assert_err_verify [THEN iffD2, OF wrong_length_rejected]
  show "test_sign_verify_empty_message K M X getrandom q r = Ok ()"
    "test_sign_verify_large_message K M X getrandom q r = Ok ()"
    "test_sign_verify_message_with_null_bytes K M X getrandom q r = Ok ()"
    by (simp_all only: test_sign_verify_empty_message_def test_sign_verify_large_message_def
        test_sign_verify_message_with_null_bytes_def
        signs_and_verifies_Ok [where getrandom = getrandom and q = q, OF assms])
  show "test_sign_deterministic_or_nondeterministic K M X getrandom q r1 r2 = Ok ()"
    by (rule v [of r1 "ascii ''determinism probe''"], rule v [of r2 "ascii ''determinism probe''"])
      (simp add: test_sign_deterministic_or_nondeterministic_def w api_defs)
  show "test_verify_message_truncated_signature_fails K M X getrandom q r = Ok ()"
    by (rule v [of r "ascii ''truncation probe''"])
      (simp add: test_verify_message_truncated_signature_fails_def w api_defs no)
  show "test_verify_message_empty_signature_fails K M X getrandom q = Ok ()"
    by (simp add: test_verify_message_empty_signature_fails_def w api_defs no)
  show "test_verify_message_garbage_signature_fails K M X getrandom q = Ok ()"
    by (simp add: test_verify_message_garbage_signature_fails_def w api_defs no)
  show "test_verify_message_appended_bytes_fails K M X getrandom q r = Ok ()"
    by (rule v [of r "ascii ''trailing bytes probe''"])
      (simp add: test_verify_message_appended_bytes_fails_def w api_defs no)
qed

text \<open>What the other tests ask of the crates.\<close>

lemma all_words_lowercase_iff:
  "all_words_lowercase ws = Ok () \<longleftrightarrow> (\<forall>w\<in>set ws. w \<noteq> [] \<and> list_all is_ascii_lowercase w)"
  by (induction ws) auto

lemma words_shape_iff:
  assumes "create_wallet K M X (getrandom q) (lit ''check-format'') = Ok (m, k)"
  shows "test_create_wallet_words_shape K M X getrandom q = Ok () \<longleftrightarrow>
    (\<forall>w\<in>set (split_whitespace m). w \<noteq> [] \<and> list_all is_ascii_lowercase w)"
  by (simp add: test_create_wallet_words_shape_def assms all_words_lowercase_iff)

lemma unique_mnemonics_iff:
  assumes "\<And>q. q \<in> set qs \<Longrightarrow> \<exists>k. create_wallet K M X (getrandom q) [] = Ok (phrase q, k)"
  shows "unique_mnemonics K M X getrandom seen qs = (Ok () :: (unit, 'e) outcome) \<longleftrightarrow>
    distinct (map phrase qs) \<and> set (map phrase qs) \<inter> set seen = {}"
  using assms
proof (induction qs arbitrary: seen)
  case (Cons q qs)
  obtain k where k: "create_wallet K M X (getrandom q) [] = Ok (phrase q, k)" using Cons.prems by auto
  have "unique_mnemonics K M X getrandom (phrase q # seen) qs = (Ok () :: (unit, 'e) outcome) \<longleftrightarrow>
      distinct (map phrase qs) \<and> set (map phrase qs) \<inter> set (phrase q # seen) = {}"
    by (rule Cons.IH) (use Cons.prems in auto)
  with k show ?case by auto
qed simp

lemma randomness_iff:
  assumes "create_wallet K M X (getrandom q1) (lit ''same-passphrase'') = Ok (m1, k1)"
    and "create_wallet K M X (getrandom q2) (lit ''same-passphrase'') = Ok (m2, k2)"
  shows "test_create_wallet_randomness K M X getrandom q1 q2 = Ok () \<longleftrightarrow> m1 \<noteq> m2"
  by (simp add: test_create_wallet_randomness_def assms)

lemma wrong_key_iff:
  assumes "crates_laws K C" and a: "create_wallet K M X (getrandom q1) [] = Ok (ma, ka)"
    and b: "create_wallet K M X (getrandom q2) [] = Ok (mb, kb)"
  shows "\<exists>sig. sign_message K r ka (ascii ''cross-key verification must fail'') = Ok sig \<and>
    (test_verify_message_wrong_key_fails K M X getrandom q1 q2 r = Ok () \<longleftrightarrow>
     \<not> accepted (verify_message K (bsk_public kb) (ascii ''cross-key verification must fail'') sig))"
proof -
  let ?m = "ascii ''cross-key verification must fail''"
  obtain sig where s: "sign_message K r ka ?m = Ok sig"
    by (rule signed_message_verifies [OF assms(1) created_wallet(1) [OF assms(1,2)]])
  have "match_result x (\<lambda>ok. holds (\<not> ok)) (\<lambda>_. Ok ()) = Ok () \<longleftrightarrow> \<not> accepted x"
    if "panic_free x" "x \<noteq> Ok False" for x :: "(bool, crypto_error) outcome"
    using that(1) by (rule not_panic_cases) (use that(2) in auto)
  from this [OF verify_message_panic_free, of K "bsk_public kb" ?m sig] s show ?thesis
    by (auto simp: test_verify_message_wrong_key_fails_def a b api_defs verify_message_iff)
qed

lemma different_passphrase_iff:
  assumes "create_wallet K M X (getrandom q1) (lit ''passphrase-a'') = Ok (ma, ka)"
    and "create_wallet K M X (getrandom q2) (lit ''passphrase-b'') = Ok (mb, kb)"
  shows "test_create_wallet_different_passphrase K M X getrandom q1 q2 = Ok () \<longleftrightarrow>
    bsk_dilithium ka \<noteq> bsk_dilithium kb \<and> bsk_p521 ka \<noteq> bsk_p521 kb \<and> bsk_ed448 ka \<noteq> bsk_ed448 kb"
  by (simp add: test_create_wallet_different_passphrase_def assms)

lemma message_roundtrip_iff:
  assumes "crates_laws K C" and w: "create_wallet K M X (getrandom q) [] = Ok (m, k)"
  defines "good \<equiv> ascii ''Hello, post-quantum hybrid world!''"
    and "bad \<equiv> ascii ''Hello, post-quantum hybrid world?''"
  shows "\<exists>sig. sign_message K r k good = Ok sig \<and> length sig = 4873 \<and>
    (test_sign_verify_message_roundtrip K M X getrandom q r = Ok () \<longleftrightarrow>
     \<not> accepted (verify_message K (bsk_public k) bad sig) \<and>
     \<not> accepted (verify_message K (bsk_public k) good (sig[10 := sig ! 10 XOR 0xff])))"
proof -
  obtain sig where s: "sign_message K r k good = Ok sig" "length sig = 4873"
      "verify_message K (bsk_public k) good sig = Ok True"
    by (rule signed_message_verifies [OF assms(1) created_wallet(1) [OF assms(1,2)]])
  then show ?thesis
    by (auto simp: test_sign_verify_message_roundtrip_def w api_defs good_def bad_def
        assert_err_iff [OF verify_message_panic_free])
qed

lemma mutations_detected_iff:
  assumes "\<forall>i\<in>set is. i < length sig"
  shows "mutations_detected K pub m sig is = Ok () \<longleftrightarrow>
    (\<forall>i\<in>set is. \<not> accepted (verify_message K pub m (sig[i := sig ! i XOR 0xFF])))"
  using assms
  by (induction "is") (auto simp: api_defs assert_err_iff [OF verify_message_panic_free])

section \<open>The tests of transactions\<close>

lemma transaction_tests:
  assumes "crates_laws K C" and w: "create_wallet K M X (getrandom q) [] = Ok (m, k)"
  shows "test_sign_and_verify_transaction_roundtrip K M X R getrandom q r = Ok ()"
    and "test_verify_unsigned_transaction_fails K R = Ok ()"
    and "test_resigned_transaction K M X R getrandom q r1 r2 = Ok ()"
proof -
  have wf: "key_wf K k" by (rule created_wallet(1) [OF assms])
  let ?pk = "bsk_public k"
  have s: "\<exists>sig. sign_transaction K R r k tx = Ok (signed_tx tx ?pk sig) \<and>
      recover_sender K R (signed_tx tx ?pk sig) = Ok (derive_address (hsh K) ?pk)" for r tx
    using signed_recovers [OF assms(1) wf] by blast
  show "test_sign_and_verify_transaction_roundtrip K M X R getrandom q r = Ok ()"
    using s [of r "build_test_tx 0 1000000000000000000"]
    by (auto simp: test_sign_and_verify_transaction_roundtrip_def w api_defs)
  have "\<not> accepted (recover_sender K R (build_test_tx 0 0))"
    by (auto simp: recover_sender_iff build_test_tx_def)
  then show "test_verify_unsigned_transaction_fails K R = Ok ()"
    by (simp add: test_verify_unsigned_transaction_fails_def api_defs
        assert_err_iff [OF recover_sender_panic_free] del: accepted_iff)
  obtain sig where "sign_transaction K R r1 k (build_test_tx 2 1) =
      Ok (signed_tx (build_test_tx 2 1) ?pk sig)"
      "recover_sender K R (signed_tx (build_test_tx 2 1) ?pk sig) = Ok (derive_address (hsh K) ?pk)"
    using s by blast
  with s [of r2 "signed_tx (build_test_tx 2 1) ?pk sig"]
  show "test_resigned_transaction K M X R getrandom q r1 r2 = Ok ()"
    by (auto simp: test_resigned_transaction_def w api_defs)
qed

lemma tampered_transaction_iff:
  assumes "crates_laws K C" and w: "create_wallet K M X (getrandom q) [] = Ok (m, k)"
  defines "pk \<equiv> bsk_public k"
  shows "\<exists>sig. sign_transaction K R r k (build_test_tx 1 500) = Ok (signed_tx (build_test_tx 1 500) pk sig) \<and>
    (test_verify_tampered_transaction_fails K M X R getrandom q r = (Ok () :: (unit, 'e) outcome) \<longleftrightarrow>
     composite_verify K pk (signature_hash (hsh K) R ((build_test_tx 1 500)\<lparr>tx_value := 999999\<rparr>))
       (bound_hash K 1 pk) sig \<noteq> Ok ())"
proof -
  have wf: "key_wf K k" by (rule created_wallet(1) [OF assms(1,2)])
  let ?tx = "build_test_tx 1 500"
  obtain sig where s: "sign_transaction K R r k ?tx = Ok (signed_tx ?tx pk sig)"
    using signed_recovers [OF assms(1) wf] unfolding pk_def by blast
  let ?t = "(signed_tx ?tx pk sig)\<lparr>tx_value := 999999\<rparr>"
  have v: "pk_valid K pk" unfolding pk_def by (rule key_wf_pk_valid [OF assms(1) wf])
  have h: "signature_hash (hsh K) R ?t = signature_hash (hsh K) R (?tx\<lparr>tx_value := 999999\<rparr>)"
    by (rule signature_hash_unsigned) (simp add: tx_unsigned_def signed_tx_def)
  have c: "recover_sender K R ?t = Ok a \<longleftrightarrow> a = derive_address (hsh K) pk \<and>
      composite_verify K pk (signature_hash (hsh K) R (?tx\<lparr>tx_value := 999999\<rparr>)) (bound_hash K 1 pk) sig = Ok ()" for a
    using recover_with_key [OF v, of ?t sig R a] unfolding h by (simp add: signed_tx_def build_test_tx_def)
  let ?run = "match_result (recover_sender K R ?t) (\<lambda>a. holds (a \<noteq> derive_address (hsh K) pk)) (\<lambda>_. Ok ())
      :: (unit, 'e) outcome"
  have t: "test_verify_tampered_transaction_fails K M X R getrandom q r = ?run"
    by (simp add: test_verify_tampered_transaction_fails_def w api_defs s pk_def [symmetric])
  have m: "?run = Ok () \<longleftrightarrow> \<not> accepted (recover_sender K R ?t)"
  proof (rule not_panic_cases [OF recover_sender_panic_free [of K R ?t]])
    fix a assume a: "recover_sender K R ?t = Ok a"
    then have "a = derive_address (hsh K) pk" using c by blast
    then show ?thesis unfolding a by simp
  qed simp
  show ?thesis
    unfolding t m accepted_iff c by (rule exI [of _ sig]) (simp add: s)
qed

lemma signing_tests:
  assumes "crates_laws K C" and g: "bsk_generate K signing_seed = Ok (k, pub)"
  shows "test_composite_sign_and_recover_roundtrip K R r = Ok ()"
    and "mutated_vrs_envelope_is_rejected K R r = Ok ()"
proof -
  have wf: "key_wf K k" by (rule bsk_generate_wf [OF assms])
  have p: "pub = bsk_public k" by (rule bsk_generate_Ok(2) [OF assms])
  obtain sig where "sign_transaction K R r k roundtrip_tx = Ok (signed_tx roundtrip_tx pub sig)"
      "recover_sender K R (signed_tx roundtrip_tx pub sig) = Ok (derive_address (hsh K) pub)"
    using signed_recovers [OF assms(1) wf] unfolding p by blast
  then show "test_composite_sign_and_recover_roundtrip K R r = Ok ()"
    by (simp add: test_composite_sign_and_recover_roundtrip_def g Let_def)
  obtain sig where s: "sign_transaction K R r k envelope_tx = Ok (signed_tx envelope_tx pub sig)"
      "recover_sender K R (signed_tx envelope_tx pub sig) = Ok (derive_address (hsh K) pub)"
    using signed_recovers [OF assms(1) wf] unfolding p by blast
  have v: "expected_v (tx_chain_id envelope_tx) = 37" by (simp add: expected_v_def envelope_tx_def)
  have "\<not> accepted (recover_sender K R t)"
    if "t = (signed_tx envelope_tx pub sig)\<lparr>tx_v := Some 9999\<rparr> \<or>
      t = (signed_tx envelope_tx pub sig)\<lparr>tx_r := Some 1\<rparr> \<or>
      t = (signed_tx envelope_tx pub sig)\<lparr>tx_s := Some 1\<rparr>" for t
    using that by (auto simp: recover_sender_iff signed_tx_def v)
  with s show "mutated_vrs_envelope_is_rejected K R r = Ok ()"
    by (simp add: mutated_vrs_envelope_is_rejected_def g assert_err_iff [OF recover_sender_panic_free]
        del: accepted_iff)
qed

lemma codec_tests:
  assumes "rlp_laws R"
  shows "encode_decode_roundtrip_unsigned R = Ok ()" and "encode_decode_roundtrip_signed R = Ok ()"
    and "trailing_bytes_are_not_consumed R = Ok ()"
proof -
  have d: "tx_decode R (tx_encode R t @ rest) = Ok (t, rest)" if "tx_small t" "tx_normal t = t" for t rest
    using tx_decode_encode [OF assms tx_small_fits [OF assms that(1)]] that(2) by simp
  have u: "tx_small sample_unsigned" "tx_normal sample_unsigned = sample_unsigned"
    by (simp_all add: tx_small_def tx_typed_def sample_unsigned_def default_to_def tx_normal_def
        has_signature_def)
  show "encode_decode_roundtrip_unsigned R = Ok ()"
    using d [OF u, of "[]"] by (simp add: encode_decode_roundtrip_unsigned_def Let_def)
  show "trailing_bytes_are_not_consumed R = Ok ()"
    using d [OF u, of "[1, 2]"]
    by (simp add: trailing_bytes_are_not_consumed_def Let_def) (simp add: sample_unsigned_def)
  let ?s = "sample_unsigned\<lparr>tx_v := Some 37, tx_r := Some 0, tx_s := Some 0,
      tx_pqc_signature := Some (replicate 100 0xAA), tx_pub_key := Some (replicate 50 0xBB)\<rparr>"
  have "tx_small ?s" "tx_normal ?s = ?s"
    by (auto simp: tx_small_def tx_typed_def sample_unsigned_def default_to_def tx_normal_def
        has_signature_def)
  from d [OF this, of "[]"] show "encode_decode_roundtrip_signed R = Ok ()"
    by (simp add: encode_decode_roundtrip_signed_def Let_def)
qed

lemma golden_iff:
  assumes "crates_laws K C" and g: "bsk_generate K golden_seed = Ok (k, pub)"
  shows "golden_derivation_is_stable K hex_encode = Ok () \<longleftrightarrow>
    hex_encode (derive_address (hsh K) pub) = lit ''627a606813a11b0ad7c0a1f87e077bd1f83ba976'' \<and>
    hex_encode (bpk_ed448 pub) = lit (''2533b99ba7648d2b4d586a6f872da504b9cc46909b0223da93a9316a95b42c44''
      @ ''54dba369669e874aacc06976f4c9ad5d9b8212a77c84c3e780'') \<and>
    hex_encode (take 16 (bpk_p521 pub)) = lit ''0400e2f88402fede86349efc0385b2d2'' \<and>
    hex_encode (take 16 (bpk_dilithium pub)) = lit ''e3d83ad7a5d3463bc535f46168547e06''"
proof -
  have "pk_valid K pub"
    using key_wf_pk_valid [OF assms(1) bsk_generate_wf [OF assms]] bsk_generate_Ok(2) [OF assms] by simp
  then show ?thesis
    by (simp add: golden_derivation_is_stable_def g pk_valid_def Let_def del: append_Cons)
qed

end
