(* ===== verification/MlDsa_Tests.thy ===== *)
theory MlDsa_Tests
  imports MlDsa
begin

unbundle bit_operations_syntax

text \<open>
  The unit tests inside \<^verbatim>\<open>src/dilithium/mod.rs\<close>, as functions that return or panic.  \<open>q\<close> is a
  use of the system generator \<open>getrandom\<close>.  The lemmas show which of them pass for every
  implementation of the crate that keeps its laws, and for the others the exact condition.
\<close>

section \<open>Constants\<close>

text \<open>The two arguments are the default encodings of the crate, of which the test takes the length.\<close>

definition constants_match_ml_dsa_87 :: "bytes \<Rightarrow> bytes \<Rightarrow> (unit, crypto_error) outcome" where
  "constants_match_ml_dsa_87 default_vk default_sig =
     and_then (holds (DIL_PUBLIC_KEY_SIZE = length default_vk))
   (\<lambda>_. and_then (holds (DIL_SIGNATURE_SIZE = length default_sig))
   (\<lambda>_. and_then (holds (DIL_SEED_SIZE = 32))
   (\<lambda>_. holds (DIL_PRIVATE_KEY_SIZE = DIL_SEED_SIZE))))"

definition scheme_metadata_dil ::
  "('vk, 'sk, 'sig) ml_dsa \<Rightarrow> ('r \<Rightarrow> nat \<Rightarrow> string + bytes) \<Rightarrow> (unit, crypto_error) outcome" where
  "scheme_metadata_dil D getrandom =
     (let s = dil_scheme D getrandom in
      and_then (holds (sch_name s = ''ML-DSA-87''))
    (\<lambda>_. and_then (holds (sch_public_key_size s = DIL_PUBLIC_KEY_SIZE))
    (\<lambda>_. and_then (holds (sch_private_key_size s = DIL_PRIVATE_KEY_SIZE))
    (\<lambda>_. and_then (holds (sch_signature_size s = DIL_SIGNATURE_SIZE))
    (\<lambda>_. and_then (holds (sch_seed_size s = DIL_SEED_SIZE))
    (\<lambda>_. holds (\<not> sch_supports_context s)))))))"

section \<open>Key generation and derivation\<close>

text \<open>\<^verbatim>\<open>generate_key().expect(text)\<close>, with which most of the tests begin.\<close>

definition fresh_dil_key ::
  "string \<Rightarrow> ('vk, 'sk, 'sig) ml_dsa \<Rightarrow> ('r \<Rightarrow> nat \<Rightarrow> string + bytes) \<Rightarrow> 'r
     \<Rightarrow> ('vk \<times> ('vk, 'sk) dil_private_key, crypto_error) outcome" where
  "fresh_dil_key text D getrandom q =
     expect [Str text] (dil_generate_key D (getrandom q DIL_SEED_SIZE))"

definition generate_key_produces_correct_sizes where
  "generate_key_produces_correct_sizes D getrandom q =
     and_then (fresh_dil_key ''keygen'' D getrandom q)
   (\<lambda>(pk, sk). and_then (holds (length (dil_pk_to_vec D pk) = DIL_PUBLIC_KEY_SIZE))
   (\<lambda>_. and_then (dil_seed_bytes D sk)
   (\<lambda>seed. holds (length seed = DIL_PRIVATE_KEY_SIZE))))"

definition generate_key_is_non_deterministic_dil where
  "generate_key_is_non_deterministic_dil D getrandom q q' =
     and_then (fresh_dil_key ''keygen 1'' D getrandom q)
   (\<lambda>(pk1, _). and_then (fresh_dil_key ''keygen 2'' D getrandom q')
   (\<lambda>(pk2, _). holds (dil_pk_to_vec D pk1 \<noteq> dil_pk_to_vec D pk2)))"

definition derive_key_is_deterministic_dil ::
  "('vk, 'sk, 'sig) ml_dsa \<Rightarrow> (unit, crypto_error) outcome" where
  "derive_key_is_deterministic_dil D =
     (let seed = replicate DIL_SEED_SIZE 0xAB in
      and_then (dil_new_key_from_seed D seed)
    (\<lambda>(pk1, sk1). and_then (dil_new_key_from_seed D seed)
    (\<lambda>(pk2, sk2). and_then (holds (dil_pk_to_vec D pk1 = dil_pk_to_vec D pk2))
    (\<lambda>_. and_then (dil_seed_bytes D sk1)
    (\<lambda>seed1. and_then (dil_seed_bytes D sk2)
    (\<lambda>seed2. holds (seed1 = seed2)))))))"

definition derive_key_differs_for_different_seeds_dil ::
  "('vk, 'sk, 'sig) ml_dsa \<Rightarrow> (unit, crypto_error) outcome" where
  "derive_key_differs_for_different_seeds_dil D =
     and_then (dil_new_key_from_seed D (replicate DIL_SEED_SIZE 0x11))
   (\<lambda>(pk_a, _). and_then (dil_new_key_from_seed D (replicate DIL_SEED_SIZE 0x22))
   (\<lambda>(pk_b, _). holds (dil_pk_to_vec D pk_a \<noteq> dil_pk_to_vec D pk_b)))"

definition derive_key_panics_on_wrong_seed_size_dil ::
  "('vk, 'sk, 'sig) ml_dsa \<Rightarrow> (unit, crypto_error) outcome" where
  "derive_key_panics_on_wrong_seed_size_dil D =
     should_panic (dil_dyn_derive_key D (replicate (DIL_SEED_SIZE - 1) 0))"

definition derive_key_with_seed_errors ::
  "('vk, 'sk, 'sig) ml_dsa \<Rightarrow> (unit, crypto_error) outcome" where
  "derive_key_with_seed_errors D =
     assert_err (dil_derive_key_with_seed D (replicate (DIL_SEED_SIZE + 1) 0))
       [Str ''assertion failed'']"

text \<open>The contents of \<^verbatim>\<open>mldsa87_lamps_pub.hex\<close>.\<close>

definition LAMPS_PUB_HEX :: string where
  "LAMPS_PUB_HEX = ''9792bcec2f2430686a82fccf3c2f5ff665e771d7ab41b90258cfa7e90ec97124a73b323b9ba21ab64d767c433f5a521e''
     @ ''ffe18f86e46a188952c4467e048b729e7fc4d115e7e48da1896d5fe119b10dcddef62cb307954074b42336e52836de61''
     @ ''da941f8d37ea68ac8106fabe19070679af6008537120f70793b8ea9cc0e6e7b7b4c9a5c7421c60f24451ba1e933db1a2''
     @ ''ee16c79559f21b3d1b8305850aa42afbb13f1f4d5b9f4835f9d87dfceb162d0ef4a7fdc4cba1743cd1c87bb4967da16c''
     @ ''c8764b6569df8ee5bdcbffe9a4e05748e6fdf225af9e4eeb7773b62e8f85f9b56b548945551844fbd89806a4ac369bed''
     @ ''2d256100f688a6ad5e0a709826dc4449e91e23c5506e642361ef5a313712f79bc4b3186861ca85a4bab17e7f943d1b8a''
     @ ''333aa3ae7ce16b440d6018f9e04daf5725c7f1a93fad1a5a27b67895bd249aa91685de20af32c8b7e268c7f96877d0c8''
     @ ''5001135a4f0a8f1b8264fa6ebe5a349d8aecad1a16299ccf2fd9c7b85bace2ced3aa1276ba61ee78ed7e5ca5b67cdd45''
     @ ''8a9354030e6abbbabf56a0a2316fec9dba83b51d42fd3167f1e0f90855d5c66509b210265dc1e54ec44b43ba7cf9aef1''
     @ ''18b44d80912ce75166a6651e116cebe49229a7062c09931f71abd2293f76f7efc3215ba97800037e58e470bdbbb43c1b''
     @ ''0439eaf79c54d93b44aac9efe9fbe151874cfb2a64cbee28cc4c0fe7775e5d870f1c02e5b2e3c5004c995f24c9b779cb''
     @ ''753a277d0e71fd425eb6bc2ca56ce129db51f70740f31e63976b50c7312e9797d78c5b1ac24a5fa347cc916e0a83f5c3''
     @ ''b675cd30b81e3fa10b93444e07397571cce98b28da51db9056bc728c5b0b1181e2fbd387b4c79ab1a5fefece37167af7''
     @ ''72ddad14eb4c3982da5a59d0e9eb173ec6315091170027a3ab5ef6aa129cb8585727b9358a28501d713a72f3f1db3171''
     @ ''4286f9b6408013af06045d75592fc0b7dd47c73ed9c75b11e9d7c69f7cadfc3280a9062c5273c43be1c34f87448864ce''
     @ ''a7b5c97d6d32f59bd5f25384653bb5c4faa45bea8b89402843e645b6b9269e2bd988ddacb033328ffb060450f7df0800''
     @ ''53e6969b251e875ecec32cfc592840d69ab69a75e06b379c535d95266b082f4f09c93162b33b0d9f7307a4eaaa521044''
     @ ''37fed66f8ee3eabbd45d67b25a8133f496468b52baffdbfad93eef1a9818b5e42ec722788a3d8d3529fc777d2ba57080''
     @ ''1dfae01ec88302837c1fb9e0355727645ee1046c3f915f6ae82dad4fb6b0356a46518ffc834155c3b4fe6dafa6cc8a5c''
     @ ''cf53c73a0849d8d44f7dcf72754e70e1b7dfb447bb4ef49d1a718f6171bbce200950e0ce926106b151a3e871d5ce4973''
     @ ''1bd6650a9b0ca972da1c5f136d44820ea6383c08f3b384cf2338e789c513f618cc5694a6f0cee104511e1ed7c5f23a1e''
     @ ''bfd8a0db8424553240156dbf622831b0c643d1c551b6f3f7a98d29b85c2de05a65fa615eee16495bd90737672115b53e''
     @ ''91c5d90028cf3f1a93953a153de53b44084e9ccff6b736693926daefebb2d77aa5ad689b92f31686669df16d1715cc58''
     @ ''f7a2cfb72dd1a51e92f825993a74022be7e9eb6054654457094d14928f20215e7b222ac56b51adbec8d8bdb6983979a7''
     @ ''e3a21b44b5d1518ca97d0b5195f51ed6a24350c89747e1edea51b448e3e9147054ce927873c90db394d86888e07dff17''
     @ ''7593d6f79e152302204aeb03be2386af3e24078bd028b1689f5e147c9f452c8ceb02ec59cc9db63a03576ceeafe98239''
     @ ''023897da0236630a53c0de7f435a19869792fab36e7b9e635760f09069e6432e700035ac2a02879fff0a1e1bec522047''
     @ ''193d94eb5df1efd53eea1144ca78940852f5ec9727904b366ede4f5e2d331fad5fc282ea2c47e923142771c3dd75a873''
     @ ''57487def99e5f18e9d9ed623c175d02888c51f82c07a80d54716b3c3c2bdbe2e9f0a9bbaaebeb4d52936876406f5c00e''
     @ ''8e4bbd0a5ec05797e6207c5ab6c88f1a688421bd05a114f4d7de2ac241fa0e8bedff47f762ddcbeaa91004f8d31e8509''
     @ ''5c81054994ad3826e344ba96040810fc0b2ad1de48cfade002c62e5a49a0731ab38344bc1636df16bf607d56855e56d6''
     @ ''84003c718e4bad9e5a099979fcddeeb1c4a7776cd37a3417cb0e184e29ef9bc0e87475ba663be09e00ab562eb7c0f716''
     @ ''5f969a9b42414198ccf1bff2a2c8d689a414ece7662927665689e94db961ebaec5615cbc1a7895c6851ac961432ff111''
     @ ''8d4607d32ef9dc732d51333be4b4d0e30ddea784eca8be47e741be9c19631dc470a52ef4dc13a4f3633fd434d787c170''
     @ ''977b417df598e1d0dde506bb71d6f0bc17ec70e3b03cdc1965cb36993f633b0472e50d0923ac6c66fdf1d3e6459cc121''
     @ ''f0f5f94d09e9dbcf5d690e23233838a0bacb7c638d1b2650a4308cd171b6855126d1da672a6ed85a8d78c286fb56f4ab''
     @ ''3d21497528045c63262c8a42af2f9802c53b7bb8be28e78fe0b5ce45fbb7a1af1a3b28a8d94b7890e3c882e39bc98e9f''
     @ ''0ad76025bf0dd2f00298e7141a226b3d7cee414f604d1e0ba54d11d5fe58bccea6ad77ad2e8c1caacf32459014b7b910''
     @ ''01b1efa8ad172a523fb8e365b577121bf9fd88a2c60c21e821d7b6acb47a5a995e40caced5c223b8fe6de5e18e9d2e58''
     @ ''93aefebb7aae7ff1a146260e2f110e939528213a0025a38ec79aabc861b25ebc509a4674c132aaacb7e0146f14efd11c''
     @ ''fcaf4caa4f775a716ce325e0a435a4d349d720bcf137450afc45046fc1a1f83a9d329777a7084e4aadae7122ce970059''
     @ ''30528eb3c7f7f1129b372887a371155a3ba201a25cbf1dcb64e7cdee092c3141fb5550fe3d0dd82e870e578b2b465008''
     @ ''18113b8f6569773c677385b69a42b77dcba7acffd95fd4452e23aaa1d37e1da2151ea658d40a3596b27ac9f8129dc6cf''
     @ ''0643772624b59f4f461230df471ca26087c3942d5c6687df6082835935a3f87cb762b0c3b1d0dda4a6533965bef1b7b8''
     @ ''292e254c014d090fed857c44c1839c694c0a64e3fad90a11f534722b6ee1574f2e149d55d744de4887024e08511431c0''
     @ ''62750e16c74ab9f3242f2db3ffb12a8d6107faa229d6f6373b07f36d3932b3bdb04c19dd64eadd7f93c3c564c358a1c8''
     @ ''1dcf1c9c31e5b06568f97544c17dc15698c5cb38983a9afc42783faa773a52c9d8260690be9e3156aa5bc1509dea3f69''
     @ ''587695cd6ff172ba83e6a6d8a7d6bbebbbcda3672731983f89bc5831dc37c3f3c5c56facc697f3cb20bd5dbadbd702e5''
     @ ''4844ac2f626901fe159db93dfd4773d8fe73562b846c1fc856d1802762840ebc72d7988bde75cbca70d319d32ce0cc02''
     @ ''53bb2ad455723ee0c7f4736ce6e6665c5aca32a481c53839bc259167b013d0423395eeb9aaaee3206149a7d550d67fc5''
     @ ''fdfe4a8a5c35d2510b664379ab8f72855a2af47abce2a632048eaf89e5cb4a88debc53a595103acce4f1cff18acff07a''
     @ ''fe1eb5716aa1e40b63134c3a3ae9579fa87f515be093c2d29db6d6b65c93661e00636b592704d093cc6716c2342eb185''
     @ ''3d48c85c63ac8a2854462c7b77e7e3bd1eac5bca28ffaa00b5d349f8a547ad875b96a8c2b2910c9301309a3f9138a569''
     @ ''3111f55b3c009ca947c39dfc82d98eb1caa4a9cbe885f786fa86e55be062222f8ba90a974073326b31212aece0a34a60''"

definition counting_seed :: bytes where
  "counting_seed = map word_of_nat [0..<DIL_SEED_SIZE]"

definition mldsa87_fips204_keygen_kat ::
  "('vk, 'sk, 'sig) ml_dsa \<Rightarrow> (rstr \<Rightarrow> string + bytes) \<Rightarrow> (unit, crypto_error) outcome" where
  "mldsa87_fips204_keygen_kat D hex_decode =
     (let seed = counting_seed in
      and_then (expect [Str ''valid hex vector''] (of_result id (hex_decode (trim (lit LAMPS_PUB_HEX)))))
    (\<lambda>expected_pk. and_then (holds (length expected_pk = DIL_PUBLIC_KEY_SIZE))
    (\<lambda>_. and_then (dil_new_key_from_seed D seed)
    (\<lambda>(pk, sk). and_then (assert_that (dil_pk_to_vec D pk = expected_pk)
        [Str ''ML-DSA-87 seed to verifying-key must match the LAMPS/FIPS 204 interop vector''])
    (\<lambda>_. and_then (dil_sign_internal D sk (ascii ''ml-dsa-87 fips204 kat''))
    (\<lambda>sig. and_then (expect [Str ''deserialise vector pk''] (dil_pk_from_bytes D expected_pk))
    (\<lambda>pk_from_vector. assert_ok
        (dil_verify_internal D pk_from_vector (ascii ''ml-dsa-87 fips204 kat'') sig)
        [Str ''assertion failed''])))))))"

definition mldsa87_keygen_regression_lock ::
  "('vk, 'sk, 'sig) ml_dsa \<Rightarrow> (bytes \<Rightarrow> rstr) \<Rightarrow> (unit, crypto_error) outcome" where
  "mldsa87_keygen_regression_lock D hex_encode =
     (let seed = replicate DIL_SEED_SIZE 0x42 in
      and_then (dil_new_key_from_seed D seed)
    (\<lambda>(pk, _). and_then (dil_pk_pack D pk)
    (\<lambda>buf. and_then (holds (length buf = DIL_PUBLIC_KEY_SIZE))
    (\<lambda>_. and_then (slice_to 16 buf)
    (\<lambda>head. assert_that (hex_encode head = lit ''8a9d3f21d2e9cbbdc75ef8f93fbd6ff4'')
        [Str ''ML-DSA-87 seed to public-key derivation changed''])))))"

section \<open>Signing and verifying\<close>

definition sign_verify_roundtrip_typed where
  "sign_verify_roundtrip_typed D getrandom q =
     and_then (fresh_dil_key ''keygen'' D getrandom q)
   (\<lambda>(pk, sk). let msg = ascii ''Blackchain PQC ML-DSA-87 round-trip'' in
      and_then (dil_sign_internal D sk msg)
   (\<lambda>sig. and_then (holds (length sig = DIL_SIGNATURE_SIZE))
   (\<lambda>_. assert_ok (dil_verify_internal D pk msg sig) [Str ''assertion failed''])))"

definition signing_is_deterministic ::
  "('vk, 'sk, 'sig) ml_dsa \<Rightarrow> (unit, crypto_error) outcome" where
  "signing_is_deterministic D =
     and_then (dil_new_key_from_seed D (replicate DIL_SEED_SIZE 0x7))
   (\<lambda>(_, sk). and_then (dil_sign_internal D sk (ascii ''same''))
   (\<lambda>sig. and_then (dil_sign_internal D sk (ascii ''same''))
   (\<lambda>sig'. holds (sig = sig'))))"

definition verify_fails_on_wrong_message_dil where
  "verify_fails_on_wrong_message_dil D getrandom q =
     and_then (fresh_dil_key ''keygen'' D getrandom q)
   (\<lambda>(pk, sk). and_then (dil_sign_internal D sk (ascii ''original message''))
   (\<lambda>sig. assert_err (dil_verify_internal D pk (ascii ''tampered message'') sig)
      [Str ''assertion failed'']))"

definition verify_fails_on_tampered_signature_dil where
  "verify_fails_on_tampered_signature_dil D getrandom q =
     and_then (fresh_dil_key ''keygen'' D getrandom q)
   (\<lambda>(pk, sk). and_then (dil_sign_internal D sk (ascii ''hello''))
   (\<lambda>sig. let mid = length sig div 2 in and_then (xor_at mid 0xFF sig)
   (\<lambda>sig. assert_err (dil_verify_internal D pk (ascii ''hello'') sig) [Str ''assertion failed''])))"

definition verify_fails_with_wrong_public_key where
  "verify_fails_with_wrong_public_key D getrandom q q' =
     and_then (fresh_dil_key ''keygen'' D getrandom q)
   (\<lambda>(_, sk). and_then (fresh_dil_key ''keygen 2'' D getrandom q')
   (\<lambda>(pk_other, _). and_then (dil_sign_internal D sk (ascii ''message''))
   (\<lambda>sig. assert_err (dil_verify_internal D pk_other (ascii ''message'') sig)
      [Str ''assertion failed''])))"

definition sign_verify_empty_and_large_message where
  "sign_verify_empty_and_large_message D getrandom q =
     and_then (fresh_dil_key ''keygen'' D getrandom q)
   (\<lambda>(pk, sk). and_then (dil_sign_internal D sk [])
   (\<lambda>empty. and_then (assert_ok (dil_verify_internal D pk [] empty) [Str ''assertion failed''])
   (\<lambda>_. let big = replicate 65536 0x5A in and_then (dil_sign_internal D sk big)
   (\<lambda>sig. assert_ok (dil_verify_internal D pk big sig) [Str ''assertion failed'']))))"

text \<open>The pattern \<^verbatim>\<open>Err(Error::InvalidSize { context: "signature", .. })\<close>.\<close>

definition is_signature_size_error :: "dil_error \<Rightarrow> bool" where
  "is_signature_size_error e = (case e of InvalidSize _ _ ctx \<Rightarrow> ctx = ''signature'' | _ \<Rightarrow> False)"

definition verify_rejects_short_signature where
  "verify_rejects_short_signature D getrandom q =
     and_then (fresh_dil_key ''keygen'' D getrandom q)
   (\<lambda>(pk, _). match_result
      (dil_verify_internal D pk (ascii ''msg'') (replicate (DIL_SIGNATURE_SIZE - 1) 0))
      (\<lambda>_. holds False) (\<lambda>e. holds (is_signature_size_error e)))"

section \<open>Serialisation\<close>

definition public_key_pack_unpack_roundtrip where
  "public_key_pack_unpack_roundtrip D getrandom q =
     and_then (fresh_dil_key ''keygen'' D getrandom q)
   (\<lambda>(pk, _). and_then (dil_pk_pack D pk)
   (\<lambda>buf. and_then (expect [Str ''unpack''] (dil_pk_unpack D buf))
   (\<lambda>pk2. holds (dil_pk_eq pk pk2))))"

definition public_key_from_bytes_then_verify where
  "public_key_from_bytes_then_verify D getrandom q =
     and_then (fresh_dil_key ''keygen'' D getrandom q)
   (\<lambda>(pk, sk). and_then (dil_sign_internal D sk (ascii ''serialisation test''))
   (\<lambda>sig. and_then (expect [Str ''from_bytes''] (dil_pk_from_bytes D (dil_pk_to_vec D pk)))
   (\<lambda>pk2. assert_ok (dil_verify_internal D pk2 (ascii ''serialisation test'') sig)
      [Str ''assertion failed''])))"

definition public_key_from_bytes_rejects_bad_length ::
  "('vk, 'sk, 'sig) ml_dsa \<Rightarrow> (unit, crypto_error) outcome" where
  "public_key_from_bytes_rejects_bad_length D =
     and_then (assert_err (dil_pk_from_bytes D (replicate (DIL_PUBLIC_KEY_SIZE - 1) 0))
        [Str ''assertion failed''])
   (\<lambda>_. assert_err (dil_pk_from_bytes D (replicate (DIL_PUBLIC_KEY_SIZE + 1) 0))
        [Str ''assertion failed''])"

definition private_key_from_seed_bytes_roundtrips where
  "private_key_from_seed_bytes_roundtrips D getrandom q =
     and_then (fresh_dil_key ''keygen'' D getrandom q)
   (\<lambda>(pk, sk). and_then (dil_seed_bytes D sk)
   (\<lambda>seed. and_then (expect [Str ''from_bytes''] (dil_sk_from_bytes D seed))
   (\<lambda>sk2. and_then (dil_sk_eq D sk sk2)
   (\<lambda>same. and_then (holds same)
   (\<lambda>_. and_then (dil_sign_internal D sk2 (ascii ''seed roundtrip''))
   (\<lambda>sig. assert_ok (dil_verify_internal D pk (ascii ''seed roundtrip'') sig)
      [Str ''assertion failed'']))))))"

definition private_key_from_bytes_rejects_bad_length ::
  "('vk, 'sk, 'sig) ml_dsa \<Rightarrow> (unit, crypto_error) outcome" where
  "private_key_from_bytes_rejects_bad_length D =
     and_then (assert_err (dil_sk_from_bytes D (replicate (DIL_SEED_SIZE - 1) 0))
        [Str ''assertion failed''])
   (\<lambda>_. assert_err (dil_sk_from_bytes D (replicate (DIL_SEED_SIZE + 1) 0))
        [Str ''assertion failed''])"

definition key_equality_and_clone ::
  "('vk, 'sk, 'sig) ml_dsa \<Rightarrow> (unit, crypto_error) outcome" where
  "key_equality_and_clone D =
     (let seed = replicate DIL_SEED_SIZE 0x77 in
      and_then (dil_new_key_from_seed D seed)
    (\<lambda>(pk1, sk1). and_then (dil_new_key_from_seed D (replicate DIL_SEED_SIZE 0x88))
    (\<lambda>(_, sk_other). and_then (dil_sk_clone D sk1)
    (\<lambda>clone. and_then (dil_sk_eq D sk1 clone)
    (\<lambda>same. and_then (holds same)
    (\<lambda>_. and_then (dil_sk_eq D sk1 sk_other)
    (\<lambda>other. and_then (holds (\<not> other))
    (\<lambda>_. holds (dil_pk_eq pk1 pk1)))))))))"

section \<open>The schemes\<close>

definition dyn_scheme_sign_verify_dil where
  "dyn_scheme_sign_verify_dil D getrandom q =
     (let s = dil_scheme D getrandom in
      and_then (expect [Str ''dyn keygen''] (sch_generate_key s q))
    (\<lambda>(pk, sk). and_then (sch_sign s q sk (ascii ''dyn dispatch test'') None)
    (\<lambda>sig. and_then (holds (length sig = DIL_SIGNATURE_SIZE))
    (\<lambda>_. and_then (sch_verify s pk (ascii ''dyn dispatch test'') sig None)
    (\<lambda>ok. and_then (holds ok)
    (\<lambda>_. and_then (sch_verify s pk (ascii ''other'') sig None)
    (\<lambda>other. holds (\<not> other))))))))"

definition dyn_scheme_sign_panics_on_context_dil where
  "dyn_scheme_sign_panics_on_context_dil D getrandom q =
     (let s = dil_scheme D getrandom in
      should_panic (and_then (expect [Str ''dyn keygen''] (sch_generate_key s q))
        (\<lambda>(_, sk). let opts = \<lparr>opts_context = lit ''ctx''\<rparr> in
          sch_sign s q sk (ascii ''msg'') (Some opts))))"

definition dyn_scheme_unmarshal_private_key_roundtrips ::
  "('vk, 'sk, 'sig) ml_dsa \<Rightarrow> ('r \<Rightarrow> nat \<Rightarrow> string + bytes) \<Rightarrow> 'r \<Rightarrow> (unit, crypto_error) outcome" where
  "dyn_scheme_unmarshal_private_key_roundtrips D getrandom q =
     (let s = dil_scheme D getrandom in
      and_then (expect [Str ''dyn keygen''] (sch_generate_key s q))
    (\<lambda>(pk, sk). and_then (expect [Str ''marshal SK''] (sk_marshal sk))
    (\<lambda>sk_bytes. and_then (expect [Str ''unmarshal SK''] (sch_unmarshal_private s sk_bytes))
    (\<lambda>sk2. and_then (sch_sign s q sk2 (ascii ''sk roundtrip'') None)
    (\<lambda>sig. and_then (sch_verify s pk (ascii ''sk roundtrip'') sig None) holds)))))"

definition typed_scheme_sign_verify_and_unmarshal ::
  "('vk, 'sk, 'sig) ml_dsa \<Rightarrow> ('r \<Rightarrow> nat \<Rightarrow> string + bytes) \<Rightarrow> 'r \<Rightarrow> (unit, crypto_error) outcome" where
  "typed_scheme_sign_verify_and_unmarshal D getrandom q =
     and_then (expect [Str ''typed keygen''] (dil_generate_key_typed D (getrandom q DIL_SEED_SIZE)))
   (\<lambda>(pk, sk). and_then (dil_sign_typed D sk (ascii ''typed round-trip'') None)
   (\<lambda>sig. and_then (dil_verify_typed D pk (ascii ''typed round-trip'') sig None)
   (\<lambda>ok. and_then (holds ok)
   (\<lambda>_. and_then (unwrapped (pk_marshal (dil_dyn_pk D pk)))
   (\<lambda>b. and_then (unwrapped (dil_unmarshal_public_key_typed D b))
   (\<lambda>pk2. holds (dil_pk_eq pk pk2)))))))"

definition cross_key_verify_fails_dil where
  "cross_key_verify_fails_dil D getrandom q q' =
     and_then (fresh_dil_key ''keygen A'' D getrandom q)
   (\<lambda>(_, sk_a). and_then (fresh_dil_key ''keygen B'' D getrandom q')
   (\<lambda>(pk_b, _). and_then (dil_sign_internal D sk_a (ascii ''cross test''))
   (\<lambda>sig. assert_err (dil_verify_internal D pk_b (ascii ''cross test'') sig)
      [Str ''assertion failed''])))"

section \<open>The tests that always pass\<close>

text \<open>The key of a seed, and what is known of it.\<close>

definition dil_key_of :: "('vk, 'sk, 'sig) ml_dsa \<Rightarrow> bytes \<Rightarrow> ('vk, 'sk) dil_private_key" where
  "dil_key_of D e =
     \<lparr>dsk_inner = d_from_seed D e, dsk_public = d_verifying_key D (d_from_seed D e)\<rparr>"

lemma dil_key_of_simps [simp]:
  "dsk_inner (dil_key_of D e) = d_from_seed D e"
  "dsk_public (dil_key_of D e) = d_verifying_key D (d_from_seed D e)"
  by (simp_all add: dil_key_of_def)

lemma dil_key_facts:
  assumes "ml_dsa_laws D" and "length e = 32"
  shows "dil_new_key_from_seed D e = Ok (dsk_public (dil_key_of D e), dil_key_of D e)"
    and "dil_seed_bytes D (dil_key_of D e) = Ok e"
    and "dil_sk_from_bytes D e = Ok (dil_key_of D e)"
  using assms(2) by (simp_all add: dil_new_key_from_seed_def dil_from_seed_eq [OF assms(1)] dil_key_of_def
      dil_seed_bytes_Ok [OF assms(1)] dil_sk_from_bytes_iff [OF assms(1)] ml_dsa_lawsD [OF assms(1)])

lemma dil_public_facts:
  assumes "ml_dsa_laws D"
  shows "dil_pk_from_bytes D (dil_pk_to_vec D v) = Ok v"
    and "dil_pk_pack D v = Ok (dil_pk_to_vec D v)"
    and "length (dil_pk_to_vec D v) = 2592"
  by (simp_all add: dil_pk_from_bytes_iff [OF assms] dil_pk_to_vec_def dil_pk_pack_def size_consts
      ml_dsa_lawsD [OF assms])

lemma dil_key_signs:
  assumes "ml_dsa_laws D"
  obtains sig where "(dil_sign_internal D (dil_key_of D e) m :: (bytes, crypto_error) outcome) = Ok sig"
    "length sig = 4627"
    "dil_verify_internal D (d_verifying_key D (d_from_seed D e)) m sig = Ok ()"
proof -
  obtain g where g: "d_try_sign D (d_from_seed D e) m = Inr g" using ml_dsa_lawsD(9) [OF assms] by blast
  then have "d_verify_with_context D (d_verifying_key D (d_from_seed D e)) m [] g"
    by (rule ml_dsa_lawsD(10) [OF assms])
  with g show thesis
    by (intro that [of "d_encode_sig D g"])
      (simp_all add: dil_sign_internal_def dil_verify_internal_def size_consts ml_dsa_lawsD [OF assms])
qed

lemma constants_match_ml_dsa_87_iff:
  "constants_match_ml_dsa_87 vk sig = Ok () \<longleftrightarrow> length vk = 2592 \<and> length sig = 4627"
  by (auto simp: constants_match_ml_dsa_87_def size_consts)

lemma scheme_metadata_dil_Ok: "scheme_metadata_dil D getrandom = Ok ()"
  by (simp add: scheme_metadata_dil_def dil_scheme_def Let_def)

lemma dil_size_tests:
  assumes "ml_dsa_laws D"
  shows "derive_key_panics_on_wrong_seed_size_dil D = Ok ()"
    and "derive_key_with_seed_errors D = Ok ()"
    and "public_key_from_bytes_rejects_bad_length D = Ok ()"
    and "private_key_from_bytes_rejects_bad_length D = Ok ()"
  by (simp_all add: derive_key_panics_on_wrong_seed_size_dil_def dil_dyn_derive_key_def should_panic_iff
      derive_key_with_seed_errors_def dil_derive_key_with_seed_def assert_err_def size_consts
      public_key_from_bytes_rejects_bad_length_def dil_pk_from_bytes_iff [OF assms]
      private_key_from_bytes_rejects_bad_length_def dil_sk_from_bytes_iff [OF assms])

lemma dil_derivation_tests:
  assumes L: "ml_dsa_laws D"
  shows "derive_key_is_deterministic_dil D = Ok ()"
    and "signing_is_deterministic D = Ok ()"
    and "key_equality_and_clone D = Ok ()"
proof -
  note k = dil_key_facts [OF L] dil_public_facts [OF L] size_consts
  show "derive_key_is_deterministic_dil D = Ok ()"
    by (simp add: derive_key_is_deterministic_dil_def k Let_def)
  show "signing_is_deterministic D = Ok ()"
    by (rule dil_key_signs [OF L, of "replicate 32 7" "ascii ''same''"])
      (simp add: signing_is_deterministic_def k)
  have "replicate 32 0x77 \<noteq> replicate 32 (0x88 :: byte)" by simp
  then show "key_equality_and_clone D = Ok ()"
    by (simp add: key_equality_and_clone_def k Let_def dil_sk_clone_def dil_sk_eq_def ct_eq_def dil_pk_eq_def)
qed

lemma fresh_dil_key_Ok:
  assumes "ml_dsa_laws D" and "getrandom q 32 = Inr e" "length e = 32"
  shows "fresh_dil_key t D getrandom q = Ok (dsk_public (dil_key_of D e), dil_key_of D e)"
  using assms(2,3) by (simp add: fresh_dil_key_def dil_generate_key_def size_consts
      dil_from_seed_eq [OF assms(1)] dil_key_of_def)

lemma dil_scheme_key:
  assumes "ml_dsa_laws D" and "getrandom q 32 = Inr e" "length e = 32"
  shows "sch_generate_key (dil_scheme D getrandom) q =
    Ok (dil_dyn_pk D (dsk_public (dil_key_of D e)), dil_dyn_sk D (dil_key_of D e))"
  using assms(2,3) by (simp add: dil_scheme_def dil_generate_key_def size_consts
      dil_from_seed_eq [OF assms(1)] dil_key_of_def)

lemma dil_key_tests:
  assumes L: "ml_dsa_laws D" and q: "getrandom q 32 = Inr e" "length e = 32"
  shows "generate_key_produces_correct_sizes D getrandom q = Ok ()"
    and "sign_verify_roundtrip_typed D getrandom q = Ok ()"
    and "sign_verify_empty_and_large_message D getrandom q = Ok ()"
    and "verify_rejects_short_signature D getrandom q = Ok ()"
    and "public_key_pack_unpack_roundtrip D getrandom q = Ok ()"
    and "public_key_from_bytes_then_verify D getrandom q = Ok ()"
    and "private_key_from_seed_bytes_roundtrips D getrandom q = Ok ()"
proof -
  note d = fresh_dil_key_Ok [of D getrandom q e, OF L q] dil_key_facts [OF L] dil_public_facts [OF L] q(2) Let_def
  note s = dil_key_signs [OF L, of e]
  show "generate_key_produces_correct_sizes D getrandom q = Ok ()"
    by (simp add: generate_key_produces_correct_sizes_def d size_consts)
  show "sign_verify_roundtrip_typed D getrandom q = Ok ()"
    by (rule s [of "ascii ''Blackchain PQC ML-DSA-87 round-trip''"])
      (simp add: sign_verify_roundtrip_typed_def d size_consts)
  show "sign_verify_empty_and_large_message D getrandom q = Ok ()"
    by (rule s [of "[]"], rule s [of "replicate 65536 0x5A"])
      (simp add: sign_verify_empty_and_large_message_def d)
  show "verify_rejects_short_signature D getrandom q = Ok ()"
    by (simp add: verify_rejects_short_signature_def d dil_verify_internal_def size_consts
        is_signature_size_error_def)
  show "public_key_pack_unpack_roundtrip D getrandom q = Ok ()"
    by (simp add: public_key_pack_unpack_roundtrip_def d dil_pk_unpack_def dil_pk_eq_def)
  show "public_key_from_bytes_then_verify D getrandom q = Ok ()"
    by (rule s [of "ascii ''serialisation test''"]) (simp add: public_key_from_bytes_then_verify_def d)
  show "private_key_from_seed_bytes_roundtrips D getrandom q = Ok ()"
    by (rule s [of "ascii ''seed roundtrip''"])
      (simp add: private_key_from_seed_bytes_roundtrips_def d dil_sk_eq_def ct_eq_def)
qed

lemma dil_scheme_tests:
  assumes L: "ml_dsa_laws D" and q: "getrandom q 32 = Inr e" "length e = 32"
  shows "dyn_scheme_sign_panics_on_context_dil D getrandom q = Ok ()"
    and "dyn_scheme_unmarshal_private_key_roundtrips D getrandom q = Ok ()"
    and "typed_scheme_sign_verify_and_unmarshal D getrandom q = Ok ()"
proof -
  note g = dil_scheme_key [of D getrandom q e, OF L q]
  note d = dil_key_facts [OF L] dil_public_facts [OF L] q Let_def dil_dyn_pk_def dil_dyn_sk_def
    dil_scheme_def dil_dyn_sign_def dil_dyn_verify_def dil_pk_try_from_def has_context_def
  note s = dil_key_signs [OF L, of e]
  show "dyn_scheme_sign_panics_on_context_dil D getrandom q = Ok ()"
    by (simp add: dyn_scheme_sign_panics_on_context_dil_def g Let_def should_panic_iff)
      (simp add: d lit_def)
  show "dyn_scheme_unmarshal_private_key_roundtrips D getrandom q = Ok ()"
    by (rule s [of "ascii ''sk roundtrip''"], simp add: dyn_scheme_unmarshal_private_key_roundtrips_def g Let_def)
      (auto simp: d)
  show "typed_scheme_sign_verify_and_unmarshal D getrandom q = Ok ()"
    by (rule s [of "ascii ''typed round-trip''"])
      (simp add: typed_scheme_sign_verify_and_unmarshal_def dil_generate_key_typed_def dil_generate_key_def
        dil_from_seed_eq [OF L] dil_key_of_def [symmetric] size_consts dil_sign_typed_def dil_verify_typed_def
        dil_unmarshal_public_key_typed_def dil_pk_eq_def d)
qed

section \<open>The tests with a condition\<close>

text \<open>The two vectors fix the verifying keys of two seeds.\<close>

lemma mldsa87_fips204_keygen_kat_iff:
  assumes L: "ml_dsa_laws D"
  shows "mldsa87_fips204_keygen_kat D hex_decode = Ok () \<longleftrightarrow>
    hex_decode (trim (lit LAMPS_PUB_HEX)) = Inr (d_encode_vk D (d_verifying_key D (d_from_seed D counting_seed)))"
proof -
  have l: "length counting_seed = 32" by (simp add: counting_seed_def size_consts)
  show ?thesis
    by (rule dil_key_signs [OF L, of counting_seed "ascii ''ml-dsa-87 fips204 kat''"])
      (auto simp: mldsa87_fips204_keygen_kat_def Let_def dil_key_facts [OF L l] dil_pk_to_vec_def size_consts
        ml_dsa_lawsD [OF L] dil_pk_from_bytes_iff [OF L])
qed

lemma mldsa87_keygen_regression_lock_iff:
  assumes L: "ml_dsa_laws D"
  shows "mldsa87_keygen_regression_lock D hex_encode = Ok () \<longleftrightarrow>
    hex_encode (take 16 (d_encode_vk D (d_verifying_key D (d_from_seed D (replicate 32 0x42))))) =
      lit ''8a9d3f21d2e9cbbdc75ef8f93fbd6ff4''"
  by (simp add: mldsa87_keygen_regression_lock_def Let_def dil_key_facts [OF L] dil_public_facts [OF L]
      size_consts) (simp add: dil_pk_to_vec_def)

lemma derive_key_differs_for_different_seeds_dil_iff:
  assumes L: "ml_dsa_laws D"
  shows "derive_key_differs_for_different_seeds_dil D = Ok () \<longleftrightarrow>
    d_verifying_key D (d_from_seed D (replicate 32 0x11)) \<noteq> d_verifying_key D (d_from_seed D (replicate 32 0x22))"
  using ml_dsa_lawsD(6) [OF L]
  by (auto simp: derive_key_differs_for_different_seeds_dil_def dil_key_facts [OF L] dil_pk_to_vec_def
      size_consts) metis

text \<open>
  The negative tests ask that a signature is none of another message, key or byte string; a law of
  the crate cannot promise that.
\<close>

lemma dil_negative_tests:
  assumes L: "ml_dsa_laws D" and q: "getrandom q 32 = Inr e" "length e = 32"
    and q': "getrandom q' 32 = Inr e'" "length e' = 32"
  defines "pk \<equiv> d_verifying_key D (d_from_seed D e)" and "pk' \<equiv> d_verifying_key D (d_from_seed D e')"
    and "sig \<equiv> \<lambda>m. projr (dil_sign_internal D (dil_key_of D e) m :: (bytes, crypto_error) outcome)"
  shows "generate_key_is_non_deterministic_dil D getrandom q q' = Ok () \<longleftrightarrow> pk \<noteq> pk'"
    and "verify_fails_on_wrong_message_dil D getrandom q = Ok () \<longleftrightarrow>
      \<not> accepted (dil_verify_internal D pk (ascii ''tampered message'') (sig (ascii ''original message'')))"
    and "verify_fails_on_tampered_signature_dil D getrandom q = Ok () \<longleftrightarrow>
      \<not> accepted (dil_verify_internal D pk (ascii ''hello'')
        ((sig (ascii ''hello''))[2313 := sig (ascii ''hello'') ! 2313 XOR 0xFF]))"
    and "verify_fails_with_wrong_public_key D getrandom q q' = Ok () \<longleftrightarrow>
      \<not> accepted (dil_verify_internal D pk' (ascii ''message'') (sig (ascii ''message'')))"
    and "cross_key_verify_fails_dil D getrandom q q' = Ok () \<longleftrightarrow>
      \<not> accepted (dil_verify_internal D pk' (ascii ''cross test'') (sig (ascii ''cross test'')))"
    and "dyn_scheme_sign_verify_dil D getrandom q = Ok () \<longleftrightarrow>
      \<not> accepted (dil_verify_internal D pk (ascii ''other'') (sig (ascii ''dyn dispatch test'')))"
proof -
  note d = fresh_dil_key_Ok [of D getrandom q e, OF L q] fresh_dil_key_Ok [of D getrandom q' e', OF L q']
    dil_key_facts [OF L] dil_public_facts [OF L] q(2) q'(2) Let_def pk_def pk'_def sig_def
    assert_err_iff [OF dil_verify_panic_free]
  note s = dil_key_signs [OF L, of e]
  have i: "dil_pk_to_vec D v = dil_pk_to_vec D w \<longleftrightarrow> v = w" for v w
    using ml_dsa_lawsD(6) [OF L] unfolding dil_pk_to_vec_def by metis
  show "generate_key_is_non_deterministic_dil D getrandom q q' = Ok () \<longleftrightarrow> pk \<noteq> pk'"
    by (simp add: generate_key_is_non_deterministic_dil_def d i)
  show "verify_fails_on_wrong_message_dil D getrandom q = Ok () \<longleftrightarrow>
      \<not> accepted (dil_verify_internal D pk (ascii ''tampered message'') (sig (ascii ''original message'')))"
    by (rule s [of "ascii ''original message''"])
      (simp add: verify_fails_on_wrong_message_dil_def d del: accepted_iff)
  show "verify_fails_on_tampered_signature_dil D getrandom q = Ok () \<longleftrightarrow>
      \<not> accepted (dil_verify_internal D pk (ascii ''hello'')
        ((sig (ascii ''hello''))[2313 := sig (ascii ''hello'') ! 2313 XOR 0xFF]))"
    by (rule s [of "ascii ''hello''"])
      (simp add: verify_fails_on_tampered_signature_dil_def d del: accepted_iff)
  show "verify_fails_with_wrong_public_key D getrandom q q' = Ok () \<longleftrightarrow>
      \<not> accepted (dil_verify_internal D pk' (ascii ''message'') (sig (ascii ''message'')))"
    by (rule s [of "ascii ''message''"])
      (simp add: verify_fails_with_wrong_public_key_def d del: accepted_iff)
  show "cross_key_verify_fails_dil D getrandom q q' = Ok () \<longleftrightarrow>
      \<not> accepted (dil_verify_internal D pk' (ascii ''cross test'') (sig (ascii ''cross test'')))"
    by (rule s [of "ascii ''cross test''"])
      (simp add: cross_key_verify_fails_dil_def d del: accepted_iff)
  show "dyn_scheme_sign_verify_dil D getrandom q = Ok () \<longleftrightarrow>
      \<not> accepted (dil_verify_internal D pk (ascii ''other'') (sig (ascii ''dyn dispatch test'')))"
    by (rule s [of "ascii ''dyn dispatch test''"],
        simp add: dyn_scheme_sign_verify_dil_def dil_scheme_key [of D getrandom q e, OF L q] Let_def)
      (simp add: d dil_scheme_def dil_dyn_pk_def dil_dyn_sk_def dil_dyn_sign_def dil_dyn_verify_def
        dil_pk_try_from_def has_context_def is_ok_panic_free [OF dil_verify_panic_free] size_consts)
qed

end
