(* ===== verification/P521_Tests.thy ===== *)
theory P521_Tests
  imports Attacks Hex_Text
begin

unbundle bit_operations_syntax

text \<open>
  The unit tests inside \<^verbatim>\<open>src/mdecc/p521.rs\<close>, as functions that return or panic.  \<open>r\<close>, \<open>r1\<close>,
  \<open>r2\<close> are uses of the system's randomness, by key generation and by signing.  The lemmas show
  which tests pass for every implementation of the crate that keeps its laws, and for the others
  the exact condition.
\<close>

section \<open>Constants and sizes\<close>

definition constants_are_correct_p521 :: "(unit, crypto_error) outcome" where
  "constants_are_correct_p521 =
     and_then (assert_that (P521_PRIVATE_KEY_SIZE = 66) [Str ''P-521 scalar is 66 bytes''])
   (\<lambda>_. and_then (assert_that (P521_PUBLIC_KEY_SIZE = 133)
        [Str ''uncompressed SEC1 P-521 point is 133 bytes''])
   (\<lambda>_. and_then (assert_that (P521_SEED_SIZE = P521_PRIVATE_KEY_SIZE)
        [Str ''seed and private key are the same size''])
   (\<lambda>_. let sig_size = P521_SIGNATURE_SIZE; priv_key_size = P521_PRIVATE_KEY_SIZE in
      assert_that (sig_size > priv_key_size)
        [Str ''max DER signature must be larger than the scalar''])))"

definition scheme_metadata_p521 ::
  "('vk, 'sk, 'sig, 'r) p521 \<Rightarrow> hashes \<Rightarrow> (unit, crypto_error) outcome" where
  "scheme_metadata_p521 P H =
     (let s = p521_scheme P H in
      and_then (holds (sch_name s = ''P-521''))
    (\<lambda>_. and_then (holds (sch_public_key_size s = P521_PUBLIC_KEY_SIZE))
    (\<lambda>_. and_then (holds (sch_private_key_size s = P521_PRIVATE_KEY_SIZE))
    (\<lambda>_. and_then (holds (sch_signature_size s = P521_SIGNATURE_SIZE))
    (\<lambda>_. and_then (holds (sch_seed_size s = P521_SEED_SIZE))
    (\<lambda>_. assert_that (\<not> sch_supports_context s) [Str ''P-521 must NOT advertise context support'']))))))"

text \<open>\<^verbatim>\<open>generate_key().expect(text)\<close>, with which most of the tests begin.\<close>

definition fresh_p521_key ::
  "string \<Rightarrow> ('vk, 'sk, 'sig, 'r) p521 \<Rightarrow> 'r \<Rightarrow> ('vk \<times> 'sk, crypto_error) outcome" where
  "fresh_p521_key text P r = expect [Str text] (p521_generate_key P r)"

definition generate_key_sizes where
  "generate_key_sizes P r =
     and_then (fresh_p521_key ''keygen'' P r)
   (\<lambda>(pk, sk). and_then (holds (length (p521_pk_as_bytes P pk) = P521_PUBLIC_KEY_SIZE))
   (\<lambda>_. holds (length (p521_sk_as_bytes P sk) = P521_PRIVATE_KEY_SIZE)))"

definition generate_key_is_non_deterministic_p521 where
  "generate_key_is_non_deterministic_p521 P r r' =
     and_then (fresh_p521_key ''keygen 1'' P r)
   (\<lambda>(pk1, _). and_then (fresh_p521_key ''keygen 2'' P r')
   (\<lambda>(pk2, _). assert_that (p521_pk_as_bytes P pk1 \<noteq> p521_pk_as_bytes P pk2)
      [Str ''independent keygens must produce distinct keys'']))"

section \<open>Derivation\<close>

definition derive_key_is_deterministic_p521 ::
  "('vk, 'sk, 'sig, 'r) p521 \<Rightarrow> hashes \<Rightarrow> (unit, crypto_error) outcome" where
  "derive_key_is_deterministic_p521 P H =
     (let seed = replicate P521_SEED_SIZE 0x01 in
      and_then (p521_derive_keypair_from_seed P H seed)
    (\<lambda>(pk1, sk1). and_then (p521_derive_keypair_from_seed P H seed)
    (\<lambda>(pk2, sk2). and_then (assert_that (p521_pk_as_bytes P pk1 = p521_pk_as_bytes P pk2)
        [Str ''same seed, same public key''])
    (\<lambda>_. assert_that (p521_sk_as_bytes P sk1 = p521_sk_as_bytes P sk2)
        [Str ''same seed, same private key'']))))"

text \<open>A seed that is zero but for its first byte.\<close>

definition first_byte_seed :: "byte \<Rightarrow> bytes" where
  "first_byte_seed b = (replicate P521_SEED_SIZE 0)[0 := b]"

definition derive_key_differs_for_different_seeds_p521 ::
  "('vk, 'sk, 'sig, 'r) p521 \<Rightarrow> hashes \<Rightarrow> (unit, crypto_error) outcome" where
  "derive_key_differs_for_different_seeds_p521 P H =
     and_then (p521_derive_keypair_from_seed P H (first_byte_seed 0x01))
   (\<lambda>(pk_a, _). and_then (p521_derive_keypair_from_seed P H (first_byte_seed 0x02))
   (\<lambda>(pk_b, _). assert_that (p521_pk_as_bytes P pk_a \<noteq> p521_pk_as_bytes P pk_b)
      [Str ''different seeds, different keys'']))"

definition derive_key_panics_on_short_seed ::
  "('vk, 'sk, 'sig, 'r) p521 \<Rightarrow> hashes \<Rightarrow> (unit, crypto_error) outcome" where
  "derive_key_panics_on_short_seed P H =
     should_panic (sch_derive_key (p521_scheme P H) (replicate (P521_SEED_SIZE - 1) 0x01))"

definition derive_key_panics_on_long_seed ::
  "('vk, 'sk, 'sig, 'r) p521 \<Rightarrow> hashes \<Rightarrow> (unit, crypto_error) outcome" where
  "derive_key_panics_on_long_seed P H =
     should_panic (sch_derive_key (p521_scheme P H) (replicate (P521_SEED_SIZE + 1) 0x01))"

section \<open>Signing and verifying\<close>

definition sign_verify_roundtrip_p521 where
  "sign_verify_roundtrip_p521 P r r1 =
     and_then (fresh_p521_key ''keygen'' P r)
   (\<lambda>(pk, sk). let msg = ascii ''Blackchain P-521 ECDSA round-trip''; sig = p521_sign_msg P r1 sk msg in
      assert_ok (p521_verify_sig P pk msg sig) [Str ''valid signature must verify''])"

definition signature_is_randomized where
  "signature_is_randomized P r r1 r2 =
     and_then (fresh_p521_key ''keygen'' P r)
   (\<lambda>(pk, sk). let msg = ascii ''randomization test'';
            sig1 = p521_sign_msg P r1 sk msg; sig2 = p521_sign_msg P r2 sk msg in
      and_then (assert_ok (p521_verify_sig P pk msg sig1) [Str ''sig1 must verify''])
   (\<lambda>_. and_then (assert_ok (p521_verify_sig P pk msg sig2) [Str ''sig2 must verify''])
   (\<lambda>_. assert_that (sig1 \<noteq> sig2) [Str ''randomized ECDSA must produce distinct signatures''])))"

text \<open>The loop over the sixteen signatures; \<open>draws i\<close> is the randomness of the \<open>i\<close>th.\<close>

fun low_s_probes :: "('vk, 'sk, 'sig, 'r) p521 \<Rightarrow> 'sk \<Rightarrow> 'r list \<Rightarrow> (unit, crypto_error) outcome" where
  "low_s_probes P sk [] = Ok ()"
| "low_s_probes P sk (r # rs) =
     (let sig_bytes = p521_sign_msg P r sk (ascii ''low-s canonical probe'') in
      and_then (assert_that (length sig_bytes = P521_SIGNATURE_SIZE)
        [Str ''signature must be fixed-width''])
    (\<lambda>_. and_then (expect [Str ''valid signature bytes''] (of_result id (p_sig_from_slice P sig_bytes)))
    (\<lambda>sig. and_then (assert_that (p_normalize_s P sig = None)
        [Str ''sign_msg must always emit low-S canonical form''])
    (\<lambda>_. low_s_probes P sk rs))))"

definition signatures_are_low_s_canonical ::
  "('vk, 'sk, 'sig, 'r) p521 \<Rightarrow> 'r \<Rightarrow> (nat \<Rightarrow> 'r) \<Rightarrow> (unit, crypto_error) outcome" where
  "signatures_are_low_s_canonical P r draws =
     and_then (fresh_p521_key ''keygen'' P r) (\<lambda>(_, sk). low_s_probes P sk (map draws [0..<16]))"

text \<open>
  The NIST vectors.  \<^verbatim>\<open>verify_prehash\<close> of the crate is used by this test only.
\<close>

record fips_vector =
  fv_m :: string
  fv_qx :: string
  fv_qy :: string
  fv_r :: string
  fv_s :: string

definition fips_vectors :: "fips_vector list" where
  "fips_vectors =
    [\<lparr>fv_m = ''000065f83408092261bda599389df03382c5be01a81fe00a36f3f4bb6541263f80''
       @ ''1627c440e50809712b0cace7c217e6e5051af81de9bfec3204dcd63c4f9a741047'',
      fv_qx = ''0061387fd6b95914e885f912edfbb5fb274655027f216c4091ca83e19336740fd8''
       @ ''1aedfe047f51b42bdf68161121013e0d55b117a14e4303f926c8debb77a7fdaad1'',
      fv_qy = ''00e7d0c75c38626e895ca21526b9f9fdf84dcecb93f2b233390550d2b1463b7ee3''
       @ ''f58df7346435ff0434199583c97c665a97f12f706f2357da4b40288def888e59e6'',
      fv_r = ''004de826ea704ad10bc0f7538af8a3843f284f55c8b946af9235af5af74f2b76e0''
       @ ''99e4bc72fd79d28a380f8d4b4c919ac290d248c37983ba05aea42e2dd79fdd33e8'',
      fv_s = ''0087488c859a96fea266ea13bf6d114c429b163be97a57559086edb64aed4a1859''
       @ ''4b46fb9efc7fd25d8b2de8f09ca0587f54bd287299f47b2ff124aac566e8ee3b43''\<rparr>,
     \<lparr>fv_m = ''0000a6200971c6a289e2fcb80f78ec08a5079ea2675efd68bcab479552aa5bcb8e''
       @ ''df3c993c79d7cebcc23c20e5af41723052b871134cc71d5c57206182a7068cc39b'',
      fv_qx = ''004d5c8afee038984d2ea96681ec0dccb6b52dfa4ee2e2a77a23c8cf43ef19905a''
       @ ''34d6f5d8c5cf0981ed804d89d175b17d1a63522ceb1e785c0f5a1d2f3d15e51352'',
      fv_qy = ''0014368b8e746807b2b68f3615cd78d761a464ddd7918fc8df51d225962fdf1e3d''
       @ ''c243e265100ff0ec133359e332e44dd49afd8e5f38fe86133573432d33c02fa0a3'',
      fv_r = ''01a3c4a6386c4fb614fba2cb9e74201e1aaa0001aa931a2a939c92e04b8344535a''
       @ ''20f53c6e3c69c75c2e5d2fe3549ed27e6713cb0f4a9a94f6189eb33bff7d453fce'',
      fv_s = ''016a997f81aa0bea2e1469c8c1dab7df02a8b2086ba482c43af04f2174831f2b17''
       @ ''61658795adfbdd44190a9b06fe10e578987369f3a2eced147cff89d8c2818f7471''\<rparr>,
     \<lparr>fv_m = ''000046ff533622cc90321a3aeb077ec4db4fbf372c7a9db48b59de7c5d59e63141''
       @ ''10676ba5491bd20d0f02774eef96fc2e88ca99857d21ef255184c93fb1ff4f01d3'',
      fv_qx = ''00c2d540a7557f4530de35bbd94da8a6defbff783f54a65292f8f76341c996cea3''
       @ ''8795805a1b97174a9147a8644282e0d7040a6f83423ef2a0453248156393a1782e'',
      fv_qy = ''0119f746c5df8cec24e4849ac1870d0d8594c799d2ceb6c3bdf891dfbd2242e7ea''
       @ ''24d6aec3166214734acc4cbf4da8f71e2429c5c187b2b3a048527c861f58a9b97f'',
      fv_r = ''010ed3ab6d07a15dc3376494501c27ce5f78c8a2b30cc809d3f9c3bf1aef437e59''
       @ ''0ef66abae4e49065ead1af5f752ec145acfa98329f17bca9991a199579c41f9229'',
      fv_s = ''008c3457fe1f93d635bb52df9218bf3b49a7a345b8a8a988ac0a254340546752cd''
       @ ''df02e6ce47eee58ea398fdc9130e55a4c09f5ae548c715f5bcd539f07a34034d78''\<rparr>]"

definition fips_vector_check ::
  "('vk, 'sk, 'sig, 'r) p521 \<Rightarrow> ('vk \<Rightarrow> bytes \<Rightarrow> 'sig \<Rightarrow> string + unit) \<Rightarrow> (rstr \<Rightarrow> string + bytes)
     \<Rightarrow> nat \<Rightarrow> fips_vector \<Rightarrow> (unit, crypto_error) outcome" where
  "fips_vector_check P verify_prehash hex_decode i v =
     and_then (unwrapped (of_result id (hex_decode (lit (fv_qx v)))))
   (\<lambda>qx. and_then (unwrapped (of_result id (hex_decode (lit (fv_qy v)))))
   (\<lambda>qy. and_then (unwrapped (of_result id (hex_decode (lit (fv_m v)))))
   (\<lambda>m. and_then (unwrapped (of_result id (hex_decode (lit (fv_r v)))))
   (\<lambda>r. and_then (unwrapped (of_result id (hex_decode (lit (fv_s v)))))
   (\<lambda>s. let sec1 = 0x04 # qx @ qy in
      and_then (holds (length sec1 = P521_PUBLIC_KEY_SIZE))
   (\<lambda>_. and_then (expect [Str ''vector '', Num i, Str '': from_bytes rejected a valid NIST key: '', Ext ''e'']
        (p521_pk_from_bytes P sec1))
   (\<lambda>ours. and_then (assert_that (p521_pk_as_bytes P ours = sec1)
        [Str ''vector '', Num i, Str '': non-canonical re-encoding''])
   (\<lambda>_. and_then (expect [Str ''valid NIST key''] (of_result id (p_vk_from_sec1_bytes P sec1)))
   (\<lambda>vk. let sig_bytes = r @ s in
      and_then (expect [Str ''valid NIST signature''] (of_result id (p_sig_from_slice P sig_bytes)))
   (\<lambda>sig. and_then (assert_ok (of_result id (verify_prehash vk m sig))
        [Str ''vector '', Num i, Str '': NIST signature failed to verify''])
   (\<lambda>_. and_then (xor_first 0x01 m)
   (\<lambda>bad_m. assert_err (of_result id (verify_prehash vk bad_m sig))
        [Str ''vector '', Num i, Str '': tampered prehash must not verify'']))))))))))))"

fun fips_loop where
  "fips_loop P verify_prehash hex_decode i [] = Ok ()"
| "fips_loop P verify_prehash hex_decode i (v # vs) =
     and_then (fips_vector_check P verify_prehash hex_decode i v)
       (\<lambda>_. fips_loop P verify_prehash hex_decode (i + 1) vs)"

definition p521_fips186_4_verify_kat where
  "p521_fips186_4_verify_kat P verify_prehash hex_decode =
     fips_loop P verify_prehash hex_decode 0 fips_vectors"

text \<open>\<open>negate\<close> builds the signature with the scalar \<open>s\<close> negated, as in the attack tests.\<close>

definition verify_rejects_malleated_high_s ::
  "('vk, 'sk, 'sig, 'r) p521 \<Rightarrow> ('sig \<Rightarrow> string + 'sig) \<Rightarrow> 'r \<Rightarrow> 'r \<Rightarrow> (unit, crypto_error) outcome" where
  "verify_rejects_malleated_high_s P negate r r1 =
     and_then (fresh_p521_key ''keygen'' P r)
   (\<lambda>(pk, sk). let msg = ascii ''low-s malleability guard''; sig = p521_sign_msg P r1 sk msg in
      and_then (assert_ok (p521_verify_sig P pk msg sig) [Str ''low-S signature must verify''])
   (\<lambda>_. and_then (expect [Str ''parse our signature''] (of_result id (p_sig_from_slice P sig)))
   (\<lambda>parsed. and_then (expect [Str ''build high-S signature''] (of_result id (negate parsed)))
   (\<lambda>high. let high_bytes = p_sig_to_bytes P high in
      and_then (holds (length high_bytes = P521_SIGNATURE_SIZE))
   (\<lambda>_. assert_err (p521_verify_sig P pk msg high_bytes)
        [Str ''verify_sig must reject the high-S malleated twin''])))))"

definition verify_fails_on_wrong_message_p521 where
  "verify_fails_on_wrong_message_p521 P r r1 =
     and_then (fresh_p521_key ''keygen'' P r)
   (\<lambda>(pk, sk). let sig = p521_sign_msg P r1 sk (ascii ''original'') in
      assert_err (p521_verify_sig P pk (ascii ''tampered'') sig)
        [Str ''signature must not verify against a different message''])"

definition verify_fails_on_tampered_signature_p521 where
  "verify_fails_on_tampered_signature_p521 P r r1 =
     and_then (fresh_p521_key ''keygen'' P r)
   (\<lambda>(pk, sk). let sig = p521_sign_msg P r1 sk (ascii ''hello''); mid = length sig div 2 in
      and_then (xor_at mid 0xFF sig)
   (\<lambda>sig. assert_err (p521_verify_sig P pk (ascii ''hello'') sig)
        [Str ''tampered signature must not verify'']))"

definition verify_fails_with_wrong_key_p521 where
  "verify_fails_with_wrong_key_p521 P r r' r1 =
     and_then (fresh_p521_key ''keygen'' P r)
   (\<lambda>(_, sk). and_then (fresh_p521_key ''keygen other'' P r')
   (\<lambda>(pk_other, _). let sig = p521_sign_msg P r1 sk (ascii ''message'') in
      assert_err (p521_verify_sig P pk_other (ascii ''message'') sig)
        [Str ''signature must not verify under a foreign public key'']))"

definition sign_verify_empty_message_p521 where
  "sign_verify_empty_message_p521 P r r1 =
     and_then (fresh_p521_key ''keygen'' P r)
   (\<lambda>(pk, sk). let sig = p521_sign_msg P r1 sk [] in
      assert_ok (p521_verify_sig P pk [] sig) [Str ''empty-message signature must verify''])"

definition sign_verify_large_message_p521 where
  "sign_verify_large_message_p521 P r r1 =
     and_then (fresh_p521_key ''keygen'' P r)
   (\<lambda>(pk, sk). let msg = replicate 65536 0xA5; sig = p521_sign_msg P r1 sk msg in
      assert_ok (p521_verify_sig P pk msg sig) [Str ''large-message signature must verify''])"

section \<open>Serialisation\<close>

definition public_key_marshal_roundtrip_p521 where
  "public_key_marshal_roundtrip_p521 P r =
     and_then (fresh_p521_key ''keygen'' P r)
   (\<lambda>(pk, _). and_then (expect [Str ''deser failed''] (p521_pk_from_bytes P (p521_pk_as_bytes P pk)))
   (\<lambda>pk2. assert_that (p521_pk_eq P pk pk2) [Str ''public key round-trip must preserve equality'']))"

definition deserialized_public_key_verifies where
  "deserialized_public_key_verifies P r r1 =
     and_then (fresh_p521_key ''keygen'' P r)
   (\<lambda>(pk, sk). let sig = p521_sign_msg P r1 sk (ascii ''deser test'') in
      and_then (expect [Str ''deser''] (p521_pk_from_bytes P (p521_pk_as_bytes P pk)))
   (\<lambda>pk2. assert_ok (p521_verify_sig P pk2 (ascii ''deser test'') sig)
        [Str ''deserialized public key must verify'']))"

definition private_key_marshal_roundtrip where
  "private_key_marshal_roundtrip P r =
     and_then (fresh_p521_key ''keygen'' P r)
   (\<lambda>(_, sk). and_then (expect [Str ''deser failed''] (p521_sk_from_bytes P (p521_sk_as_bytes P sk)))
   (\<lambda>sk2. assert_that (p521_sk_eq P sk sk2) [Str ''private key round-trip must preserve equality'']))"

definition deserialized_private_key_signs_verifiably where
  "deserialized_private_key_signs_verifiably P r r1 =
     and_then (fresh_p521_key ''keygen'' P r)
   (\<lambda>(pk, sk). and_then (expect [Str ''deser''] (p521_sk_from_bytes P (p521_sk_as_bytes P sk)))
   (\<lambda>sk2. let sig = p521_sign_msg P r1 sk2 (ascii ''roundtrip'') in
      assert_ok (p521_verify_sig P pk (ascii ''roundtrip'') sig)
        [Str ''deserialized SK must produce verifiable signatures'']))"

definition from_bytes_rejects_invalid_public_key ::
  "('vk, 'sk, 'sig, 'r) p521 \<Rightarrow> (unit, crypto_error) outcome" where
  "from_bytes_rejects_invalid_public_key P =
     assert_err (p521_pk_from_bytes P (replicate 33 0))
       [Str ''must reject clearly wrong-sized public key bytes'']"

definition from_bytes_rejects_zero_private_key ::
  "('vk, 'sk, 'sig, 'r) p521 \<Rightarrow> (unit, crypto_error) outcome" where
  "from_bytes_rejects_zero_private_key P =
     assert_err (p521_sk_from_bytes P (replicate P521_PRIVATE_KEY_SIZE 0))
       [Str ''zero scalar is not a valid P-521 private key'']"

section \<open>Equality and clones\<close>

definition public_key_clone_is_equal where
  "public_key_clone_is_equal P r =
     and_then (fresh_p521_key ''keygen'' P r)
   (\<lambda>(pk, _). assert_that (p521_pk_eq P pk pk) [Str ''Clone must produce an equal PublicKey''])"

definition private_key_clone_is_equal where
  "private_key_clone_is_equal P r =
     and_then (fresh_p521_key ''keygen'' P r)
   (\<lambda>(_, sk). and_then (p521_sk_clone P sk)
   (\<lambda>clone. assert_that (p521_sk_eq P clone sk) [Str ''Clone must produce an equal PrivateKey'']))"

definition key_equality_across_derivations ::
  "('vk, 'sk, 'sig, 'r) p521 \<Rightarrow> hashes \<Rightarrow> (unit, crypto_error) outcome" where
  "key_equality_across_derivations P H =
     (let seed = first_byte_seed 0x03; seed_o = first_byte_seed 0x04 in
      and_then (p521_derive_keypair_from_seed P H seed)
    (\<lambda>(pk1, sk1). and_then (p521_derive_keypair_from_seed P H seed)
    (\<lambda>(pk2, sk2). and_then (p521_derive_keypair_from_seed P H seed_o)
    (\<lambda>(pk_o, sk_o). and_then (assert_that (p521_pk_as_bytes P pk1 = p521_pk_as_bytes P pk2)
        [Str ''same seed, same public key''])
    (\<lambda>_. and_then (assert_that (p521_sk_as_bytes P sk1 = p521_sk_as_bytes P sk2)
        [Str ''same seed, same private key''])
    (\<lambda>_. and_then (assert_that (p521_pk_as_bytes P pk1 \<noteq> p521_pk_as_bytes P pk_o)
        [Str ''different seed, different public key''])
    (\<lambda>_. assert_that (p521_sk_as_bytes P sk1 \<noteq> p521_sk_as_bytes P sk_o)
        [Str ''different seed, different private key''])))))))"

section \<open>The schemes\<close>

definition dyn_scheme_sign_verify_p521 where
  "dyn_scheme_sign_verify_p521 P H r r1 =
     (let s = p521_scheme P H in
      and_then (expect [Str ''dyn keygen''] (sch_generate_key s r))
    (\<lambda>(pk, sk). let msg = ascii ''dyn dispatch test'' in
      and_then (sch_sign s r1 sk msg None)
    (\<lambda>sig. and_then (sch_verify s pk msg sig None)
    (\<lambda>ok. assert_that ok [Str ''dyn-dispatch verify must return true'']))))"

definition dyn_scheme_verify_fails_wrong_message where
  "dyn_scheme_verify_fails_wrong_message P H r r1 =
     (let s = p521_scheme P H in
      and_then (expect [Str ''dyn keygen''] (sch_generate_key s r))
    (\<lambda>(pk, sk). and_then (sch_sign s r1 sk (ascii ''good'') None)
    (\<lambda>sig. and_then (sch_verify s pk (ascii ''bad'') sig None)
    (\<lambda>ok. assert_that (\<not> ok) [Str ''dyn verify must reject wrong message'']))))"

definition dyn_scheme_sign_panics_on_context_p521 where
  "dyn_scheme_sign_panics_on_context_p521 P H r r1 =
     (let s = p521_scheme P H in
      should_panic (and_then (expect [Str ''dyn keygen''] (sch_generate_key s r))
        (\<lambda>(_, sk). let opts = \<lparr>opts_context = lit ''ctx''\<rparr> in
          sch_sign s r1 sk (ascii ''msg'') (Some opts))))"

definition dyn_scheme_verify_returns_false_on_context where
  "dyn_scheme_verify_returns_false_on_context P H r r1 =
     (let s = p521_scheme P H in
      and_then (expect [Str ''dyn keygen''] (sch_generate_key s r))
    (\<lambda>(pk, sk). and_then (sch_sign s r1 sk (ascii ''msg'') None)
    (\<lambda>sig. let opts = \<lparr>opts_context = lit ''ctx''\<rparr> in
      and_then (sch_verify s pk (ascii ''msg'') sig (Some opts))
    (\<lambda>ok. assert_that (\<not> ok) [Str ''verify with non-empty context must return false'']))))"

definition dyn_unmarshal_public_key_roundtrip where
  "dyn_unmarshal_public_key_roundtrip P H r r1 =
     (let s = p521_scheme P H in
      and_then (expect [Str ''dyn keygen''] (sch_generate_key s r))
    (\<lambda>(pk, sk). and_then (expect [Str ''marshal''] (pk_marshal pk))
    (\<lambda>pk_bytes. and_then (expect [Str ''unmarshal''] (sch_unmarshal_public s pk_bytes))
    (\<lambda>pk2. and_then (sch_sign s r1 sk (ascii ''unmarshal test'') None)
    (\<lambda>sig. and_then (sch_verify s pk2 (ascii ''unmarshal test'') sig None)
    (\<lambda>ok. assert_that ok [Str ''unmarshaled dyn public key must verify'']))))))"

definition dyn_unmarshal_private_key_roundtrip where
  "dyn_unmarshal_private_key_roundtrip P H r r1 =
     (let s = p521_scheme P H in
      and_then (expect [Str ''dyn keygen''] (sch_generate_key s r))
    (\<lambda>(pk, sk). and_then (expect [Str ''marshal SK''] (sk_marshal sk))
    (\<lambda>sk_bytes. and_then (expect [Str ''unmarshal SK''] (sch_unmarshal_private s sk_bytes))
    (\<lambda>sk2. and_then (sch_sign s r1 sk2 (ascii ''sk roundtrip'') None)
    (\<lambda>sig. and_then (sch_verify s pk (ascii ''sk roundtrip'') sig None)
    (\<lambda>ok. assert_that ok [Str ''unmarshaled dyn private key must produce valid signatures'']))))))"

definition typed_scheme_sign_verify_p521 ::
  "('vk, 'sk, 'sig, 'r) p521 \<Rightarrow> 'r \<Rightarrow> 'r \<Rightarrow> (unit, crypto_error) outcome" where
  "typed_scheme_sign_verify_p521 P r r1 =
     and_then (expect [Str ''typed keygen''] (p521_generate_key_typed P r))
   (\<lambda>(pk, sk). let msg = ascii ''typed P-521 round-trip'' in
      and_then (p521_sign_typed P r1 sk msg None)
   (\<lambda>sig. and_then (p521_verify_typed P pk msg sig None)
   (\<lambda>ok. assert_that ok [Str ''typed verify must succeed''])))"

definition typed_scheme_derive_key_deterministic ::
  "('vk, 'sk, 'sig, 'r) p521 \<Rightarrow> hashes \<Rightarrow> (unit, crypto_error) outcome" where
  "typed_scheme_derive_key_deterministic P H =
     (let seed = first_byte_seed 0x05 in
      and_then (p521_derive_key_typed P H seed)
    (\<lambda>(pk1, sk1). and_then (p521_derive_key_typed P H seed)
    (\<lambda>(pk2, sk2). and_then (assert_that (p521_pk_as_bytes P pk1 = p521_pk_as_bytes P pk2)
        [Str ''typed derive_key must be deterministic''])
    (\<lambda>_. assert_that (p521_sk_as_bytes P sk1 = p521_sk_as_bytes P sk2)
        [Str ''typed derive_key must be deterministic'']))))"

definition typed_scheme_sign_panics_on_context ::
  "('vk, 'sk, 'sig, 'r) p521 \<Rightarrow> 'r \<Rightarrow> 'r \<Rightarrow> (unit, crypto_error) outcome" where
  "typed_scheme_sign_panics_on_context P r r1 =
     should_panic (and_then (expect [Str ''typed keygen''] (p521_generate_key_typed P r))
       (\<lambda>(_, sk). let opts = \<lparr>opts_context = lit ''ctx''\<rparr> in
         (p521_sign_typed P r1 sk (ascii ''msg'') (Some opts) :: (bytes, crypto_error) outcome)))"

definition typed_unmarshal_public_key_roundtrip ::
  "('vk, 'sk, 'sig, 'r) p521 \<Rightarrow> 'r \<Rightarrow> 'r \<Rightarrow> (unit, crypto_error) outcome" where
  "typed_unmarshal_public_key_roundtrip P r r1 =
     and_then (expect [Str ''typed keygen''] (p521_generate_key_typed P r))
   (\<lambda>(pk, sk). and_then (expect [Str ''marshal''] (pk_marshal (p521_dyn_pk P pk)))
   (\<lambda>pk_bytes. and_then (expect [Str ''unmarshal''] (p521_unmarshal_public_key_typed P pk_bytes))
   (\<lambda>pk2. and_then (holds (p521_pk_eq P pk pk2))
   (\<lambda>_. and_then (p521_sign_typed P r1 sk (ascii ''typed unmarshal'') None)
   (\<lambda>sig. and_then (p521_verify_typed P pk2 (ascii ''typed unmarshal'') sig None) holds)))))"

definition cross_key_verify_fails_p521 where
  "cross_key_verify_fails_p521 P r r' r1 =
     and_then (fresh_p521_key ''keygen A'' P r)
   (\<lambda>(_, sk_a). and_then (fresh_p521_key ''keygen B'' P r')
   (\<lambda>(pk_b, _). let sig = p521_sign_msg P r1 sk_a (ascii ''cross test'') in
      assert_err (p521_verify_sig P pk_b (ascii ''cross test'') sig)
        [Str ''signature from key-A must not verify under key-B'']))"

text \<open>The three times are what the clock measured, in nanoseconds; the limit is two seconds.\<close>

definition LATENCY_MAX :: nat where
  "LATENCY_MAX = 2 * 1000000000"

definition latency_smoke_test ::
  "('vk, 'sk, 'sig, 'r) p521 \<Rightarrow> 'r \<Rightarrow> 'r \<Rightarrow> nat \<Rightarrow> nat \<Rightarrow> nat \<Rightarrow> (unit, crypto_error) outcome" where
  "latency_smoke_test P r r1 keygen_time sign_time verify_time =
     and_then (fresh_p521_key ''keygen'' P r)
   (\<lambda>(pk, sk). and_then (assert_that (keygen_time < LATENCY_MAX) [Str ''keygen too slow: '', Num keygen_time])
   (\<lambda>_. let msg = ascii ''latency smoke-test''; sig = p521_sign_msg P r1 sk msg in
      and_then (assert_that (sign_time < LATENCY_MAX) [Str ''sign too slow: '', Num sign_time])
   (\<lambda>_. and_then (is_ok (p521_verify_sig P pk msg sig))
   (\<lambda>ok. and_then (assert_that (verify_time < LATENCY_MAX) [Str ''verify too slow: '', Num verify_time])
   (\<lambda>_. holds ok)))))"

section \<open>The tests that always pass\<close>

lemma constants_are_correct_p521_Ok: "constants_are_correct_p521 = Ok ()"
  by (simp add: constants_are_correct_p521_def size_consts)

lemma scheme_metadata_p521_Ok: "scheme_metadata_p521 P H = Ok ()"
  by (simp add: scheme_metadata_p521_def p521_scheme_def Let_def)

lemma p521_seed_size_tests:
  "derive_key_panics_on_short_seed P H = Ok ()" "derive_key_panics_on_long_seed P H = Ok ()"
  by (simp_all add: derive_key_panics_on_short_seed_def derive_key_panics_on_long_seed_def
      p521_scheme_def p521_derive_keypair_from_seed_def should_panic_iff size_consts)

lemma fresh_p521_key_Ok: "fresh_p521_key t P r = Ok (p_vk_of P (p_sk_random P r), p_sk_random P r)"
  by (simp add: fresh_p521_key_def p521_generate_key_def Let_def)

lemma low_s_probes_Ok:
  assumes "p521_laws P"
  shows "low_s_probes P sk rs = Ok ()"
proof (induction rs)
  case Nil
  then show ?case by simp
next
  case (Cons r rs)
  obtain g where "p521_sign_msg P r sk (ascii ''low-s canonical probe'') = p_sig_to_bytes P g"
      "p_normalize_s P g = None"
    using p521_sign_msg_low_s [OF assms] by blast
  then show ?case using Cons by (simp add: p521_lawsD [OF assms] size_consts)
qed

lemma p521_key_tests:
  assumes L: "p521_laws P"
  shows "generate_key_sizes P r = Ok ()"
    and "sign_verify_roundtrip_p521 P r r1 = Ok ()"
    and "signatures_are_low_s_canonical P r draws = Ok ()"
    and "sign_verify_empty_message_p521 P r r1 = Ok ()"
    and "sign_verify_large_message_p521 P r r1 = Ok ()"
    and "public_key_marshal_roundtrip_p521 P r = Ok ()"
    and "deserialized_public_key_verifies P r r1 = Ok ()"
    and "private_key_marshal_roundtrip P r = Ok ()"
    and "deserialized_private_key_signs_verifiably P r r1 = Ok ()"
    and "from_bytes_rejects_zero_private_key P = Ok ()"
    and "public_key_clone_is_equal P r = Ok ()"
    and "private_key_clone_is_equal P r = Ok ()"
proof -
  have z: "be_nat (replicate 66 0) = 0" by (simp add: be_nat_def le_nat_zero_iff)
  obtain e where e: "p_sk_from_slice P (replicate 66 0) = Inl e" using p521_lawsD(16) [OF L z] by blast
  note d = fresh_p521_key_Ok Let_def size_consts p521_sign_verify [OF L] p521_pk_as_bytes_def
    p521_sk_as_bytes_def p521_pk_from_bytes_def p521_sk_from_bytes_def p521_pk_eq_def p521_sk_eq_def ct_eq_def
    p521_lawsD(1,2,12,13) [OF L]
  show "generate_key_sizes P r = Ok ()" by (simp add: generate_key_sizes_def d)
  show "sign_verify_roundtrip_p521 P r r1 = Ok ()" by (simp add: sign_verify_roundtrip_p521_def d)
  show "signatures_are_low_s_canonical P r draws = Ok ()"
    by (simp add: signatures_are_low_s_canonical_def d low_s_probes_Ok [OF L])
  show "sign_verify_empty_message_p521 P r r1 = Ok ()" by (simp add: sign_verify_empty_message_p521_def d)
  show "sign_verify_large_message_p521 P r r1 = Ok ()" by (simp add: sign_verify_large_message_p521_def d)
  show "public_key_marshal_roundtrip_p521 P r = Ok ()"
    by (simp add: public_key_marshal_roundtrip_p521_def d)
  show "deserialized_public_key_verifies P r r1 = Ok ()"
    by (simp add: deserialized_public_key_verifies_def d)
  show "private_key_marshal_roundtrip P r = Ok ()" by (simp add: private_key_marshal_roundtrip_def d)
  show "deserialized_private_key_signs_verifiably P r r1 = Ok ()"
    by (simp add: deserialized_private_key_signs_verifiably_def d)
  show "from_bytes_rejects_zero_private_key P = Ok ()"
    by (simp add: from_bytes_rejects_zero_private_key_def d e assert_err_def)
  show "public_key_clone_is_equal P r = Ok ()" by (simp add: public_key_clone_is_equal_def d)
  show "private_key_clone_is_equal P r = Ok ()"
    by (simp add: private_key_clone_is_equal_def d p521_sk_clone_def)
qed

lemma p521_scheme_tests:
  assumes L: "p521_laws P"
  shows "dyn_scheme_sign_verify_p521 P H r r1 = Ok ()"
    and "dyn_scheme_sign_panics_on_context_p521 P H r r1 = Ok ()"
    and "dyn_scheme_verify_returns_false_on_context P H r r1 = Ok ()"
    and "dyn_unmarshal_public_key_roundtrip P H r r1 = Ok ()"
    and "dyn_unmarshal_private_key_roundtrip P H r r1 = Ok ()"
    and "typed_scheme_sign_verify_p521 P r r1 = Ok ()"
    and "typed_scheme_sign_panics_on_context P r r1 = Ok ()"
    and "typed_unmarshal_public_key_roundtrip P r r1 = Ok ()"
proof -
  have c: "has_context (Some \<lparr>opts_context = lit ''ctx''\<rparr>)" "\<not> has_context None"
    by (simp_all add: has_context_def lit_def)
  note d = Let_def p521_scheme_def p521_generate_key_def p521_dyn_pk_def p521_dyn_sk_def p521_dyn_sign_def
    p521_dyn_verify_def p521_pk_as_bytes_def p521_sk_as_bytes_def p521_pk_from_bytes_def
    p521_sk_from_bytes_def p521_lawsD(1,2,12,13) [OF L] p521_sign_verify [OF L] c should_panic_iff
  note t = p521_generate_key_typed_def p521_sign_typed_def p521_verify_typed_def p521_pk_eq_def ct_eq_def
    p521_unmarshal_public_key_typed_def
  show "dyn_scheme_sign_verify_p521 P H r r1 = Ok ()" by (simp add: dyn_scheme_sign_verify_p521_def d)
  show "dyn_scheme_sign_panics_on_context_p521 P H r r1 = Ok ()"
    by (simp add: dyn_scheme_sign_panics_on_context_p521_def d)
  show "dyn_scheme_verify_returns_false_on_context P H r r1 = Ok ()"
    by (simp add: dyn_scheme_verify_returns_false_on_context_def d)
  show "dyn_unmarshal_public_key_roundtrip P H r r1 = Ok ()"
    by (simp add: dyn_unmarshal_public_key_roundtrip_def d)
  show "dyn_unmarshal_private_key_roundtrip P H r r1 = Ok ()"
    by (simp add: dyn_unmarshal_private_key_roundtrip_def d)
  show "typed_scheme_sign_verify_p521 P r r1 = Ok ()" by (simp add: typed_scheme_sign_verify_p521_def d t)
  show "typed_scheme_sign_panics_on_context P r r1 = Ok ()"
    by (simp add: typed_scheme_sign_panics_on_context_def d t)
  show "typed_unmarshal_public_key_roundtrip P r r1 = Ok ()"
    by (auto simp: typed_unmarshal_public_key_roundtrip_def d t)
qed

text \<open>The high-S twin of a signature is rejected, whatever the crate.\<close>

lemma verify_rejects_malleated_high_s_Ok:
  assumes L: "p521_laws P" and N: "negate_laws P negate"
  shows "verify_rejects_malleated_high_s P negate r r1 = Ok ()"
proof -
  let ?k = "p_sk_random P r" and ?m = "ascii ''low-s malleability guard''"
  let ?sig = "p521_sign_msg P r1 ?k ?m"
  obtain g where g: "p_sig_from_slice P ?sig = Inr g" "p_normalize_s P g = None"
    using p521_sign_verify(2) [OF L, of ?k ?m r1] by (auto simp: p521_verify_sig_iff)
  obtain g' where g': "negate g = Inr g'" "p_normalize_s P g' = Some g"
    using N g(2) unfolding negate_laws_def by blast
  then have "p521_verify_sig P (p_vk_of P ?k) ?m (p_sig_to_bytes P g') \<noteq> Ok ()"
    by (simp add: p521_verify_sig_iff p521_lawsD(4) [OF L])
  then show ?thesis
    by (simp add: verify_rejects_malleated_high_s_def fresh_p521_key_Ok Let_def p521_sign_verify [OF L]
        g g' p521_lawsD(3) [OF L] size_consts assert_err_iff [OF p521_verify_panic_free])
qed

text \<open>The latency test passes exactly when the clock shows less than two seconds three times.\<close>

lemma latency_smoke_test_iff:
  assumes L: "p521_laws P"
  shows "latency_smoke_test P r r1 t1 t2 t3 = Ok () \<longleftrightarrow>
    t1 < 2000000000 \<and> t2 < 2000000000 \<and> t3 < 2000000000"
  by (simp add: latency_smoke_test_def fresh_p521_key_Ok Let_def p521_sign_verify [OF L] LATENCY_MAX_def)

section \<open>The tests with a condition\<close>

text \<open>The seeds are hashed, so the tests of the derivation depend on the digests.\<close>

lemma p521_derivation_tests:
  shows "derive_key_is_deterministic_p521 P H = Ok () \<longleftrightarrow>
      accepted (p521_derive_keypair_from_seed P H (replicate 66 1) :: ('vk \<times> 'sk, crypto_error) outcome)"
    and "typed_scheme_derive_key_deterministic P H = Ok () \<longleftrightarrow>
      accepted (p521_derive_keypair_from_seed P H (first_byte_seed 5) :: ('vk \<times> 'sk, crypto_error) outcome)"
  by (auto simp: derive_key_is_deterministic_p521_def typed_scheme_derive_key_deterministic_def Let_def
      p521_derive_key_typed_def size_consts split: prod.splits)

lemma derived_keys_differ:
  assumes L: "p521_laws P" "hash_laws H"
    and d: "p521_derive_keypair_from_seed P H s = Ok (v, k)" "p521_derive_keypair_from_seed P H s' = Ok (v', k')"
  shows "p521_pk_as_bytes P v = p521_pk_as_bytes P v' \<longleftrightarrow> v = v'"
    and "v \<noteq> v' \<Longrightarrow> p521_sk_as_bytes P k \<noteq> p521_sk_as_bytes P k'"
proof -
  show "p521_pk_as_bytes P v = p521_pk_as_bytes P v' \<longleftrightarrow> v = v'"
    using p521_lawsD(2) [OF L(1)] unfolding p521_pk_as_bytes_def by (metis sum.inject(2))
  show "p521_sk_as_bytes P k \<noteq> p521_sk_as_bytes P k'" if "v \<noteq> v'"
    using that p521_derive_size [OF L d(1)] p521_derive_size [OF L d(2)]
    unfolding p521_sk_as_bytes_def by (metis sum.inject(2))
qed

lemma p521_distinct_derivation_tests:
  assumes L: "p521_laws P" "hash_laws H"
    and d: "\<And>b. (p521_derive_keypair_from_seed P H (first_byte_seed b) :: ('vk \<times> 'sk, crypto_error) outcome) =
      Ok (pk b, sk b)"
  shows "derive_key_differs_for_different_seeds_p521 P H = Ok () \<longleftrightarrow> pk 1 \<noteq> pk 2"
    and "key_equality_across_derivations P H = Ok () \<longleftrightarrow> pk 3 \<noteq> pk 4"
  using derived_keys_differ [OF L d [of 1] d [of 2]] derived_keys_differ [OF L d [of 3] d [of 4]]
  by (auto simp: derive_key_differs_for_different_seeds_p521_def key_equality_across_derivations_def d Let_def)

text \<open>
  The negative tests ask that a signature is none of another message, key or byte string, and the
  randomised ones that two draws differ; a law of the crate cannot promise that.
\<close>

lemma p521_negative_tests:
  fixes P :: "('vk, 'sk, 'sig, 'r) p521" and r r' :: 'r
  assumes L: "p521_laws P"
  defines "k \<equiv> p_sk_random P r" and "pk \<equiv> p_vk_of P (p_sk_random P r)"
    and "pk' \<equiv> p_vk_of P (p_sk_random P r')"
  shows "generate_key_is_non_deterministic_p521 P r r' = Ok () \<longleftrightarrow> pk \<noteq> pk'"
    and "signature_is_randomized P r r1 r2 = Ok () \<longleftrightarrow>
      p521_sign_msg P r1 k (ascii ''randomization test'') \<noteq> p521_sign_msg P r2 k (ascii ''randomization test'')"
    and "verify_fails_on_wrong_message_p521 P r r1 = Ok () \<longleftrightarrow>
      \<not> accepted (p521_verify_sig P pk (ascii ''tampered'') (p521_sign_msg P r1 k (ascii ''original'')))"
    and "verify_fails_on_tampered_signature_p521 P r r1 = Ok () \<longleftrightarrow>
      (let sig = p521_sign_msg P r1 k (ascii ''hello'') in
       \<not> accepted (p521_verify_sig P pk (ascii ''hello'') (sig[66 := sig ! 66 XOR 0xFF])))"
    and "verify_fails_with_wrong_key_p521 P r r' r1 = Ok () \<longleftrightarrow>
      \<not> accepted (p521_verify_sig P pk' (ascii ''message'') (p521_sign_msg P r1 k (ascii ''message'')))"
    and "cross_key_verify_fails_p521 P r r' r1 = Ok () \<longleftrightarrow>
      \<not> accepted (p521_verify_sig P pk' (ascii ''cross test'') (p521_sign_msg P r1 k (ascii ''cross test'')))"
    and "dyn_scheme_verify_fails_wrong_message P H r r1 = Ok () \<longleftrightarrow>
      \<not> accepted (p521_verify_sig P pk (ascii ''bad'') (p521_sign_msg P r1 k (ascii ''good'')))"
    and "from_bytes_rejects_invalid_public_key P = Ok () \<longleftrightarrow>
      isl (p_vk_from_sec1_bytes P (replicate 33 0))"
proof -
  have i: "p_vk_uncompressed P v = p_vk_uncompressed P w \<longleftrightarrow> v = w" for v w
    using p521_lawsD(2) [OF L] by (metis sum.inject(2))
  note d = fresh_p521_key_Ok Let_def k_def pk_def pk'_def p521_sign_verify [OF L]
    assert_err_iff [OF p521_verify_panic_free]
  show "generate_key_is_non_deterministic_p521 P r r' = Ok () \<longleftrightarrow> pk \<noteq> pk'"
    by (simp add: generate_key_is_non_deterministic_p521_def d p521_pk_as_bytes_def i)
  show "signature_is_randomized P r r1 r2 = Ok () \<longleftrightarrow>
      p521_sign_msg P r1 k (ascii ''randomization test'') \<noteq> p521_sign_msg P r2 k (ascii ''randomization test'')"
    by (simp add: signature_is_randomized_def d)
  show "verify_fails_on_wrong_message_p521 P r r1 = Ok () \<longleftrightarrow>
      \<not> accepted (p521_verify_sig P pk (ascii ''tampered'') (p521_sign_msg P r1 k (ascii ''original'')))"
    by (simp add: verify_fails_on_wrong_message_p521_def d del: accepted_iff)
  show "verify_fails_on_tampered_signature_p521 P r r1 = Ok () \<longleftrightarrow>
      (let sig = p521_sign_msg P r1 k (ascii ''hello'') in
       \<not> accepted (p521_verify_sig P pk (ascii ''hello'') (sig[66 := sig ! 66 XOR 0xFF])))"
    by (simp add: verify_fails_on_tampered_signature_p521_def d del: accepted_iff)
  show "verify_fails_with_wrong_key_p521 P r r' r1 = Ok () \<longleftrightarrow>
      \<not> accepted (p521_verify_sig P pk' (ascii ''message'') (p521_sign_msg P r1 k (ascii ''message'')))"
    by (simp add: verify_fails_with_wrong_key_p521_def d del: accepted_iff)
  show "cross_key_verify_fails_p521 P r r' r1 = Ok () \<longleftrightarrow>
      \<not> accepted (p521_verify_sig P pk' (ascii ''cross test'') (p521_sign_msg P r1 k (ascii ''cross test'')))"
    by (simp add: cross_key_verify_fails_p521_def d del: accepted_iff)
  show "dyn_scheme_verify_fails_wrong_message P H r r1 = Ok () \<longleftrightarrow>
      \<not> accepted (p521_verify_sig P pk (ascii ''bad'') (p521_sign_msg P r1 k (ascii ''good'')))"
    by (simp add: dyn_scheme_verify_fails_wrong_message_def d p521_scheme_def p521_generate_key_def
        p521_dyn_pk_def p521_dyn_sk_def p521_dyn_sign_def p521_dyn_verify_def has_context_def
        p521_sk_as_bytes_def p521_pk_as_bytes_def p521_sk_from_bytes_def p521_pk_from_bytes_def
        p521_lawsD(2,13) [OF L] is_ok_panic_free [OF p521_verify_panic_free] del: accepted_iff)
  show "from_bytes_rejects_invalid_public_key P = Ok () \<longleftrightarrow> isl (p_vk_from_sec1_bytes P (replicate 33 0))"
    by (cases "p_vk_from_sec1_bytes P (replicate 33 0)")
      (simp_all add: from_bytes_rejects_invalid_public_key_def p521_pk_from_bytes_def assert_err_def)
qed

text \<open>
  The NIST vectors: every field has 66 bytes, so that the test asks of the crate only that it
  parses the key and the signature, accepts the hash and rejects the one with a flipped bit.
\<close>

definition vector_field :: "(fips_vector \<Rightarrow> string) \<Rightarrow> fips_vector \<Rightarrow> bytes" where
  "vector_field f v = the (hex_bytes (lit (f v)))"

lemma fips_vector_digits:
  "list_all (\<lambda>v. list_all (\<lambda>f. list_all is_lower_hex (f v) \<and> length (f v) = 132)
     [fv_qx, fv_qy, fv_m, fv_r, fv_s]) fips_vectors"
  by code_simp

lemma vector_field_bytes:
  assumes "v \<in> set fips_vectors" and "f \<in> {fv_qx, fv_qy, fv_m, fv_r, fv_s}"
  shows "hex_bytes (lit (f v)) = Some (vector_field f v)" and "length (vector_field f v) = 66"
proof -
  have d: "list_all is_lower_hex (f v)" "length (f v) = 132"
    using fips_vector_digits assms by (auto simp: list_all_iff)
  then obtain b where "hex_bytes (lit (f v)) = Some b" "length b = 66"
    using hex_bytes_lit [OF d(1)] by auto
  then show "hex_bytes (lit (f v)) = Some (vector_field f v)" "length (vector_field f v) = 66"
    by (simp_all add: vector_field_def)
qed

definition nist_vector_ok where
  "nist_vector_ok P verify_prehash v \<longleftrightarrow>
     (let sec1 = 0x04 # vector_field fv_qx v @ vector_field fv_qy v; m = vector_field fv_m v in
      \<exists>vk g. p_vk_from_sec1_bytes P sec1 = Inr vk \<and> p_vk_uncompressed P vk = sec1 \<and>
        p_sig_from_slice P (vector_field fv_r v @ vector_field fv_s v) = Inr g \<and>
        verify_prehash vk m g = Inr () \<and> isl (verify_prehash vk ((hd m XOR 1) # tl m) g))"

lemma fips_vector_check_iff:
  assumes h: "hex_laws hex_decode" and v: "v \<in> set fips_vectors"
  shows "fips_vector_check P verify_prehash hex_decode i v = Ok () \<longleftrightarrow> nist_vector_ok P verify_prehash v"
proof -
  note f = vector_field_bytes [OF v]
  note hd = hex_lawsD [OF h f(1)]
  obtain b m where m: "vector_field fv_m v = b # m" using f(2) [of fv_m] by (cases "vector_field fv_m v") auto
  have e: "assert_err (of_result id x) t = Ok () \<longleftrightarrow> isl x" for x :: "string + unit" and t
    by (cases x) (simp_all add: assert_err_def)
  have o: "assert_ok (of_result id x) t = Ok () \<longleftrightarrow> x = Inr ()" for x :: "string + unit" and t
    by (simp add: assert_ok_iff)
  show ?thesis
    by (auto simp: fips_vector_check_def hd f(2) Let_def size_consts p521_pk_from_bytes_def p521_pk_as_bytes_def
        nist_vector_ok_def xor_first_def m e o)
qed

lemma fips_loop_iff:
  "fips_loop P verify_prehash hex_decode i vs = Ok () \<longleftrightarrow>
    (\<forall>j<length vs. fips_vector_check P verify_prehash hex_decode (i + j) (vs ! j) = Ok ())"
proof (induction vs arbitrary: i)
  case Nil
  then show ?case by simp
next
  case (Cons v vs)
  then show ?case by (auto simp: less_Suc_eq_0_disj)
qed

lemma p521_fips186_4_verify_kat_iff:
  assumes "hex_laws hex_decode"
  shows "p521_fips186_4_verify_kat P verify_prehash hex_decode = Ok () \<longleftrightarrow>
    (\<forall>v\<in>set fips_vectors. nist_vector_ok P verify_prehash v)"
  unfolding p521_fips186_4_verify_kat_def fips_loop_iff set_conv_nth
  by (auto simp: fips_vector_check_iff [OF assms])

end
