(* ===== verification/Ed448_Tests.thy ===== *)
theory Ed448_Tests
  imports Self_Tests Hex_Text
begin

unbundle bit_operations_syntax

text \<open>
  The unit tests inside \<^verbatim>\<open>src/mdecc/ed448.rs\<close>, as functions that return or panic.  \<open>q\<close> is a
  draw of the system generator.  The lemmas show that they pass for every implementation of the
  two crates that keeps its laws, up to the tests that ask that a signature of one message, key
  or context is none of another.
\<close>

section \<open>Constants and signatures\<close>

definition constants_correct_ed448 where
  "constants_correct_ed448 =
     and_then (holds (ED448_SEED_SIZE = 57))
   (\<lambda>_. and_then (holds (ED448_PUBLIC_KEY_SIZE = 57))
   (\<lambda>_. and_then (holds (ED448_PRIVATE_KEY_SIZE = 57))
   (\<lambda>_. holds (ED448_SIGNATURE_SIZE = 114))))"

definition sign_verify_in_memory_ed448 where
  "sign_verify_in_memory_ed448 H E G os_rng q =
     and_then (unwrapped (ed448_generate_key E os_rng q))
   (\<lambda>(pk, sk). and_then (unwrapped (ed448_sign_msg E sk (ascii ''hello'') None))
   (\<lambda>sig. and_then (holds (length sig = ED448_SIGNATURE_SIZE))
   (\<lambda>_. assert_ok (ed448_verify_sig H E G pk (ascii ''hello'') sig None) [Str ''assertion failed''])))"

definition KAT_SECRET :: string where
  "KAT_SECRET = ''6c82a562cb808d10d632be89c8513ebf6c929f34ddfa8c9f63c9960ef6e348a3''
     @ ''528c8a3fcc2f044e39a3fc5b94492f8f032e7549a20098f95b''"

definition KAT_PUBLIC :: string where
  "KAT_PUBLIC = ''5fd7449b59b461fd2ce787ec616ad46a1da1342485a70e1f8a0ea75d80e96778''
     @ ''edf124769b46c7061bd6783df1e50f6cd1fa1abeafe8256180''"

definition KAT_SIGNATURE :: string where
  "KAT_SIGNATURE = ''533a37f6bbe457251f023c0d88f976ae2dfb504a843e34d2074fd823d41a591f''
     @ ''2b233f034f628281f2fd7a22ddd47d7828c59bd0a21bfd3980ff0d2028d4b18a9df63e006c5d1c2d''
     @ ''345b925d8dc00b4104852db99ac5c7cdda8530a113a0f4dbb61149f05a7363268c71d95808ff2e652600''"

definition rfc8032_ed448_blank_kat ::
  "hashes \<Rightarrow> ('esk, 'epk) ed448_rust \<Rightarrow> ('pt, 'sc) goldilocks \<Rightarrow> (rstr \<Rightarrow> string + bytes)
     \<Rightarrow> (unit, crypto_error) outcome" where
  "rfc8032_ed448_blank_kat H E G hex_decode =
     and_then (unwrapped (of_result id (hex_decode (lit KAT_SECRET))))
   (\<lambda>sk. and_then (unwrapped (of_result id (hex_decode (lit KAT_PUBLIC))))
   (\<lambda>pk_expected. and_then (unwrapped (of_result id (hex_decode (lit KAT_SIGNATURE))))
   (\<lambda>sig_expected. let msg = [] in
      and_then (expect [Str ''valid 57-byte secret''] (ed448_sk_from_bytes E sk))
   (\<lambda>(_, priv_key). and_then (assert_that (ed448_pk_as_bytes (esk_public priv_key) = pk_expected)
        [Str ''Ed448 public-key derivation must match RFC 8032''])
   (\<lambda>_. and_then (unwrapped (ed448_sign_msg E priv_key msg None))
   (\<lambda>sig. and_then (assert_that (sig = sig_expected)
        [Str ''Ed448 signature must match RFC 8032 byte-for-byte''])
   (\<lambda>_. and_then (expect [Str ''valid public key''] (ed448_pk_from_bytes G pk_expected
        :: ('epk ed448_public_key, crypto_error) outcome))
   (\<lambda>pk_deser. and_then (assert_that (epk_trusted_inner pk_deser = None)
        [Str ''deserialized key must use goldilocks path''])
   (\<lambda>_. expect [Str ''goldilocks verification must accept the RFC 8032 signature'']
        (ed448_verify_sig H E G pk_deser msg sig_expected None))))))))))"

definition identity_encoding :: bytes where
  "identity_encoding = (replicate ED448_PUBLIC_KEY_SIZE 0)[0 := 0x01]"

definition rejects_small_order_identity ::
  "hashes \<Rightarrow> ('esk, 'epk) ed448_rust \<Rightarrow> ('pt, 'sc) goldilocks \<Rightarrow> (unit, crypto_error) outcome" where
  "rejects_small_order_identity H E G =
     and_then (assert_err (ed448_pk_from_bytes G identity_encoding
        :: ('epk ed448_public_key, crypto_error) outcome)
        [Str ''identity / small-order Ed448 public key must be rejected by from_bytes''])
   (\<lambda>_. let pk = \<lparr>epk_raw = identity_encoding, epk_trusted_inner = None\<rparr>;
            forged_sig = (replicate ED448_SIGNATURE_SIZE 0)[0 := 0x01] in
      and_then (assert_err (ed448_verify_sig H E G pk (ascii ''any message at all'') forged_sig None)
        [Str ''small-order universal forgery must be rejected by the verifier''])
   (\<lambda>_. assert_err (ed448_verify_sig H E G pk (ascii ''a different message'') forged_sig None)
        [Str ''small-order forgery must fail for every message'']))"

section \<open>Serialised keys\<close>

definition pubkey_serialise_then_verify ::
  "hashes \<Rightarrow> ('esk, 'epk) ed448_rust \<Rightarrow> ('pt, 'sc) goldilocks \<Rightarrow> ('r \<Rightarrow> nat \<Rightarrow> bytes) \<Rightarrow> 'r
     \<Rightarrow> (unit, crypto_error) outcome" where
  "pubkey_serialise_then_verify H E G os_rng q =
     and_then (unwrapped (ed448_generate_key E os_rng q))
   (\<lambda>(pk, sk). let msg = utf8 (lit ''network roundtrip '' @ 0x2014 # lit '' this MUST work'') in
      and_then (unwrapped (ed448_sign_msg E sk msg None))
   (\<lambda>sig. and_then (unwrapped (pk_marshal (ed448_dyn_pk pk)))
   (\<lambda>pk_bytes. and_then (unwrapped (ed448_pk_from_bytes G pk_bytes
        :: ('epk ed448_public_key, crypto_error) outcome))
   (\<lambda>pk_deser. expect [Str ''deserialized public key MUST verify signature'']
        (ed448_verify_sig H E G pk_deser msg sig None)))))"

definition privkey_serialise_then_sign ::
  "hashes \<Rightarrow> ('esk, 'epk) ed448_rust \<Rightarrow> ('pt, 'sc) goldilocks \<Rightarrow> ('r \<Rightarrow> nat \<Rightarrow> bytes) \<Rightarrow> 'r
     \<Rightarrow> (unit, crypto_error) outcome" where
  "privkey_serialise_then_sign H E G os_rng q =
     and_then (unwrapped (ed448_generate_key E os_rng q))
   (\<lambda>(pk, sk). and_then (ed448_sk_as_bytes E sk)
   (\<lambda>sk_bytes. and_then (unwrapped (ed448_sk_try_from E sk_bytes))
   (\<lambda>sk_recv. and_then (unwrapped (ed448_sign_msg E sk_recv (ascii ''roundtrip'') None))
   (\<lambda>sig. and_then (unwrapped (ed448_pk_from_bytes G (ed448_pk_as_bytes pk)
        :: ('epk ed448_public_key, crypto_error) outcome))
   (\<lambda>pk_deser. assert_ok (ed448_verify_sig H E G pk_deser (ascii ''roundtrip'') sig None)
        [Str ''assertion failed''])))))"

text \<open>
  Six tests sign with a fresh key and look at what the deserialised public key (of the same or of
  another draw) says; they differ in the messages, the options and what they expect.
\<close>

definition deserialised_verdict ::
  "hashes \<Rightarrow> ('esk, 'epk) ed448_rust \<Rightarrow> ('pt, 'sc) goldilocks \<Rightarrow> ('r \<Rightarrow> nat \<Rightarrow> bytes) \<Rightarrow> 'r \<Rightarrow> 'r
     \<Rightarrow> bytes \<Rightarrow> signature_opts option \<Rightarrow> bytes \<Rightarrow> signature_opts option
     \<Rightarrow> (bool, crypto_error) outcome" where
  "deserialised_verdict H E G os_rng q q' msg opts msg' opts' =
     and_then (unwrapped (ed448_generate_key E os_rng q))
   (\<lambda>(_, sk). and_then (unwrapped (ed448_generate_key E os_rng q'))
   (\<lambda>(pk, _). and_then (unwrapped (ed448_sign_msg E sk msg opts))
   (\<lambda>sig. and_then (unwrapped (ed448_pk_from_bytes G (ed448_pk_as_bytes pk)
        :: ('epk ed448_public_key, crypto_error) outcome))
   (\<lambda>pk_deser. is_ok (ed448_verify_sig H E G pk_deser msg' sig opts')))))"

definition verify_wrong_message_fails_ed448 where
  "verify_wrong_message_fails_ed448 H E G os_rng q =
     and_then (deserialised_verdict H E G os_rng q q (ascii ''hello'') None (ascii ''world'') None)
       (\<lambda>ok. holds (\<not> ok))"

definition verify_wrong_key_fails_ed448 where
  "verify_wrong_key_fails_ed448 H E G os_rng q q' =
     and_then (deserialised_verdict H E G os_rng q q' (ascii ''hello'') None (ascii ''hello'') None)
       (\<lambda>ok. holds (\<not> ok))"

definition sign_verify_with_context_ed448 where
  "sign_verify_with_context_ed448 H E G os_rng q =
     (let opts = \<lparr>opts_context = []\<rparr> in
      and_then (deserialised_verdict H E G os_rng q q (ascii ''ctx'') (Some opts) (ascii ''ctx'') (Some opts))
        holds)"

definition verify_wrong_context_fails_ed448 where
  "verify_wrong_context_fails_ed448 H E G os_rng q =
     (let o1 = \<lparr>opts_context = lit ''a''\<rparr>; o2 = \<lparr>opts_context = lit ''b''\<rparr> in
      and_then (deserialised_verdict H E G os_rng q q (ascii ''msg'') (Some o1) (ascii ''msg'') (Some o2))
        (\<lambda>ok. holds (\<not> ok)))"

definition sign_verify_prehash_ed448 where
  "sign_verify_prehash_ed448 H E G os_rng q =
     (let opts = \<lparr>opts_context = lit ''PREHASHED''\<rparr> in
      and_then (deserialised_verdict H E G os_rng q q (ascii ''ph'') (Some opts) (ascii ''ph'') (Some opts))
        holds)"

definition prehash_sig_fails_standard_verify where
  "prehash_sig_fails_standard_verify H E G os_rng q =
     (let opts = \<lparr>opts_context = lit ''PREHASHED''\<rparr> in
      and_then (deserialised_verdict H E G os_rng q q (ascii ''ph'') (Some opts) (ascii ''ph'') None)
        (\<lambda>ok. holds (\<not> ok)))"

definition derive_key_deterministic_ed448 where
  "derive_key_deterministic_ed448 E =
     (let seed = replicate ED448_SEED_SIZE 0x42 in
      and_then (ed448_new_key_from_seed E seed)
    (\<lambda>(pk1, _). and_then (ed448_new_key_from_seed E seed)
    (\<lambda>(pk2, _). holds (ed448_pk_eq pk1 pk2))))"

definition derive_key_bad_seed_panics_ed448 ::
  "('esk, 'epk) ed448_rust \<Rightarrow> (unit, crypto_error) outcome" where
  "derive_key_bad_seed_panics_ed448 E =
     should_panic (ed448_new_key_from_seed E (replicate (ED448_SEED_SIZE - 1) 0)
       :: ('epk ed448_public_key \<times> ('esk, 'epk) ed448_private_key, crypto_error) outcome)"

definition public_key_marshal_roundtrip_ed448 ::
  "('esk, 'epk) ed448_rust \<Rightarrow> ('pt, 'sc) goldilocks \<Rightarrow> ('r \<Rightarrow> nat \<Rightarrow> bytes) \<Rightarrow> 'r
     \<Rightarrow> (unit, crypto_error) outcome" where
  "public_key_marshal_roundtrip_ed448 E G os_rng q =
     and_then (unwrapped (ed448_generate_key E os_rng q))
   (\<lambda>(pk, _). and_then (unwrapped (pk_marshal (ed448_dyn_pk pk)))
   (\<lambda>b. and_then (unwrapped (ed448_pk_from_bytes G b :: ('epk ed448_public_key, crypto_error) outcome))
   (\<lambda>pk2. holds (ed448_pk_eq pk pk2))))"

section \<open>Encodings that are not canonical\<close>

definition is_curve_error :: "crypto_error \<Rightarrow> bool" where
  "is_curve_error e = (case e of CurveError _ \<Rightarrow> True | _ \<Rightarrow> False)"

text \<open>The loop that adds one to the first 56 bytes, with the carry so far.\<close>

fun add_carry :: "16 word \<Rightarrow> bytes \<Rightarrow> bytes" where
  "add_carry carry [] = []"
| "add_carry carry (b # bs) =
     (let s = ucast b + carry in ucast (s AND 0xff) # add_carry (drop_bit 8 s) bs)"

definition pubkey_rejects_noncanonical_y :: "('pt, 'sc) goldilocks \<Rightarrow> (unit, crypto_error) outcome" where
  "pubkey_rejects_noncanonical_y G =
     (let raw = FIELD_PRIME_LE @ [0] in
      and_then (unwrap_err (ed448_pk_from_bytes G raw :: (unit ed448_public_key, crypto_error) outcome))
    (\<lambda>err. and_then (assert_that (is_curve_error err) [Str ''got '', Ext ''err''])
    (\<lambda>_. let yp1 = add_carry 1 (take 56 raw) @ drop 56 raw in
      assert_err (ed448_pk_from_bytes G yp1 :: (unit ed448_public_key, crypto_error) outcome)
        [Str ''assertion failed''])))"

definition pubkey_rejects_signbyte_padding where
  "pubkey_rejects_signbyte_padding E G os_rng q =
     and_then (unwrapped (ed448_generate_key E os_rng q))
   (\<lambda>(pk, _). and_then (or_at 56 0x3f (ed448_pk_as_bytes pk))
   (\<lambda>raw. and_then (unwrap_err (ed448_pk_from_bytes G raw :: (unit ed448_public_key, crypto_error) outcome))
   (\<lambda>err. assert_that (is_curve_error err) [Str ''got '', Ext ''err''])))"

definition verify_rejects_r_signbyte_padding ::
  "hashes \<Rightarrow> ('esk, 'epk) ed448_rust \<Rightarrow> ('pt, 'sc) goldilocks \<Rightarrow> ('r \<Rightarrow> nat \<Rightarrow> bytes) \<Rightarrow> 'r
     \<Rightarrow> (unit, crypto_error) outcome" where
  "verify_rejects_r_signbyte_padding H E G os_rng q =
     and_then (unwrapped (ed448_generate_key E os_rng q))
   (\<lambda>(pk, sk). and_then (unwrapped (ed448_sign_msg E sk (ascii ''canon-R'') None))
   (\<lambda>sig. and_then (or_at 56 0x3f sig)
   (\<lambda>bad. and_then (unwrapped (ed448_pk_from_bytes G (ed448_pk_as_bytes pk)
        :: ('epk ed448_public_key, crypto_error) outcome))
   (\<lambda>pk_deser. assert_err (ed448_verify_sig H E G pk_deser (ascii ''canon-R'') bad None)
        [Str ''assertion failed'']))))"

definition pubkey_rejects_bad_size_ed448 where
  "pubkey_rejects_bad_size_ed448 G =
     assert_err (ed448_pk_from_bytes G (replicate (ED448_PUBLIC_KEY_SIZE - 1) 0)
       :: (unit ed448_public_key, crypto_error) outcome) [Str ''assertion failed'']"

definition privkey_rejects_bad_size_ed448 where
  "privkey_rejects_bad_size_ed448 E =
     assert_err (ed448_sk_from_bytes E (replicate (ED448_PRIVATE_KEY_SIZE + 1) 0))
       [Str ''assertion failed'']"

definition verify_rejects_short_sig_ed448 where
  "verify_rejects_short_sig_ed448 H E G os_rng q =
     and_then (unwrapped (ed448_generate_key E os_rng q))
   (\<lambda>(pk, _). assert_err
      (ed448_verify_sig H E G pk (ascii ''msg'') (replicate (ED448_SIGNATURE_SIZE - 1) 0) None)
      [Str ''assertion failed''])"

section \<open>Equality and the schemes\<close>

definition key_equality_ed448 where
  "key_equality_ed448 E os_rng q q' =
     and_then (unwrapped (ed448_generate_key E os_rng q))
   (\<lambda>(pk1, sk1). and_then (unwrapped (ed448_generate_key E os_rng q'))
   (\<lambda>(pk2, sk2). and_then (holds (ed448_pk_eq pk1 pk1))
   (\<lambda>_. and_then (holds (\<not> ed448_pk_eq pk1 pk2))
   (\<lambda>_. and_then (ed448_sk_clone E sk1)
   (\<lambda>clone. and_then (holds (ed448_sk_eq E sk1 clone))
   (\<lambda>_. holds (\<not> ed448_sk_eq E sk1 sk2)))))))"

definition scheme_metadata_ed448 where
  "scheme_metadata_ed448 H E G os_rng =
     (let s = ed448_scheme H E G os_rng in
      and_then (holds (sch_name s = ''Ed448''))
    (\<lambda>_. and_then (holds (sch_public_key_size s = ED448_PUBLIC_KEY_SIZE))
    (\<lambda>_. and_then (holds (sch_private_key_size s = ED448_PRIVATE_KEY_SIZE))
    (\<lambda>_. and_then (holds (sch_signature_size s = ED448_SIGNATURE_SIZE))
    (\<lambda>_. and_then (holds (sch_seed_size s = ED448_SEED_SIZE))
    (\<lambda>_. holds (sch_supports_context s)))))))"

definition scheme_dyn_sign_verify_ed448 where
  "scheme_dyn_sign_verify_ed448 H E G os_rng q r =
     (let s = ed448_scheme H E G os_rng in
      and_then (unwrapped (sch_generate_key s q))
    (\<lambda>(pk, sk). and_then (sch_sign s r sk (ascii ''dyn test'') None)
    (\<lambda>sig. and_then (sch_verify s pk (ascii ''dyn test'') sig None) holds)))"

definition typed_scheme_sign_verify_ed448 where
  "typed_scheme_sign_verify_ed448 H E G os_rng q =
     and_then (unwrapped (ed448_generate_key_typed E os_rng q))
   (\<lambda>(pk, sk). and_then (ed448_sign_typed E sk (ascii ''typed test'') None)
   (\<lambda>sig. and_then (ed448_verify_typed H E G pk (ascii ''typed test'') sig None) holds))"

section \<open>The tests pass\<close>

lemma constants_correct_ed448_Ok: "constants_correct_ed448 = Ok ()"
  by (simp add: constants_correct_ed448_def size_consts)

lemma scheme_metadata_ed448_Ok: "scheme_metadata_ed448 H E G os_rng = Ok ()"
  by (simp add: scheme_metadata_ed448_def ed448_scheme_def Let_def)

lemma pubkey_rejects_bad_size_ed448_Ok: "pubkey_rejects_bad_size_ed448 G = Ok ()"
  by (simp add: pubkey_rejects_bad_size_ed448_def ed448_pk_from_bytes_def size_consts assert_err_def)

lemma privkey_rejects_bad_size_ed448_Ok: "privkey_rejects_bad_size_ed448 E = Ok ()"
  by (simp add: privkey_rejects_bad_size_ed448_def ed448_sk_from_bytes_def size_consts assert_err_def)

lemma derive_key_tests_ed448:
  "derive_key_deterministic_ed448 E = Ok ()" "derive_key_bad_seed_panics_ed448 E = Ok ()"
  by (simp_all add: derive_key_deterministic_ed448_def derive_key_bad_seed_panics_ed448_def Let_def
      ed448_new_key_from_seed_def ed448_from_seed_key size_consts ed448_pk_eq_def ct_eq_def
      should_panic_iff) (simp add: ed448_from_seed_def size_consts)

text \<open>The two encodings of \<open>y = p\<close> and \<open>y = p + 1\<close> fail the comparison with the prime.\<close>

lemma prime_encodings:
  "\<not> y_lt_p_loop (FIELD_PRIME_LE @ [0]) (rev [0..<56])"
  "\<not> y_lt_p_loop (add_carry 1 FIELD_PRIME_LE @ [0]) (rev [0..<56])"
  "length (add_carry 1 FIELD_PRIME_LE) = 56"
  "(FIELD_PRIME_LE @ [0]) ! 56 = 0" "(add_carry 1 FIELD_PRIME_LE @ [0]) ! 56 = 0"
  by code_simp+

lemma pubkey_rejects_noncanonical_y_Ok: "pubkey_rejects_noncanonical_y G = Ok ()"
proof -
  have l: "length FIELD_PRIME_LE = 56" by (simp add: FIELD_PRIME_LE_def)
  have "ed448_pk_from_bytes G (FIELD_PRIME_LE @ [0]) = (Error (CurveError
      [Str ''non-canonical Ed448 point: y-coordinate >= field prime'']) :: (unit ed448_public_key, crypto_error) outcome)"
    "ed448_pk_from_bytes G (add_carry 1 FIELD_PRIME_LE @ [0]) = (Error (CurveError
      [Str ''non-canonical Ed448 point: y-coordinate >= field prime'']) :: (unit ed448_public_key, crypto_error) outcome)"
    by (simp_all only: ed448_pk_from_bytes_def decode_canonical_point_def size_consts length_append
        l prime_encodings copy_from_slice_exact) (simp_all add: copy_from_slice_def l prime_encodings)
  then show ?thesis
    by (simp add: pubkey_rejects_noncanonical_y_def Let_def l is_curve_error_def assert_err_def)
qed

text \<open>Setting a padding bit of the last byte of an encoding spoils it.\<close>

lemma padding_bits: "(b OR 0x3f) AND 0x7f \<noteq> (0 :: byte)"
proof
  assume "(b OR 0x3f) AND 0x7f = 0"
  then have "bit ((b OR 0x3f) AND 0x7f) 0 = bit (0 :: byte) 0" by simp
  then show False by (simp add: bit_simps)
qed

lemma padded_encoding:
  assumes "length raw = 57"
  shows "decode_canonical_point G (raw[56 := raw ! 56 OR 0x3f]) =
    Error (CurveError [Str ''non-canonical Ed448 point: unused bits set in final byte''])"
  using assms by (simp add: decode_canonical_point_def padding_bits)

text \<open>What a draw gives.\<close>

lemma drawn_key:
  assumes "length (os_rng q 57) = 57"
  shows "ed448_generate_key E os_rng q =
    Ok (esk_public (ed448_key_of E (os_rng q 57)), ed448_key_of E (os_rng q 57))"
  using assms by (simp add: ed448_generate_key_def ed448_generate_key_with_rng_def size_consts
      ed448_from_seed_key)

lemma pubkey_rejects_signbyte_padding_Ok:
  assumes "ed448_laws (H, E, G, C)" and q: "length (os_rng q 57) = 57"
  shows "pubkey_rejects_signbyte_padding E G os_rng q = Ok ()"
proof -
  let ?raw = "epk_raw (esk_public (ed448_key_of E (os_rng q 57)))"
  have l: "length ?raw = 57" using ed448_key_bytes(3) [OF _ q] assms(1) by auto
  then have "ed448_pk_from_bytes G (?raw[56 := ?raw ! 56 OR 0x3f]) = (Error (CurveError
      [Str ''non-canonical Ed448 point: unused bits set in final byte'']) :: (unit ed448_public_key, crypto_error) outcome)"
    by (simp add: ed448_pk_from_bytes_def size_consts padded_encoding)
  with l show ?thesis
    by (simp add: pubkey_rejects_signbyte_padding_def drawn_key [of os_rng q, OF q] ed448_pk_as_bytes_def
        is_curve_error_def)
qed

lemma ed448_key_tests:
  assumes "ed448_laws (H, E, G, C)" and q: "length (os_rng q 57) = 57"
  shows "sign_verify_in_memory_ed448 H E G os_rng q = Ok ()"
    and "pubkey_serialise_then_verify H E G os_rng q = Ok ()"
    and "privkey_serialise_then_sign H E G os_rng q = Ok ()"
    and "public_key_marshal_roundtrip_ed448 E G os_rng q = Ok ()"
    and "verify_rejects_r_signbyte_padding H E G os_rng q = Ok ()"
    and "verify_rejects_short_sig_ed448 H E G os_rng q = Ok ()"
    and "scheme_dyn_sign_verify_ed448 H E G os_rng q r = Ok ()"
    and "typed_scheme_sign_verify_ed448 H E G os_rng q = Ok ()"
proof -
  have L: "curve_laws G C" "point_laws G C" "ed448_rust_laws H E G C"
    using assms(1) by (simp_all add: curve_laws_def)
  let ?k = "ed448_key_of E (os_rng q 57)"
  let ?raw = "epk_raw (esk_public ?k)"
  note b = ed448_key_bytes [OF L(3) q]
  have s: "\<exists>sig. ed448_sign_msg E ?k m None = Ok sig \<and> length sig = 114 \<and>
      ed448_verify_sig H E G (esk_public ?k) m sig None = Ok () \<and>
      ed448_pk_from_bytes G ?raw = (Ok \<lparr>epk_raw = ?raw, epk_trusted_inner = None\<rparr>
        :: ('b ed448_public_key, crypto_error) outcome) \<and>
      ed448_verify_sig H E G \<lparr>epk_raw = ?raw, epk_trusted_inner = None\<rparr> m sig None = Ok ()" for m
    by (rule ed448_key_signs [OF assms(1), of None "os_rng q 57" m]) auto
  note defs = drawn_key [of os_rng q, OF q] size_consts Let_def ed448_dyn_pk_def ed448_dyn_sk_def b
    ed448_pk_as_bytes_def
  show "sign_verify_in_memory_ed448 H E G os_rng q = Ok ()"
    using s [of "ascii ''hello''"] by (auto simp: sign_verify_in_memory_ed448_def defs)
  show "pubkey_serialise_then_verify H E G os_rng q = Ok ()"
    using s [of "utf8 (lit ''network roundtrip '' @ 0x2014 # lit '' this MUST work'')"]
    by (auto simp: pubkey_serialise_then_verify_def defs)
  show "privkey_serialise_then_sign H E G os_rng q = Ok ()"
    using s [of "ascii ''roundtrip''"]
    by (auto simp: privkey_serialise_then_sign_def defs ed448_sk_try_from_def)
  show "public_key_marshal_roundtrip_ed448 E G os_rng q = Ok ()"
    using s [of "[]"] by (auto simp: public_key_marshal_roundtrip_ed448_def defs ed448_pk_eq_def ct_eq_def)
  show "scheme_dyn_sign_verify_ed448 H E G os_rng q r = Ok ()"
    using s [of "ascii ''dyn test''"]
    by (auto simp: scheme_dyn_sign_verify_ed448_def ed448_scheme_def ed448_dyn_sign_def
        ed448_sk_try_from_def ed448_dyn_verify_def defs)
  show "typed_scheme_sign_verify_ed448 H E G os_rng q = Ok ()"
    using s [of "ascii ''typed test''"]
    by (auto simp: typed_scheme_sign_verify_ed448_def ed448_generate_key_typed_def ed448_sign_typed_def
        ed448_verify_typed_def defs)
  show "verify_rejects_short_sig_ed448 H E G os_rng q = Ok ()"
    by (simp add: verify_rejects_short_sig_ed448_def defs ed448_verify_sig_def assert_err_def)
  obtain sig where t: "ed448_sign_msg E ?k (ascii ''canon-R'') None = Ok sig" "length sig = 114"
      "ed448_pk_from_bytes G ?raw = (Ok \<lparr>epk_raw = ?raw, epk_trusted_inner = None\<rparr>
        :: ('b ed448_public_key, crypto_error) outcome)"
    using s by blast
  let ?bad = "sig[56 := sig ! 56 OR 0x3f]"
  have "take 57 ?bad ! 56 AND 0x7f \<noteq> 0" using t(2) by (simp add: padding_bits)
  then have "\<not> rfc8032_valid H G C Mode_Ed448 [] ?raw (ascii ''canon-R'') ?bad"
    by (auto simp: rfc8032_valid_def canonical_point_def)
  then have "ed448_verify_sig H E G \<lparr>epk_raw = ?raw, epk_trusted_inner = None\<rparr> (ascii ''canon-R'') ?bad None \<noteq> Ok ()"
    by (simp add: ed448_verify_untrusted [OF L(1) b(3)])
  with t show "verify_rejects_r_signbyte_padding H E G os_rng q = Ok ()"
    by (simp add: verify_rejects_r_signbyte_padding_def defs
        assert_err_iff [OF ed448_verify_sig_panic_free])
qed

text \<open>The tests that compare what is signed with what is verified.\<close>

lemma deserialised_verdict_eq:
  assumes "ed448_laws (H, E, G, C)" and "length (os_rng q 57) = 57" "length (os_rng q' 57) = 57"
    and "length (ed448_ctx opts) \<le> 255"
  shows "\<exists>sig. ed448_sign_msg E (ed448_key_of E (os_rng q 57)) m opts = Ok sig \<and>
    deserialised_verdict H E G os_rng q q' m opts m' opts' =
      Ok (rfc8032_valid H G C (mode_from_opts opts') (ed448_ctx opts')
        (epk_raw (esk_public (ed448_key_of E (os_rng q' 57)))) m' sig) \<and>
    (q' = q \<and> m' = m \<and> opts' = opts \<longrightarrow> deserialised_verdict H E G os_rng q q' m opts m' opts' = Ok True)"
proof -
  have L: "curve_laws G C" "ed448_rust_laws H E G C" using assms(1) by simp_all
  let ?raw = "\<lambda>q. epk_raw (esk_public (ed448_key_of E (os_rng q 57)))"
  obtain sig where s: "ed448_sign_msg E (ed448_key_of E (os_rng q 57)) m opts = Ok sig"
      "ed448_verify_sig H E G \<lparr>epk_raw = ?raw q, epk_trusted_inner = None\<rparr> m sig opts = Ok ()"
    by (rule ed448_key_signs [OF assms(1,4), of "os_rng q 57" m]) auto
  have p: "ed448_pk_from_bytes G (?raw q') = (Ok \<lparr>epk_raw = ?raw q', epk_trusted_inner = None\<rparr>
        :: ('b ed448_public_key, crypto_error) outcome)"
    by (rule ed448_key_signs [OF assms(1), of None "os_rng q' 57" m]) auto
  have l: "length (?raw q') = 57" by (rule ed448_key_bytes(3) [OF L(2) assms(3)])
  have v: "deserialised_verdict H E G os_rng q q' m opts m' opts' =
      Ok (accepted (ed448_verify_sig H E G \<lparr>epk_raw = ?raw q', epk_trusted_inner = None\<rparr> m' sig opts'))"
    using s(1) p by (simp add: deserialised_verdict_def drawn_key assms(2,3) ed448_pk_as_bytes_def
        is_ok_panic_free [OF ed448_verify_sig_panic_free])
  then show ?thesis
    using s ed448_verify_untrusted [OF L(1) l, of H E m' sig opts'] by auto
qed

lemma ed448_context_tests:
  assumes "ed448_laws (H, E, G, C)" and q: "length (os_rng q 57) = 57"
  shows "sign_verify_with_context_ed448 H E G os_rng q = Ok ()"
    and "sign_verify_prehash_ed448 H E G os_rng q = Ok ()"
proof -
  have c: "length (ed448_ctx (Some \<lparr>opts_context = []\<rparr>)) \<le> 255"
    "length (ed448_ctx (Some \<lparr>opts_context = lit ''PREHASHED''\<rparr>)) \<le> 255"
    by (simp_all add: ed448_ctx_def mode_from_opts_def mode_context_opt_def PREHASH_CONTEXT_def
        utf8_def lit_def)
  show "sign_verify_with_context_ed448 H E G os_rng q = Ok ()"
    using deserialised_verdict_eq [where os_rng = os_rng and q = q and q' = q and m = "ascii ''ctx''"
        and m' = "ascii ''ctx''" and opts' = "Some \<lparr>opts_context = []\<rparr>", OF assms q c(1)]
    by (auto simp: sign_verify_with_context_ed448_def)
  show "sign_verify_prehash_ed448 H E G os_rng q = Ok ()"
    using deserialised_verdict_eq [where os_rng = os_rng and q = q and q' = q and m = "ascii ''ph''"
        and m' = "ascii ''ph''" and opts' = "Some \<lparr>opts_context = lit ''PREHASHED''\<rparr>", OF assms q c(2)]
    by (auto simp: sign_verify_prehash_ed448_def Let_def)
qed

lemma key_equality_ed448_iff:
  assumes "ed448_laws (H, E, G, C)" and q: "length (os_rng q 57) = 57" "length (os_rng q' 57) = 57"
  shows "key_equality_ed448 E os_rng q q' = Ok () \<longleftrightarrow> os_rng q 57 \<noteq> os_rng q' 57 \<and>
    epk_raw (esk_public (ed448_key_of E (os_rng q 57))) \<noteq> epk_raw (esk_public (ed448_key_of E (os_rng q' 57)))"
proof -
  have L: "ed448_rust_laws H E G C" using assms(1) by simp
  have i: "e_sk_as_bytes E (esk_inner (ed448_key_of E x)) = x" if "length x = 57" for x
    using that by (simp add: ed448_key_of_def Let_def ed448_rust_lawsD [OF L])
  show ?thesis
    by (auto simp: key_equality_ed448_def drawn_key q ed448_pk_eq_def ct_eq_def ed448_sk_clone_def
        ed448_sk_eq_def size_consts i ed448_rust_lawsD [OF L])
qed

text \<open>
  The identity has the encoding of \<open>y = 1\<close>; a crate that decodes it so, or not at all, does not
  let the universal forgery pass.
\<close>

lemma rejects_small_order_identity_Ok:
  assumes "ed448_laws (H, E, G, C)"
    and "\<And>p. g_decompress G identity_encoding = Some p \<Longrightarrow> nmul 4 (point C p) = 0"
  shows "rejects_small_order_identity H E G = Ok ()"
proof -
  have L: "curve_laws G C" "point_laws G C" using assms(1) by (simp_all add: curve_laws_def)
  have l: "length identity_encoding = 57" by (simp add: identity_encoding_def size_consts)
  have n: "\<not> canonical_point G C identity_encoding A" for A
    using assms(2) by (auto simp: canonical_point_def)
  then have p: "\<not> accepted (ed448_pk_from_bytes G identity_encoding :: ('b ed448_public_key, crypto_error) outcome)"
    by (auto simp: ed448_pk_from_bytes_iff [OF L(2)])
  have v: "\<not> accepted (ed448_verify_sig H E G \<lparr>epk_raw = identity_encoding, epk_trusted_inner = None\<rparr> m sig None)"
    for m sig
    using n by (auto simp: ed448_verify_untrusted [OF L(1) l] dest: rfc8032_validD(4))
  show ?thesis
    using p v by (simp add: rejects_small_order_identity_def Let_def
        assert_err_iff [OF ed448_pk_from_bytes_panic_free] assert_err_iff [OF ed448_verify_sig_panic_free]
        del: accepted_iff)
qed

text \<open>
  The vector of RFC 8032 fixes the public key and the signature of the in-memory library; that the
  other verification path accepts it follows.
\<close>

lemma kat_digits:
  "list_all is_lower_hex KAT_SECRET" "length KAT_SECRET = 114"
  "list_all is_lower_hex KAT_PUBLIC" "length KAT_PUBLIC = 114"
  "list_all is_lower_hex KAT_SIGNATURE" "length KAT_SIGNATURE = 228"
  by code_simp+

lemma rfc8032_ed448_blank_kat_iff:
  assumes "ed448_laws (H, E, G, C)" and h: "hex_laws hex_decode"
  defines "k \<equiv> ed448_key_of E (the (hex_bytes (lit KAT_SECRET)))"
  shows "rfc8032_ed448_blank_kat H E G hex_decode = Ok () \<longleftrightarrow>
    epk_raw (esk_public k) = the (hex_bytes (lit KAT_PUBLIC)) \<and>
    ed448_sign_msg E k [] None = Ok (the (hex_bytes (lit KAT_SIGNATURE)))"
proof -
  obtain sk pk sig where b: "hex_bytes (lit KAT_SECRET) = Some sk" "length sk = 57"
      "hex_bytes (lit KAT_PUBLIC) = Some pk" "hex_bytes (lit KAT_SIGNATURE) = Some sig"
    using hex_bytes_lit [OF kat_digits(1)] hex_bytes_lit [OF kat_digits(3)]
      hex_bytes_lit [OF kat_digits(5)] kat_digits(2,4,6) by auto
  have L: "ed448_rust_laws H E G C" using assms(1) by simp
  note d = hex_lawsD [OF h b(1)] hex_lawsD [OF h b(3)] hex_lawsD [OF h b(4)] b
    ed448_key_bytes(2) [OF L b(2)] ed448_pk_as_bytes_def
  obtain g where g: "ed448_sign_msg E (ed448_key_of E sk) [] None = Ok g"
    "ed448_pk_from_bytes G (epk_raw (esk_public (ed448_key_of E sk))) =
      (Ok \<lparr>epk_raw = epk_raw (esk_public (ed448_key_of E sk)), epk_trusted_inner = None\<rparr>
        :: ('b ed448_public_key, crypto_error) outcome)"
    "ed448_verify_sig H E G \<lparr>epk_raw = epk_raw (esk_public (ed448_key_of E sk)),
      epk_trusted_inner = None\<rparr> [] g None = Ok ()"
    by (rule ed448_key_signs [OF assms(1), of None sk "[]"]) auto
  then show ?thesis
    by (auto simp: rfc8032_ed448_blank_kat_def k_def d Let_def)
qed

end
