(* ===== verification/Adversarial.thy ===== *)
theory Adversarial
  imports Attacks
begin

unbundle bit_operations_syntax

text \<open>
  The property-based tests of \<^verbatim>\<open>tests/adversarial.rs\<close>.  A test is a function of the values that
  the strategies generate: it returns, fails (\<^verbatim>\<open>prop_assert!\<close>), rejects the case
  (\<^verbatim>\<open>prop_assume!\<close>) or panics.  The strategies are the functions that build the values and the
  predicates of their ranges.  The lemmas say for which generated values each test passes, and for
  the test of mutations which algorithm would have to accept what it never signed.
\<close>

section \<open>The generated values\<close>

datatype test_case_error = Fail message | Reject

definition prop_assert :: "bool \<Rightarrow> message \<Rightarrow> (unit, test_case_error) outcome" where
  "prop_assert b m = (if b then Ok () else Error (Fail m))"

definition prop_assume :: "bool \<Rightarrow> (unit, test_case_error) outcome" where
  "prop_assume b = (if b then Ok () else Error Reject)"

text \<open>
  The function under \<^verbatim>\<open>prop_map\<close>; \<^verbatim>\<open>Address::from_slice\<close> gets the 20 bytes of its argument.
\<close>

definition arb_unsigned_tx ::
  "64 word \<Rightarrow> 64 word \<Rightarrow> 64 word \<Rightarrow> 128 word \<Rightarrow> bytes option \<Rightarrow> bytes \<Rightarrow> bc_tx" where
  "arb_unsigned_tx chain_id nonce gas_limit value_u128 to_addr data =
     \<lparr>tx_chain_id = chain_id, tx_nonce = nonce,
      tx_max_priority_fee_per_gas = 1500000000, tx_max_fee_per_gas = 30000000000,
      tx_gas_limit = gas_limit, tx_to = to_addr, tx_value = ucast value_u128, tx_data = data,
      tx_v = None, tx_r = None, tx_s = None, tx_pqc_signature = None, tx_pub_key = None\<rparr>"

text \<open>A transaction that the strategy can generate.\<close>

definition unsigned_case :: "bc_tx \<Rightarrow> bool" where
  "unsigned_case tx \<longleftrightarrow>
     (\<exists>c n g v t d. (\<forall>a. t = Some a \<longrightarrow> length a = 20) \<and> length d < 2 ^ 60 \<and>
        tx = arb_unsigned_tx c n g v t d)"

datatype tx_mutation =
    PqcSignature nat byte
  | PubKey nat byte
  | ChainId "64 word"
  | Nonce "64 word"
  | ValueXor byte
  | DataXor nat byte

fun arb_mutation :: "tx_mutation \<Rightarrow> bool" where
  "arb_mutation (PqcSignature i x) \<longleftrightarrow> i < 10000 \<and> 1 \<le> x"
| "arb_mutation (PubKey i x) \<longleftrightarrow> i < 10000 \<and> 1 \<le> x"
| "arb_mutation (ChainId x) \<longleftrightarrow> 1 \<le> x"
| "arb_mutation (Nonce x) \<longleftrightarrow> 1 \<le> x"
| "arb_mutation (ValueXor x) \<longleftrightarrow> 1 \<le> x"
| "arb_mutation (DataXor i x) \<longleftrightarrow> i < 10000 \<and> 1 \<le> x"

text \<open>
  \<^verbatim>\<open>apply_mutation\<close> returns the transaction and whether a field was changed; the index into an
  empty field is never computed.
\<close>

fun apply_mutation :: "bc_tx \<Rightarrow> tx_mutation \<Rightarrow> (bc_tx \<times> bool, test_case_error) outcome" where
  "apply_mutation tx (PqcSignature index x) =
     (case tx_pqc_signature tx of
        Some sig \<Rightarrow>
          if sig \<noteq> [] then
            and_then (xor_at (index mod length sig) x sig)
              (\<lambda>v. Ok (tx\<lparr>tx_pqc_signature := Some v\<rparr>, True))
          else Ok (tx, False)
      | None \<Rightarrow> Ok (tx, False))"
| "apply_mutation tx (PubKey index x) =
     (case tx_pub_key tx of
        Some pk \<Rightarrow>
          if pk \<noteq> [] then
            and_then (xor_at (index mod length pk) x pk)
              (\<lambda>v. Ok (tx\<lparr>tx_pub_key := Some v\<rparr>, True))
          else Ok (tx, False)
      | None \<Rightarrow> Ok (tx, False))"
| "apply_mutation tx (ChainId x) = Ok (tx\<lparr>tx_chain_id := tx_chain_id tx XOR x\<rparr>, True)"
| "apply_mutation tx (Nonce x) = Ok (tx\<lparr>tx_nonce := tx_nonce tx XOR x\<rparr>, True)"
| "apply_mutation tx (ValueXor x) = Ok (tx\<lparr>tx_value := tx_value tx XOR ucast x\<rparr>, True)"
| "apply_mutation tx (DataXor index x) =
     (if tx_data tx \<noteq> [] then
        and_then (xor_at (index mod length (tx_data tx)) x (tx_data tx))
          (\<lambda>v. Ok (tx\<lparr>tx_data := v\<rparr>, True))
      else Ok (tx, False))"

text \<open>
  The number of cases: the value of the environment variable \<^verbatim>\<open>PROPTEST_CASES\<close>, when it is set
  and parses as a \<^verbatim>\<open>u32\<close>.
\<close>

definition config_cases :: "rstr option \<Rightarrow> 32 word" where
  "config_cases var =
     (case var of
        None \<Rightarrow> 256
      | Some s \<Rightarrow> (case parse_u32 s of None \<Rightarrow> 256 | Some n \<Rightarrow> n))"

section \<open>The tests\<close>

definition prop_signature_roundtrip ::
  "('dv, 'ds, 'dg, 'v, 's, 'g, 'r, 'es, 'ep, 'pt, 'sc) crates \<Rightarrow> rlp_crate \<Rightarrow> 'r \<Rightarrow> bytes \<Rightarrow> bc_tx
     \<Rightarrow> (unit, test_case_error) outcome" where
  "prop_signature_roundtrip K R r seed tx =
     and_then (expect [Str ''key generation must not fail for any 64-byte seed''] (bsk_generate K seed))
   (\<lambda>(priv_key, pub_key). let expected_address = derive_address (hsh K) pub_key in
      and_then (expect [Str ''signing a well-formed tx must not fail''] (sign_transaction K R r priv_key tx))
   (\<lambda>tx. and_then (expect [Str ''recovery of a freshly-signed tx must not fail''] (recover_sender K R tx))
   (\<lambda>recovered. prop_assert (recovered = expected_address)
      [Str ''recovered address must equal the address derived from the signing key''])))"

definition prop_mutation_never_panics ::
  "('dv, 'ds, 'dg, 'v, 's, 'g, 'r, 'es, 'ep, 'pt, 'sc) crates \<Rightarrow> rlp_crate \<Rightarrow> 'r \<Rightarrow> bytes \<Rightarrow> bc_tx
     \<Rightarrow> tx_mutation \<Rightarrow> (unit, test_case_error) outcome" where
  "prop_mutation_never_panics K R r seed tx mutation =
     and_then (unwrapped (bsk_generate K seed))
   (\<lambda>(priv_key, pub_key). let expected_address = derive_address (hsh K) pub_key in
      and_then (unwrapped (sign_transaction K R r priv_key tx))
   (\<lambda>tx. and_then (apply_mutation tx mutation)
   (\<lambda>(tx, actually_mutated). match_result (recover_sender K R tx)
      (\<lambda>recovered.
         if actually_mutated then prop_assert (recovered \<noteq> expected_address)
           [Str ''a mutated transaction must not recover to the original signer address; mutation: '',
            Ext ''mutation'']
         else Ok ())
      (\<lambda>_. Ok ()))))"

definition prop_public_key_deser_never_panics ::
  "('dv, 'ds, 'dg, 'v, 's, 'g, 'r, 'es, 'ep, 'pt, 'sc) crates \<Rightarrow> bytes
     \<Rightarrow> (unit, test_case_error) outcome" where
  "prop_public_key_deser_never_panics K b = discard (bpk_from_bytes K b)"

definition prop_address_derivation_is_deterministic ::
  "('dv, 'ds, 'dg, 'v, 's, 'g, 'r, 'es, 'ep, 'pt, 'sc) crates \<Rightarrow> bytes
     \<Rightarrow> (unit, test_case_error) outcome" where
  "prop_address_derivation_is_deterministic K seed =
     and_then (unwrapped (bsk_generate K seed))
   (\<lambda>(_, pub_key_a). and_then (unwrapped (bsk_generate K seed))
   (\<lambda>(_, pub_key_b). prop_assert (derive_address (hsh K) pub_key_a = derive_address (hsh K) pub_key_b)
      [Str ''key derivation must be deterministic for the same seed'']))"

definition prop_different_seeds_produce_different_keys ::
  "('dv, 'ds, 'dg, 'v, 's, 'g, 'r, 'es, 'ep, 'pt, 'sc) crates \<Rightarrow> bytes \<Rightarrow> bytes
     \<Rightarrow> (unit, test_case_error) outcome" where
  "prop_different_seeds_produce_different_keys K seed_a seed_b =
     and_then (prop_assume (seed_a \<noteq> seed_b))
   (\<lambda>_. and_then (unwrapped (bsk_generate K seed_a))
   (\<lambda>(_, pub_key_a). and_then (unwrapped (bsk_generate K seed_b))
   (\<lambda>(_, pub_key_b). prop_assert (derive_address (hsh K) pub_key_a \<noteq> derive_address (hsh K) pub_key_b)
      [Str ''distinct seeds must derive distinct addresses''])))"

definition prop_unsigned_tx_recovery_fails ::
  "('dv, 'ds, 'dg, 'v, 's, 'g, 'r, 'es, 'ep, 'pt, 'sc) crates \<Rightarrow> rlp_crate \<Rightarrow> bytes \<Rightarrow> bc_tx
     \<Rightarrow> (unit, test_case_error) outcome" where
  "prop_unsigned_tx_recovery_fails K R seed tx =
     and_then (unwrapped (bsk_generate K seed))
   (\<lambda>(_, pub_key). let expected_address = derive_address (hsh K) pub_key in
      match_result (recover_sender K R tx)
        (\<lambda>recovered. prop_assert (recovered \<noteq> expected_address)
          [Str ''recovering an unsigned tx must not return the (unseen) signer's address''])
        (\<lambda>_. Ok ()))"

definition prop_chain_id_mismatch_fails_or_differs ::
  "('dv, 'ds, 'dg, 'v, 's, 'g, 'r, 'es, 'ep, 'pt, 'sc) crates \<Rightarrow> rlp_crate \<Rightarrow> 'r \<Rightarrow> bytes \<Rightarrow> bc_tx
     \<Rightarrow> 64 word \<Rightarrow> (unit, test_case_error) outcome" where
  "prop_chain_id_mismatch_fails_or_differs K R r seed tx chain_id_xor =
     and_then (unwrapped (bsk_generate K seed))
   (\<lambda>(priv_key, pub_key). let expected_address = derive_address (hsh K) pub_key in
      and_then (unwrapped (sign_transaction K R r priv_key tx))
   (\<lambda>tx. match_result (recover_sender K R (tx\<lparr>tx_chain_id := tx_chain_id tx XOR chain_id_xor\<rparr>))
      (\<lambda>recovered. prop_assert (recovered \<noteq> expected_address)
        [Str (''a transaction replayed on a different chain_id must not recover '' @
              ''to the original signer's address'')])
      (\<lambda>_. Ok ())))"

section \<open>The tests that always pass\<close>

lemma prop_assert_simps [simp]:
  "prop_assert True m = Ok ()" "prop_assert b m = Inr u \<longleftrightarrow> b" "panic_free (prop_assert b m)"
  by (simp_all add: prop_assert_def)

lemma signed_generated:
  assumes "crates_laws K C" and "bsk_generate K seed = Ok (k, pub)"
  obtains sig where "sign_transaction K R r k tx = Ok (signed_tx tx pub sig)" "length sig = 4873"
    "composite_verify K pub (signature_hash (hsh K) R tx) (bound_hash K (tx_chain_id tx) pub) sig = Ok ()"
    "recover_sender K R (signed_tx tx pub sig) = Ok (derive_address (hsh K) pub)" "pk_valid K pub"
proof -
  have w: "key_wf K k" by (rule bsk_generate_wf [OF assms])
  have pub: "pub = bsk_public k" by (rule bsk_generate_Ok(2) [OF assms])
  have v: "pk_valid K pub" using key_wf_pk_valid [OF assms(1) w] by (simp add: pub)
  obtain sig where s: "sign_transaction K R r k tx = Ok (signed_tx tx pub sig)" "length sig = 4873"
      "recover_sender K R (signed_tx tx pub sig) = Ok (derive_address (hsh K) pub)"
    using signed_recovers [OF assms(1) w, of R r tx] unfolding pub by blast
  have h: "signature_hash (hsh K) R (signed_tx tx pub sig) = signature_hash (hsh K) R tx"
    by (rule signature_hash_unsigned) simp
  have "composite_verify K pub (signature_hash (hsh K) R tx) (bound_hash K (tx_chain_id tx) pub) sig = Ok ()"
    using s(3) recover_with_key [OF v, of "signed_tx tx pub sig" sig R] h by simp
  with s v that show thesis by blast
qed

lemma recover_other_address:
  "match_result (recover_sender K R tx) (\<lambda>a. prop_assert (a \<noteq> addr) m) (\<lambda>_. Ok ()) =
    (if recover_sender K R tx = Ok addr then Error (Fail m) else Ok ())"
  using recover_sender_panic_free [of K R tx] by (auto elim!: not_panic_cases simp: prop_assert_def)

text \<open>
  The chain id is written into \<open>v\<close> without loss, so a transaction with another chain id is
  rejected whatever the signature algorithms do.
\<close>

lemma expected_v_inj: "expected_v c = expected_v c' \<longleftrightarrow> c = c'"
  using expected_v_value [of c] expected_v_value [of c'] by (auto simp: word_unat_eq_iff)

lemma xor_changes: "x \<noteq> 0 \<Longrightarrow> c XOR x \<noteq> (c :: 'a::len word)"
proof
  assume "x \<noteq> 0" and e: "c XOR x = c"
  have "x = c XOR (c XOR x)" by (simp flip: xor.assoc)
  also have "\<dots> = 0" by (simp add: e)
  finally show False using \<open>x \<noteq> 0\<close> by simp
qed

lemma chain_id_binds:
  assumes "x \<noteq> 0"
  shows "recover_sender K R ((signed_tx tx pub sig)\<lparr>tx_chain_id := tx_chain_id tx XOR x\<rparr>) \<noteq> Ok a"
  using xor_changes [OF assms, of "tx_chain_id tx"]
  by (auto simp: recover_sender_iff signed_tx_def expected_v_inj)

lemma prop_tests_pass:
  assumes "crates_laws K C" and g: "bsk_generate K seed = Ok (k, pub)"
  shows "prop_signature_roundtrip K R r seed tx = Ok ()"
    and "prop_public_key_deser_never_panics K b = Ok ()"
    and "prop_address_derivation_is_deterministic K seed = Ok ()"
    and "unsigned_case tx \<Longrightarrow> prop_unsigned_tx_recovery_fails K R seed tx = Ok ()"
    and "x \<noteq> 0 \<Longrightarrow> prop_chain_id_mismatch_fails_or_differs K R r seed tx x = Ok ()"
proof -
  obtain sig where s: "sign_transaction K R r k tx = Ok (signed_tx tx pub sig)"
      "recover_sender K R (signed_tx tx pub sig) = Ok (derive_address (hsh K) pub)"
    by (rule signed_generated [OF assms])
  show "prop_signature_roundtrip K R r seed tx = Ok ()"
    using s by (simp add: prop_signature_roundtrip_def g)
  show "prop_public_key_deser_never_panics K b = Ok ()"
    by (simp add: prop_public_key_deser_never_panics_def discard_panic_free bpk_from_bytes_panic_free)
  show "prop_address_derivation_is_deterministic K seed = Ok ()"
    by (simp add: prop_address_derivation_is_deterministic_def g)
  show "prop_unsigned_tx_recovery_fails K R seed tx = Ok ()" if "unsigned_case tx"
  proof -
    have "recover_sender K R tx \<noteq> Ok a" for a
      using that by (auto simp: recover_sender_iff unsigned_case_def arb_unsigned_tx_def)
    then show ?thesis by (simp add: prop_unsigned_tx_recovery_fails_def g recover_other_address)
  qed
  show "prop_chain_id_mismatch_fails_or_differs K R r seed tx x = Ok ()" if "x \<noteq> 0"
    using s(1) chain_id_binds [OF that, of K R tx pub sig]
    by (simp add: prop_chain_id_mismatch_fails_or_differs_def g recover_other_address signed_tx_def)
qed

lemma prop_different_seeds_iff:
  assumes "bsk_generate K seed_a = Ok (ka, pa)" "bsk_generate K seed_b = Ok (kb, pb)" "seed_a \<noteq> seed_b"
  shows "prop_different_seeds_produce_different_keys K seed_a seed_b = Ok () \<longleftrightarrow>
    derive_address (hsh K) pa \<noteq> derive_address (hsh K) pb"
  using assms by (simp add: prop_different_seeds_produce_different_keys_def prop_assume_def)

section \<open>What a mutation that is accepted takes\<close>

text \<open>
  A signature serves a second transaction: the two pre-images differ, and either their hashes are
  equal or all three algorithms accept the signature for a hash it was not made for.
\<close>

definition serves_other ::
  "('dv, 'ds, 'dg, 'v, 's, 'g, 'r, 'es, 'ep, 'pt, 'sc) crates \<Rightarrow> rlp_crate \<Rightarrow> bc_tx \<Rightarrow> bc_public_key
     \<Rightarrow> bytes \<Rightarrow> bc_tx \<Rightarrow> bool" where
  "serves_other K R tx pub sig tx' \<longleftrightarrow>
     signature_preimage R tx' \<noteq> signature_preimage R tx \<and>
     (signature_hash (hsh K) R tx' = signature_hash (hsh K) R tx \<or>
      signature_hash (hsh K) R tx' \<noteq> signature_hash (hsh K) R tx \<and>
      composite_verify K pub (signature_hash (hsh K) R tx') (bound_hash K (tx_chain_id tx) pub) sig = Ok ())"

text \<open>
  For each mutation, what the crates would have to do: accept a second signature for a signed
  text, give a second key the same address, or let the signature serve another transaction.
\<close>

fun mutation_event ::
  "('dv, 'ds, 'dg, 'v, 's, 'g, 'r, 'es, 'ep, 'pt, 'sc) crates \<Rightarrow> rlp_crate \<Rightarrow> bc_tx \<Rightarrow> bc_public_key
     \<Rightarrow> bytes \<Rightarrow> tx_mutation \<Rightarrow> bool" where
  "mutation_event K R tx pub sig (PqcSignature i x) \<longleftrightarrow>
     (let j = i mod 4873; h = signature_hash (hsh K) R tx; b = bound_hash K (tx_chain_id tx) pub;
          sig' = sig[j := sig ! j XOR x]
      in if j < 4627 then dil_leg_verify (mld K) (bpk_dilithium pub) h (take 4627 sig') = Ok ()
         else if j < 4759 then p521_leg_verify (p5 K) (bpk_p521 pub) (curve_msg h b CURVE_ID_P521)
           (take 132 (drop 4627 sig')) = Ok ()
         else ed448_verify_with (hsh K) (edr K) (gld K) (bpk_ed448 pub) (curve_msg h b CURVE_ID_ED448)
           (drop 4759 sig') = Ok ())"
| "mutation_event K R tx pub sig (PubKey i x) \<longleftrightarrow>
     (\<exists>pk'. pk_valid K pk' \<and> pk' \<noteq> pub \<and> derive_address (hsh K) pk' = derive_address (hsh K) pub \<and>
        bpk_to_bytes pk' = (bpk_to_bytes pub)[i mod 2782 := bpk_to_bytes pub ! (i mod 2782) XOR x] \<and>
        composite_verify K pk' (signature_hash (hsh K) R tx) (bound_hash K (tx_chain_id tx) pk') sig = Ok ())"
| "mutation_event K R tx pub sig (ChainId x) \<longleftrightarrow> False"
| "mutation_event K R tx pub sig (Nonce x) \<longleftrightarrow>
     serves_other K R tx pub sig (tx\<lparr>tx_nonce := tx_nonce tx XOR x\<rparr>)"
| "mutation_event K R tx pub sig (ValueXor x) \<longleftrightarrow>
     serves_other K R tx pub sig (tx\<lparr>tx_value := tx_value tx XOR ucast x\<rparr>)"
| "mutation_event K R tx pub sig (DataXor i x) \<longleftrightarrow> tx_data tx \<noteq> [] \<and>
     (let d = tx_data tx; j = i mod length d
      in serves_other K R tx pub sig (tx\<lparr>tx_data := d[j := d ! j XOR x]\<rparr>))"

lemma mutated_signature_iff:
  fixes x :: byte
  assumes "length sig = 4873" "composite_verify K pub h b sig = Ok ()" "j < 4873"
  defines "sig' \<equiv> sig[j := sig ! j XOR x]"
  shows "composite_verify K pub h b sig' = Ok () \<longleftrightarrow>
    (if j < 4627 then dil_leg_verify (mld K) (bpk_dilithium pub) h (take 4627 sig') = Ok ()
     else if j < 4759 then p521_leg_verify (p5 K) (bpk_p521 pub) (curve_msg h b CURVE_ID_P521)
       (take 132 (drop 4627 sig')) = Ok ()
     else ed448_verify_with (hsh K) (edr K) (gld K) (bpk_ed448 pub) (curve_msg h b CURVE_ID_ED448)
       (drop 4759 sig') = Ok ())"
  using assms(1-3) unfolding sig'_def
  by (auto simp: composite_verify_iff drop_update_swap)

text \<open>A field under the hash that changes makes another transaction, so the pre-image changes.\<close>

lemma mutated_field_iff:
  assumes "rlp_laws R" "tx_small tx" "tx_small tx'" "pk_valid K pub"
    and "composite_verify K pub (signature_hash (hsh K) R tx) (bound_hash K (tx_chain_id tx) pub) sig = Ok ()"
    and "tx_chain_id tx' = tx_chain_id tx" "tx_unsigned tx' \<noteq> tx_unsigned tx"
  shows "recover_sender K R (signed_tx tx' pub sig) = Ok (derive_address (hsh K) pub) \<longleftrightarrow>
    serves_other K R tx pub sig tx'"
proof -
  have p: "signature_preimage R tx' \<noteq> signature_preimage R tx"
    using signature_preimage_inj [OF assms(1) tx_small_fits [OF assms(1,3)] tx_small_fits [OF assms(1,2)]]
      assms(7) by blast
  have h: "signature_hash (hsh K) R (signed_tx tx' pub sig) = signature_hash (hsh K) R tx'"
    by (rule signature_hash_unsigned) simp
  have "recover_sender K R (signed_tx tx' pub sig) = Ok (derive_address (hsh K) pub) \<longleftrightarrow>
      composite_verify K pub (signature_hash (hsh K) R tx') (bound_hash K (tx_chain_id tx) pub) sig = Ok ()"
    using recover_with_key [OF assms(4), of "signed_tx tx' pub sig" sig R] h assms(6) by simp
  with p assms(5) show ?thesis by (auto simp: serves_other_def)
qed

lemma unsigned_case_small:
  assumes "unsigned_case tx"
  shows "tx_small tx"
  using assms by (auto simp: unsigned_case_def arb_unsigned_tx_def tx_small_def tx_typed_def default_to_def)

lemma xor_byte_changes: "i < length xs \<Longrightarrow> x \<noteq> 0 \<Longrightarrow> xs[i := xs ! i XOR x] \<noteq> (xs :: bytes)"
  using xor_changes [of x "xs ! i"] by (metis nth_list_update_eq)

lemma unsigned_fields_differ:
  "tx_nonce t \<noteq> tx_nonce t' \<or> tx_value t \<noteq> tx_value t' \<or> tx_data t \<noteq> tx_data t' \<Longrightarrow>
    tx_unsigned t \<noteq> tx_unsigned t'"
  by (auto simp: tx_unsigned_def dest: arg_cong [where f = tx_nonce] arg_cong [where f = tx_value]
      arg_cong [where f = tx_data])

text \<open>What is known of a signed transaction, and what a mutation does to it.\<close>

definition signed_by ::
  "('dv, 'ds, 'dg, 'v, 's, 'g, 'r, 'es, 'ep, 'pt, 'sc) crates \<Rightarrow> rlp_crate \<Rightarrow> bc_tx \<Rightarrow> bc_public_key
     \<Rightarrow> bytes \<Rightarrow> bool" where
  "signed_by K R tx pub sig \<longleftrightarrow> length sig = 4873 \<and> pk_valid K pub \<and>
     composite_verify K pub (signature_hash (hsh K) R tx) (bound_hash K (tx_chain_id tx) pub) sig = Ok ()"

definition mutation_detected_iff ::
  "('dv, 'ds, 'dg, 'v, 's, 'g, 'r, 'es, 'ep, 'pt, 'sc) crates \<Rightarrow> rlp_crate \<Rightarrow> bc_tx \<Rightarrow> bc_public_key
     \<Rightarrow> bytes \<Rightarrow> tx_mutation \<Rightarrow> bool" where
  "mutation_detected_iff K R tx pub sig m \<longleftrightarrow>
     (\<exists>t'. apply_mutation (signed_tx tx pub sig) m = Ok (t', True) \<and>
        (recover_sender K R t' = Ok (derive_address (hsh K) pub) \<longleftrightarrow> mutation_event K R tx pub sig m))"

lemma mutated_signature:
  assumes "signed_by K R tx pub sig"
  shows "mutation_detected_iff K R tx pub sig (PqcSignature i x)"
proof -
  note s = assms [unfolded signed_by_def]
  let ?sig' = "sig[i mod 4873 := sig ! (i mod 4873) XOR x]"
  have "signature_hash (hsh K) R (signed_tx tx pub ?sig') = signature_hash (hsh K) R tx"
    by (rule signature_hash_unsigned) simp
  then have "recover_sender K R (signed_tx tx pub ?sig') = Ok (derive_address (hsh K) pub) \<longleftrightarrow>
      mutation_event K R tx pub sig (PqcSignature i x)"
    using recover_with_key [of K pub "signed_tx tx pub ?sig'" ?sig' R] s
      mutated_signature_iff [of sig K pub _ _ "i mod 4873" x] by (simp add: Let_def)
  moreover have "sig \<noteq> []" using s by auto
  then have "apply_mutation (signed_tx tx pub sig) (PqcSignature i x) = Ok (signed_tx tx pub ?sig', True)"
    using s by simp (simp add: signed_tx_def)
  ultimately show ?thesis unfolding mutation_detected_iff_def by blast
qed

lemma mutated_key:
  assumes "signed_by K R tx pub sig" "x \<noteq> 0"
  shows "mutation_detected_iff K R tx pub sig (PubKey i x)"
proof -
  note s = assms(1) [unfolded signed_by_def]
  have l: "length (bpk_to_bytes pub) = 2782" using pk_valid_size s by blast
  define kb where "kb = (bpk_to_bytes pub)[i mod 2782 := bpk_to_bytes pub ! (i mod 2782) XOR x]"
  have d: "kb \<noteq> bpk_to_bytes pub"
    using xor_byte_changes [of "i mod 2782" "bpk_to_bytes pub" x] assms(2) l by (simp add: kb_def)
  let ?t = "(signed_tx tx pub sig)\<lparr>tx_pub_key := Some kb\<rparr>"
  have "signature_hash (hsh K) R ?t = signature_hash (hsh K) R tx"
    by (rule signature_hash_unsigned) (simp add: tx_unsigned_def signed_tx_def)
  then have "recover_sender K R ?t = Ok (derive_address (hsh K) pub) \<longleftrightarrow>
      (\<exists>pk'. kb = bpk_to_bytes pk' \<and> pk_valid K pk' \<and> derive_address (hsh K) pub = derive_address (hsh K) pk' \<and>
        composite_verify K pk' (signature_hash (hsh K) R tx) (bound_hash K (tx_chain_id tx) pk') sig = Ok ())"
    by (simp add: recover_sender_iff)
  also have "\<dots> \<longleftrightarrow> mutation_event K R tx pub sig (PubKey i x)"
    unfolding mutation_event.simps kb_def [symmetric] using d by metis
  finally have "recover_sender K R ?t = Ok (derive_address (hsh K) pub) \<longleftrightarrow>
      mutation_event K R tx pub sig (PubKey i x)" .
  moreover have "bpk_to_bytes pub \<noteq> []" using l by auto
  then have "apply_mutation (signed_tx tx pub sig) (PubKey i x) = Ok (?t, True)"
    using l by (simp add: kb_def)
  ultimately show ?thesis unfolding mutation_detected_iff_def by blast
qed

lemma mutated_field:
  assumes "signed_by K R tx pub sig" "rlp_laws R" "tx_small tx" "tx_small tx'"
    and "tx_chain_id tx' = tx_chain_id tx" "tx_unsigned tx' \<noteq> tx_unsigned tx"
    and "apply_mutation (signed_tx tx pub sig) m = Ok (signed_tx tx' pub sig, True)"
    and "mutation_event K R tx pub sig m \<longleftrightarrow> serves_other K R tx pub sig tx'"
  shows "mutation_detected_iff K R tx pub sig m"
  using mutated_field_iff [OF assms(2-4) _ _ assms(5,6), of K pub sig] assms(1,7,8)
  by (auto simp: mutation_detected_iff_def signed_by_def)

lemma mutated_data:
  assumes "signed_by K R tx pub sig" "rlp_laws R" "tx_small tx" "tx_data tx \<noteq> []" "x \<noteq> 0"
  shows "mutation_detected_iff K R tx pub sig (DataXor i x)"
proof -
  let ?d = "tx_data tx" let ?j = "i mod length ?d"
  let ?t = "tx\<lparr>tx_data := ?d[?j := ?d ! ?j XOR x]\<rparr>"
  have d: "tx_data (signed_tx tx pub sig) = ?d" by (simp add: signed_tx_def)
  have "?j < length ?d" using assms(4) by simp
  then have "tx_unsigned ?t \<noteq> tx_unsigned tx"
    using xor_byte_changes [OF _ assms(5)] by (intro unsigned_fields_differ) simp
  moreover have "apply_mutation (signed_tx tx pub sig) (DataXor i x) = Ok (signed_tx ?t pub sig, True)"
    using assms(4) by (simp add: d) (simp add: signed_tx_def)
  moreover have "tx_small ?t" using assms(3) by (simp add: tx_small_def tx_typed_def)
  ultimately show ?thesis
    by (intro mutated_field [OF assms(1-3), of ?t]) (use assms(4) in \<open>simp_all add: Let_def\<close>)
qed

text \<open>Every mutation in range changes a field, but for a data byte of an empty field.\<close>

lemma mutation_cases:
  assumes s: "signed_by K R tx pub sig" and "rlp_laws R" "tx_small tx" "arb_mutation m"
  shows "mutation_detected_iff K R tx pub sig m \<or>
    apply_mutation (signed_tx tx pub sig) m = Ok (signed_tx tx pub sig, False) \<and>
    \<not> mutation_event K R tx pub sig m"
proof (cases m)
  case (PqcSignature i x)
  then show ?thesis using mutated_signature [OF s] by simp
next
  case (PubKey i x)
  then have "x \<noteq> 0" using assms(4) by auto
  then show ?thesis using mutated_key [OF s] by (simp add: PubKey)
next
  case (ChainId x)
  then have "x \<noteq> 0" using assms(4) by auto
  then show ?thesis
    using chain_id_binds [of x K R tx pub sig] by (simp add: mutation_detected_iff_def ChainId)
next
  case (Nonce x)
  then have "x \<noteq> 0" using assms(4) by auto
  then have "mutation_detected_iff K R tx pub sig (Nonce x)"
    using xor_changes [of x "tx_nonce tx"] assms(3)
    by (intro mutated_field [OF s assms(2,3), of "tx\<lparr>tx_nonce := tx_nonce tx XOR x\<rparr>"])
      (simp_all add: unsigned_fields_differ signed_tx_def tx_small_def tx_typed_def)
  then show ?thesis by (simp add: Nonce)
next
  case (ValueXor x)
  have "unat (ucast x :: 256 word) = unat x"
    by (simp add: unsigned_ucast_eq take_bit_nat_eq_self_iff less_trans [OF unat_byte_less])
  moreover have "x \<noteq> 0" using assms(4) ValueXor by auto
  ultimately have "ucast x \<noteq> (0 :: 256 word)" by (auto simp: word_unat_eq_iff)
  then have "mutation_detected_iff K R tx pub sig (ValueXor x)"
    using xor_changes [of "ucast x" "tx_value tx"] assms(3)
    by (intro mutated_field [OF s assms(2,3), of "tx\<lparr>tx_value := tx_value tx XOR ucast x\<rparr>"])
      (simp_all add: unsigned_fields_differ signed_tx_def tx_small_def tx_typed_def)
  then show ?thesis by (simp add: ValueXor)
next
  case (DataXor i x)
  then have "x \<noteq> 0" using assms(4) by auto
  moreover have "tx_data (signed_tx tx pub sig) = tx_data tx" by (simp add: signed_tx_def)
  ultimately show ?thesis
    using mutated_data [OF assms(1-3)] by (cases "tx_data tx = []") (simp_all add: DataXor)
qed

lemma prop_mutation_iff:
  assumes L: "crates_laws K C" "rlp_laws R" and g: "bsk_generate K seed = Ok (k, pub)"
    and "unsigned_case tx" "arb_mutation m"
  shows "\<exists>sig. sign_transaction K R r k tx = Ok (signed_tx tx pub sig) \<and>
    panic_free (prop_mutation_never_panics K R r seed tx m) \<and>
    (prop_mutation_never_panics K R r seed tx m = Ok () \<longleftrightarrow> \<not> mutation_event K R tx pub sig m)"
proof -
  obtain sig where s: "sign_transaction K R r k tx = Ok (signed_tx tx pub sig)" "signed_by K R tx pub sig"
      "recover_sender K R (signed_tx tx pub sig) = Ok (derive_address (hsh K) pub)"
    using signed_generated [OF L(1) g, of R r tx] unfolding signed_by_def by metis
  have "panic_free (prop_mutation_never_panics K R r seed tx m) \<and>
    (prop_mutation_never_panics K R r seed tx m = Ok () \<longleftrightarrow> \<not> mutation_event K R tx pub sig m)"
    using mutation_cases [OF s(2) L(2) unsigned_case_small [OF assms(4)] assms(5)]
  proof
    assume "mutation_detected_iff K R tx pub sig m"
    then obtain t' where t: "apply_mutation (signed_tx tx pub sig) m = Ok (t', True)"
        "recover_sender K R t' = Ok (derive_address (hsh K) pub) \<longleftrightarrow> mutation_event K R tx pub sig m"
      unfolding mutation_detected_iff_def by blast
    then show ?thesis by (simp add: prop_mutation_never_panics_def g s(1) recover_other_address)
  qed (simp add: prop_mutation_never_panics_def g s(1,3))
  with s(1) show ?thesis by blast
qed

end
