(* ===== verification/Benchmarks.thy ===== *)
theory Benchmarks
  imports Api
begin

text \<open>
  The benchmark suite \<^verbatim>\<open>benches/latency.rs\<close>, as functions that return or panic.  The harness
  (\<^verbatim>\<open>criterion\<close>) is third-party: how often it runs the routine of a benchmark is the parameter
  \<open>iters\<close>, a function of the benchmark's name, and \<^verbatim>\<open>black_box\<close>, which keeps the compiler from
  removing a computation, is the identity.  \<open>getrandom q\<close> is the draw \<open>q\<close> of the operating system,
  \<open>r b i\<close> the draws of the signature in the run \<open>i\<close> of the benchmark \<open>b\<close>, and \<open>r0\<close> those of a
  signature made while a group is set up.  Time is not modelled: the lemmas show when a
  run of the suite ends without a panic.
\<close>

section \<open>The harness\<close>

datatype bench_id = Bench string string | Bench_with string string nat

primrec b_iter :: "nat \<Rightarrow> (nat \<Rightarrow> (unit, 'e) outcome) \<Rightarrow> (unit, 'e) outcome" where
  "b_iter 0 routine = Ok ()"
| "b_iter (Suc n) routine = and_then (b_iter n routine) (\<lambda>_. routine n)"

primrec for_each :: "'a list \<Rightarrow> ('a \<Rightarrow> (unit, 'e) outcome) \<Rightarrow> (unit, 'e) outcome" where
  "for_each [] body = Ok ()"
| "for_each (x # xs) body = and_then (body x) (\<lambda>_. for_each xs body)"

definition bench_function ::
  "(bench_id \<Rightarrow> nat) \<Rightarrow> bench_id \<Rightarrow> (nat \<Rightarrow> (unit, 'e) outcome) \<Rightarrow> (unit, 'e) outcome" where
  "bench_function iters b routine = b_iter (iters b) routine"

section \<open>Helpers of the suite\<close>

definition fixed_seed :: bytes where
  "fixed_seed = map (\<lambda>i. word_of_nat (i * 7 + 13)) [0..<64]"

definition tx_template :: bc_tx where
  "tx_template =
     \<lparr>tx_chain_id = 1, tx_nonce = 42, tx_max_priority_fee_per_gas = 1500000000,
      tx_max_fee_per_gas = 30000000000, tx_gas_limit = 21000, tx_to = Some (replicate 20 0xaa),
      tx_value = 1000000000000000000, tx_data = [], tx_v = None, tx_r = None, tx_s = None,
      tx_pqc_signature = None, tx_pub_key = None\<rparr>"

definition tx_template_with_data :: bc_tx where
  "tx_template_with_data = tx_template\<lparr>tx_data := replicate 1024 0xab\<rparr>"

definition payload_sizes :: "nat list" where
  "payload_sizes = [0, 256, 1024, 4096, 16384]"

section \<open>The groups\<close>

definition bench_bip39 ::
  "'mn bip39 \<Rightarrow> (bench_id \<Rightarrow> nat) \<Rightarrow> (nat \<Rightarrow> nat \<Rightarrow> string + bytes) \<Rightarrow> (unit, 'e) outcome" where
  "bench_bip39 M iters getrandom =
     (let generate = Bench ''bip39'' ''generate_mnemonic'' in
      and_then (bench_function iters generate
        (\<lambda>i. and_then (unwrapped (generate_mnemonic M (getrandom i))) (\<lambda>_. Ok ())))
   (\<lambda>_. and_then (unwrapped (generate_mnemonic M (getrandom (iters generate))))
   (\<lambda>mnemonic. bench_function iters (Bench ''bip39'' ''seed_from_mnemonic'')
      (\<lambda>_. discard (seed_from_mnemonic M mnemonic [])))))"

definition bench_hd_derivation ::
  "hashes \<Rightarrow> ('x, 'cn) bip32 \<Rightarrow> (bench_id \<Rightarrow> nat) \<Rightarrow> (unit, 'e) outcome" where
  "bench_hd_derivation H X iters =
     (let seed = fixed_seed in
      and_then (unwrapped (parse_hardened_path
        (lit (''m/44'' @ [CHR 0x27] @ ''/60'' @ [CHR 0x27] @ ''/0'' @ [CHR 0x27] @ ''/0'' @ [CHR 0x27]
          @ ''/0'' @ [CHR 0x27]))))
   (\<lambda>path. and_then (bench_function iters (Bench ''hd_derivation'' ''derive_child_seed'')
      (\<lambda>_. discard (derive_child_seed X seed path)))
   (\<lambda>_. and_then (slice 32 48 seed)
   (\<lambda>mdecc_master. and_then
      (bench_function iters (Bench ''hd_derivation'' ''derive_mdecc_curve_seed_p521'')
        (\<lambda>_. discard (derive_mdecc_curve_seed H mdecc_master CURVE_ID_P521 66)))
   (\<lambda>_. bench_function iters (Bench ''hd_derivation'' ''derive_mdecc_curve_seed_ed448'')
      (\<lambda>_. discard (derive_mdecc_curve_seed H mdecc_master CURVE_ID_ED448 57)))))))"

definition bench_keygen ::
  "('dv, 'ds, 'dg, 'v, 's, 'g, 'r, 'es, 'ep, 'pt, 'sc) crates
     \<Rightarrow> (bench_id \<Rightarrow> nat) \<Rightarrow> (unit, 'e) outcome" where
  "bench_keygen K iters =
     (let seed = fixed_seed in
      bench_function iters (Bench ''keygen'' ''hybrid_keygen_from_seed'')
        (\<lambda>_. discard (bsk_generate K seed)))"

definition bench_pubkey_serde ::
  "('dv, 'ds, 'dg, 'v, 's, 'g, 'r, 'es, 'ep, 'pt, 'sc) crates
     \<Rightarrow> (bench_id \<Rightarrow> nat) \<Rightarrow> (unit, 'e) outcome" where
  "bench_pubkey_serde K iters =
     (let seed = fixed_seed in
      and_then (unwrapped (bsk_generate K seed))
   (\<lambda>(_, pub_key). let pk_bytes = bpk_to_bytes pub_key in
      and_then (bench_function iters (Bench ''pubkey_serde'' ''pubkey_to_bytes'')
        (\<lambda>_. let _ = bpk_to_bytes pub_key in Ok ()))
   (\<lambda>_. and_then (bench_function iters (Bench ''pubkey_serde'' ''pubkey_from_bytes'')
        (\<lambda>_. discard (bpk_from_bytes K pk_bytes)))
   (\<lambda>_. bench_function iters (Bench ''pubkey_serde'' ''derive_address'')
        (\<lambda>_. let _ = derive_address (hsh K) pub_key in Ok ())))))"

definition bench_tx_hash ::
  "hashes \<Rightarrow> rlp_crate \<Rightarrow> (bench_id \<Rightarrow> nat) \<Rightarrow> (unit, 'e) outcome" where
  "bench_tx_hash H R iters =
     (let tx_empty = tx_template; tx_1kb = tx_template_with_data in
      and_then (bench_function iters (Bench ''tx_hash'' ''signature_hash_empty_data'')
        (\<lambda>_. let _ = signature_hash H R tx_empty in Ok ()))
   (\<lambda>_. bench_function iters (Bench ''tx_hash'' ''signature_hash_1kb_data'')
        (\<lambda>_. let _ = signature_hash H R tx_1kb in Ok ())))"

definition bench_signing ::
  "('dv, 'ds, 'dg, 'v, 's, 'g, 'r, 'es, 'ep, 'pt, 'sc) crates \<Rightarrow> rlp_crate
     \<Rightarrow> (bench_id \<Rightarrow> nat) \<Rightarrow> (bench_id \<Rightarrow> nat \<Rightarrow> 'r) \<Rightarrow> (unit, 'e) outcome" where
  "bench_signing K R iters r =
     (let seed = fixed_seed;
          empty_data = Bench ''signing'' ''sign_tx_empty_data'';
          kb_data = Bench ''signing'' ''sign_tx_1kb_data'' in
      and_then (unwrapped (bsk_generate K seed))
   (\<lambda>(priv_key, _). and_then (bench_function iters empty_data
        (\<lambda>i. let tx = tx_template in
           and_then (unwrapped (sign_transaction K R (r empty_data i) priv_key tx)) (\<lambda>_. Ok ())))
   (\<lambda>_. bench_function iters kb_data
        (\<lambda>i. let tx = tx_template_with_data in
           and_then (unwrapped (sign_transaction K R (r kb_data i) priv_key tx)) (\<lambda>_. Ok ())))))"

definition bench_recovery ::
  "('dv, 'ds, 'dg, 'v, 's, 'g, 'r, 'es, 'ep, 'pt, 'sc) crates \<Rightarrow> rlp_crate
     \<Rightarrow> (bench_id \<Rightarrow> nat) \<Rightarrow> (nat \<Rightarrow> 'r) \<Rightarrow> (unit, 'e) outcome" where
  "bench_recovery K R iters r0 =
     (let seed = fixed_seed in
      and_then (unwrapped (bsk_generate K seed))
   (\<lambda>(priv_key, _). and_then (unwrapped (sign_transaction K R (r0 0) priv_key tx_template))
   (\<lambda>tx_signed. and_then (unwrapped (sign_transaction K R (r0 1) priv_key tx_template_with_data))
   (\<lambda>tx_signed_1kb. and_then (bench_function iters (Bench ''recovery'' ''recover_sender_empty_data'')
        (\<lambda>_. discard (recover_sender K R tx_signed)))
   (\<lambda>_. bench_function iters (Bench ''recovery'' ''recover_sender_1kb_data'')
        (\<lambda>_. discard (recover_sender K R tx_signed_1kb)))))))"

definition bench_e2e ::
  "('dv, 'ds, 'dg, 'v, 's, 'g, 'r, 'es, 'ep, 'pt, 'sc) crates \<Rightarrow> rlp_crate
     \<Rightarrow> (bench_id \<Rightarrow> nat) \<Rightarrow> (bench_id \<Rightarrow> nat \<Rightarrow> 'r) \<Rightarrow> (unit, 'e) outcome" where
  "bench_e2e K R iters r =
     (let b = Bench ''e2e_pipeline'' ''keygen_sign_recover''; seed = fixed_seed in
      bench_function iters b
        (\<lambda>i. and_then (unwrapped (bsk_generate K seed))
        (\<lambda>(priv_key, pub_key). let expected_addr = derive_address (hsh K) pub_key; tx = tx_template in
           and_then (unwrapped (sign_transaction K R (r b i) priv_key tx))
        (\<lambda>tx. and_then (unwrapped (recover_sender K R tx))
        (\<lambda>recovered. assert_that (recovered = expected_addr)
           [Str ''assertion `left == right` failed''])))))"

definition sized_tx :: "nat \<Rightarrow> bc_tx" where
  "sized_tx n = tx_template\<lparr>tx_data := replicate n 0xcd\<rparr>"

definition bench_payload_scaling ::
  "('dv, 'ds, 'dg, 'v, 's, 'g, 'r, 'es, 'ep, 'pt, 'sc) crates \<Rightarrow> rlp_crate
     \<Rightarrow> (bench_id \<Rightarrow> nat) \<Rightarrow> (bench_id \<Rightarrow> nat \<Rightarrow> 'r) \<Rightarrow> (nat \<Rightarrow> 'r) \<Rightarrow> (unit, 'e) outcome" where
  "bench_payload_scaling K R iters r r0 =
     (let seed = fixed_seed in
      and_then (unwrapped (bsk_generate K seed))
   (\<lambda>(priv_key, _). and_then (for_each payload_sizes
        (\<lambda>size. let b = Bench_with ''payload_scaling'' ''sign'' size in
           bench_function iters b
             (\<lambda>i. and_then (unwrapped (sign_transaction K R (r b i) priv_key (sized_tx size)))
               (\<lambda>_. Ok ()))))
   (\<lambda>_. for_each payload_sizes
        (\<lambda>size. and_then (unwrapped (sign_transaction K R (r0 size) priv_key (sized_tx size)))
        (\<lambda>tx. bench_function iters (Bench_with ''payload_scaling'' ''recover'' size)
           (\<lambda>_. discard (recover_sender K R tx)))))))"

text \<open>The groups in the order of their registration.\<close>

definition benches ::
  "('dv, 'ds, 'dg, 'v, 's, 'g, 'r, 'es, 'ep, 'pt, 'sc) crates \<Rightarrow> 'mn bip39
     \<Rightarrow> ('x, 'cn) bip32 \<Rightarrow> rlp_crate \<Rightarrow> (bench_id \<Rightarrow> nat) \<Rightarrow> (nat \<Rightarrow> nat \<Rightarrow> string + bytes)
     \<Rightarrow> (bench_id \<Rightarrow> nat \<Rightarrow> 'r) \<Rightarrow> (nat \<Rightarrow> 'r) \<Rightarrow> (nat \<Rightarrow> 'r) \<Rightarrow> (unit, 'e) outcome" where
  "benches K M X R iters getrandom r r0 r1 =
     and_then (bench_bip39 M iters getrandom)
   (\<lambda>_. and_then (bench_hd_derivation (hsh K) X iters)
   (\<lambda>_. and_then (bench_keygen K iters)
   (\<lambda>_. and_then (bench_pubkey_serde K iters)
   (\<lambda>_. and_then (bench_tx_hash (hsh K) R iters)
   (\<lambda>_. and_then (bench_signing K R iters r)
   (\<lambda>_. and_then (bench_recovery K R iters r0)
   (\<lambda>_. and_then (bench_e2e K R iters r)
   (\<lambda>_. bench_payload_scaling K R iters r r1))))))))"

section \<open>Runs of the suite\<close>

lemma b_iter_Ok: "b_iter n f = Ok () \<longleftrightarrow> (\<forall>i<n. f i = Ok ())"
  by (induction n) (auto simp: less_Suc_eq)

lemma bench_function_Ok [simp]:
  "bench_function iters b f = Ok () \<longleftrightarrow> (\<forall>i<iters b. f i = Ok ())"
  by (simp add: bench_function_def b_iter_Ok)

lemma for_each_Ok [simp]: "for_each xs f = Ok () \<longleftrightarrow> (\<forall>x\<in>set xs. f x = Ok ())"
  by (induction xs) auto

lemma fixed_seed_size [simp]: "length fixed_seed = 64"
  by (simp add: fixed_seed_def)

lemma bench_bip39_returns:
  assumes "bip39_laws M" and "\<And>q. \<exists>entropy. getrandom q 32 = Inr entropy \<and> length entropy = 32"
  shows "bench_bip39 M iters getrandom = Ok ()"
proof -
  have g: "\<exists>phrase. generate_mnemonic M (getrandom q) = Ok phrase" for q
    using assms(2) [of q] generate_mnemonic_seed [OF assms(1)] by blast
  obtain phrase where "generate_mnemonic M (getrandom (iters (Bench ''bip39'' ''generate_mnemonic''))) = Ok phrase"
    using g by blast
  then show ?thesis
    using g by (simp add: bench_bip39_def Let_def discard_panic_free seed_from_mnemonic_panic_free)
qed

lemma bench_hd_derivation_returns: "bench_hd_derivation H X iters = Ok ()"
  using parse_account_path [of 0]
  by (simp add: bench_hd_derivation_def discard_panic_free derive_child_seed_panic_free
      derive_mdecc_panic_free DEFAULT_ACCOUNT_PATH_account [symmetric] DEFAULT_ACCOUNT_PATH_def)

text \<open>
  The master of the curve seeds that the suite times is the first half of the one the library
  uses: 16 bytes instead of 32.
\<close>

lemma bench_master_half:
  assumes "slice 32 48 fixed_seed = (Ok a :: (bytes, 'e) outcome)"
    and "slice 32 64 fixed_seed = (Ok b :: (bytes, 'e) outcome)"
  shows "length a = 16" "length b = 32" "a = take 16 b"
  using assms by auto

lemma key_benches_return:
  assumes "crates_laws K C" and g: "bsk_generate K fixed_seed = Ok (k, pub)"
  shows "bench_keygen K iters = Ok ()" and "bench_pubkey_serde K iters = Ok ()"
    and "bench_signing K R iters r = Ok ()" and "bench_recovery K R iters r0 = Ok ()"
    and "bench_e2e K R iters r = Ok ()" and "bench_payload_scaling K R iters r r0 = Ok ()"
proof -
  have w: "key_wf K k" by (rule bsk_generate_wf [OF assms])
  have p: "pub = bsk_public k" by (rule bsk_generate_Ok(2) [OF assms])
  have s: "\<exists>tx'. sign_transaction K R d k tx = Ok tx' \<and> recover_sender K R tx' = Ok (derive_address (hsh K) pub)" for d tx
    using signed_recovers [OF assms(1) w] unfolding p by blast
  then have s': "\<exists>tx'. sign_transaction K R d k tx = Ok tx'" for d tx by blast
  show "bench_keygen K iters = Ok ()" by (simp add: bench_keygen_def g discard_panic_free)
  show "bench_pubkey_serde K iters = Ok ()"
    by (simp add: bench_pubkey_serde_def g discard_panic_free bpk_from_bytes_panic_free)
  show "bench_signing K R iters r = Ok ()"
    using s' by (simp add: bench_signing_def g Let_def)
  show "bench_recovery K R iters r0 = Ok ()"
    using s' by (fastforce simp: bench_recovery_def g discard_panic_free recover_sender_panic_free)
  show "bench_e2e K R iters r = Ok ()"
  proof -
    have "\<exists>tx'. sign_transaction K R (r (Bench ''e2e_pipeline'' ''keygen_sign_recover'') i) k tx_template = Ok tx' \<and>
        recover_sender K R tx' = Ok (derive_address (hsh K) pub)" for i by (rule s)
    then show ?thesis by (auto simp: bench_e2e_def g Let_def)
  qed
  show "bench_payload_scaling K R iters r r0 = Ok ()"
    by (simp add: s' bench_payload_scaling_def g Let_def discard_panic_free recover_sender_panic_free)
qed

text \<open>
  Every run of the suite, however often the harness repeats the routines, ends without a panic
  exactly when the fixed seed gives a key.
\<close>

theorem benches_return:
  assumes "crates_laws K C" "bip39_laws M"
    and "\<And>q. \<exists>entropy. getrandom q 32 = Inr entropy \<and> length entropy = 32"
  shows "benches K M X R iters getrandom r r0 r1 = Ok () \<longleftrightarrow> accepted (bsk_generate K fixed_seed)"
proof (cases "bsk_generate K fixed_seed")
  case (Inr kp)
  then obtain k pub where g: "bsk_generate K fixed_seed = Ok (k, pub)" by (cases kp) auto
  show ?thesis
    by (simp add: benches_def bench_hd_derivation_returns bench_tx_hash_def g
        key_benches_return [OF assms(1) g] bench_bip39_returns [of M getrandom iters, OF assms(2,3)])
next
  case (Inl e)
  then show ?thesis
    by (auto simp: benches_def bench_pubkey_serde_def Let_def)
qed

end
