(* ===== verification/Test_Props.thy ===== *)
theory Test_Props
  imports Reference Unit_Tests MlDsa_Tests P521_Tests Ed448_Tests Adversarial Benchmarks
begin

text \<open>
  Properties of the unit tests inside the modules and of the property-based tests: which of them
  pass whatever the crates are, and what the others say about the crates.
\<close>

section \<open>The unit tests\<close>

text \<open>
  The unit tests of what the library promises pass: when wallets can be created and the
  signing seed gives a key, the tests of the shape of a wallet, of signing and verifying messages
  and of signatures of a wrong length, of signing, re-signing and verifying transactions, of the
  envelope and of the codec return, for every implementation of the crates that keeps its laws.
\<close>

theorem unit_tests_pass:
  assumes "crates_laws K C" "rlp_laws R"
    and "\<And>pw. accepted (create_wallet K M X (getrandom q) pw)" "accepted (bsk_generate K signing_seed)"
  shows "test_create_wallet_basic_shape K M X getrandom q = Ok () \<and>
    test_create_wallet_empty_passphrase K M X getrandom q = Ok () \<and>
    test_create_wallet_unicode_passphrase K M X getrandom q = Ok () \<and>
    test_create_wallet_very_long_passphrase K M X getrandom q = Ok () \<and>
    test_sign_verify_empty_message K M X getrandom q r = Ok () \<and>
    test_sign_verify_large_message K M X getrandom q r = Ok () \<and>
    test_sign_verify_message_with_null_bytes K M X getrandom q r = Ok () \<and>
    test_sign_deterministic_or_nondeterministic K M X getrandom q r1 r2 = Ok () \<and>
    test_verify_message_truncated_signature_fails K M X getrandom q r = Ok () \<and>
    test_verify_message_empty_signature_fails K M X getrandom q = Ok () \<and>
    test_verify_message_garbage_signature_fails K M X getrandom q = Ok () \<and>
    test_verify_message_appended_bytes_fails K M X getrandom q r = Ok () \<and>
    test_sign_and_verify_transaction_roundtrip K M X R getrandom q r = Ok () \<and>
    test_verify_unsigned_transaction_fails K R = Ok () \<and>
    test_resigned_transaction K M X R getrandom q r1 r2 = Ok () \<and>
    test_composite_sign_and_recover_roundtrip K R r = Ok () \<and>
    mutated_vrs_envelope_is_rejected K R r = Ok () \<and>
    encode_decode_roundtrip_unsigned R = Ok () \<and> encode_decode_roundtrip_signed R = Ok () \<and>
    trailing_bytes_are_not_consumed R = Ok ()"
proof -
  have w: "\<exists>m k. create_wallet K M X (getrandom q) pw = Ok (m, k)" for pw using assms(3) [of pw] by auto
  obtain m k where e: "create_wallet K M X (getrandom q) [] = Ok (m, k)" using w by blast
  obtain k' pub where g: "bsk_generate K signing_seed = Ok (k', pub)" using assms(4) by auto
  show ?thesis
    by (intro conjI wallet_shape_tests [where getrandom = getrandom and q = q, OF assms(1) w]
        message_tests [where getrandom = getrandom and q = q, OF assms(1) e]
        transaction_tests [where getrandom = getrandom and q = q, OF assms(1) e]
        signing_tests [OF assms(1) g] codec_tests [OF assms(2)])
qed

theorem unit_tests_pass_witness:
  "test_resigned_transaction crates_ref bip39_ref bip32_ref rlp_ref (\<lambda>q n. Inr (replicate n 5)) () 0 1 = Ok () \<and>
   mutated_vrs_envelope_is_rejected crates_ref rlp_ref 0 = Ok ()"
proof -
  have "64 \<le> length signing_seed" by (simp add: signing_seed_def)
  then have g: "accepted (bsk_generate crates_ref signing_seed)"
    using generate_ref [of signing_seed] by auto
  show ?thesis
    using unit_tests_pass [where getrandom = "\<lambda>(q :: unit) n. Inr (replicate n 5)" and r = 0
        and ?r1.0 = 0 and ?r2.0 = 1, OF crates_ref_laws rlp_ref_laws create_wallet_ref g] by blast
qed

section \<open>The benchmarks\<close>

theorem benches_return_witness:
  "benches crates_ref bip39_ref bip32_ref rlp_ref (\<lambda>_. 3) (\<lambda>q n. Inr (replicate n 5))
     (\<lambda>b i. 0) (\<lambda>_. 0) (\<lambda>_. 1) = Ok ()"
proof -
  have "64 \<le> length fixed_seed" by simp
  then have "accepted (bsk_generate crates_ref fixed_seed)"
    using generate_ref [of fixed_seed] by auto
  then show ?thesis
    by (subst benches_return [OF crates_ref_laws bip39_ref_laws]) simp_all
qed

section \<open>The property-based tests\<close>

text \<open>
  C39. On every value their strategies generate, five of the property-based tests pass, once the
  seed gives a key: recovery of a signed transaction, parsing of arbitrary bytes as a key,
  determinism of the address, rejection of unsigned transactions, rejection of a replay on another
  chain.  The test of mutations never panics, and passes exactly unless the mutated transaction
  makes the crates accept a forgery: a changed signature part verifies for what was signed with
  another one, a changed key hashes to the same address, or the signature serves another
  transaction (\<open>mutation_event\<close>); a change of the chain id is always found.
\<close>

theorem adversarial_tests:
  assumes "crates_laws K C" "rlp_laws R" and "bsk_generate K seed = Ok (k, pub)"
    and "unsigned_case tx" "x \<noteq> 0" "arb_mutation m"
  shows "prop_signature_roundtrip K R r seed tx = Ok () \<and>
    prop_public_key_deser_never_panics K b = Ok () \<and>
    prop_address_derivation_is_deterministic K seed = Ok () \<and>
    prop_unsigned_tx_recovery_fails K R seed tx = Ok () \<and>
    prop_chain_id_mismatch_fails_or_differs K R r seed tx x = Ok () \<and>
    (\<exists>sig. sign_transaction K R r k tx = Ok (signed_tx tx pub sig) \<and>
      panic_free (prop_mutation_never_panics K R r seed tx m) \<and>
      (prop_mutation_never_panics K R r seed tx m = Ok () \<longleftrightarrow> \<not> mutation_event K R tx pub sig m))"
  by (intro conjI prop_tests_pass [OF assms(1,3)] prop_mutation_iff [OF assms(1-4,6)] assms(4,5))

theorem adversarial_tests_witness:
  "\<exists>k pub. bsk_generate crates_ref seed_ref = Ok (k, pub) \<and>
    (let tx = arb_unsigned_tx 1 2 21000 5 (Some (replicate 20 1)) [1, 2, 3] in
      prop_chain_id_mismatch_fails_or_differs crates_ref rlp_ref 0 seed_ref tx 8 = Ok () \<and>
      prop_mutation_never_panics crates_ref rlp_ref 0 seed_ref tx (ChainId 8) = Ok ())"
proof -
  obtain k where g: "bsk_generate crates_ref seed_ref = Ok (k, bsk_public k)" by (rule seed_ref_key)
  have u: "unsigned_case (arb_unsigned_tx 1 2 21000 5 (Some (replicate 20 1)) [1, 2, 3])"
    unfolding unsigned_case_def
    by (intro exI conjI; (rule refl)?) simp_all
  have m: "(8 :: 64 word) \<noteq> 0" "arb_mutation (ChainId 8)" by simp_all
  show ?thesis
    using adversarial_tests [OF crates_ref_laws rlp_ref_laws g u m, of 0 "[]"] g by (auto simp: Let_def)
qed

section \<open>The known-answer tests\<close>

text \<open>
  C40. The known-answer tests say of the crates what they should: the vector of RFC 8032 passes
  exactly when the in-memory library gives its public key and its signature (that the verifier
  on deserialised keys accepts it follows from their laws); the FIPS 204 vector passes exactly when
  the bytes of the file are the verifying key of the seed 0, 1, ..., 31; the NIST vectors pass
  exactly when the crate parses each key and signature, accepts the hash and rejects the hash with a
  flipped bit.  No other branch of the tests can fail: all vectors are well-formed and of the right
  sizes.
\<close>

theorem known_answer_tests:
  assumes "crates_laws K C" and "hex_laws hex_decode"
  shows "(rfc8032_ed448_blank_kat (hsh K) (edr K) (gld K) hex_decode = Ok () \<longleftrightarrow>
      (let k = ed448_key_of (edr K) (the (hex_bytes (lit KAT_SECRET))) in
       epk_raw (esk_public k) = the (hex_bytes (lit KAT_PUBLIC)) \<and>
       ed448_sign_msg (edr K) k [] None = Ok (the (hex_bytes (lit KAT_SIGNATURE))))) \<and>
    (mldsa87_fips204_keygen_kat (mld K) hex_decode = Ok () \<longleftrightarrow>
      hex_bytes (trim (lit LAMPS_PUB_HEX)) =
        Some (d_encode_vk (mld K) (d_verifying_key (mld K) (d_from_seed (mld K) counting_seed)))) \<and>
    (p521_fips186_4_verify_kat (p5 K) verify_prehash hex_decode = Ok () \<longleftrightarrow>
      (\<forall>v\<in>set fips_vectors. nist_vector_ok (p5 K) verify_prehash v))"
  using rfc8032_ed448_blank_kat_iff [OF crates_lawsD(4) [OF assms(1)] assms(2)]
    mldsa87_fips204_keygen_kat_iff [OF crates_lawsD(2) [OF assms(1)], of hex_decode]
    p521_fips186_4_verify_kat_iff [OF assms(2), of "p5 K" verify_prehash] hex_laws_iff [OF assms(2)]
  by (simp add: Let_def)

text \<open>The toy crates are none of the real ones: the vectors do not fit them.\<close>

theorem known_answer_tests_witness:
  "rfc8032_ed448_blank_kat hashes_ref ed448_ref gold_ref hex_ref \<noteq> Ok () \<and>
   p521_fips186_4_verify_kat p521_ref (\<lambda>v m g. Inr ()) hex_ref \<noteq> Ok ()"
proof -
  have e: "epk_raw (esk_public (ed448_key_of ed448_ref s)) =
      ed448_ref_pub (word_of_nat (be_nat s)) # replicate 56 0" for s
    by (simp add: ed448_key_of_def Let_def ed448_from_trusted_inner_def ed448_ref_def)
  have k: "the (hex_bytes (lit KAT_PUBLIC)) ! 1 = 0xd7" by code_simp
  have r: "epk_raw (esk_public (ed448_key_of ed448_ref s)) \<noteq> the (hex_bytes (lit KAT_PUBLIC))" for s
  proof
    assume eq: "epk_raw (esk_public (ed448_key_of ed448_ref s)) = the (hex_bytes (lit KAT_PUBLIC))"
    then show False using k unfolding e by (simp add: eq [symmetric, unfolded e])
  qed
  have "\<not> nist_vector_ok p521_ref (\<lambda>v m g. Inr ()) v" for v
    by (auto simp: nist_vector_ok_def)
  moreover have "hd fips_vectors \<in> set fips_vectors" by (simp add: fips_vectors_def)
  ultimately have "\<not> (\<forall>v\<in>set fips_vectors. nist_vector_ok p521_ref (\<lambda>v m g. Inr ()) v)" by blast
  then show ?thesis
    using known_answer_tests [OF crates_ref_laws hex_ref_laws, of "\<lambda>v m g. Inr ()"] r
    by (simp add: crates_ref_def Let_def)
qed

end
