(* ===== verification/Spec2Isabelle.thy ===== *)
theory Spec2Isabelle
  imports Tx_Props Wallet_Props Backend_Props Flow_Props System_Props Program_Props Test_Props
begin

text \<open>
  A verification library for the BlackChain cryptographic library: composite keys made of
  ML-DSA-87, P-521 and Ed448, wallets derived from mnemonics, and transactions signed with the
  three algorithms at once.

  \<^bold>\<open>The program.\<close>  \<^verbatim>\<open>src/sign.rs\<close> declares the traits of a signature scheme, and the
  three backends \<^verbatim>\<open>src/dilithium/mod.rs\<close>, \<^verbatim>\<open>src/mdecc/p521.rs\<close> and
  \<^verbatim>\<open>src/mdecc/ed448.rs\<close> implement them over third-party crates.  \<^verbatim>\<open>src/hdwallet\<close> turns a
  mnemonic into a 64-byte root seed, a path of hardened indices into a child seed, and a seed
  into one seed per curve.  \<^verbatim>\<open>src/crypto.rs\<close> generates the composite keys from such a seed and
  signs messages with them.  \<^verbatim>\<open>src/transaction\<close> holds the transaction, its RLP codec, and the
  signing and sender recovery that use the composite keys.  \<^verbatim>\<open>src/api.rs\<close> and
  \<^verbatim>\<open>src/wasm.rs\<close> are the interfaces for applications and for browser wallets.  Around the
  library are programs: two demos and three self-tests (\<^verbatim>\<open>src/bin\<close>), six fuzz targets
  (\<^verbatim>\<open>fuzz/fuzz_targets\<close>), the attack tests (\<^verbatim>\<open>src/attack_vectors.rs\<close>), the property-based tests
  (\<^verbatim>\<open>tests/adversarial.rs\<close>), the benchmarks (\<^verbatim>\<open>benches/latency.rs\<close>) and the unit tests inside
  the modules.

  \<^bold>\<open>The theories.\<close>
  \<^item> \<open>Prelude\<close>: bytes, strings as lists of code points, results (\<open>outcome\<close>: a value, an
    error, or a panic with its message), the operators \<^verbatim>\<open>?\<close>, \<^verbatim>\<open>map_err\<close>, \<^verbatim>\<open>expect\<close>, slicing
    with its panics, little- and big-endian values.  \<open>Rust_Str\<close>: the functions of \<^verbatim>\<open>str\<close>
    that are used (trimming, splitting, parsing a \<^verbatim>\<open>u32\<close>, UTF-8).  \<open>Errors\<close>:
    \<^verbatim>\<open>CryptoError\<close>.  \<open>Hashes\<close>: the hash functions as parameters with their output lengths.
  \<^item> \<open>Sign\<close>: \<^verbatim>\<open>sign.rs\<close>, with two interfaces.  The locale \<open>scheme_contract\<close> is what the
    documentation of the trait promises; the locale \<open>signature_leg\<close> is what the composite
    scheme needs of one algorithm.
  \<^item> \<open>MlDsa\<close>, \<open>P521\<close>, \<open>Ed448\<close>, \<open>Ed448_Verify\<close>: the backends, each with the record of its
    crate's functions, the laws that are relied on, every operation in the order of the source,
    and the interpretation of both interfaces.  \<open>Ed448_Verify\<close> states the verification of
    RFC 8032 over an abstract group and proves that the code decides it.
  \<^item> \<open>HdWallet\<close>: mnemonics, curve seeds, child seeds and the path parser, with the printer it is
    compared with.
  \<^item> \<open>Crypto\<close>: the composite keys.  \<open>composite_sign\<close> and \<open>composite_verify\<close> are the block that
    the message functions and the transaction functions of the source both contain.  \<open>key_wf\<close>
    is the invariant of a private key and \<open>pk_valid\<close> what a parsed public key satisfies; the
    proofs use the backends through the facts of \<open>signature_leg\<close> only.
  \<^item> \<open>Rlp\<close>: the transaction and its codec over the item codecs of \<^verbatim>\<open>alloy-rlp\<close>, whose contract
    is the locale \<open>rlp_canonical_item\<close> (round trip, exact length, canonicity); the transaction
    codec itself satisfies the weaker \<open>rlp_item\<close>.
  \<^item> \<open>Signing\<close>: \<^verbatim>\<open>transaction/signing.rs\<close>.  \<open>Api\<close>: \<^verbatim>\<open>api.rs\<close> and \<^verbatim>\<open>wasm.rs\<close>.
  \<^item> \<open>Typed_Schemes\<close>: the trait \<^verbatim>\<open>TypedScheme\<close> and the locale \<open>typed_front\<close>, which extends
    \<open>scheme_contract\<close> by how the typed operations and the object-safe ones fit together, with the
    three backends as instances.  \<open>Std_Impls\<close>: \<^verbatim>\<open>Debug\<close>, \<^verbatim>\<open>TryFrom\<close>, \<^verbatim>\<open>Clone\<close>, and what zeroizing
    and dropping leave of a key.  \<open>Key_Equality\<close>: \<^verbatim>\<open>==\<close>, \<^verbatim>\<open>equal\<close> and \<^verbatim>\<open>clone\<close> of the six key
    types, as instances of the locale \<open>key_type\<close>, which gives what \<^verbatim>\<open>impl Eq\<close> asserts
    (\<open>rust_eq\<close>), and of \<open>faithful_key\<close> where the bytes determine the key.  \<open>Hex_Text\<close>: what the
    \<^verbatim>\<open>hex\<close> crate documents.
  \<^item> \<open>Sessions\<close>: runs of the library as a step relation (\<open>lib_step\<close>: owners make keys and sign,
    nodes receive whatever arrives) with a log, the ideal log (\<open>ideal_step\<close>), the invariant of the
    reachable states, and the simulation up to a forgery that the crates accept (\<open>broken\<close>).
  \<^item> \<open>Fuzz\<close>, \<open>Demo\<close>, \<open>Self_Tests\<close>, \<open>Attacks\<close>, \<open>Adversarial\<close>, \<open>Benchmarks\<close>, and the unit tests in \<open>Unit_Tests\<close>,
    \<open>MlDsa_Tests\<close>, \<open>P521_Tests\<close>, \<open>Ed448_Tests\<close>: the programs around the library.  A test or a
    fuzz target is the function from its input to \<open>Ok ()\<close> or the panic of the assertion that
    fails; a \<^verbatim>\<open>main\<close> is the function from the draws of randomness to what it prints.  The lemmas
    of these theories say for which crates a program ends as it should, or to which event of the
    crates its failure comes down.
  \<^item> \<open>Reference\<close>: small computable crates for which all laws are proved, so that no law is
    contradictory and each property has an instance.  The item codecs among them are not a toy:
    \<open>Rlp_Std\<close> has the RLP of Ethereum, and its laws are proved there.
  \<^item> \<open>Tx_Props\<close>, \<open>Wallet_Props\<close>, \<open>Backend_Props\<close>: the properties of the components;
    \<open>Flow_Props\<close>: those of several components together; \<open>System_Props\<close>: those of runs, of the
    typed front and of the standard traits; \<open>Program_Props\<close> and \<open>Test_Props\<close>: those of the programs
    and the tests around the library.

  \<^bold>\<open>How the code is modelled.\<close>  Integers have their width (\<open>64 word\<close> for \<^verbatim>\<open>u64\<close>,
  \<open>256 word\<close> for \<^verbatim>\<open>U256\<close>), so \<^verbatim>\<open>chain_id * 2 + 35\<close> is computed as it is in the code and
  that it does not wrap is a lemma.  Every \<^verbatim>\<open>assert!\<close>, \<^verbatim>\<open>expect\<close>, slice,
  \<^verbatim>\<open>split_at\<close>, \<^verbatim>\<open>copy_from_slice\<close> and \<^verbatim>\<open>Address::from_slice\<close> that could panic is an explicit
  branch, also where a check in front of it keeps it from being taken; an address is derived from a
  digest of 32 bytes, and that this cannot panic is a lemma (\<open>derive_address_returns\<close>), behind
  which the model uses the value.  Functions with a \<^verbatim>\<open>&mut\<close>
  argument return the new value.  Randomness is an argument: the state of the nonce generator of
  ECDSA, the bytes the system generator returned.  An error text is a list of fragments: the
  literals of the source, numbers, and the text of an external error as an opaque fragment.
  Functions of crates that are not part of the repository are fields of records (\<open>hashes\<close>,
  \<open>ml_dsa\<close>, \<open>p521\<close>, \<open>ed448_rust\<close>, \<open>goldilocks\<close>, \<open>bip39\<close>, \<open>bip32\<close>, \<open>rlp_crate\<close>,
  \<open>tx_json\<close>) and their documented behaviour is a predicate \<open>..._laws\<close>.  The laws of
  \<^verbatim>\<open>ed448-goldilocks\<close> say that its scalars are the integers modulo the order and that its
  points form a group in which double, add, negate and scalar multiplication are what their
  names say; the laws of \<^verbatim>\<open>ed448-rust\<close> say that it signs and verifies by RFC 8032 with keys
  that are not of small order.  A nonce whose point is of small order, which the verifier of the
  repository rejects, has negligible probability and is excluded by these laws.

  \<^bold>\<open>Bounds.\<close>  All loops of the source are bounded: the comparison runs over the 56 indices, the
  P-521 derivation over the 256 counters, the others over the elements of a list; they are
  structural recursion and need no fuel.  Lengths are natural numbers; the laws of the RLP
  items hold for payloads below \<open>2 ^ 63\<close> bytes, more than any buffer of the program can have.

  \<^bold>\<open>What is shown.\<close> Transactions (C1 to C12): what was signed is recovered,
  also over the wire; exactly which transactions are accepted; runs keep to the ideal log, and
  what a forgery would take; honest signatures are accepted in every state; the accepted bytes are
  unique; the hash covers every unsigned field; nothing received causes a panic; the codec is a
  canonical round trip. C8 and C9 say what the composite scheme does not bind: its ML-DSA-87 part
  signs the bare hash, so it moves from a message to a transaction and to another composite key.
  Wallets (C13 to C21): byte form and invariant of composite keys, keys that were deserialised
  without the parser, what keys print and leave behind, what a seed determines, the path parser,
  mnemonics, when a wallet comes into being. Backends (C22 to C29): the Ed448 verifier decides RFC
  8032 and its signatures are not malleable, P-521 signatures are low-S, the loops compute what
  they are meant to, verification through the trait is total, the typed front agrees with the
  object-safe one, and the two equalities of keys mean what they say. C30 collects the sizes of
  all values. Programs and tests (C31 to C40): the low-level demo is the composite scheme with
  another binding hash, so its signature is not the library's; which fuzz oracles hold and which
  does not; which attacks fail for every law-abiding crate and to what the others come down; what
  the self-tests report; which property-based tests pass, and what the known-answer tests say of
  the crates. The theories contain further theorems of the same kind that are not numbered, among
  them that the unit tests of the library's promises pass and that a run of the benchmarks ends,
  however often the harness repeats a routine.

  \<^bold>\<open>What is not modelled.\<close>  The derived serde forms (a JSON printer and parser are a parameter),
  memory that is scrubbed after use except where a value replaces the key, constant-time
  execution, the position of the input buffer after a decoding error, the alternate form of
  \<^verbatim>\<open>Debug\<close>, the texts that the programs print around their values, the generation and shrinking of
  \<^verbatim>\<open>proptest\<close> and \<^verbatim>\<open>arbitrary\<close>, and the times that the benchmarks measure.
\<close>

end
